(* ===== verification/Prelude.thy ===== *)
theory Prelude
  imports Main "HOL-Library.AList"
begin

text \<open>
  Shared vocabulary of the development: the type of effectful calls, the
  collections of simplification rules that the components fill in, and generic
  facts about lists and association lists.

  An effectful Go call is a function from the world \<open>'w\<close> (clock, random source,
  database, request context: whatever the call can observe or change) to a result
  and the next world. A Go method that returns \<open>(T, error)\<close> returns \<open>error + T\<close>,
  with \<open>Inl\<close> for a non-nil error.
\<close>

type_synonym ('w, 'e, 'a) effect = "'w \<Rightarrow> ('e + 'a) \<times> 'w"

text \<open>Points in time and durations are nanoseconds, as in Go's time package.\<close>

type_synonym time = int
type_synonym duration = int

abbreviation Second :: duration where "Second \<equiv> 1000000000"
abbreviation Minute :: duration where "Minute \<equiv> 60 * Second"
abbreviation Hour :: duration where "Hour \<equiv> 60 * Minute"

text \<open>A Go map that is only read, written and counted: an association list with distinct keys.\<close>

type_synonym ('k, 'v) gomap = "('k \<times> 'v) list"

abbreviation gomap_get :: "('k, 'v) gomap \<Rightarrow> 'k \<Rightarrow> 'v option" where
  "gomap_get m k \<equiv> map_of m k"

abbreviation gomap_set :: "('k, 'v) gomap \<Rightarrow> 'k \<Rightarrow> 'v \<Rightarrow> ('k, 'v) gomap" where
  "gomap_set m k v \<equiv> AList.update k v m"

named_theorems frame \<open>what an operation leaves unchanged\<close>
named_theorems codec \<open>encode and decode round trips\<close>

subsection \<open>Results of effects\<close>

lemma sum_not_Inl: "(\<forall>e. x \<noteq> Inl e) \<longleftrightarrow> (\<exists>a. x = Inr a)"
  by (cases x) auto

lemma sum_not_Inr: "(\<forall>a. x \<noteq> Inr a) \<longleftrightarrow> (\<exists>e. x = Inl e)"
  by (cases x) auto

subsection \<open>Lists of rows\<close>

lemma filter_none_iff: "filter P xs = [] \<longleftrightarrow> (\<forall>x \<in> set xs. \<not> P x)"
  by (induction xs) auto

lemma filter_cong_set: "(\<And>x. x \<in> set xs \<Longrightarrow> P x = Q x) \<Longrightarrow> filter P xs = filter Q xs"
  by (rule filter_cong) simp_all

text \<open>At most one row has a given key when the keys are distinct.\<close>

lemma distinct_map_eq:
  "distinct (map f xs) \<Longrightarrow> x \<in> set xs \<Longrightarrow> y \<in> set xs \<Longrightarrow> f x = f y \<Longrightarrow> x = y"
  by (simp add: distinct_map inj_on_def)

lemma distinct_map_filter': "distinct (map f xs) \<Longrightarrow> distinct (map f (filter P xs))"
  by (rule distinct_map_filter)

lemma filter_key_single:
  assumes "distinct (map f xs)" and "x \<in> set xs"
  shows "filter (\<lambda>y. f y = f x) xs = [x]"
  using assms
proof (induction xs)
  case Nil
  then show ?case by simp
next
  case (Cons a xs)
  show ?case
  proof (cases "a = x")
    case True
    with Cons.prems have "\<forall>y \<in> set xs. f y \<noteq> f x"
      by (auto simp: image_iff)
    with True show ?thesis by (simp add: filter_none_iff)
  next
    case False
    with Cons have "f a \<noteq> f x" by (auto simp: image_iff)
    with False Cons show ?thesis by auto
  qed
qed

lemma length_filter_split: "length (filter P xs) + length (filter (\<lambda>x. \<not> P x) xs) = length xs"
  by (induction xs) auto

subsection \<open>Windows of a list\<close>

definition window :: "nat \<Rightarrow> nat \<Rightarrow> 'a list \<Rightarrow> 'a list" where
  "window off lim xs = take lim (drop off xs)"

lemma window_length: "length (window off lim xs) = min lim (length xs - off)"
  by (simp add: window_def)

lemma set_window_subset: "set (window off lim xs) \<subseteq> set xs"
  by (auto simp: window_def dest: in_set_takeD in_set_dropD)

text \<open>The windows of size \<open>l\<close> at offsets \<open>0, l, 2l, \<dots>\<close> partition the list.\<close>

lemma concat_windows_take: "concat (map (\<lambda>i. window (i * l) l xs) [0..<n]) = take (n * l) xs"
proof (induction n)
  case 0
  then show ?case by simp
next
  case (Suc n)
  have "take (n * l) xs @ take l (drop (n * l) xs) = take (n * l + l) xs"
    by (simp add: take_add)
  with Suc show ?case by (simp add: window_def add.commute)
qed

lemma concat_windows_all: "length xs \<le> n * l \<Longrightarrow> concat (map (\<lambda>i. window (i * l) l xs) [0..<n]) = xs"
  by (simp add: concat_windows_take)

end
