(* ===== verification/Apperr.thy ===== *)
theory Apperr
  imports Go_Std
begin

text \<open>
  Package \<open>internal/apperr\<close>: the application error type, its sentinels and the
  mapping from an error chain to what a client sees. The Go type \<open>error\<close> is the
  datatype \<open>go_error\<close>, with one constructor per dynamic type that reaches this
  package: \<open>*apperr.Error\<close>, the wrapper \<open>fmt.Errorf("...: %w", err)\<close>, plain
  errors, \<open>validator.ValidationErrors\<close> (with the text it renders to) and \<open>*http.MaxBytesError\<close>.

  Pointer identity is only ever tested against package-level variables
  (the sentinels of this package, \<open>gorm.ErrRecordNotFound\<close>,
  \<open>context.Canceled\<close>, \<dots>). Such a variable carries its name; an error that is
  allocated while serving a request carries \<open>None\<close> and is identical to no sentinel.
\<close>

subsection \<open>The error type\<close>

type_synonym Code = string

definition CodeInvalidInput :: Code where "CodeInvalidInput = ''INVALID_INPUT''"
definition CodeUnauthorized :: Code where "CodeUnauthorized = ''UNAUTHORIZED''"
definition CodeForbidden :: Code where "CodeForbidden = ''FORBIDDEN''"
definition CodeNotFound :: Code where "CodeNotFound = ''NOT_FOUND''"
definition CodeConflict :: Code where "CodeConflict = ''CONFLICT''"
definition CodeTooManyRequests :: Code where "CodeTooManyRequests = ''TOO_MANY_REQUESTS''"
definition CodeTimeout :: Code where "CodeTimeout = ''TIMEOUT''"
definition CodeUnavailable :: Code where "CodeUnavailable = ''UNAVAILABLE''"
definition CodeInternal :: Code where "CodeInternal = ''INTERNAL''"

lemmas code_defs = CodeInvalidInput_def CodeUnauthorized_def CodeForbidden_def CodeNotFound_def
  CodeConflict_def CodeTooManyRequests_def CodeTimeout_def CodeUnavailable_def CodeInternal_def

text \<open>One entry of \<open>validator.ValidationErrors\<close>: \<open>Field()\<close>, \<open>Tag()\<close>, \<open>Param()\<close> and
  whether \<open>Kind()\<close> is \<open>reflect.String\<close>.\<close>

record FieldError =
  fe_Field :: string
  fe_Tag :: string
  fe_Param :: string
  fe_IsString :: bool

datatype go_error =
    AppError (err_var: "string option") (err_Code: Code) (err_Message: string)
      (err_Fields: "(string, string) gomap") (err_cause: "go_error option") (err_base: "string option")
  | Errorf string go_error
  | ErrorString "string option" string
  | ValidationErrors "FieldError list" string
  | MaxBytesError int

text \<open>Package-level errors of \<open>context\<close>, \<open>gorm\<close> and \<open>net/http\<close>.\<close>

definition DeadlineExceeded :: go_error where
  "DeadlineExceeded = ErrorString (Some ''context.DeadlineExceeded'') ''context deadline exceeded''"
definition Canceled :: go_error where
  "Canceled = ErrorString (Some ''context.Canceled'') ''context canceled''"
definition ErrRecordNotFound :: go_error where
  "ErrRecordNotFound = ErrorString (Some ''gorm.ErrRecordNotFound'') ''record not found''"
definition ErrDuplicatedKey :: go_error where
  "ErrDuplicatedKey = ErrorString (Some ''gorm.ErrDuplicatedKey'') ''duplicated key not allowed''"
definition ErrNoCookie :: go_error where
  "ErrNoCookie = ErrorString (Some ''http.ErrNoCookie'') ''http: named cookie not present''"

lemmas std_error_defs = DeadlineExceeded_def Canceled_def ErrRecordNotFound_def ErrDuplicatedKey_def
  ErrNoCookie_def

definition errors_New :: "string \<Rightarrow> go_error" where
  "errors_New msg = ErrorString None msg"

text \<open>\<open>New\<close> for a package-level variable (its name given) and for an ad-hoc error.\<close>

definition New_var :: "string \<Rightarrow> Code \<Rightarrow> string \<Rightarrow> go_error" where
  "New_var v code message = AppError (Some v) code message [] None None"

definition New :: "Code \<Rightarrow> string \<Rightarrow> go_error" where
  "New code message = AppError None code message [] None None"

definition Wrap :: "Code \<Rightarrow> string \<Rightarrow> go_error \<Rightarrow> go_error" where
  "Wrap code message cause = AppError None code message [] (Some cause) None"

text \<open>\<open>clone\<close>: a fresh copy whose base is the receiver, or the receiver's own base.\<close>

fun clone :: "go_error \<Rightarrow> go_error" where
  "clone (AppError v code message flds cause base) =
     AppError None code message flds cause (case base of None \<Rightarrow> v | Some b \<Rightarrow> Some b)"
| "clone e = e"

fun set_cause :: "go_error \<Rightarrow> go_error \<Rightarrow> go_error" where
  "set_cause (AppError v code message flds _ base) c = AppError v code message flds (Some c) base"
| "set_cause e c = e"

fun set_fields :: "go_error \<Rightarrow> (string, string) gomap \<Rightarrow> go_error" where
  "set_fields (AppError v code message _ cause base) fs = AppError v code message fs cause base"
| "set_fields e fs = e"

fun set_message :: "go_error \<Rightarrow> string \<Rightarrow> go_error" where
  "set_message (AppError v code _ flds cause base) m = AppError v code m flds cause base"
| "set_message e m = e"

definition WithCause :: "go_error \<Rightarrow> go_error \<Rightarrow> go_error" where
  "WithCause e cause = set_cause (clone e) cause"

definition WithFields :: "go_error \<Rightarrow> (string, string) gomap \<Rightarrow> go_error" where
  "WithFields e flds = set_fields (clone e) flds"

definition WithMessage :: "go_error \<Rightarrow> string \<Rightarrow> go_error" where
  "WithMessage e message = set_message (clone e) message"

subsection \<open>Sentinels\<close>

definition ErrInternal :: go_error where
  "ErrInternal = New_var ''ErrInternal'' CodeInternal ''Internal server error''"
definition ErrTimeout :: go_error where
  "ErrTimeout = New_var ''ErrTimeout'' CodeTimeout ''Request timed out''"
definition ErrCanceled :: go_error where
  "ErrCanceled = New_var ''ErrCanceled'' CodeTimeout ''Request was canceled''"
definition ErrValidation :: go_error where
  "ErrValidation = New_var ''ErrValidation'' CodeInvalidInput ''Validation failed''"
definition ErrBadRequest :: go_error where
  "ErrBadRequest = New_var ''ErrBadRequest'' CodeInvalidInput ''Invalid request body''"
definition ErrRateLimit :: go_error where
  "ErrRateLimit = New_var ''ErrRateLimit'' CodeTooManyRequests ''Too many requests''"
definition ErrInvalidCredentials :: go_error where
  "ErrInvalidCredentials = New_var ''ErrInvalidCredentials'' CodeUnauthorized ''Invalid email or password''"
definition ErrUserAlreadyExists :: go_error where
  "ErrUserAlreadyExists = New_var ''ErrUserAlreadyExists'' CodeConflict ''Email is already registered''"
definition ErrUserNotFound :: go_error where
  "ErrUserNotFound = New_var ''ErrUserNotFound'' CodeNotFound ''User not found''"
definition ErrInvalidUserID :: go_error where
  "ErrInvalidUserID = New_var ''ErrInvalidUserID'' CodeInvalidInput ''Invalid user id''"
definition ErrUnauthorized :: go_error where
  "ErrUnauthorized = New_var ''ErrUnauthorized'' CodeUnauthorized ''Unauthorized''"
definition ErrMissingAccessToken :: go_error where
  "ErrMissingAccessToken = New_var ''ErrMissingAccessToken'' CodeUnauthorized ''Missing authentication token''"
definition ErrInvalidAccessToken :: go_error where
  "ErrInvalidAccessToken = New_var ''ErrInvalidAccessToken'' CodeUnauthorized ''Invalid or expired token''"
definition ErrMissingRefreshToken :: go_error where
  "ErrMissingRefreshToken = New_var ''ErrMissingRefreshToken'' CodeUnauthorized ''Missing refresh token''"
definition ErrInvalidRefreshToken :: go_error where
  "ErrInvalidRefreshToken = New_var ''ErrInvalidRefreshToken'' CodeUnauthorized ''Invalid refresh token''"
definition ErrRefreshTokenRevoked :: go_error where
  "ErrRefreshTokenRevoked = New_var ''ErrRefreshTokenRevoked'' CodeUnauthorized ''Refresh token has been revoked''"
definition ErrRefreshTokenExpired :: go_error where
  "ErrRefreshTokenExpired = New_var ''ErrRefreshTokenExpired'' CodeUnauthorized ''Refresh token has expired''"
definition ErrMissingCSRFToken :: go_error where
  "ErrMissingCSRFToken = New_var ''ErrMissingCSRFToken'' CodeForbidden ''Missing CSRF token''"
definition ErrInvalidCSRFToken :: go_error where
  "ErrInvalidCSRFToken = New_var ''ErrInvalidCSRFToken'' CodeForbidden ''Invalid CSRF token''"
definition ErrUnhealthy :: go_error where
  "ErrUnhealthy = New_var ''ErrUnhealthy'' CodeUnavailable ''Service is not ready''"

definition sentinels :: "go_error list" where
  "sentinels = [ErrInternal, ErrTimeout, ErrCanceled, ErrValidation, ErrBadRequest, ErrRateLimit,
     ErrInvalidCredentials, ErrUserAlreadyExists, ErrUserNotFound, ErrInvalidUserID, ErrUnauthorized,
     ErrMissingAccessToken, ErrInvalidAccessToken, ErrMissingRefreshToken, ErrInvalidRefreshToken,
     ErrRefreshTokenRevoked, ErrRefreshTokenExpired, ErrMissingCSRFToken, ErrInvalidCSRFToken,
     ErrUnhealthy]"

lemmas sentinel_defs = ErrInternal_def ErrTimeout_def ErrCanceled_def ErrValidation_def ErrBadRequest_def
  ErrRateLimit_def ErrInvalidCredentials_def ErrUserAlreadyExists_def ErrUserNotFound_def
  ErrInvalidUserID_def ErrUnauthorized_def ErrMissingAccessToken_def ErrInvalidAccessToken_def
  ErrMissingRefreshToken_def ErrInvalidRefreshToken_def ErrRefreshTokenRevoked_def
  ErrRefreshTokenExpired_def ErrMissingCSRFToken_def ErrInvalidCSRFToken_def ErrUnhealthy_def

definition Internal :: "go_error \<Rightarrow> go_error" where
  "Internal cause = WithCause ErrInternal cause"

subsection \<open>Error chains\<close>

fun Error :: "go_error \<Rightarrow> string" where
  "Error (AppError v code message flds None base) = message"
| "Error (AppError v code message flds (Some c) base) = message @ '': '' @ Error c"
| "Error (Errorf prefix e) = prefix @ '': '' @ Error e"
| "Error (ErrorString v s) = s"
| "Error (ValidationErrors fes text) = text"
| "Error (MaxBytesError n) = ''http: request body too large''"

fun Unwrap :: "go_error \<Rightarrow> go_error option" where
  "Unwrap (AppError v code message flds cause base) = cause"
| "Unwrap (Errorf prefix e) = Some e"
| "Unwrap e = None"

text \<open>Pointer equality with a package-level variable, and the \<open>Is\<close> method of \<open>*Error\<close>.\<close>

fun same_var :: "go_error \<Rightarrow> go_error \<Rightarrow> bool" where
  "same_var (AppError (Some v) _ _ _ _ _) (AppError (Some v') _ _ _ _ _) = (v = v')"
| "same_var (ErrorString (Some v) _) (ErrorString (Some v') _) = (v = v')"
| "same_var e t = False"

fun Is :: "go_error \<Rightarrow> go_error \<Rightarrow> bool" where
  "Is (AppError v c m f cs base) (AppError v' c' m' f' cs' base') =
     (same_var (AppError v c m f cs base) (AppError v' c' m' f' cs' base')
      \<or> (base \<noteq> None \<and> base = v'))"
| "Is e t = False"

text \<open>\<open>errors.Is\<close> and \<open>errors.As\<close> of the standard library, along \<open>Unwrap\<close>.\<close>

fun errors_Is :: "go_error \<Rightarrow> go_error \<Rightarrow> bool" where
  "errors_Is (AppError v c m f cs base) t =
     (same_var (AppError v c m f cs base) t \<or> Is (AppError v c m f cs base) t
      \<or> (case cs of None \<Rightarrow> False | Some e \<Rightarrow> errors_Is e t))"
| "errors_Is (Errorf prefix e) t = errors_Is e t"
| "errors_Is e t = same_var e t"

fun From :: "go_error \<Rightarrow> go_error option" where
  "From (AppError v c m f cs base) = Some (AppError v c m f cs base)"
| "From (Errorf prefix e) = From e"
| "From e = None"

fun As_ValidationErrors :: "go_error \<Rightarrow> FieldError list option" where
  "As_ValidationErrors (ValidationErrors fes text) = Some fes"
| "As_ValidationErrors (AppError v c m f (Some e) base) = As_ValidationErrors e"
| "As_ValidationErrors (Errorf prefix e) = As_ValidationErrors e"
| "As_ValidationErrors e = None"

fun As_MaxBytesError :: "go_error \<Rightarrow> int option" where
  "As_MaxBytesError (MaxBytesError n) = Some n"
| "As_MaxBytesError (AppError v c m f (Some e) base) = As_MaxBytesError e"
| "As_MaxBytesError (Errorf prefix e) = As_MaxBytesError e"
| "As_MaxBytesError e = None"

subsection \<open>What the client sees\<close>

abbreviation StatusOK :: nat where "StatusOK \<equiv> 200"
abbreviation StatusCreated :: nat where "StatusCreated \<equiv> 201"
abbreviation StatusBadRequest :: nat where "StatusBadRequest \<equiv> 400"
abbreviation StatusUnauthorized :: nat where "StatusUnauthorized \<equiv> 401"
abbreviation StatusForbidden :: nat where "StatusForbidden \<equiv> 403"
abbreviation StatusNotFound :: nat where "StatusNotFound \<equiv> 404"
abbreviation StatusMethodNotAllowed :: nat where "StatusMethodNotAllowed \<equiv> 405"
abbreviation StatusRequestTimeout :: nat where "StatusRequestTimeout \<equiv> 408"
abbreviation StatusConflict :: nat where "StatusConflict \<equiv> 409"
abbreviation StatusTooManyRequests :: nat where "StatusTooManyRequests \<equiv> 429"
abbreviation StatusInternalServerError :: nat where "StatusInternalServerError \<equiv> 500"
abbreviation StatusServiceUnavailable :: nat where "StatusServiceUnavailable \<equiv> 503"
abbreviation StatusGatewayTimeout :: nat where "StatusGatewayTimeout \<equiv> 504"

definition statusForCode :: "Code \<Rightarrow> nat" where
  "statusForCode c =
     (if c = CodeInvalidInput then StatusBadRequest
      else if c = CodeUnauthorized then StatusUnauthorized
      else if c = CodeForbidden then StatusForbidden
      else if c = CodeNotFound then StatusNotFound
      else if c = CodeConflict then StatusConflict
      else if c = CodeTooManyRequests then StatusTooManyRequests
      else if c = CodeTimeout then StatusGatewayTimeout
      else if c = CodeUnavailable then StatusServiceUnavailable
      else StatusInternalServerError)"

definition HTTPStatus :: "go_error \<Rightarrow> nat" where
  "HTTPStatus err =
     (case From err of
        Some e \<Rightarrow> statusForCode (err_Code e)
      | None \<Rightarrow>
          if errors_Is err DeadlineExceeded then StatusGatewayTimeout
          else if errors_Is err Canceled then StatusRequestTimeout
          else StatusInternalServerError)"

definition ClientMessage :: "go_error \<Rightarrow> string" where
  "ClientMessage err =
     (case From err of
        Some e \<Rightarrow> err_Message e
      | None \<Rightarrow>
          if errors_Is err DeadlineExceeded then err_Message ErrTimeout
          else if errors_Is err Canceled then err_Message ErrCanceled
          else err_Message ErrInternal)"

definition Fields :: "go_error \<Rightarrow> (string, string) gomap" where
  "Fields err = (case From err of Some e \<Rightarrow> err_Fields e | None \<Rightarrow> [])"

subsection \<open>Properties\<close>

text \<open>What an application error shows of itself: the part a client may see.\<close>

definition client_view :: "go_error \<Rightarrow> nat \<times> string \<times> (string, string) gomap" where
  "client_view err = (HTTPStatus err, ClientMessage err, Fields err)"

fun is_app_error :: "go_error \<Rightarrow> bool" where
  "is_app_error (AppError v c m f cs base) = True"
| "is_app_error e = False"

lemma sentinel_names:
  "list_all (\<lambda>s. err_var s \<noteq> None \<and> is_app_error s \<and> err_base s = None \<and> err_cause s = None \<and> err_Fields s = []) sentinels"
  by (simp add: sentinels_def sentinel_defs New_var_def)

lemma sentinels_distinct: "distinct (map err_var sentinels)"
  by (simp add: sentinels_def sentinel_defs New_var_def)

lemma sentinel_var_inj: "s \<in> set sentinels \<Longrightarrow> s' \<in> set sentinels \<Longrightarrow> err_var s = err_var s' \<Longrightarrow> s = s'"
  by (rule distinct_map_eq [OF sentinels_distinct])

lemma sentinel_shape:
  assumes "s \<in> set sentinels"
  obtains v c m where "s = AppError (Some v) c m [] None None"
proof -
  have "err_var s \<noteq> None \<and> is_app_error s \<and> err_base s = None \<and> err_cause s = None \<and> err_Fields s = []"
    using assms sentinel_names unfolding list_all_iff by blast
  then show ?thesis using that by (cases s) auto
qed

text \<open>Deriving an error from a sentinel keeps its identity: with another message or with fields it still
  matches that sentinel, no other one, and wrapping it changes neither.\<close>

theorem derived_matches_its_sentinel:
  assumes "s \<in> set sentinels" and "s' \<in> set sentinels"
  shows "errors_Is (Errorf p (WithFields (WithMessage s m) flds)) s' \<longleftrightarrow> s' = s"
proof -
  obtain v c msg v' c' msg' where "s = AppError (Some v) c msg [] None None" "s' = AppError (Some v') c' msg' [] None None"
    using assms sentinel_shape by metis
  with sentinel_var_inj [OF assms] show ?thesis by (auto simp: WithFields_def WithMessage_def)
qed

theorem derived_matches_its_sentinel_witness:
  "errors_Is (Errorf ''binding'' (WithFields (WithMessage ErrValidation ''bad'') [(''email'', ''required'')])) ErrValidation
   \<and> \<not> errors_Is (Errorf ''binding'' (WithFields (WithMessage ErrValidation ''bad'') [(''email'', ''required'')])) ErrBadRequest"
proof -
  have m: "ErrValidation \<in> set sentinels" "ErrBadRequest \<in> set sentinels" and "ErrBadRequest \<noteq> ErrValidation"
    by (simp_all add: sentinels_def ErrBadRequest_def ErrValidation_def New_var_def)
  then show ?thesis
    using derived_matches_its_sentinel [OF m(1) m(1), of "''binding''" "''bad''" "[(''email'', ''required'')]"]
      derived_matches_its_sentinel [OF m(1) m(2), of "''binding''" "''bad''" "[(''email'', ''required'')]"] by simp
qed

text \<open>Attaching a cause is invisible to the client and visible to \<open>errors.Is\<close>: status, message and
  fields stay, and the derived error matches its sentinel and whatever the cause matches.\<close>

theorem with_cause_opaque_but_matchable:
  assumes "s \<in> set sentinels" and "s' \<in> set sentinels"
  shows "client_view (WithCause s c) = client_view s
    \<and> (errors_Is (WithCause s c) s' \<longleftrightarrow> s' = s \<or> errors_Is c s')"
proof -
  obtain v cd msg v' cd' msg' where "s = AppError (Some v) cd msg [] None None" "s' = AppError (Some v') cd' msg' [] None None"
    using assms sentinel_shape by metis
  with sentinel_var_inj [OF assms] show ?thesis
    by (auto simp: WithCause_def client_view_def HTTPStatus_def ClientMessage_def Fields_def)
qed

theorem with_cause_opaque_but_matchable_witness:
  "client_view (WithCause ErrInvalidRefreshToken (errors_New ''token is expired'')) = (401, ''Invalid refresh token'', [])
   \<and> errors_Is (WithCause ErrInvalidRefreshToken (errors_New ''token is expired'')) ErrInvalidRefreshToken"
proof -
  have m: "ErrInvalidRefreshToken \<in> set sentinels" by (simp add: sentinels_def)
  show ?thesis
    using with_cause_opaque_but_matchable [OF m m, of "errors_New ''token is expired''"]
    by (simp add: client_view_def HTTPStatus_def ClientMessage_def Fields_def statusForCode_def ErrInvalidRefreshToken_def
        New_var_def code_defs)
qed

lemma client_view_Internal: "client_view (Internal cause) = (500, ''Internal server error'', [])"
  by (simp add: client_view_def HTTPStatus_def ClientMessage_def Fields_def statusForCode_def Internal_def
      WithCause_def ErrInternal_def New_var_def code_defs)



end
