(* ===== verification/Models.thy ===== *)
theory Models
  imports Apperr
begin

text \<open>
  Package \<open>internal/model\<close>: the entities stored by the repositories, the request
  payloads and the response payloads with their JSON rendering. A UUID is its 16
  bytes read as a 128-bit number. Go's \<open>int\<close> and \<open>int64\<close> are integers whose
  arithmetic is wrapped where the code computes with them.
\<close>

type_synonym uuid = "128 word"

subsection \<open>Entities\<close>

record UserEntity =
  User_ID :: uuid
  User_Email :: string
  User_Password :: "byte list"
  User_Name :: string
  User_CreatedAt :: time
  User_UpdatedAt :: time
  User_DeletedAt :: "time option"

record RefreshTokenEntity =
  RT_ID :: uuid
  RT_UserID :: uuid
  RT_TokenHash :: string
  RT_ExpiresAt :: time
  RT_CreatedAt :: time
  RT_UpdatedAt :: time

record CounterEntity =
  Counter_ID :: uuid
  Counter_Value :: int
  Counter_CreatedAt :: time
  Counter_UpdatedAt :: time

record MessageEntity =
  Message_ID :: uuid
  Message_Key :: string
  Message_Value :: string
  Message_CreatedAt :: time
  Message_UpdatedAt :: time

text \<open>The zero value of \<open>time.Time\<close> (midnight of 1 January of year 1) and of the entities.\<close>

definition zero_time :: time where
  "zero_time = - (unixToInternal * Second)"

definition zero_UserEntity :: UserEntity where
  "zero_UserEntity = \<lparr>User_ID = 0, User_Email = '''', User_Password = [], User_Name = '''',
     User_CreatedAt = zero_time, User_UpdatedAt = zero_time, User_DeletedAt = None\<rparr>"

subsection \<open>Requests\<close>

record RegisterUserRequest =
  Reg_Email :: string
  Reg_Password :: string
  Reg_Name :: string

record LoginRequest =
  Login_Email :: string
  Login_Password :: string

record ChangePasswordRequest =
  CurrentPassword :: string
  NewPassword :: string

record Pagination =
  Page :: int
  Limit :: int

definition DefaultPage :: int where "DefaultPage = 1"
definition DefaultLimit :: int where "DefaultLimit = 20"
definition MaxLimit :: int where "MaxLimit = 100"

lemmas pagination_consts = DefaultPage_def DefaultLimit_def MaxLimit_def

definition Normalized :: "Pagination \<Rightarrow> Pagination" where
  "Normalized p =
     (let p1 = (if Page p < DefaultPage then p\<lparr>Page := DefaultPage\<rparr> else p);
          p2 = (if Limit p1 < 1 then p1\<lparr>Limit := DefaultLimit\<rparr> else p1);
          p3 = (if Limit p2 > MaxLimit then p2\<lparr>Limit := MaxLimit\<rparr> else p2)
      in p3)"

definition Offset :: "Pagination \<Rightarrow> int" where
  "Offset p = (let n = Normalized p in wrap64 (wrap64 (Page n - 1) * Limit n))"

subsection \<open>Responses\<close>

record GetUser =
  GU_ID :: uuid
  GU_Email :: string
  GU_Name :: string

record LoginResponse =
  LR_User :: GetUser
  LR_AccessToken :: string
  LR_RefreshToken :: string

record RegisterResponse =
  RR_User :: GetUser
  RR_AccessToken :: string
  RR_RefreshToken :: string

record RefreshResponse =
  RF_AccessToken :: string
  RF_RefreshToken :: string

record ChangePasswordResponse =
  CP_AccessToken :: string
  CP_RefreshToken :: string

record Session =
  Session_ID :: uuid
  Session_Current :: bool
  Session_CreatedAt :: time
  Session_ExpiresAt :: time

record Meta =
  Meta_Page :: int
  Meta_Limit :: int
  Meta_Total :: int

definition NewMeta :: "int \<Rightarrow> int \<Rightarrow> int \<Rightarrow> Meta" where
  "NewMeta page limit tot = \<lparr>Meta_Page = page, Meta_Limit = limit, Meta_Total = tot\<rparr>"

record SessionList =
  SL_Sessions :: "Session list"
  SL_Meta :: Meta

record GetCounter =
  GC_Value :: int

record GetMessage =
  GM_Content :: string

datatype DependencyStatus = Healthy | Unhealthy string

datatype HealthDetail = Timestamp time | Dependency DependencyStatus

record HealthStatus =
  HS_Status :: string
  HS_Message :: string
  HS_Details :: "(string, HealthDetail) gomap"

subsection \<open>The response envelope\<close>

text \<open>The values the handlers put in the \<open>Data\<close> field of the envelope.\<close>

datatype payload =
    RegisterData RegisterResponse
  | LoginData LoginResponse
  | UserData GetUser
  | SessionsData "Session list"
  | CounterData GetCounter
  | MessageData "GetMessage option"
  | HealthData HealthStatus
  | CSRFData string

record APIResponse =
  Success :: bool
  Message :: string
  Data :: "payload option"
  MetaField :: "Meta option"
  Errors :: "(string, string) gomap"
  RequestID :: string
  TraceID :: string

definition response_OK :: "string \<Rightarrow> payload option \<Rightarrow> APIResponse" where
  "response_OK message data = \<lparr>Success = True, Message = message, Data = data, MetaField = None,
     Errors = [], RequestID = '''', TraceID = ''''\<rparr>"

definition response_OKWithMeta :: "string \<Rightarrow> payload option \<Rightarrow> Meta \<Rightarrow> APIResponse" where
  "response_OKWithMeta message data meta = \<lparr>Success = True, Message = message, Data = data,
     MetaField = Some meta, Errors = [], RequestID = '''', TraceID = ''''\<rparr>"

definition response_Err :: "string \<Rightarrow> APIResponse" where
  "response_Err message = \<lparr>Success = False, Message = message, Data = None, MetaField = None,
     Errors = [], RequestID = '''', TraceID = ''''\<rparr>"

definition response_ValidationErr :: "string \<Rightarrow> (string, string) gomap \<Rightarrow> APIResponse" where
  "response_ValidationErr message errs = \<lparr>Success = False, Message = message, Data = None,
     MetaField = None, Errors = errs, RequestID = '''', TraceID = ''''\<rparr>"

definition WithCorrelation :: "APIResponse \<Rightarrow> string \<Rightarrow> string \<Rightarrow> APIResponse" where
  "WithCorrelation r requestID traceID = r\<lparr>RequestID := requestID, TraceID := traceID\<rparr>"

lemmas envelope_defs = response_OK_def response_OKWithMeta_def response_Err_def
  response_ValidationErr_def WithCorrelation_def

subsection \<open>Pagination\<close>

lemma Normalized_bounds:
  "1 \<le> Page (Normalized p)" "1 \<le> Limit (Normalized p)" "Limit (Normalized p) \<le> 100"
  by (auto simp: Normalized_def Let_def pagination_consts)

lemma Normalized_id: "1 \<le> Page p \<Longrightarrow> 1 \<le> Limit p \<Longrightarrow> Limit p \<le> 100 \<Longrightarrow> Normalized p = p"
  by (simp add: Normalized_def Let_def pagination_consts)

lemma Normalized_idem: "Normalized (Normalized p) = Normalized p"
  by (rule Normalized_id) (simp_all add: Normalized_bounds)

lemma Page_Normalized: "Page (Normalized p) = max 1 (Page p)"
  by (simp add: Normalized_def Let_def pagination_consts)

text \<open>For pages below \<open>2^56\<close> the offset is computed without wrap-around.\<close>

lemma Offset_exact:
  assumes "Page (Normalized p) < 2 ^ 56"
  shows "Offset p = (Page (Normalized p) - 1) * Limit (Normalized p)"
proof -
  let ?n = "Normalized p"
  have n: "0 \<le> Page ?n - 1" "1 \<le> Limit ?n" "Limit ?n \<le> 100"
    using Normalized_bounds [of p] by simp_all
  have "(Page ?n - 1) * Limit ?n \<le> 2 ^ 56 * 100"
    using n assms by (intro mult_mono) auto
  moreover have "0 \<le> (Page ?n - 1) * Limit ?n" using n by simp
  ultimately have "is_int64 ((Page ?n - 1) * Limit ?n)"
    by (simp add: is_int64_def)
  moreover have "is_int64 (Page ?n - 1)" using n assms by (simp add: is_int64_def)
  ultimately show ?thesis by (simp add: Offset_def Let_def wrap64_id)
qed

end
