(* ===== verification/Gorm_Store.thy ===== *)
theory Gorm_Store
  imports Models "HOL-Library.Multiset"
begin

text \<open>
  The world outside the repository's own code: the Go runtime, the random sources and
  password hashing (\<open>golib\<close>), and the GORM handle (\<open>gorm\<close>). Both are parameters of
  the model: records of functions over an arbitrary world \<open>'w\<close>. What the code relies on
  is stated by the locales \<open>go_runtime\<close> and \<open>gorm_db\<close>, in terms of two observations of
  the world: \<open>view c w\<close>, the tables as seen through connection \<open>c\<close>, and \<open>up w\<close>, that no
  driver, network or cancellation failure is pending. Any call may fail in any world that
  is not \<open>up\<close>.

  This theory also holds package \<open>internal/repository/dbtx\<close>, which carries the
  ambient transaction in the request context.
\<close>

subsection \<open>Connections and the ambient transaction\<close>

text \<open>A \<open>*gorm.DB\<close> is the pooled handle or the handle of the open transaction.\<close>

datatype conn = Pool | Tx

text \<open>The one value the code stores in a \<open>context.Context\<close> that a repository reads back.\<close>

record Context =
  ctx_tx :: "conn option"

definition Background :: Context where
  "Background = \<lparr>ctx_tx = None\<rparr>"

definition dbtx_Into :: "Context \<Rightarrow> conn \<Rightarrow> Context" where
  "dbtx_Into ctx tx = ctx\<lparr>ctx_tx := Some tx\<rparr>"

definition dbtx_From :: "Context \<Rightarrow> conn option" where
  "dbtx_From ctx = ctx_tx ctx"

definition dbtx_Conn :: "Context \<Rightarrow> conn \<Rightarrow> conn" where
  "dbtx_Conn ctx fallback = (case dbtx_From ctx of Some tx \<Rightarrow> tx | None \<Rightarrow> fallback)"

lemma dbtx_Conn_Into [simp]: "dbtx_Conn (dbtx_Into ctx tx) fallback = tx"
  by (simp add: dbtx_Conn_def dbtx_From_def dbtx_Into_def)

lemma dbtx_From_Into [simp]: "dbtx_From (dbtx_Into ctx tx) = Some tx"
  by (simp add: dbtx_From_def dbtx_Into_def)

lemma dbtx_Conn_None [simp]: "dbtx_From ctx = None \<Longrightarrow> dbtx_Conn ctx fallback = fallback"
  by (simp add: dbtx_Conn_def)

lemma dbtx_From_Background [simp]: "dbtx_From Background = None"
  by (simp add: dbtx_From_def Background_def)

subsection \<open>Tables\<close>

record tables =
  users :: "UserEntity list"
  refresh_tokens :: "RefreshTokenEntity list"
  counters :: "CounterEntity list"
  messages :: "MessageEntity list"

abbreviation put_users :: "UserEntity list \<Rightarrow> tables \<Rightarrow> tables" where
  "put_users xs t \<equiv> t\<lparr>users := xs\<rparr>"
abbreviation put_refresh_tokens :: "RefreshTokenEntity list \<Rightarrow> tables \<Rightarrow> tables" where
  "put_refresh_tokens xs t \<equiv> t\<lparr>refresh_tokens := xs\<rparr>"
abbreviation put_counters :: "CounterEntity list \<Rightarrow> tables \<Rightarrow> tables" where
  "put_counters xs t \<equiv> t\<lparr>counters := xs\<rparr>"
abbreviation put_messages :: "MessageEntity list \<Rightarrow> tables \<Rightarrow> tables" where
  "put_messages xs t \<equiv> t\<lparr>messages := xs\<rparr>"

definition counter_clash :: "CounterEntity \<Rightarrow> CounterEntity \<Rightarrow> bool" where
  "counter_clash a b \<longleftrightarrow> Counter_ID a = Counter_ID b"

definition message_clash :: "MessageEntity \<Rightarrow> MessageEntity \<Rightarrow> bool" where
  "message_clash a b \<longleftrightarrow> Message_ID a = Message_ID b"

definition counter_inserted :: "CounterEntity \<Rightarrow> CounterEntity \<Rightarrow> bool" where
  "counter_inserted r r' \<longleftrightarrow> (\<exists>t1 t2. r' = r\<lparr>Counter_CreatedAt := t1, Counter_UpdatedAt := t2\<rparr>)"

definition message_inserted :: "MessageEntity \<Rightarrow> MessageEntity \<Rightarrow> bool" where
  "message_inserted r r' \<longleftrightarrow> (\<exists>t1 t2. r' = r\<lparr>Message_CreatedAt := t1, Message_UpdatedAt := t2\<rparr>)"

text \<open>A row with \<open>gorm.DeletedAt\<close> set is invisible to every query.\<close>

definition user_live :: "UserEntity \<Rightarrow> bool" where
  "user_live u \<longleftrightarrow> User_DeletedAt u = None"

text \<open>Primary keys and unique indexes of the entities' tags. They cover soft-deleted rows too.\<close>

definition user_clash :: "UserEntity \<Rightarrow> UserEntity \<Rightarrow> bool" where
  "user_clash a b \<longleftrightarrow> User_ID a = User_ID b \<or> User_Email a = User_Email b"

definition token_clash :: "RefreshTokenEntity \<Rightarrow> RefreshTokenEntity \<Rightarrow> bool" where
  "token_clash a b \<longleftrightarrow> RT_ID a = RT_ID b \<or> RT_TokenHash a = RT_TokenHash b"

text \<open>What GORM fills in: \<open>CreatedAt\<close> and \<open>UpdatedAt\<close> of an inserted row, \<open>UpdatedAt\<close> of an
  updated one, \<open>DeletedAt\<close> of a soft-deleted one. \<open>Updates\<close> with a struct writes its
  non-zero fields.\<close>

definition user_inserted :: "UserEntity \<Rightarrow> UserEntity \<Rightarrow> bool" where
  "user_inserted r r' \<longleftrightarrow> (\<exists>t1 t2. r' = r\<lparr>User_CreatedAt := t1, User_UpdatedAt := t2\<rparr>)"

lemma user_inserted_fields:
  "user_inserted r r' \<Longrightarrow> User_ID r' = User_ID r \<and> User_Email r' = User_Email r \<and> User_Password r' = User_Password r
     \<and> User_Name r' = User_Name r \<and> User_DeletedAt r' = User_DeletedAt r"
  by (auto simp: user_inserted_def)

definition token_inserted :: "RefreshTokenEntity \<Rightarrow> RefreshTokenEntity \<Rightarrow> bool" where
  "token_inserted r r' \<longleftrightarrow> (\<exists>t1 t2. r' = r\<lparr>RT_CreatedAt := t1, RT_UpdatedAt := t2\<rparr>)"

lemma token_inserted_fields:
  "token_inserted r r' \<Longrightarrow> RT_ID r' = RT_ID r \<and> RT_UserID r' = RT_UserID r \<and> RT_TokenHash r' = RT_TokenHash r
     \<and> RT_ExpiresAt r' = RT_ExpiresAt r"
  by (auto simp: token_inserted_def)

definition user_overlay :: "UserEntity \<Rightarrow> UserEntity \<Rightarrow> UserEntity" where
  "user_overlay p r = r\<lparr>
     User_Email := (if User_Email p = '''' then User_Email r else User_Email p),
     User_Password := (if User_Password p = [] then User_Password r else User_Password p),
     User_Name := (if User_Name p = '''' then User_Name r else User_Name p)\<rparr>"

definition user_updated :: "UserEntity \<Rightarrow> UserEntity \<Rightarrow> UserEntity \<Rightarrow> bool" where
  "user_updated p r r' \<longleftrightarrow> (\<exists>t. r' = (user_overlay p r)\<lparr>User_UpdatedAt := t\<rparr>)"

definition user_soft_deleted :: "UserEntity \<Rightarrow> UserEntity \<Rightarrow> bool" where
  "user_soft_deleted r r' \<longleftrightarrow> (\<exists>t. r' = r\<lparr>User_DeletedAt := Some t\<rparr>)"

subsection \<open>The GORM handle\<close>

text \<open>
  The statements the repositories issue. A \<open>Where\<close> clause is the predicate its SQL text
  denotes, an \<open>Order\<close> clause the relation of its columns. \<open>g_First\<close> reports a missing row as
  \<open>gorm.ErrRecordNotFound\<close>.
\<close>

record ('w, 'r) gorm_table =
  g_Create :: "conn \<Rightarrow> 'r \<Rightarrow> ('w, go_error, 'r) effect"
  g_First :: "conn \<Rightarrow> ('r \<Rightarrow> bool) \<Rightarrow> ('w, go_error, 'r) effect"
  g_Find :: "conn \<Rightarrow> ('r \<Rightarrow> bool) \<Rightarrow> ('r \<Rightarrow> 'r \<Rightarrow> bool) \<Rightarrow> int \<Rightarrow> int \<Rightarrow> ('w, go_error, 'r list) effect"
  g_Count :: "conn \<Rightarrow> ('r \<Rightarrow> bool) \<Rightarrow> ('w, go_error, int) effect"
  g_Updates :: "conn \<Rightarrow> ('r \<Rightarrow> bool) \<Rightarrow> 'r \<Rightarrow> ('w, go_error, int) effect"
  g_Delete :: "conn \<Rightarrow> ('r \<Rightarrow> bool) \<Rightarrow> ('w, go_error, int) effect"
  g_Save :: "conn \<Rightarrow> 'r \<Rightarrow> ('w, go_error, 'r) effect"

record 'w gorm =
  db_users :: "('w, UserEntity) gorm_table"
  db_refresh_tokens :: "('w, RefreshTokenEntity) gorm_table"
  db_counters :: "('w, CounterEntity) gorm_table"
  db_messages :: "('w, MessageEntity) gorm_table"
  db_Begin :: "('w, go_error, unit) effect"
  db_SavePoint :: "('w, go_error, unit) effect"
  db_RollbackTo :: "'w \<Rightarrow> 'w"
  db_Commit :: "('w, go_error, unit) effect"
  db_Rollback :: "'w \<Rightarrow> 'w"

text \<open>
  \<open>db.Transaction(fn)\<close>, in terms of the handle's own steps: on the pool it begins a
  transaction, on a transaction it sets a savepoint; an error of \<open>fn\<close> undoes the work
  since, a nil error commits.
\<close>

definition gorm_Transaction ::
  "'w gorm \<Rightarrow> conn \<Rightarrow> (conn \<Rightarrow> ('w, go_error, 'a) effect) \<Rightarrow> ('w, go_error, 'a) effect" where
  "gorm_Transaction G c fn w =
     (case c of
        Pool \<Rightarrow>
          (case db_Begin G w of
             (Inl err, w1) \<Rightarrow> (Inl err, w1)
           | (Inr _, w1) \<Rightarrow>
               (case fn Tx w1 of
                  (Inl err, w2) \<Rightarrow> (Inl err, db_Rollback G w2)
                | (Inr a, w2) \<Rightarrow>
                    (case db_Commit G w2 of
                       (Inl err, w3) \<Rightarrow> (Inl err, w3)
                     | (Inr _, w3) \<Rightarrow> (Inr a, w3))))
      | Tx \<Rightarrow>
          (case db_SavePoint G w of
             (Inl err, w1) \<Rightarrow> (Inl err, w1)
           | (Inr _, w1) \<Rightarrow>
               (case fn Tx w1 of
                  (Inl err, w2) \<Rightarrow> (Inl err, db_RollbackTo G w2)
                | (Inr a, w2) \<Rightarrow> (Inr a, w2))))"

text \<open>Every selected row goes through \<open>step\<close>, every other row stays.\<close>

definition rows_rewritten :: "('r \<Rightarrow> bool) \<Rightarrow> ('r \<Rightarrow> 'r \<Rightarrow> bool) \<Rightarrow> 'r list \<Rightarrow> 'r list \<Rightarrow> bool" where
  "rows_rewritten sel step rs rs' \<longleftrightarrow> list_all2 (\<lambda>r r'. if sel r then step r r' else r' = r) rs rs'"

definition same_views :: "(conn \<Rightarrow> 'w \<Rightarrow> tables) \<Rightarrow> 'w \<Rightarrow> 'w \<Rightarrow> bool" where
  "same_views view w w' \<longleftrightarrow> (\<forall>c. view c w' = view c w)"

definition view_changed :: "(conn \<Rightarrow> 'w \<Rightarrow> tables) \<Rightarrow> conn \<Rightarrow> tables \<Rightarrow> 'w \<Rightarrow> 'w \<Rightarrow> bool" where
  "view_changed view c t w w' \<longleftrightarrow> view c w' = t \<and> (\<forall>c'. c' \<noteq> c \<longrightarrow> view c' w' = view c' w)"

lemma same_viewsD: "same_views view w w' \<Longrightarrow> view c w' = view c w"
  by (simp add: same_views_def)

lemma same_views_refl [simp]: "same_views view w w"
  by (simp add: same_views_def)

lemma same_views_trans: "same_views view w w1 \<Longrightarrow> same_views view w1 w2 \<Longrightarrow> same_views view w w2"
  by (simp add: same_views_def)

lemma view_changedD:
  "view_changed view c t w w' \<Longrightarrow> view c w' = t"
  "view_changed view c t w w' \<Longrightarrow> c' \<noteq> c \<Longrightarrow> view c' w' = view c' w"
  by (simp_all add: view_changed_def)

lemma view_changed_same:
  "same_views view w w1 \<Longrightarrow> view_changed view c t w1 w2 \<Longrightarrow> view_changed view c t w w2"
  "view_changed view c t w w1 \<Longrightarrow> same_views view w1 w2 \<Longrightarrow> view_changed view c t w w2"
  by (auto simp: same_views_def view_changed_def)

text \<open>An \<open>ORDER BY\<close> clause compares any two rows.\<close>

definition total_preorder :: "('r \<Rightarrow> 'r \<Rightarrow> bool) \<Rightarrow> bool" where
  "total_preorder le \<longleftrightarrow> transp le \<and> (\<forall>x y. le x y \<or> le y x)"

text \<open>Statements on one table: reading, inserting, counting.\<close>

locale gorm_table_laws =
  fixes T :: "('w, 'r) gorm_table"
    and view :: "conn \<Rightarrow> 'w \<Rightarrow> tables"
    and up :: "'w \<Rightarrow> bool"
    and get :: "tables \<Rightarrow> 'r list"
    and put :: "'r list \<Rightarrow> tables \<Rightarrow> tables"
    and live :: "'r \<Rightarrow> bool"
    and clash :: "'r \<Rightarrow> 'r \<Rightarrow> bool"
    and inserted :: "'r \<Rightarrow> 'r \<Rightarrow> bool"
  assumes First_frame: "g_First T c p w = (res, w') \<Longrightarrow> same_views view w w'"
    and First_found: "g_First T c p w = (Inr r, w') \<Longrightarrow> r \<in> set (get (view c w)) \<and> live r \<and> p r"
    and First_missing: "g_First T c p w = (Inl e, w') \<Longrightarrow> errors_Is e ErrRecordNotFound \<Longrightarrow>
      r \<in> set (get (view c w)) \<Longrightarrow> live r \<Longrightarrow> \<not> p r"
    and First_up: "up w \<Longrightarrow> g_First T c p w = (res, w') \<Longrightarrow>
      up w' \<and> ((\<exists>x. res = Inr x) \<or> res = Inl ErrRecordNotFound)"
    and Find_frame: "g_Find T c p le l off w = (found, w') \<Longrightarrow> same_views view w w'"
    and Find_rows: "g_Find T c p le l off w = (Inr rs, w') \<Longrightarrow> total_preorder le \<Longrightarrow> 0 < l \<Longrightarrow> 0 \<le> off \<Longrightarrow>
      \<exists>xs. mset xs = mset (filter (\<lambda>r. live r \<and> p r) (get (view c w))) \<and> sorted_wrt le xs
        \<and> rs = window (nat off) (nat l) xs"
    and Find_up: "up w \<Longrightarrow> g_Find T c p le l off w = (found, w') \<Longrightarrow> up w' \<and> (\<exists>xs. found = Inr xs)"
    and Count_frame: "g_Count T c p w = (cnt, w') \<Longrightarrow> same_views view w w'"
    and Count_rows: "g_Count T c p w = (Inr n, w') \<Longrightarrow>
      n = int (length (filter (\<lambda>r. live r \<and> p r) (get (view c w))))"
    and Count_up: "up w \<Longrightarrow> g_Count T c p w = (cnt, w') \<Longrightarrow> up w' \<and> (\<exists>n. cnt = Inr n)"
    and Create_error: "g_Create T c r w = (Inl e, w') \<Longrightarrow> same_views view w w'"
    and Create_duplicate: "g_Create T c r w = (Inl e, w') \<Longrightarrow> errors_Is e ErrDuplicatedKey \<Longrightarrow>
      \<exists>x \<in> set (get (view c w)). clash r x"
    and Create_row: "g_Create T c r w = (Inr r', w') \<Longrightarrow>
      inserted r r' \<and> (\<forall>x \<in> set (get (view c w)). \<not> clash r x)
      \<and> view_changed view c (put (get (view c w) @ [r']) (view c w)) w w'"
    and Create_up: "up w \<Longrightarrow> \<forall>x \<in> set (get (view c w)). \<not> clash r x \<Longrightarrow>
      \<exists>r' w'. g_Create T c r w = (Inr r', w') \<and> up w'"
    and Create_up_duplicate: "up w \<Longrightarrow> x \<in> set (get (view c w)) \<Longrightarrow> clash r x \<Longrightarrow>
      \<exists>w'. g_Create T c r w = (Inl ErrDuplicatedKey, w')"

text \<open>A model without \<open>gorm.DeletedAt\<close>: \<open>Delete\<close> removes rows.\<close>

locale gorm_hard_table = gorm_table_laws +
  assumes all_live: "live r"
    and hard_Delete_error: "g_Delete T c p w = (Inl e, w') \<Longrightarrow> same_views view w w'"
    and hard_Delete_rows: "g_Delete T c p w = (Inr n, w') \<Longrightarrow>
      n = int (length (filter p (get (view c w))))
      \<and> view_changed view c (put (filter (\<lambda>r. \<not> p r) (get (view c w))) (view c w)) w w'"
    and hard_Delete_up: "up w \<Longrightarrow> g_Delete T c p w = (cnt, w') \<Longrightarrow> up w' \<and> (\<exists>n. cnt = Inr n)"

text \<open>A model with \<open>gorm.DeletedAt\<close>: \<open>Delete\<close> marks rows, \<open>Updates\<close> rewrites visible ones.\<close>

locale gorm_soft_table = gorm_table_laws T view up get put live clash inserted
  for T :: "('w, 'r) gorm_table" and view and up and get and put and live and clash and inserted +
  fixes updated :: "'r \<Rightarrow> 'r \<Rightarrow> 'r \<Rightarrow> bool"
    and soft_deleted :: "'r \<Rightarrow> 'r \<Rightarrow> bool"
  assumes Updates_error: "g_Updates T c p q w = (Inl e, w') \<Longrightarrow> same_views view w w'"
    and Updates_rows: "g_Updates T c p q w = (Inr n, w') \<Longrightarrow>
      \<exists>rs. rows_rewritten (\<lambda>r. live r \<and> p r) (updated q) (get (view c w)) rs
        \<and> view_changed view c (put rs (view c w)) w w'"
    and Updates_up: "up w \<Longrightarrow> g_Updates T c p q w = (cnt, w') \<Longrightarrow> up w' \<and> (\<exists>n. cnt = Inr n)"
    and soft_Delete_error: "g_Delete T c p w = (Inl e, w') \<Longrightarrow> same_views view w w'"
    and soft_Delete_rows: "g_Delete T c p w = (Inr n, w') \<Longrightarrow>
      \<exists>rs. rows_rewritten (\<lambda>r. live r \<and> p r) soft_deleted (get (view c w)) rs
        \<and> view_changed view c (put rs (view c w)) w w'"
    and soft_Delete_up: "up w \<Longrightarrow> g_Delete T c p w = (cnt, w') \<Longrightarrow> up w' \<and> (\<exists>n. cnt = Inr n)"

text \<open>The four tables and transactions: a transaction works on its own view of the tables, which
  replaces the pool's at commit and is dropped otherwise.\<close>

locale gorm_db =
  user_table: gorm_soft_table "db_users G" view up users put_users user_live user_clash
    user_inserted user_updated user_soft_deleted +
  token_table: gorm_hard_table "db_refresh_tokens G" view up refresh_tokens put_refresh_tokens
    "\<lambda>_. True" token_clash token_inserted +
  counter_table: gorm_hard_table "db_counters G" view up counters put_counters
    "\<lambda>_. True" counter_clash counter_inserted +
  message_table: gorm_hard_table "db_messages G" view up messages put_messages
    "\<lambda>_. True" message_clash message_inserted
  for G :: "'w gorm" and view and up +
  assumes Begin_view: "db_Begin G w = (u, w') \<Longrightarrow> view Pool w' = view Pool w"
    and Begin_tx: "db_Begin G w = (Inr (), w') \<Longrightarrow> view Tx w' = view Pool w"
    and Begin_up: "up w \<Longrightarrow> db_Begin G w = (u, w') \<Longrightarrow> up w' \<and> u = Inr ()"
    and Commit_error: "db_Commit G w = (Inl e, w') \<Longrightarrow> view Pool w' = view Pool w"
    and Commit_ok: "db_Commit G w = (Inr (), w') \<Longrightarrow> view Pool w' = view Tx w"
    and Commit_up: "up w \<Longrightarrow> db_Commit G w = (u, w') \<Longrightarrow> up w' \<and> u = Inr ()"
    and Rollback_view: "view Pool (db_Rollback G w) = view Pool w"
    and Save_error: "g_Save (db_counters G) c r w = (Inl e, w') \<Longrightarrow> same_views view w w'"
    and Save_row: "g_Save (db_counters G) c r w = (Inr r', w') \<Longrightarrow> x \<in> set (counters (view c w)) \<Longrightarrow>
      Counter_ID x = Counter_ID r \<Longrightarrow>
      (\<exists>t. r' = r\<lparr>Counter_UpdatedAt := t\<rparr>)
      \<and> view_changed view c (put_counters
          (map (\<lambda>y. if Counter_ID y = Counter_ID r then r' else y) (counters (view c w))) (view c w)) w w'"
    and Save_up: "up w \<Longrightarrow> g_Save (db_counters G) c r w = (cr, w') \<Longrightarrow> up w' \<and> (\<exists>r'. cr = Inr r')"

subsection \<open>Go runtime, random sources, password hashing\<close>

text \<open>
  \<open>ctx_Err\<close> is the non-blocking receive from \<open>ctx.Done()\<close> that opens most methods: the
  context's error when it is done. \<open>once_get\<close> and \<open>once_set\<close> are the cell of the
  \<open>sync.OnceValue\<close> behind the dummy password hash.
\<close>

record 'w golib =
  ctx_Err :: "Context \<Rightarrow> 'w \<Rightarrow> go_error option \<times> 'w"
  time_Now :: "'w \<Rightarrow> time \<times> 'w"
  uuid_New :: "'w \<Rightarrow> uuid \<times> 'w"
  uuid_String :: "uuid \<Rightarrow> string"
  uuid_Parse :: "string \<Rightarrow> go_error + uuid"
  rand_Read :: "nat \<Rightarrow> ('w, go_error, byte list) effect"
  bcrypt_GenerateFromPassword :: "string \<Rightarrow> ('w, go_error, byte list) effect"
  bcrypt_CompareHashAndPassword :: "byte list \<Rightarrow> string \<Rightarrow> 'w \<Rightarrow> go_error option \<times> 'w"
  once_get :: "'w \<Rightarrow> byte list option"
  once_set :: "byte list \<Rightarrow> 'w \<Rightarrow> 'w"

text \<open>
  None of these calls touches the database. \<open>pw_matches h p\<close> is the verdict of
  bcrypt's comparison and \<open>bcrypt_work w\<close> counts the bcrypt operations done so far.
  In a world that is \<open>up\<close> the context is not done and
  passwords of at most 72 bytes can be hashed.
\<close>

locale go_runtime =
  fixes L :: "'w golib"
    and view :: "conn \<Rightarrow> 'w \<Rightarrow> tables"
    and up :: "'w \<Rightarrow> bool"
    and pw_matches :: "byte list \<Rightarrow> string \<Rightarrow> bool"
    and bcrypt_work :: "'w \<Rightarrow> nat"
  assumes ctx_Err_frame: "ctx_Err L ctx w = (oe, w') \<Longrightarrow> same_views view w w' \<and> bcrypt_work w' = bcrypt_work w
      \<and> once_get L w' = once_get L w"
    and ctx_Err_value: "ctx_Err L ctx w = (Some e, w') \<Longrightarrow> e = DeadlineExceeded \<or> e = Canceled"
    and ctx_Err_up: "up w \<Longrightarrow> ctx_Err L ctx w = (oe, w') \<Longrightarrow> up w' \<and> oe = None"
    and time_Now_frame: "time_Now L w = (t, w') \<Longrightarrow> same_views view w w' \<and> bcrypt_work w' = bcrypt_work w"
    and time_Now_up: "up w \<Longrightarrow> time_Now L w = (t, w') \<Longrightarrow> up w'"
    and uuid_New_frame: "uuid_New L w = (u, w') \<Longrightarrow> same_views view w w'"
    and uuid_New_up: "up w \<Longrightarrow> uuid_New L w = (u, w') \<Longrightarrow> up w'"
    and uuid_Parse_String: "uuid_Parse L (uuid_String L u) = Inr u"
    and rand_Read_frame: "rand_Read L n w = (hr, w') \<Longrightarrow> same_views view w w'"
    and rand_Read_length: "rand_Read L n w = (Inr bs, w') \<Longrightarrow> length bs = n"
    and Generate_frame: "bcrypt_GenerateFromPassword L p w = (hr, w') \<Longrightarrow>
      same_views view w w' \<and> bcrypt_work w' = Suc (bcrypt_work w) \<and> once_get L w' = once_get L w"
    and Generate_matches: "bcrypt_GenerateFromPassword L p w = (Inr h, w') \<Longrightarrow> h \<noteq> [] \<and> pw_matches h p"
    and Generate_up: "up w \<Longrightarrow> length p \<le> 72 \<Longrightarrow> bcrypt_GenerateFromPassword L p w = (hr, w') \<Longrightarrow>
      up w' \<and> (\<exists>h. hr = Inr h)"
    and Compare_frame: "bcrypt_CompareHashAndPassword L h p w = (oe, w') \<Longrightarrow>
      same_views view w w' \<and> bcrypt_work w' = Suc (bcrypt_work w)"
    and Compare_verdict: "bcrypt_CompareHashAndPassword L h p w = (oe, w') \<Longrightarrow> oe = None \<longleftrightarrow> pw_matches h p"
    and Compare_up: "up w \<Longrightarrow> bcrypt_CompareHashAndPassword L h p w = (oe, w') \<Longrightarrow> up w'"
    and once_set_frame: "same_views view w (once_set L h w) \<and> bcrypt_work (once_set L h w) = bcrypt_work w
      \<and> once_get L (once_set L h w) = Some h"
    and once_set_up: "up w \<Longrightarrow> up (once_set L h w)"

end
