(* ===== verification/Repositories.thy ===== *)
theory Repositories
  imports Gorm_Store
begin

text \<open>
  Package \<open>internal/repository\<close>. A Go interface is a record of its methods; a GORM
  implementation is the record of the functions below. The locales \<open>user_repository\<close>,
  \<open>refresh_token_repository\<close> and \<open>tx_manager\<close> state what a client of the interface may
  rely on; the sublocale declarations at the end show that the GORM implementations
  keep these promises whenever GORM and the runtime keep theirs.
\<close>

subsection \<open>Interfaces\<close>

record 'w UserRepository =
  UR_Create :: "Context \<Rightarrow> UserEntity \<Rightarrow> ('w, go_error, uuid) effect"
  UR_FindByID :: "Context \<Rightarrow> uuid \<Rightarrow> ('w, go_error, UserEntity option) effect"
  UR_FindByEmail :: "Context \<Rightarrow> string \<Rightarrow> ('w, go_error, UserEntity option) effect"
  UR_Update :: "Context \<Rightarrow> uuid \<Rightarrow> UserEntity \<Rightarrow> ('w, go_error, unit) effect"
  UR_Delete :: "Context \<Rightarrow> uuid \<Rightarrow> ('w, go_error, unit) effect"

record 'w RefreshTokenRepository =
  RTR_Create :: "Context \<Rightarrow> RefreshTokenEntity \<Rightarrow> ('w, go_error, unit) effect"
  RTR_FindByTokenHash :: "Context \<Rightarrow> string \<Rightarrow> ('w, go_error, RefreshTokenEntity option) effect"
  RTR_ListActiveByUserID ::
    "Context \<Rightarrow> uuid \<Rightarrow> time \<Rightarrow> int \<Rightarrow> int \<Rightarrow> ('w, go_error, RefreshTokenEntity list) effect"
  RTR_CountActiveByUserID :: "Context \<Rightarrow> uuid \<Rightarrow> time \<Rightarrow> ('w, go_error, int) effect"
  RTR_DeleteByUserID :: "Context \<Rightarrow> uuid \<Rightarrow> ('w, go_error, unit) effect"
  RTR_DeleteByTokenHash :: "Context \<Rightarrow> string \<Rightarrow> ('w, go_error, unit) effect"
  RTR_DeleteExpired :: "Context \<Rightarrow> time \<Rightarrow> ('w, go_error, int) effect"

record 'w CounterRepository =
  CR_GetCounter :: "Context \<Rightarrow> ('w, go_error, int) effect"
  CR_IncrementCounter :: "Context \<Rightarrow> ('w, go_error, int) effect"

record 'w MessageRepository =
  MR_GetMessage :: "Context \<Rightarrow> string \<Rightarrow> ('w, go_error, string option) effect"

text \<open>
  The closure passed to \<open>WithinTx\<close> returns an error and assigns the variables it
  captures: in this program the access token and the refresh token of the caller. The
  closure's value is the pair of them.
\<close>

type_synonym captured = "string \<times> string"

record 'w TxManager =
  TM_WithinTx :: "Context \<Rightarrow> (Context \<Rightarrow> ('w, go_error, captured) effect) \<Rightarrow> ('w, go_error, captured) effect"

subsection \<open>GORM user repository\<close>

definition GORMUser_Create ::
  "'w golib \<Rightarrow> 'w gorm \<Rightarrow> Context \<Rightarrow> UserEntity \<Rightarrow> ('w, go_error, uuid) effect" where
  "GORMUser_Create L G ctx user w =
     (case ctx_Err L ctx w of
        (Some err, w1) \<Rightarrow> (Inl err, w1)
      | (None, w1) \<Rightarrow>
          (case g_Create (db_users G) (dbtx_Conn ctx Pool) user w1 of
             (Inl err, w2) \<Rightarrow> (Inl err, w2)
           | (Inr user', w2) \<Rightarrow> (Inr (User_ID user'), w2)))"

definition GORMUser_FindByID ::
  "'w golib \<Rightarrow> 'w gorm \<Rightarrow> Context \<Rightarrow> uuid \<Rightarrow> ('w, go_error, UserEntity option) effect" where
  "GORMUser_FindByID L G ctx i w =
     (case ctx_Err L ctx w of
        (Some err, w1) \<Rightarrow> (Inl err, w1)
      | (None, w1) \<Rightarrow>
          (case g_First (db_users G) (dbtx_Conn ctx Pool) (\<lambda>u. User_ID u = i) w1 of
             (Inl err, w2) \<Rightarrow>
               if errors_Is err ErrRecordNotFound then (Inr None, w2)
               else (Inl (Errorf ''finding user by id'' err), w2)
           | (Inr user, w2) \<Rightarrow> (Inr (Some user), w2)))"

definition GORMUser_FindByEmail ::
  "'w golib \<Rightarrow> 'w gorm \<Rightarrow> Context \<Rightarrow> string \<Rightarrow> ('w, go_error, UserEntity option) effect" where
  "GORMUser_FindByEmail L G ctx email w =
     (case ctx_Err L ctx w of
        (Some err, w1) \<Rightarrow> (Inl err, w1)
      | (None, w1) \<Rightarrow>
          (case g_First (db_users G) (dbtx_Conn ctx Pool) (\<lambda>u. User_Email u = email) w1 of
             (Inl err, w2) \<Rightarrow>
               if errors_Is err ErrRecordNotFound then (Inr None, w2) else (Inl err, w2)
           | (Inr user, w2) \<Rightarrow> (Inr (Some user), w2)))"

definition GORMUser_Update ::
  "'w golib \<Rightarrow> 'w gorm \<Rightarrow> Context \<Rightarrow> uuid \<Rightarrow> UserEntity \<Rightarrow> ('w, go_error, unit) effect" where
  "GORMUser_Update L G ctx i user w =
     (case ctx_Err L ctx w of
        (Some err, w1) \<Rightarrow> (Inl err, w1)
      | (None, w1) \<Rightarrow>
          (case g_Updates (db_users G) (dbtx_Conn ctx Pool) (\<lambda>u. User_ID u = i) user w1 of
             (Inl err, w2) \<Rightarrow> (Inl err, w2)
           | (Inr _, w2) \<Rightarrow> (Inr (), w2)))"

definition GORMUser_Delete ::
  "'w golib \<Rightarrow> 'w gorm \<Rightarrow> Context \<Rightarrow> uuid \<Rightarrow> ('w, go_error, unit) effect" where
  "GORMUser_Delete L G ctx i w =
     (case ctx_Err L ctx w of
        (Some err, w1) \<Rightarrow> (Inl err, w1)
      | (None, w1) \<Rightarrow>
          (case g_Delete (db_users G) (dbtx_Conn ctx Pool) (\<lambda>u. User_ID u = i) w1 of
             (Inl err, w2) \<Rightarrow> (Inl err, w2)
           | (Inr _, w2) \<Rightarrow> (Inr (), w2)))"

definition GORMUserRepository :: "'w golib \<Rightarrow> 'w gorm \<Rightarrow> 'w UserRepository" where
  "GORMUserRepository L G = \<lparr>UR_Create = GORMUser_Create L G, UR_FindByID = GORMUser_FindByID L G,
     UR_FindByEmail = GORMUser_FindByEmail L G, UR_Update = GORMUser_Update L G,
     UR_Delete = GORMUser_Delete L G\<rparr>"

subsection \<open>GORM refresh-token repository\<close>

definition GORMToken_Create ::
  "'w golib \<Rightarrow> 'w gorm \<Rightarrow> Context \<Rightarrow> RefreshTokenEntity \<Rightarrow> ('w, go_error, unit) effect" where
  "GORMToken_Create L G ctx tok w =
     (case ctx_Err L ctx w of
        (Some err, w1) \<Rightarrow> (Inl err, w1)
      | (None, w1) \<Rightarrow>
          (case g_Create (db_refresh_tokens G) (dbtx_Conn ctx Pool) tok w1 of
             (Inl err, w2) \<Rightarrow> (Inl (Errorf ''creating refresh token'' err), w2)
           | (Inr _, w2) \<Rightarrow> (Inr (), w2)))"

definition GORMToken_FindByTokenHash ::
  "'w golib \<Rightarrow> 'w gorm \<Rightarrow> Context \<Rightarrow> string \<Rightarrow> ('w, go_error, RefreshTokenEntity option) effect" where
  "GORMToken_FindByTokenHash L G ctx tokenHash w =
     (case ctx_Err L ctx w of
        (Some err, w1) \<Rightarrow> (Inl err, w1)
      | (None, w1) \<Rightarrow>
          (case g_First (db_refresh_tokens G) (dbtx_Conn ctx Pool) (\<lambda>t. RT_TokenHash t = tokenHash) w1 of
             (Inl err, w2) \<Rightarrow>
               if errors_Is err ErrRecordNotFound then (Inr None, w2)
               else (Inl (Errorf ''finding refresh token'' err), w2)
           | (Inr tok, w2) \<Rightarrow> (Inr (Some tok), w2)))"

text \<open>The \<open>WHERE\<close> clause shared by listing and counting, and the \<open>ORDER BY\<close> clause
  \<open>created_at DESC, id DESC\<close>.\<close>

definition token_active :: "uuid \<Rightarrow> time \<Rightarrow> RefreshTokenEntity \<Rightarrow> bool" where
  "token_active userID now t \<longleftrightarrow> RT_UserID t = userID \<and> RT_ExpiresAt t > now"

definition newest_first :: "RefreshTokenEntity \<Rightarrow> RefreshTokenEntity \<Rightarrow> bool" where
  "newest_first a b \<longleftrightarrow> RT_CreatedAt a > RT_CreatedAt b
     \<or> (RT_CreatedAt a = RT_CreatedAt b \<and> RT_ID a \<ge> RT_ID b)"

definition GORMToken_ListActiveByUserID ::
  "'w golib \<Rightarrow> 'w gorm \<Rightarrow> Context \<Rightarrow> uuid \<Rightarrow> time \<Rightarrow> int \<Rightarrow> int
    \<Rightarrow> ('w, go_error, RefreshTokenEntity list) effect" where
  "GORMToken_ListActiveByUserID L G ctx userID now limit offset w =
     (case ctx_Err L ctx w of
        (Some err, w1) \<Rightarrow> (Inl err, w1)
      | (None, w1) \<Rightarrow>
          (case g_Find (db_refresh_tokens G) (dbtx_Conn ctx Pool) (token_active userID now)
                  newest_first limit offset w1 of
             (Inl err, w2) \<Rightarrow>
               (Inl (Errorf (''listing active refresh tokens for user '' @ uuid_String L userID) err), w2)
           | (Inr tokens, w2) \<Rightarrow> (Inr tokens, w2)))"

definition GORMToken_CountActiveByUserID ::
  "'w golib \<Rightarrow> 'w gorm \<Rightarrow> Context \<Rightarrow> uuid \<Rightarrow> time \<Rightarrow> ('w, go_error, int) effect" where
  "GORMToken_CountActiveByUserID L G ctx userID now w =
     (case ctx_Err L ctx w of
        (Some err, w1) \<Rightarrow> (Inl err, w1)
      | (None, w1) \<Rightarrow>
          (case g_Count (db_refresh_tokens G) (dbtx_Conn ctx Pool) (token_active userID now) w1 of
             (Inl err, w2) \<Rightarrow>
               (Inl (Errorf (''counting active refresh tokens for user '' @ uuid_String L userID) err), w2)
           | (Inr n, w2) \<Rightarrow> (Inr n, w2)))"

definition GORMToken_DeleteByUserID ::
  "'w golib \<Rightarrow> 'w gorm \<Rightarrow> Context \<Rightarrow> uuid \<Rightarrow> ('w, go_error, unit) effect" where
  "GORMToken_DeleteByUserID L G ctx userID w =
     (case ctx_Err L ctx w of
        (Some err, w1) \<Rightarrow> (Inl err, w1)
      | (None, w1) \<Rightarrow>
          (case g_Delete (db_refresh_tokens G) (dbtx_Conn ctx Pool) (\<lambda>t. RT_UserID t = userID) w1 of
             (Inl err, w2) \<Rightarrow>
               (Inl (Errorf (''deleting refresh tokens for user '' @ uuid_String L userID) err), w2)
           | (Inr _, w2) \<Rightarrow> (Inr (), w2)))"

definition GORMToken_DeleteByTokenHash ::
  "'w golib \<Rightarrow> 'w gorm \<Rightarrow> Context \<Rightarrow> string \<Rightarrow> ('w, go_error, unit) effect" where
  "GORMToken_DeleteByTokenHash L G ctx tokenHash w =
     (case ctx_Err L ctx w of
        (Some err, w1) \<Rightarrow> (Inl err, w1)
      | (None, w1) \<Rightarrow>
          (case g_Delete (db_refresh_tokens G) (dbtx_Conn ctx Pool) (\<lambda>t. RT_TokenHash t = tokenHash) w1 of
             (Inl err, w2) \<Rightarrow> (Inl (Errorf ''deleting refresh token'' err), w2)
           | (Inr _, w2) \<Rightarrow> (Inr (), w2)))"

definition GORMToken_DeleteExpired ::
  "'w golib \<Rightarrow> 'w gorm \<Rightarrow> Context \<Rightarrow> time \<Rightarrow> ('w, go_error, int) effect" where
  "GORMToken_DeleteExpired L G ctx before w =
     (case ctx_Err L ctx w of
        (Some err, w1) \<Rightarrow> (Inl err, w1)
      | (None, w1) \<Rightarrow>
          (case g_Delete (db_refresh_tokens G) (dbtx_Conn ctx Pool) (\<lambda>t. RT_ExpiresAt t < before) w1 of
             (Inl err, w2) \<Rightarrow> (Inl (Errorf ''deleting expired refresh tokens'' err), w2)
           | (Inr n, w2) \<Rightarrow> (Inr n, w2)))"

definition GORMRefreshTokenRepository :: "'w golib \<Rightarrow> 'w gorm \<Rightarrow> 'w RefreshTokenRepository" where
  "GORMRefreshTokenRepository L G = \<lparr>RTR_Create = GORMToken_Create L G,
     RTR_FindByTokenHash = GORMToken_FindByTokenHash L G,
     RTR_ListActiveByUserID = GORMToken_ListActiveByUserID L G,
     RTR_CountActiveByUserID = GORMToken_CountActiveByUserID L G,
     RTR_DeleteByUserID = GORMToken_DeleteByUserID L G,
     RTR_DeleteByTokenHash = GORMToken_DeleteByTokenHash L G,
     RTR_DeleteExpired = GORMToken_DeleteExpired L G\<rparr>"

subsection \<open>GORM counter and message repositories\<close>

definition GORMCounter_GetCounter ::
  "'w golib \<Rightarrow> 'w gorm \<Rightarrow> Context \<Rightarrow> ('w, go_error, int) effect" where
  "GORMCounter_GetCounter L G ctx w =
     (case ctx_Err L ctx w of
        (Some err, w1) \<Rightarrow> (Inl err, w1)
      | (None, w1) \<Rightarrow>
          (case g_First (db_counters G) (dbtx_Conn ctx Pool) (\<lambda>_. True) w1 of
             (Inl err, w2) \<Rightarrow> (Inl err, w2)
           | (Inr counter, w2) \<Rightarrow> (Inr (Counter_Value counter), w2)))"

text \<open>The closure of the transaction: a locked read, \<open>counter.Value++\<close> on a 64-bit int, a save.
  Its value is the captured \<open>counter\<close> after the closure.\<close>

definition increment_closure :: "'w gorm \<Rightarrow> conn \<Rightarrow> ('w, go_error, CounterEntity) effect" where
  "increment_closure G c w =
     (case g_First (db_counters G) c (\<lambda>_. True) w of
        (Inl err, w1) \<Rightarrow> (Inl err, w1)
      | (Inr counter, w1) \<Rightarrow>
          g_Save (db_counters G) c (counter\<lparr>Counter_Value := wrap64 (Counter_Value counter + 1)\<rparr>) w1)"

definition GORMCounter_IncrementCounter ::
  "'w golib \<Rightarrow> 'w gorm \<Rightarrow> Context \<Rightarrow> ('w, go_error, int) effect" where
  "GORMCounter_IncrementCounter L G ctx w =
     (case ctx_Err L ctx w of
        (Some err, w1) \<Rightarrow> (Inl err, w1)
      | (None, w1) \<Rightarrow>
          (case gorm_Transaction G (dbtx_Conn ctx Pool) (increment_closure G) w1 of
             (Inl err, w2) \<Rightarrow> (Inl err, w2)
           | (Inr counter, w2) \<Rightarrow> (Inr (Counter_Value counter), w2)))"

definition GORMCounterRepository :: "'w golib \<Rightarrow> 'w gorm \<Rightarrow> 'w CounterRepository" where
  "GORMCounterRepository L G = \<lparr>CR_GetCounter = GORMCounter_GetCounter L G,
     CR_IncrementCounter = GORMCounter_IncrementCounter L G\<rparr>"

definition GORMMessage_GetMessage ::
  "'w golib \<Rightarrow> 'w gorm \<Rightarrow> Context \<Rightarrow> string \<Rightarrow> ('w, go_error, string option) effect" where
  "GORMMessage_GetMessage L G ctx key w =
     (case ctx_Err L ctx w of
        (Some err, w1) \<Rightarrow> (Inl err, w1)
      | (None, w1) \<Rightarrow>
          (case g_First (db_messages G) (dbtx_Conn ctx Pool) (\<lambda>m. Message_Key m = key) w1 of
             (Inl err, w2) \<Rightarrow>
               if errors_Is err ErrRecordNotFound then (Inr None, w2)
               else (Inl (Errorf ''getting message'' err), w2)
           | (Inr message, w2) \<Rightarrow> (Inr (Some (Message_Value message)), w2)))"

definition GORMMessageRepository :: "'w golib \<Rightarrow> 'w gorm \<Rightarrow> 'w MessageRepository" where
  "GORMMessageRepository L G = \<lparr>MR_GetMessage = GORMMessage_GetMessage L G\<rparr>"

subsection \<open>GORM transaction manager\<close>

definition GORMTx_WithinTx ::
  "'w gorm \<Rightarrow> Context \<Rightarrow> (Context \<Rightarrow> ('w, go_error, captured) effect) \<Rightarrow> ('w, go_error, captured) effect" where
  "GORMTx_WithinTx G ctx fn w =
     (case dbtx_From ctx of
        Some _ \<Rightarrow> fn ctx w
      | None \<Rightarrow> gorm_Transaction G Pool (\<lambda>tx. fn (dbtx_Into ctx tx)) w)"

definition GORMTxManager :: "'w gorm \<Rightarrow> 'w TxManager" where
  "GORMTxManager G = \<lparr>TM_WithinTx = GORMTx_WithinTx G\<rparr>"

end
