(* ===== verification/Repository_Contracts.thy ===== *)
theory Repository_Contracts
  imports Repositories
begin

text \<open>
  The contracts of the repository interfaces, stated over the tables a context sees
  (\<open>view (dbtx_Conn ctx Pool)\<close>), and the proof that the GORM implementations meet them.
  A failing call changes no table; \<open>up\<close> worlds make every call succeed unless the
  contract itself says otherwise.
\<close>

definition found :: "'r list \<Rightarrow> ('r \<Rightarrow> bool) \<Rightarrow> 'r option \<Rightarrow> bool" where
  "found rows p res = (case res of None \<Rightarrow> (\<forall>r \<in> set rows. \<not> p r) | Some r \<Rightarrow> r \<in> set rows \<and> p r)"

lemma found_simps [simp]:
  "found rows p None \<longleftrightarrow> (\<forall>r \<in> set rows. \<not> p r)"
  "found rows p (Some r) \<longleftrightarrow> r \<in> set rows \<and> p r"
  by (simp_all add: found_def)

abbreviation seen_users :: "(conn \<Rightarrow> 'w \<Rightarrow> tables) \<Rightarrow> Context \<Rightarrow> 'w \<Rightarrow> UserEntity list" where
  "seen_users view ctx w \<equiv> users (view (dbtx_Conn ctx Pool) w)"

abbreviation seen_tokens :: "(conn \<Rightarrow> 'w \<Rightarrow> tables) \<Rightarrow> Context \<Rightarrow> 'w \<Rightarrow> RefreshTokenEntity list" where
  "seen_tokens view ctx w \<equiv> refresh_tokens (view (dbtx_Conn ctx Pool) w)"

abbreviation ctx_changed :: "(conn \<Rightarrow> 'w \<Rightarrow> tables) \<Rightarrow> Context \<Rightarrow> (tables \<Rightarrow> tables) \<Rightarrow> 'w \<Rightarrow> 'w \<Rightarrow> bool" where
  "ctx_changed view ctx f w w' \<equiv>
     view_changed view (dbtx_Conn ctx Pool) (f (view (dbtx_Conn ctx Pool) w)) w w'"

locale user_repository =
  fixes R :: "'w UserRepository"
    and view :: "conn \<Rightarrow> 'w \<Rightarrow> tables"
    and up :: "'w \<Rightarrow> bool"
  assumes FindByID_frame: "UR_FindByID R ctx i w = (ou, w') \<Longrightarrow> same_views view w w'"
    and FindByID_found: "UR_FindByID R ctx i w = (Inr res, w') \<Longrightarrow>
      found (seen_users view ctx w) (\<lambda>u. user_live u \<and> User_ID u = i) res"
    and FindByID_up: "up w \<Longrightarrow> UR_FindByID R ctx i w = (ou, w') \<Longrightarrow> up w' \<and> (\<exists>res. ou = Inr res)"
    and FindByEmail_frame: "UR_FindByEmail R ctx email w = (ou, w') \<Longrightarrow> same_views view w w'"
    and FindByEmail_found: "UR_FindByEmail R ctx email w = (Inr res, w') \<Longrightarrow>
      found (seen_users view ctx w) (\<lambda>u. user_live u \<and> User_Email u = email) res"
    and FindByEmail_up: "up w \<Longrightarrow> UR_FindByEmail R ctx email w = (ou, w') \<Longrightarrow> up w' \<and> (\<exists>res. ou = Inr res)"
    and UCreate_error: "UR_Create R ctx u w = (Inl e, w') \<Longrightarrow> same_views view w w'"
    and UCreate_duplicate: "UR_Create R ctx u w = (Inl e, w') \<Longrightarrow> errors_Is e ErrDuplicatedKey \<Longrightarrow>
      \<exists>x \<in> set (seen_users view ctx w). user_clash u x"
    and UCreate_row: "UR_Create R ctx u w = (Inr i, w') \<Longrightarrow>
      i = User_ID u \<and> (\<forall>x \<in> set (seen_users view ctx w). \<not> user_clash u x)
      \<and> (\<exists>u'. user_inserted u u' \<and> ctx_changed view ctx (\<lambda>t. t\<lparr>users := users t @ [u']\<rparr>) w w')"
    and UCreate_up: "up w \<Longrightarrow> \<forall>x \<in> set (seen_users view ctx w). \<not> user_clash u x \<Longrightarrow>
      \<exists>w'. UR_Create R ctx u w = (Inr (User_ID u), w') \<and> up w'"
    and UCreate_up_duplicate: "up w \<Longrightarrow> x \<in> set (seen_users view ctx w) \<Longrightarrow> user_clash u x \<Longrightarrow>
      \<exists>w'. UR_Create R ctx u w = (Inl ErrDuplicatedKey, w')"
    and Update_error: "UR_Update R ctx i p w = (Inl e, w') \<Longrightarrow> same_views view w w'"
    and Update_rows: "UR_Update R ctx i p w = (Inr (), w') \<Longrightarrow>
      \<exists>us. rows_rewritten (\<lambda>r. user_live r \<and> User_ID r = i) (user_updated p) (seen_users view ctx w) us
        \<and> ctx_changed view ctx (\<lambda>t. t\<lparr>users := us\<rparr>) w w'"
    and Update_up: "up w \<Longrightarrow> UR_Update R ctx i p w = (ru, w') \<Longrightarrow> up w' \<and> ru = Inr ()"
    and UDelete_error: "UR_Delete R ctx i w = (Inl e, w') \<Longrightarrow> same_views view w w'"
    and UDelete_rows: "UR_Delete R ctx i w = (Inr (), w') \<Longrightarrow>
      \<exists>us. rows_rewritten (\<lambda>r. user_live r \<and> User_ID r = i) user_soft_deleted (seen_users view ctx w) us
        \<and> ctx_changed view ctx (\<lambda>t. t\<lparr>users := us\<rparr>) w w'"
    and UDelete_up: "up w \<Longrightarrow> UR_Delete R ctx i w = (ru, w') \<Longrightarrow> up w' \<and> ru = Inr ()"

locale refresh_token_repository =
  fixes R :: "'w RefreshTokenRepository"
    and view :: "conn \<Rightarrow> 'w \<Rightarrow> tables"
    and up :: "'w \<Rightarrow> bool"
  assumes TCreate_error: "RTR_Create R ctx tok w = (Inl e, w') \<Longrightarrow> same_views view w w'"
    and TCreate_row: "RTR_Create R ctx tok w = (Inr (), w') \<Longrightarrow>
      (\<forall>x \<in> set (seen_tokens view ctx w). \<not> token_clash tok x)
      \<and> (\<exists>t'. token_inserted tok t'
           \<and> ctx_changed view ctx (\<lambda>t. t\<lparr>refresh_tokens := refresh_tokens t @ [t']\<rparr>) w w')"
    and TCreate_up: "up w \<Longrightarrow> \<forall>x \<in> set (seen_tokens view ctx w). \<not> token_clash tok x \<Longrightarrow>
      \<exists>w'. RTR_Create R ctx tok w = (Inr (), w') \<and> up w'"
    and TCreate_up_duplicate: "up w \<Longrightarrow> x \<in> set (seen_tokens view ctx w) \<Longrightarrow> token_clash tok x \<Longrightarrow>
      \<exists>e w'. RTR_Create R ctx tok w = (Inl e, w') \<and> errors_Is e ErrDuplicatedKey"
    and FindByTokenHash_frame: "RTR_FindByTokenHash R ctx h w = (ot, w') \<Longrightarrow> same_views view w w'"
    and FindByTokenHash_found: "RTR_FindByTokenHash R ctx h w = (Inr res, w') \<Longrightarrow>
      found (seen_tokens view ctx w) (\<lambda>t. RT_TokenHash t = h) res"
    and FindByTokenHash_up: "up w \<Longrightarrow> RTR_FindByTokenHash R ctx h w = (ot, w') \<Longrightarrow>
      up w' \<and> (\<exists>res. ot = Inr res)"
    and ListActive_frame: "RTR_ListActiveByUserID R ctx i now l off w = (ots, w') \<Longrightarrow> same_views view w w'"
    and ListActive_rows: "RTR_ListActiveByUserID R ctx i now l off w = (Inr ts, w') \<Longrightarrow> 0 < l \<Longrightarrow> 0 \<le> off \<Longrightarrow>
      \<exists>xs. mset xs = mset (filter (token_active i now) (seen_tokens view ctx w)) \<and> sorted_wrt newest_first xs
        \<and> ts = window (nat off) (nat l) xs"
    and ListActive_up: "up w \<Longrightarrow> RTR_ListActiveByUserID R ctx i now l off w = (ots, w') \<Longrightarrow>
      up w' \<and> (\<exists>ts. ots = Inr ts)"
    and CountActive_frame: "RTR_CountActiveByUserID R ctx i now w = (oc, w') \<Longrightarrow> same_views view w w'"
    and CountActive_rows: "RTR_CountActiveByUserID R ctx i now w = (Inr n, w') \<Longrightarrow>
      n = int (length (filter (token_active i now) (seen_tokens view ctx w)))"
    and CountActive_up: "up w \<Longrightarrow> RTR_CountActiveByUserID R ctx i now w = (oc, w') \<Longrightarrow> up w' \<and> (\<exists>n. oc = Inr n)"
    and DeleteByUserID_error: "RTR_DeleteByUserID R ctx i w = (Inl e, w') \<Longrightarrow> same_views view w w'"
    and DeleteByUserID_rows: "RTR_DeleteByUserID R ctx i w = (Inr (), w') \<Longrightarrow>
      ctx_changed view ctx (\<lambda>t. t\<lparr>refresh_tokens := filter (\<lambda>r. RT_UserID r \<noteq> i) (refresh_tokens t)\<rparr>) w w'"
    and DeleteByUserID_up: "up w \<Longrightarrow> RTR_DeleteByUserID R ctx i w = (ru, w') \<Longrightarrow> up w' \<and> ru = Inr ()"
    and DeleteByTokenHash_error: "RTR_DeleteByTokenHash R ctx h w = (Inl e, w') \<Longrightarrow> same_views view w w'"
    and DeleteByTokenHash_rows: "RTR_DeleteByTokenHash R ctx h w = (Inr (), w') \<Longrightarrow>
      ctx_changed view ctx (\<lambda>t. t\<lparr>refresh_tokens := filter (\<lambda>r. RT_TokenHash r \<noteq> h) (refresh_tokens t)\<rparr>) w w'"
    and DeleteByTokenHash_up: "up w \<Longrightarrow> RTR_DeleteByTokenHash R ctx h w = (ru, w') \<Longrightarrow> up w' \<and> ru = Inr ()"
    and DeleteExpired_error: "RTR_DeleteExpired R ctx now w = (Inl e, w') \<Longrightarrow> same_views view w w'"
    and DeleteExpired_rows: "RTR_DeleteExpired R ctx now w = (Inr n, w') \<Longrightarrow>
      n = int (length (filter (\<lambda>r. RT_ExpiresAt r < now) (seen_tokens view ctx w)))
      \<and> ctx_changed view ctx (\<lambda>t. t\<lparr>refresh_tokens := filter (\<lambda>r. \<not> RT_ExpiresAt r < now) (refresh_tokens t)\<rparr>) w w'"
    and DeleteExpired_up: "up w \<Longrightarrow> RTR_DeleteExpired R ctx now w = (oc, w') \<Longrightarrow> up w' \<and> (\<exists>n. oc = Inr n)"

text \<open>
  \<open>WithinTx\<close> outside a transaction: the closure runs on a private copy of the committed
  tables (the context it gets sends every statement to the connection \<open>Tx\<close>); a nil error
  publishes that copy, an error leaves the committed tables as they were. Inside a
  transaction it only calls the closure.
\<close>

definition tx_confined :: "(conn \<Rightarrow> 'w \<Rightarrow> tables) \<Rightarrow> ('w, go_error, captured) effect \<Rightarrow> bool" where
  "tx_confined view m \<longleftrightarrow> (\<forall>w r w'. m w = (r, w') \<longrightarrow> view Pool w' = view Pool w)"

locale tx_manager =
  fixes M :: "'w TxManager"
    and view :: "conn \<Rightarrow> 'w \<Rightarrow> tables"
    and up :: "'w \<Rightarrow> bool"
  assumes WithinTx_nested: "dbtx_From ctx = Some c \<Longrightarrow> TM_WithinTx M ctx fn w = fn ctx w"
    and WithinTx_error: "dbtx_From ctx = None \<Longrightarrow> tx_confined view (fn (dbtx_Into ctx Tx)) \<Longrightarrow>
      TM_WithinTx M ctx fn w = (Inl e, w') \<Longrightarrow> view Pool w' = view Pool w"
    and WithinTx_commit: "dbtx_From ctx = None \<Longrightarrow> TM_WithinTx M ctx fn w = (Inr a, w') \<Longrightarrow>
      \<exists>w1 w2. view Pool w1 = view Pool w \<and> view Tx w1 = view Pool w
        \<and> fn (dbtx_Into ctx Tx) w1 = (Inr a, w2) \<and> view Pool w' = view Tx w2"
    and WithinTx_up: "dbtx_From ctx = None \<Longrightarrow> up w \<Longrightarrow>
      \<exists>w1. up w1 \<and> view Pool w1 = view Pool w \<and> view Tx w1 = view Pool w
        \<and> (\<forall>a w2. fn (dbtx_Into ctx Tx) w1 = (Inr a, w2) \<longrightarrow> up w2 \<longrightarrow>
             (\<exists>w'. TM_WithinTx M ctx fn w = (Inr a, w') \<and> up w'))
        \<and> (\<forall>e w2. fn (dbtx_Into ctx Tx) w1 = (Inl e, w2) \<longrightarrow> (\<exists>w'. TM_WithinTx M ctx fn w = (Inl e, w')))"

subsection \<open>The GORM implementations meet the contracts\<close>

text \<open>The runtime and the database together; a database read does no password hashing.\<close>

locale gorm_platform =
  go_runtime L view up pw_matches bcrypt_work + gorm_db G view up
  for L :: "'w golib" and G :: "'w gorm" and view up pw_matches bcrypt_work +
  assumes First_work: "g_First (db_users G) c p w = (ou, w') \<Longrightarrow>
      bcrypt_work w' = bcrypt_work w \<and> once_get L w' = once_get L w"
begin

lemmas call_splits = prod.splits option.splits sum.splits if_splits

lemma guard_view: "ctx_Err L ctx w = (r, w1) \<Longrightarrow> view c w1 = view c w"
  using ctx_Err_frame by (blast dest: same_viewsD)

lemma guard_up: "up w \<Longrightarrow> \<exists>w1. ctx_Err L ctx w = (None, w1) \<and> up w1"
  using ctx_Err_up by (cases "ctx_Err L ctx w") blast

lemmas repo_defs = GORMUser_Create_def GORMUser_FindByID_def GORMUser_FindByEmail_def GORMUser_Update_def
  GORMUser_Delete_def GORMToken_Create_def GORMToken_FindByTokenHash_def GORMToken_ListActiveByUserID_def
  GORMToken_CountActiveByUserID_def GORMToken_DeleteByUserID_def GORMToken_DeleteByTokenHash_def
  GORMToken_DeleteExpired_def

lemmas guard_frame = ctx_Err_frame [THEN conjunct1]

lemma found_First_users:
  "g_First (db_users G) c p w = (Inr u, w') \<Longrightarrow> found (users (view c w)) (\<lambda>u. user_live u \<and> p u) (Some u)"
  "g_First (db_users G) c p w = (Inl e, w') \<Longrightarrow> errors_Is e ErrRecordNotFound \<Longrightarrow>
     found (users (view c w)) (\<lambda>u. user_live u \<and> p u) None"
  by (auto dest: user_table.First_found user_table.First_missing)

lemma found_First_tokens:
  "g_First (db_refresh_tokens G) c p w = (Inr t, w') \<Longrightarrow> found (refresh_tokens (view c w)) p (Some t)"
  "g_First (db_refresh_tokens G) c p w = (Inl e, w') \<Longrightarrow> errors_Is e ErrRecordNotFound \<Longrightarrow>
     found (refresh_tokens (view c w)) p None"
  by (auto dest: token_table.First_found token_table.First_missing)

lemma lookup_frames:
  "GORMUser_FindByID L G ctx i w = (ou, w') \<Longrightarrow> same_views view w w'"
  "GORMUser_FindByEmail L G ctx email w = (ou, w') \<Longrightarrow> same_views view w w'"
  "GORMToken_FindByTokenHash L G ctx h w = (ot, w') \<Longrightarrow> same_views view w w'"
  by (auto simp: repo_defs split: call_splits
      dest!: guard_frame user_table.First_frame token_table.First_frame intro: same_views_trans)

lemma lookup_results:
  "GORMUser_FindByID L G ctx i w = (Inr res, w') \<Longrightarrow>
     found (seen_users view ctx w) (\<lambda>u. user_live u \<and> User_ID u = i) res"
  "GORMUser_FindByEmail L G ctx email w = (Inr res, w') \<Longrightarrow>
     found (seen_users view ctx w) (\<lambda>u. user_live u \<and> User_Email u = email) res"
  "GORMToken_FindByTokenHash L G ctx h w = (Inr tres, w') \<Longrightarrow>
     found (seen_tokens view ctx w) (\<lambda>t. RT_TokenHash t = h) tres"
  by (auto simp: repo_defs guard_view split: call_splits dest!: found_First_users found_First_tokens)

lemma FindByEmail_work:
  "GORMUser_FindByEmail L G ctx email w = (ou, w') \<Longrightarrow>
     bcrypt_work w' = bcrypt_work w \<and> once_get L w' = once_get L w"
  by (auto simp: repo_defs split: call_splits dest!: ctx_Err_frame First_work)

lemma errors_Is_not_found [simp]: "errors_Is ErrRecordNotFound ErrRecordNotFound"
  by (simp add: ErrRecordNotFound_def)

lemma lookup_up:
  assumes "up w"
  shows "GORMUser_FindByID L G ctx i w = (ou, w') \<Longrightarrow> up w' \<and> (\<exists>res. ou = Inr res)"
    and "GORMUser_FindByEmail L G ctx email w = (ou, w') \<Longrightarrow> up w' \<and> (\<exists>res. ou = Inr res)"
    and "GORMToken_FindByTokenHash L G ctx h w = (ot, w') \<Longrightarrow> up w' \<and> (\<exists>res. ot = Inr res)"
  using guard_up [OF assms, of ctx]
  by (auto simp: repo_defs split: call_splits dest: user_table.First_up token_table.First_up)

lemma user_write_errors:
  "GORMUser_Create L G ctx u w = (Inl e, w') \<Longrightarrow> same_views view w w'"
  "GORMUser_Update L G ctx i p w = (Inl e, w') \<Longrightarrow> same_views view w w'"
  "GORMUser_Delete L G ctx i w = (Inl e, w') \<Longrightarrow> same_views view w w'"
  by (auto simp: repo_defs split: call_splits dest!: guard_frame user_table.Create_error
      user_table.Updates_error user_table.soft_Delete_error intro: same_views_trans)

lemma guard_changed:
  "view_changed view c t w1 w' \<Longrightarrow> ctx_Err L ctx w = (r, w1) \<Longrightarrow> view_changed view c t w w'"
  by (rule view_changed_same(1) [OF guard_frame])

lemma guard_no_duplicate: "ctx_Err L ctx w = (Some e, w1) \<Longrightarrow> \<not> errors_Is e ErrDuplicatedKey"
  by (drule ctx_Err_value) (auto simp: std_error_defs)

lemma UCreate_meets:
  "GORMUser_Create L G ctx u w = (Inr i, w') \<Longrightarrow>
     i = User_ID u \<and> (\<forall>x \<in> set (seen_users view ctx w). \<not> user_clash u x)
     \<and> (\<exists>u'. user_inserted u u' \<and> ctx_changed view ctx (\<lambda>t. t\<lparr>users := users t @ [u']\<rparr>) w w')"
  by (auto simp: repo_defs guard_view user_inserted_fields split: call_splits
      dest!: user_table.Create_row) (blast intro: guard_changed)

lemma UCreate_duplicate_meets:
  "GORMUser_Create L G ctx u w = (Inl e, w') \<Longrightarrow> errors_Is e ErrDuplicatedKey \<Longrightarrow>
     \<exists>x \<in> set (seen_users view ctx w). user_clash u x"
  by (auto simp: repo_defs guard_view guard_no_duplicate split: call_splits
      dest!: user_table.Create_duplicate)

lemma UCreate_up_meets:
  assumes "up w" and "\<forall>x \<in> set (seen_users view ctx w). \<not> user_clash u x"
  shows "\<exists>w'. GORMUser_Create L G ctx u w = (Inr (User_ID u), w') \<and> up w'"
proof -
  obtain w1 where w1: "ctx_Err L ctx w = (None, w1)" "up w1" using guard_up [OF assms(1)] by blast
  with assms(2) obtain u' w2 where "g_Create (db_users G) (dbtx_Conn ctx Pool) u w1 = (Inr u', w2)" "up w2"
    using user_table.Create_up [of w1 "dbtx_Conn ctx Pool" u] by (auto simp: guard_view)
  with w1 user_table.Create_row [OF this(1)] show ?thesis
    by (auto simp: repo_defs user_inserted_fields)
qed

lemma UCreate_up_duplicate_meets:
  assumes "up w" and "x \<in> set (seen_users view ctx w)" and "user_clash u x"
  shows "\<exists>w'. GORMUser_Create L G ctx u w = (Inl ErrDuplicatedKey, w')"
proof -
  obtain w1 where w1: "ctx_Err L ctx w = (None, w1)" "up w1" using guard_up [OF assms(1)] by blast
  with assms user_table.Create_up_duplicate [of w1 x "dbtx_Conn ctx Pool" u] show ?thesis
    by (auto simp: repo_defs guard_view)
qed

lemma user_write_rows:
  "GORMUser_Update L G ctx i p w = (Inr (), w') \<Longrightarrow>
     \<exists>us. rows_rewritten (\<lambda>r. user_live r \<and> User_ID r = i) (user_updated p) (seen_users view ctx w) us
       \<and> ctx_changed view ctx (\<lambda>t. t\<lparr>users := us\<rparr>) w w'"
  "GORMUser_Delete L G ctx i w = (Inr (), w') \<Longrightarrow>
     \<exists>us. rows_rewritten (\<lambda>r. user_live r \<and> User_ID r = i) user_soft_deleted (seen_users view ctx w) us
       \<and> ctx_changed view ctx (\<lambda>t. t\<lparr>users := us\<rparr>) w w'"
  by (auto simp: repo_defs guard_view split: call_splits
      dest!: user_table.Updates_rows user_table.soft_Delete_rows) (blast intro: guard_changed)+

lemma user_write_up:
  assumes "up w"
  shows "GORMUser_Update L G ctx i p w = (ru, w') \<Longrightarrow> up w' \<and> ru = Inr ()"
    and "GORMUser_Delete L G ctx i w = (ru, w') \<Longrightarrow> up w' \<and> ru = Inr ()"
  using guard_up [OF assms, of ctx]
  by (auto simp: repo_defs split: call_splits dest: user_table.Updates_up user_table.soft_Delete_up)

end

sublocale gorm_platform \<subseteq> ur: user_repository "GORMUserRepository L G" view up
  by unfold_locales (simp_all only: GORMUserRepository_def UserRepository.simps, (fact lookup_frames
      lookup_results lookup_up user_write_errors UCreate_meets UCreate_duplicate_meets UCreate_up_meets
      UCreate_up_duplicate_meets user_write_rows user_write_up)+)

context gorm_platform
begin

lemma token_write_errors:
  "GORMToken_Create L G ctx tok w = (Inl e, w') \<Longrightarrow> same_views view w w'"
  "GORMToken_DeleteByUserID L G ctx i w = (Inl e, w') \<Longrightarrow> same_views view w w'"
  "GORMToken_DeleteByTokenHash L G ctx h w = (Inl e, w') \<Longrightarrow> same_views view w w'"
  "GORMToken_DeleteExpired L G ctx now w = (Inl e, w') \<Longrightarrow> same_views view w w'"
  by (auto simp: repo_defs split: call_splits dest!: guard_frame token_table.Create_error
      token_table.hard_Delete_error intro: same_views_trans)

lemma token_read_frames:
  "GORMToken_ListActiveByUserID L G ctx i now l off w = (ots, w') \<Longrightarrow> same_views view w w'"
  "GORMToken_CountActiveByUserID L G ctx i now w = (oc, w') \<Longrightarrow> same_views view w w'"
  by (auto simp: repo_defs split: call_splits dest!: guard_frame token_table.Find_frame
      token_table.Count_frame intro: same_views_trans)

lemma TCreate_meets:
  "GORMToken_Create L G ctx tok w = (Inr (), w') \<Longrightarrow>
     (\<forall>x \<in> set (seen_tokens view ctx w). \<not> token_clash tok x)
     \<and> (\<exists>t'. token_inserted tok t'
          \<and> ctx_changed view ctx (\<lambda>t. t\<lparr>refresh_tokens := refresh_tokens t @ [t']\<rparr>) w w')"
  by (auto simp: repo_defs guard_view split: call_splits dest!: token_table.Create_row)
    (blast intro: guard_changed)

lemma TCreate_up_meets:
  assumes "up w" and "\<forall>x \<in> set (seen_tokens view ctx w). \<not> token_clash tok x"
  shows "\<exists>w'. GORMToken_Create L G ctx tok w = (Inr (), w') \<and> up w'"
proof -
  obtain w1 where w1: "ctx_Err L ctx w = (None, w1)" "up w1" using guard_up [OF assms(1)] by blast
  with assms(2) obtain t' w2 where "g_Create (db_refresh_tokens G) (dbtx_Conn ctx Pool) tok w1 = (Inr t', w2)" "up w2"
    using token_table.Create_up [of w1 "dbtx_Conn ctx Pool" tok] by (auto simp: guard_view)
  with w1 show ?thesis by (auto simp: repo_defs)
qed

lemma TCreate_up_duplicate_meets:
  assumes "up w" and "x \<in> set (seen_tokens view ctx w)" and "token_clash tok x"
  shows "\<exists>e w'. GORMToken_Create L G ctx tok w = (Inl e, w') \<and> errors_Is e ErrDuplicatedKey"
proof -
  obtain w1 where w1: "ctx_Err L ctx w = (None, w1)" "up w1" using guard_up [OF assms(1)] by blast
  with assms token_table.Create_up_duplicate [of w1 x "dbtx_Conn ctx Pool" tok] show ?thesis
    by (auto simp: repo_defs guard_view ErrDuplicatedKey_def)
qed

lemma newest_first_total: "total_preorder newest_first"
  by (auto simp: total_preorder_def transp_def newest_first_def)

lemma ListActive_meets:
  "GORMToken_ListActiveByUserID L G ctx i now l off w = (Inr ts, w') \<Longrightarrow> 0 < l \<Longrightarrow> 0 \<le> off \<Longrightarrow>
     \<exists>xs. mset xs = mset (filter (token_active i now) (seen_tokens view ctx w)) \<and> sorted_wrt newest_first xs
       \<and> ts = window (nat off) (nat l) xs"
  by (auto simp: repo_defs guard_view split: call_splits dest!: token_table.Find_rows [OF _ newest_first_total])

lemma CountActive_meets:
  "GORMToken_CountActiveByUserID L G ctx i now w = (Inr n, w') \<Longrightarrow>
     n = int (length (filter (token_active i now) (seen_tokens view ctx w)))"
  by (auto simp: repo_defs guard_view split: call_splits dest!: token_table.Count_rows)

lemma token_delete_rows:
  "GORMToken_DeleteByUserID L G ctx i w = (Inr (), w') \<Longrightarrow>
     ctx_changed view ctx (\<lambda>t. t\<lparr>refresh_tokens := filter (\<lambda>r. RT_UserID r \<noteq> i) (refresh_tokens t)\<rparr>) w w'"
  "GORMToken_DeleteByTokenHash L G ctx h w = (Inr (), w') \<Longrightarrow>
     ctx_changed view ctx (\<lambda>t. t\<lparr>refresh_tokens := filter (\<lambda>r. RT_TokenHash r \<noteq> h) (refresh_tokens t)\<rparr>) w w'"
  "GORMToken_DeleteExpired L G ctx now w = (Inr n, w') \<Longrightarrow>
     n = int (length (filter (\<lambda>r. RT_ExpiresAt r < now) (seen_tokens view ctx w)))
     \<and> ctx_changed view ctx (\<lambda>t. t\<lparr>refresh_tokens := filter (\<lambda>r. \<not> RT_ExpiresAt r < now) (refresh_tokens t)\<rparr>) w w'"
  by (auto simp: repo_defs guard_view split: call_splits dest!: token_table.hard_Delete_rows
      intro: guard_changed)

lemma token_ops_up:
  assumes "up w"
  shows "GORMToken_ListActiveByUserID L G ctx i now l off w = (ots, w') \<Longrightarrow> up w' \<and> (\<exists>ts. ots = Inr ts)"
    and "GORMToken_CountActiveByUserID L G ctx i now w = (oc, w') \<Longrightarrow> up w' \<and> (\<exists>n. oc = Inr n)"
    and "GORMToken_DeleteByUserID L G ctx i w = (ru, w') \<Longrightarrow> up w' \<and> ru = Inr ()"
    and "GORMToken_DeleteByTokenHash L G ctx h w = (ru, w') \<Longrightarrow> up w' \<and> ru = Inr ()"
    and "GORMToken_DeleteExpired L G ctx now w = (oc, w') \<Longrightarrow> up w' \<and> (\<exists>n. oc = Inr n)"
  using guard_up [OF assms, of ctx]
  by (auto simp: repo_defs split: call_splits
      dest: token_table.Find_up token_table.Count_up token_table.hard_Delete_up)

end

sublocale gorm_platform \<subseteq> rtr: refresh_token_repository "GORMRefreshTokenRepository L G" view up
  by unfold_locales (simp_all only: GORMRefreshTokenRepository_def RefreshTokenRepository.simps, (fact
      lookup_frames lookup_results lookup_up token_write_errors token_read_frames TCreate_meets
      TCreate_up_meets TCreate_up_duplicate_meets ListActive_meets CountActive_meets token_delete_rows token_ops_up)+)

subsection \<open>Transactions\<close>

context gorm_platform
begin

lemma Transaction_error:
  assumes "gorm_Transaction G Pool fn w = (Inl e, w')"
    and "\<And>w r w'. fn Tx w = (r, w') \<Longrightarrow> view Pool w' = view Pool w"
  shows "view Pool w' = view Pool w"
  using assms by (auto simp: gorm_Transaction_def Rollback_view split: call_splits
      dest!: Begin_view Commit_error)

lemma Transaction_commit:
  assumes "gorm_Transaction G Pool fn w = (Inr a, w')"
  shows "\<exists>w1 w2. view Pool w1 = view Pool w \<and> view Tx w1 = view Pool w
    \<and> fn Tx w1 = (Inr a, w2) \<and> view Pool w' = view Tx w2"
  using assms by (auto simp: gorm_Transaction_def split: call_splits)
    (metis Begin_view Begin_tx Commit_ok)

lemma Transaction_up:
  assumes "up w"
  shows "\<exists>w1. up w1 \<and> view Pool w1 = view Pool w \<and> view Tx w1 = view Pool w
    \<and> (\<forall>a w2. fn Tx w1 = (Inr a, w2) \<longrightarrow> up w2 \<longrightarrow> (\<exists>w'. gorm_Transaction G Pool fn w = (Inr a, w') \<and> up w'))
    \<and> (\<forall>e w2. fn Tx w1 = (Inl e, w2) \<longrightarrow> (\<exists>w'. gorm_Transaction G Pool fn w = (Inl e, w')))"
proof -
  obtain w1 where w1: "db_Begin G w = (Inr (), w1)" "up w1"
    using Begin_up [OF assms] by (cases "db_Begin G w") auto
  have "\<exists>w'. gorm_Transaction G Pool fn w = (Inr a, w') \<and> up w'" if "fn Tx w1 = (Inr a, w2)" "up w2" for a w2
    using that w1 Commit_up [of w2] by (cases "db_Commit G w2") (auto simp: gorm_Transaction_def)
  moreover have "\<exists>w'. gorm_Transaction G Pool fn w = (Inl e, w')" if "fn Tx w1 = (Inl e, w2)" for e w2
    using that w1 by (auto simp: gorm_Transaction_def)
  ultimately show ?thesis using w1 Begin_view [OF w1(1)] Begin_tx [OF w1(1)] by blast
qed

end

sublocale gorm_platform \<subseteq> tm: tx_manager "GORMTxManager G" view up
proof unfold_locales
  fix ctx fn w w' and e :: go_error
  assume none: "dbtx_From ctx = None" and conf: "tx_confined view (fn (dbtx_Into ctx Tx))"
    and "TM_WithinTx (GORMTxManager G) ctx fn w = (Inl e, w')"
  then have "gorm_Transaction G Pool (\<lambda>tx. fn (dbtx_Into ctx tx)) w = (Inl e, w')"
    by (simp add: GORMTxManager_def GORMTx_WithinTx_def)
  then show "view Pool w' = view Pool w"
    by (rule Transaction_error) (use conf in \<open>auto simp: tx_confined_def\<close>)
next
  fix ctx fn w a w'
  assume "dbtx_From ctx = None" and "TM_WithinTx (GORMTxManager G) ctx fn w = (Inr a, w')"
  then show "\<exists>w1 w2. view Pool w1 = view Pool w \<and> view Tx w1 = view Pool w
      \<and> fn (dbtx_Into ctx Tx) w1 = (Inr a, w2) \<and> view Pool w' = view Tx w2"
    by (auto simp: GORMTxManager_def GORMTx_WithinTx_def dest!: Transaction_commit)
next
  fix ctx w and fn :: "Context \<Rightarrow> ('w, go_error, captured) effect"
  assume "dbtx_From ctx = None" and "up w"
  then show "\<exists>w1. up w1 \<and> view Pool w1 = view Pool w \<and> view Tx w1 = view Pool w
        \<and> (\<forall>a w2. fn (dbtx_Into ctx Tx) w1 = (Inr a, w2) \<longrightarrow> up w2 \<longrightarrow>
             (\<exists>w'. TM_WithinTx (GORMTxManager G) ctx fn w = (Inr a, w') \<and> up w'))
        \<and> (\<forall>e w2. fn (dbtx_Into ctx Tx) w1 = (Inl e, w2) \<longrightarrow>
             (\<exists>w'. TM_WithinTx (GORMTxManager G) ctx fn w = (Inl e, w')))"
    using Transaction_up [of w "\<lambda>tx. fn (dbtx_Into ctx tx)"]
    by (simp add: GORMTxManager_def GORMTx_WithinTx_def)
qed (simp add: GORMTxManager_def GORMTx_WithinTx_def)

end
