(* ===== verification/Token_Service.thy ===== *)
theory Token_Service
  imports Repository_Contracts Sha256
begin

text \<open>
  Package \<open>internal/service/token\<close>. The JWT library is a parameter (\<open>jwtlib\<close>);
  \<open>jwt_runtime\<close> states what the service relies on: which signatures \<open>ParseWithClaims\<close>
  accepts, that it enforces \<open>exp\<close>, and that a signed claims set reads back. The digest
  under which refresh tokens are stored is the real SHA-256.
\<close>

subsection \<open>Configuration, claims and the JWT library\<close>

record TokenConfig =
  AccessTokenSecret :: string
  AccessTokenExpiry :: duration
  RefreshTokenSecret :: string
  RefreshTokenExpiry :: duration

record TokenClaims =
  TC_UserID :: uuid
  TC_Email :: string
  TC_Name :: string
  TC_ID :: string
  TC_ExpiresAt :: "time option"
  TC_IssuedAt :: "time option"
  TC_Issuer :: string

text \<open>The dynamic type of \<open>token.Method\<close> as far as the key functions look at it.\<close>

datatype SigningMethod = SigningMethodHMAC string | OtherSigningMethod string

definition SigningMethodHS256 :: SigningMethod where
  "SigningMethodHS256 = SigningMethodHMAC ''HS256''"

record 'w jwtlib =
  jwt_NewNumericDate :: "time \<Rightarrow> time"
  jwt_SignedString :: "SigningMethod \<Rightarrow> TokenClaims \<Rightarrow> string \<Rightarrow> go_error + string"
  jwt_ParseWithClaims :: "string \<Rightarrow> (SigningMethod \<Rightarrow> go_error + string) \<Rightarrow> ('w, go_error, TokenClaims) effect"

text \<open>The interface.\<close>

record 'w TokenService =
  TS_GenerateAccessToken :: "uuid \<Rightarrow> string \<Rightarrow> string \<Rightarrow> ('w, go_error, string) effect"
  TS_GenerateRefreshToken :: "uuid \<Rightarrow> ('w, go_error, string) effect"
  TS_ValidateAccessToken :: "string \<Rightarrow> ('w, go_error, TokenClaims) effect"
  TS_ValidateRefreshToken :: "string \<Rightarrow> ('w, go_error, TokenClaims) effect"

subsection \<open>Operations\<close>

definition GenerateAccessToken ::
  "'w golib \<Rightarrow> 'w jwtlib \<Rightarrow> TokenConfig \<Rightarrow> uuid \<Rightarrow> string \<Rightarrow> string \<Rightarrow> ('w, go_error, string) effect" where
  "GenerateAccessToken L J config userID email name w =
     (let (now1, w1) = time_Now L w;
          (now2, w2) = time_Now L w1;
          claims = \<lparr>TC_UserID = userID, TC_Email = email, TC_Name = name, TC_ID = '''',
            TC_ExpiresAt = Some (jwt_NewNumericDate J (time_Add now1 (AccessTokenExpiry config))),
            TC_IssuedAt = Some (jwt_NewNumericDate J now2),
            TC_Issuer = ''go-vite-react''\<rparr>
      in (jwt_SignedString J SigningMethodHS256 claims (AccessTokenSecret config), w2))"

definition GenerateRefreshToken ::
  "'w golib \<Rightarrow> 'w jwtlib \<Rightarrow> TokenConfig \<Rightarrow> uuid \<Rightarrow> ('w, go_error, string) effect" where
  "GenerateRefreshToken L J config userID w =
     (let (now, w1) = time_Now L w;
          (i, w2) = uuid_New L w1;
          claims = \<lparr>TC_UserID = userID, TC_Email = '''', TC_Name = '''', TC_ID = uuid_String L i,
            TC_ExpiresAt = Some (jwt_NewNumericDate J (time_Add now (RefreshTokenExpiry config))),
            TC_IssuedAt = Some (jwt_NewNumericDate J now),
            TC_Issuer = ''go-vite-react''\<rparr>
      in (jwt_SignedString J SigningMethodHS256 claims (RefreshTokenSecret config), w2))"

text \<open>The key function of both validators: only the HMAC family gets the secret.\<close>

definition keyfunc :: "string \<Rightarrow> SigningMethod \<Rightarrow> go_error + string" where
  "keyfunc secret m =
     (case m of
        SigningMethodHMAC _ \<Rightarrow> Inr secret
      | OtherSigningMethod _ \<Rightarrow> Inl (errors_New ''invalid signing method''))"

definition ValidateAccessToken ::
  "'w jwtlib \<Rightarrow> TokenConfig \<Rightarrow> string \<Rightarrow> ('w, go_error, TokenClaims) effect" where
  "ValidateAccessToken J config tokenString w =
     (if tokenString = '''' then (Inl (errors_New ''token is empty''), w)
      else
        (case jwt_ParseWithClaims J tokenString (keyfunc (AccessTokenSecret config)) w of
           (Inl err, w1) \<Rightarrow> (Inl err, w1)
         | (Inr claims, w1) \<Rightarrow> (Inr claims, w1)))"

definition ValidateRefreshToken ::
  "'w jwtlib \<Rightarrow> TokenConfig \<Rightarrow> string \<Rightarrow> ('w, go_error, TokenClaims) effect" where
  "ValidateRefreshToken J config tokenString w =
     (if tokenString = '''' then (Inl (errors_New ''token is empty''), w)
      else
        (case jwt_ParseWithClaims J tokenString (keyfunc (RefreshTokenSecret config)) w of
           (Inl err, w1) \<Rightarrow> (Inl err, w1)
         | (Inr claims, w1) \<Rightarrow> (Inr claims, w1)))"

definition NewTokenService :: "'w golib \<Rightarrow> 'w jwtlib \<Rightarrow> TokenConfig \<Rightarrow> 'w TokenService" where
  "NewTokenService L J config = \<lparr>TS_GenerateAccessToken = GenerateAccessToken L J config,
     TS_GenerateRefreshToken = GenerateRefreshToken L J config,
     TS_ValidateAccessToken = ValidateAccessToken J config,
     TS_ValidateRefreshToken = ValidateRefreshToken J config\<rparr>"

definition Hash :: "string \<Rightarrow> string" where
  "Hash token = hex_EncodeToString (sha256_Sum256 (bytes token))"

subsection \<open>What a client of the interface relies on\<close>

text \<open>
  \<open>refresh_claims t cl\<close>: the refresh token \<open>t\<close> carries the claims \<open>cl\<close>. A token carries one
  set of claims; a minted one carries the user it was minted for and nothing else of
  the user.
\<close>

locale token_service =
  fixes TS :: "'w TokenService"
    and view :: "conn \<Rightarrow> 'w \<Rightarrow> tables"
    and up :: "'w \<Rightarrow> bool"
    and refresh_claims :: "string \<Rightarrow> TokenClaims \<Rightarrow> bool"
  assumes GenAccess_frame: "TS_GenerateAccessToken TS i em nm w = (st, w') \<Longrightarrow> same_views view w w'"
    and GenAccess_up: "up w \<Longrightarrow> TS_GenerateAccessToken TS i em nm w = (st, w') \<Longrightarrow> up w' \<and> (\<exists>t. st = Inr t)"
    and GenRefresh_frame: "TS_GenerateRefreshToken TS i w = (st, w') \<Longrightarrow> same_views view w w'"
    and GenRefresh_up: "up w \<Longrightarrow> TS_GenerateRefreshToken TS i w = (st, w') \<Longrightarrow> up w' \<and> (\<exists>t. st = Inr t)"
    and GenRefresh_claims: "TS_GenerateRefreshToken TS i w = (Inr t, w') \<Longrightarrow>
      \<exists>cl. refresh_claims t cl \<and> TC_UserID cl = i \<and> TC_Email cl = '''' \<and> TC_Name cl = ''''"
    and ValAccess_frame: "TS_ValidateAccessToken TS t w = (oc, w') \<Longrightarrow> same_views view w w'"
    and ValAccess_up: "up w \<Longrightarrow> TS_ValidateAccessToken TS t w = (oc, w') \<Longrightarrow> up w'"
    and ValRefresh_frame: "TS_ValidateRefreshToken TS t w = (oc, w') \<Longrightarrow> same_views view w w'"
    and ValRefresh_up: "up w \<Longrightarrow> TS_ValidateRefreshToken TS t w = (oc, w') \<Longrightarrow> up w'"
    and ValRefresh_claims: "TS_ValidateRefreshToken TS t w = (Inr cl, w') \<Longrightarrow> refresh_claims t cl"
    and refresh_claims_unique: "refresh_claims t cl \<Longrightarrow> refresh_claims t cl' \<Longrightarrow> cl' = cl"

subsection \<open>What the service relies on\<close>

text \<open>Claims whose text survives JSON unchanged: ASCII only.\<close>

definition ascii :: "string \<Rightarrow> bool" where
  "ascii s \<longleftrightarrow> list_all (\<lambda>c. (of_char c :: nat) < 128) s"

definition claims_plain :: "TokenClaims \<Rightarrow> bool" where
  "claims_plain cl \<longleftrightarrow> ascii (TC_Email cl) \<and> ascii (TC_Name cl) \<and> ascii (TC_ID cl) \<and> ascii (TC_Issuer cl)"

text \<open>
  \<open>verified m key t cl\<close>: \<open>t\<close> is a token with method \<open>m\<close> and claims \<open>cl\<close> whose signature is
  right for \<open>key\<close>. \<open>clock w\<close> is the wall clock; a call reads it at some moment between
  its start and its end, and time does not run backwards while random bytes are read.
  Parsing succeeds exactly for a token whose method the key function admits, whose
  signature verifies under the key it returns and whose \<open>exp\<close>, if present, lies in the
  future.
\<close>

locale jwt_runtime = go_runtime L view up pw_matches bcrypt_work
  for L :: "'w golib" and view and up and pw_matches and bcrypt_work +
  fixes J :: "'w jwtlib"
    and verified :: "SigningMethod \<Rightarrow> string \<Rightarrow> string \<Rightarrow> TokenClaims \<Rightarrow> bool"
    and clock :: "'w \<Rightarrow> time"
  assumes time_Now_clock: "time_Now L w = (now, w') \<Longrightarrow> clock w \<le> now \<and> now \<le> clock w'"
    and rand_Read_clock: "rand_Read L n w = (hr, w') \<Longrightarrow> clock w \<le> clock w'"
    and uuid_String_ascii: "ascii (uuid_String L i)"
    and NumericDate_truncates: "jwt_NewNumericDate J x \<le> x \<and> x < jwt_NewNumericDate J x + Second"
    and Sign_ok: "\<exists>t. jwt_SignedString J (SigningMethodHMAC alg) cl key = Inr t"
    and Sign_nonempty: "jwt_SignedString J m cl key = Inr t \<Longrightarrow> t \<noteq> ''''"
    and Sign_verified: "jwt_SignedString J m cl key = Inr t \<Longrightarrow> claims_plain cl \<Longrightarrow> verified m key t cl"
    and verified_unique: "verified m key t cl \<Longrightarrow> verified m' key' t cl' \<Longrightarrow> cl' = cl"
    and Parse_frame: "jwt_ParseWithClaims J t kf w = (oc, w') \<Longrightarrow> same_views view w w'"
    and Parse_up: "up w \<Longrightarrow> jwt_ParseWithClaims J t kf w = (oc, w') \<Longrightarrow> up w'"
    and Parse_sound: "jwt_ParseWithClaims J t kf w = (Inr cl, w') \<Longrightarrow>
      (\<exists>m key. kf m = Inr key \<and> verified m key t cl) \<and> (\<forall>ex. TC_ExpiresAt cl = Some ex \<longrightarrow> clock w < ex)"
    and Parse_complete: "verified m key t cl \<Longrightarrow> kf m = Inr key \<Longrightarrow> TC_ExpiresAt cl = Some ex \<Longrightarrow>
      jwt_ParseWithClaims J t kf w = (oc, w') \<Longrightarrow> clock w' < ex \<Longrightarrow> oc = Inr cl"
begin

lemma keyfunc_Inr [simp]: "keyfunc s m = Inr key \<longleftrightarrow> (\<exists>alg. m = SigningMethodHMAC alg) \<and> key = s"
  by (cases m) (auto simp: keyfunc_def)

lemmas token_defs = GenerateAccessToken_def GenerateRefreshToken_def ValidateAccessToken_def
  ValidateRefreshToken_def Let_def

lemma GenerateAccess_meets:
  "GenerateAccessToken L J config i em nm w = (st, w') \<Longrightarrow> same_views view w w'"
  "up w \<Longrightarrow> GenerateAccessToken L J config i em nm w = (st, w') \<Longrightarrow> up w' \<and> (\<exists>t. st = Inr t)"
  subgoal by (auto simp: token_defs split: prod.splits dest!: time_Now_frame intro: same_views_trans)
  subgoal using Sign_ok by (auto simp: token_defs SigningMethodHS256_def split: prod.splits dest: time_Now_up)
  done

lemma GenerateRefresh_meets:
  "GenerateRefreshToken L J config i w = (st, w') \<Longrightarrow> same_views view w w'"
  "up w \<Longrightarrow> GenerateRefreshToken L J config i w = (st, w') \<Longrightarrow> up w' \<and> (\<exists>t. st = Inr t)"
  subgoal by (auto simp: token_defs split: prod.splits dest!: time_Now_frame uuid_New_frame intro: same_views_trans)
  subgoal using Sign_ok by (auto simp: token_defs SigningMethodHS256_def split: prod.splits dest: time_Now_up uuid_New_up)
  done

lemma Validate_meets:
  "ValidateAccessToken J config t w = (oc, w') \<Longrightarrow> same_views view w w'"
  "up w \<Longrightarrow> ValidateAccessToken J config t w = (oc, w') \<Longrightarrow> up w'"
  "ValidateRefreshToken J config t w = (oc, w') \<Longrightarrow> same_views view w w'"
  "up w \<Longrightarrow> ValidateRefreshToken J config t w = (oc, w') \<Longrightarrow> up w'"
  by (auto simp: token_defs split: prod.splits sum.splits if_splits dest: Parse_frame Parse_up)

text \<open>Acceptance means an HMAC signature under the configured secret and an \<open>exp\<close> that has not passed.\<close>

lemma Validate_sound:
  "ValidateAccessToken J config t w = (Inr cl, w') \<Longrightarrow>
     (\<exists>alg. verified (SigningMethodHMAC alg) (AccessTokenSecret config) t cl)
     \<and> (\<forall>ex. TC_ExpiresAt cl = Some ex \<longrightarrow> clock w < ex)"
  "ValidateRefreshToken J config t w = (Inr cl, w') \<Longrightarrow>
     (\<exists>alg. verified (SigningMethodHMAC alg) (RefreshTokenSecret config) t cl)
     \<and> (\<forall>ex. TC_ExpiresAt cl = Some ex \<longrightarrow> clock w < ex)"
  by (auto simp: token_defs split: prod.splits sum.splits if_splits dest!: Parse_sound)

lemma GenerateAccess_claims:
  assumes "GenerateAccessToken L J config i em nm w = (Inr t, w')" and "ascii em" and "ascii nm"
  shows "\<exists>cl ex. t \<noteq> '''' \<and> verified SigningMethodHS256 (AccessTokenSecret config) t cl
    \<and> TC_UserID cl = i \<and> TC_Email cl = em \<and> TC_Name cl = nm \<and> TC_ExpiresAt cl = Some ex
    \<and> clock w + AccessTokenExpiry config < ex + Second \<and> ex \<le> clock w' + AccessTokenExpiry config"
proof -
  obtain now1 w1 now2 w2 where w: "time_Now L w = (now1, w1)" "time_Now L w1 = (now2, w2)"
    by (metis surj_pair)
  have "clock w \<le> now1" "now1 \<le> clock w2" using time_Now_clock [OF w(1)] time_Now_clock [OF w(2)] by simp_all
  with assms w NumericDate_truncates [of "time_Add now1 (AccessTokenExpiry config)"] show ?thesis
    by (force simp: token_defs claims_plain_def ascii_def time_Add_def
        dest: Sign_verified Sign_nonempty)
qed

lemma GenerateRefresh_claims:
  assumes "GenerateRefreshToken L J config i w = (Inr t, w')"
  shows "\<exists>cl ex. t \<noteq> '''' \<and> verified SigningMethodHS256 (RefreshTokenSecret config) t cl
    \<and> TC_UserID cl = i \<and> TC_Email cl = '''' \<and> TC_Name cl = '''' \<and> TC_ExpiresAt cl = Some ex
    \<and> clock w + RefreshTokenExpiry config < ex + Second"
proof -
  obtain now w1 u w2 where w: "time_Now L w = (now, w1)" "uuid_New L w1 = (u, w2)"
    by (metis surj_pair)
  have "clock w \<le> now" using time_Now_clock w(1) by blast
  with assms w NumericDate_truncates [of "time_Add now (RefreshTokenExpiry config)"]
    uuid_String_ascii [of u] show ?thesis
    by (force simp: token_defs claims_plain_def ascii_def time_Add_def
        dest: Sign_verified Sign_nonempty)
qed

lemma Validate_complete:
  assumes "verified SigningMethodHS256 key t cl" and "t \<noteq> ''''" and "TC_ExpiresAt cl = Some ex" and "clock w' < ex"
  shows "AccessTokenSecret config = key \<Longrightarrow> ValidateAccessToken J config t w = (oc, w') \<Longrightarrow> oc = Inr cl"
    and "RefreshTokenSecret config = key \<Longrightarrow> ValidateRefreshToken J config t w = (oc, w') \<Longrightarrow> oc = Inr cl"
  using assms Parse_complete [OF assms(1) _ assms(3) _ assms(4), of "keyfunc key"]
  by (auto simp: token_defs SigningMethodHS256_def split: prod.splits sum.splits)

end

sublocale jwt_runtime \<subseteq> ts: token_service "NewTokenService L J config" view up
  "\<lambda>t cl. \<exists>alg. verified (SigningMethodHMAC alg) (RefreshTokenSecret config) t cl"
proof (unfold_locales, simp_all only: NewTokenService_def TokenService.simps)
  show "\<exists>cl. (\<exists>alg. verified (SigningMethodHMAC alg) (RefreshTokenSecret config) t cl) \<and> TC_UserID cl = i
      \<and> TC_Email cl = '''' \<and> TC_Name cl = ''''" if "GenerateRefreshToken L J config i w = (Inr t, w')" for i w t w'
    using GenerateRefresh_claims [OF that] by (auto simp: SigningMethodHS256_def)
qed (fact GenerateAccess_meets GenerateRefresh_meets Validate_meets Validate_sound [THEN conjunct1]
    | blast dest: verified_unique)+

subsection \<open>The digest of a refresh token\<close>

lemma length_Hash: "length (Hash t) = 64"
  by (simp add: Hash_def length_hex_Encode length_sha256)

lemma Hash_nonempty: "Hash t \<noteq> ''''"
  using length_Hash [of t] by auto

end
