(* ===== verification/Csrf_Service.thy ===== *)
theory Csrf_Service
  imports Token_Service
begin

text \<open>
  Package \<open>internal/service/csrf\<close>: stateless tokens \<open>nonce.issuedAt.signature\<close>, each part
  in hexadecimal, the signature an HMAC-SHA256 of the two others. Only the clock and
  \<open>crypto/rand\<close> are parameters.
\<close>

definition clockSkew :: duration where "clockSkew = Minute"
definition nonceLength :: nat where "nonceLength = 32"

text \<open>The service: its secret and time-to-live; its clock is \<open>time_Now\<close> of the runtime.\<close>

record csrfService =
  csrf_secret :: "byte list"
  csrf_ttl :: duration

definition NewCSRFService :: "string \<Rightarrow> duration \<Rightarrow> csrfService" where
  "NewCSRFService secret ttl = \<lparr>csrf_secret = bytes secret, csrf_ttl = ttl\<rparr>"

definition csrf_sign :: "csrfService \<Rightarrow> byte list \<Rightarrow> byte list \<Rightarrow> byte list" where
  "csrf_sign s nonce issuedAt = hmac_sha256 (csrf_secret s) (nonce @ issuedAt)"

text \<open>The string \<open>GenerateToken\<close> assembles from a nonce and an issue time.\<close>

definition csrf_render :: "csrfService \<Rightarrow> byte list \<Rightarrow> byte list \<Rightarrow> string" where
  "csrf_render s nonce issuedAt =
     hex_EncodeToString nonce @ ''.'' @ hex_EncodeToString issuedAt @ ''.'' @
     hex_EncodeToString (csrf_sign s nonce issuedAt)"

definition csrf_GenerateToken :: "'w golib \<Rightarrow> csrfService \<Rightarrow> ('w, go_error, string) effect" where
  "csrf_GenerateToken L s w =
     (case rand_Read L nonceLength w of
        (Inl err, w1) \<Rightarrow> (Inl (Errorf ''generating CSRF nonce'' err), w1)
      | (Inr nonce, w1) \<Rightarrow>
          (let (now, w2) = time_Now L w1;
               issuedAt = PutUint64 (word_of_int (Unix_of now))
           in (Inr (csrf_render s nonce issuedAt), w2)))"

text \<open>\<open>ValidateToken\<close> up to the MAC check: the issue time of an authentic token. The clock is
  read only after the MAC has been verified.\<close>

definition csrf_authentic :: "csrfService \<Rightarrow> string \<Rightarrow> byte list option" where
  "csrf_authentic s token =
     (case strings_Split CHR ''.'' token of
        [p0, p1, p2] \<Rightarrow>
          (case hex_DecodeString p0 of
             None \<Rightarrow> None
           | Some nonce \<Rightarrow>
               if length nonce \<noteq> nonceLength then None
               else
                 (case hex_DecodeString p1 of
                    None \<Rightarrow> None
                  | Some issuedAt \<Rightarrow>
                      if length issuedAt \<noteq> 8 then None
                      else
                        (case hex_DecodeString p2 of
                           None \<Rightarrow> None
                         | Some signature \<Rightarrow>
                             if hmac_Equal signature (csrf_sign s nonce issuedAt) then Some issuedAt
                             else None)))
      | _ \<Rightarrow> None)"

definition csrf_fresh :: "csrfService \<Rightarrow> byte list \<Rightarrow> time \<Rightarrow> bool" where
  "csrf_fresh s issuedAt now =
     (let age = time_Sub now (time_Unix (sint (Uint64 issuedAt)))
      in - clockSkew \<le> age \<and> age \<le> csrf_ttl s)"

definition csrf_ValidateToken :: "'w golib \<Rightarrow> csrfService \<Rightarrow> string \<Rightarrow> 'w \<Rightarrow> bool \<times> 'w" where
  "csrf_ValidateToken L s token w =
     (case csrf_authentic s token of
        None \<Rightarrow> (False, w)
      | Some issuedAt \<Rightarrow> (let (now, w1) = time_Now L w in (csrf_fresh s issuedAt now, w1)))"

subsection \<open>Lemmas\<close>

lemma csrf_render_split:
  "strings_Split CHR ''.'' (csrf_render s nonce issuedAt) =
     [hex_EncodeToString nonce, hex_EncodeToString issuedAt, hex_EncodeToString (csrf_sign s nonce issuedAt)]"
  by (simp add: csrf_render_def hex_Encode_no_dot strings_Split_append strings_Split_none)

lemma csrf_authentic_render:
  assumes "length nonce = 32" and "length issuedAt = 8"
  shows "csrf_authentic s (csrf_render s nonce issuedAt) = Some issuedAt"
  using assms by (simp add: csrf_authentic_def csrf_render_split codec nonceLength_def hmac_Equal_def)

text \<open>Conversely an authentic token spells a nonce, an issue time and their MAC.\<close>

lemma csrf_authentic_shape:
  assumes "csrf_authentic s token = Some issuedAt"
  shows "\<exists>p0 p1 p2 nonce. strings_Split CHR ''.'' token = [p0, p1, p2]
    \<and> hex_DecodeString p0 = Some nonce \<and> length nonce = 32
    \<and> hex_DecodeString p1 = Some issuedAt \<and> length issuedAt = 8
    \<and> hex_DecodeString p2 = Some (csrf_sign s nonce issuedAt)"
  using assms
  by (auto simp: csrf_authentic_def nonceLength_def hmac_Equal_def
      split: list.splits option.splits if_splits)

lemma Uint64_issued: "is_int64 x \<Longrightarrow> sint (Uint64 (PutUint64 (word_of_int x))) = x"
  by (simp add: codec int_word_sint is_int64_def)

text \<open>Until the year 292277026596 the conversions to and from \<open>int64\<close> seconds lose nothing.\<close>

definition time_ok :: "time \<Rightarrow> bool" where
  "time_ok t \<longleftrightarrow> 0 \<le> t \<and> t < 2 ^ 62 * Second"

lemma time_Unix_issued:
  assumes "time_ok t"
  shows "time_Unix (sint (Uint64 (PutUint64 (word_of_int (Unix_of t))))) = Unix_of t * Second"
proof -
  have "0 \<le> Unix_of t" and "Unix_of t < 2 ^ 62"
    using assms unfolding time_ok_def Unix_of_def by (auto simp: div_less_iff_less_mult pos_imp_zdiv_nonneg_iff)
  then show ?thesis
    by (simp add: Uint64_issued is_int64_def time_Unix_small unixToInternal_def)
qed

text \<open>The lifetime in plain arithmetic, for a time-to-live a \<open>Duration\<close> can hold.\<close>

lemma csrf_fresh_iff:
  assumes "time_ok t" and "0 \<le> csrf_ttl s" and "csrf_ttl s < maxDuration"
  shows "csrf_fresh s (PutUint64 (word_of_int (Unix_of t))) now \<longleftrightarrow>
    Unix_of t * Second - Minute \<le> now \<and> now \<le> Unix_of t * Second + csrf_ttl s"
  using assms by (auto simp: csrf_fresh_def Let_def time_Unix_issued time_simps clockSkew_def)

end
