(* ===== verification/Reference_World.thy ===== *)
theory Reference_World
  imports Csrf_Service
begin

text \<open>
  A concrete instance of everything the repository imports: an in-memory database with
  one transaction at a time and injectable faults, a clock, a UUID counter, a toy password
  hash and a toy token format. It shows that the laws assumed of GORM, bcrypt, uuid and
  jwt can hold together, and it is the world in which theorems are evaluated on concrete
  inputs.
\<close>

subsection \<open>The world\<close>

text \<open>\<open>m_fault = Some n\<close> lets \<open>n\<close> more statements succeed; \<open>m_done\<close> is the state of the
  request context (\<open>Some True\<close>: deadline exceeded, \<open>Some False\<close>: canceled).\<close>

record mem =
  m_pool :: tables
  m_tx :: tables
  m_fault :: "nat option"
  m_done :: "bool option"
  m_now :: time
  m_next :: nat
  m_work :: nat
  m_once :: "byte list option"

definition no_rows :: tables where
  "no_rows = \<lparr>users = [], refresh_tokens = [], counters = [], messages = []\<rparr>"

definition mem0 :: mem where
  "mem0 = \<lparr>m_pool = no_rows, m_tx = no_rows, m_fault = None, m_done = None, m_now = 1700000000 * Second,
     m_next = 1, m_work = 0, m_once = None\<rparr>"

definition mem_view :: "conn \<Rightarrow> mem \<Rightarrow> tables" where
  "mem_view c w = (case c of Pool \<Rightarrow> m_pool w | Tx \<Rightarrow> m_tx w)"

definition mem_up :: "mem \<Rightarrow> bool" where
  "mem_up w \<longleftrightarrow> m_fault w = None \<and> m_done w = None"

definition mem_put :: "conn \<Rightarrow> tables \<Rightarrow> mem \<Rightarrow> mem" where
  "mem_put c t w = (case c of Pool \<Rightarrow> w\<lparr>m_pool := t\<rparr> | Tx \<Rightarrow> w\<lparr>m_tx := t\<rparr>)"

definition mem_stmt :: "(mem, go_error, 'a) effect \<Rightarrow> (mem, go_error, 'a) effect" where
  "mem_stmt f w =
     (case m_fault w of
        None \<Rightarrow> f w
      | Some 0 \<Rightarrow> (Inl (errors_New ''bad connection''), w)
      | Some (Suc n) \<Rightarrow> f (w\<lparr>m_fault := Some n\<rparr>))"

subsection \<open>Statements\<close>

fun insert_by :: "('r \<Rightarrow> 'r \<Rightarrow> bool) \<Rightarrow> 'r \<Rightarrow> 'r list \<Rightarrow> 'r list" where
  "insert_by le x [] = [x]"
| "insert_by le x (y # ys) = (if le x y then x # y # ys else y # insert_by le x ys)"

definition sort_by_rel :: "('r \<Rightarrow> 'r \<Rightarrow> bool) \<Rightarrow> 'r list \<Rightarrow> 'r list" where
  "sort_by_rel le xs = foldr (insert_by le) xs []"

definition mem_First :: "(tables \<Rightarrow> 'r list) \<Rightarrow> ('r \<Rightarrow> bool) \<Rightarrow> conn \<Rightarrow> ('r \<Rightarrow> bool) \<Rightarrow> (mem, go_error, 'r) effect" where
  "mem_First get live c p = mem_stmt (\<lambda>w.
     case find (\<lambda>r. live r \<and> p r) (get (mem_view c w)) of
       None \<Rightarrow> (Inl ErrRecordNotFound, w) | Some r \<Rightarrow> (Inr r, w))"

definition mem_Find :: "(tables \<Rightarrow> 'r list) \<Rightarrow> ('r \<Rightarrow> bool) \<Rightarrow> conn \<Rightarrow> ('r \<Rightarrow> bool) \<Rightarrow> ('r \<Rightarrow> 'r \<Rightarrow> bool)
    \<Rightarrow> int \<Rightarrow> int \<Rightarrow> (mem, go_error, 'r list) effect" where
  "mem_Find get live c p le l off = mem_stmt (\<lambda>w.
     (Inr (window (nat off) (nat l) (sort_by_rel le (filter (\<lambda>r. live r \<and> p r) (get (mem_view c w))))), w))"

definition mem_Count :: "(tables \<Rightarrow> 'r list) \<Rightarrow> ('r \<Rightarrow> bool) \<Rightarrow> conn \<Rightarrow> ('r \<Rightarrow> bool) \<Rightarrow> (mem, go_error, int) effect" where
  "mem_Count get live c p = mem_stmt (\<lambda>w.
     (Inr (int (length (filter (\<lambda>r. live r \<and> p r) (get (mem_view c w))))), w))"

definition mem_Create :: "(tables \<Rightarrow> 'r list) \<Rightarrow> ('r list \<Rightarrow> tables \<Rightarrow> tables) \<Rightarrow> ('r \<Rightarrow> 'r \<Rightarrow> bool)
    \<Rightarrow> (time \<Rightarrow> 'r \<Rightarrow> 'r) \<Rightarrow> conn \<Rightarrow> 'r \<Rightarrow> (mem, go_error, 'r) effect" where
  "mem_Create get put clash stamp c r = mem_stmt (\<lambda>w.
     let t = mem_view c w; r' = stamp (m_now w) r in
     if list_ex (clash r) (get t) then (Inl ErrDuplicatedKey, w)
     else (Inr r', mem_put c (put (get t @ [r']) t) w))"

text \<open>Rewrite the selected rows by \<open>f\<close>; \<open>None\<close> removes the row.\<close>

definition mem_Rewrite :: "(tables \<Rightarrow> 'r list) \<Rightarrow> ('r list \<Rightarrow> tables \<Rightarrow> tables) \<Rightarrow> ('r \<Rightarrow> bool)
    \<Rightarrow> (time \<Rightarrow> 'r \<Rightarrow> 'r option) \<Rightarrow> conn \<Rightarrow> ('r \<Rightarrow> bool) \<Rightarrow> (mem, go_error, int) effect" where
  "mem_Rewrite get put live f c p = mem_stmt (\<lambda>w.
     let t = mem_view c w; rs = get t in
     (Inr (int (length (filter (\<lambda>r. live r \<and> p r) rs))),
      mem_put c (put (List.map_filter (\<lambda>r. if live r \<and> p r then f (m_now w) r else Some r) rs) t) w))"

definition mem_Save :: "conn \<Rightarrow> CounterEntity \<Rightarrow> (mem, go_error, CounterEntity) effect" where
  "mem_Save c r = mem_stmt (\<lambda>w.
     let t = mem_view c w; r' = r\<lparr>Counter_UpdatedAt := m_now w\<rparr> in
     (Inr r', mem_put c (put_counters
       (if list_ex (counter_clash r) (counters t)
        then map (\<lambda>y. if Counter_ID y = Counter_ID r then r' else y) (counters t)
        else counters t @ [r']) t) w))"

definition mem_users :: "(mem, UserEntity) gorm_table" where
  "mem_users = \<lparr>
     g_Create = mem_Create users put_users user_clash (\<lambda>now r. r\<lparr>User_CreatedAt := now, User_UpdatedAt := now\<rparr>),
     g_First = mem_First users user_live, g_Find = mem_Find users user_live, g_Count = mem_Count users user_live,
     g_Updates = (\<lambda>c p q. mem_Rewrite users put_users user_live
       (\<lambda>now r. Some ((user_overlay q r)\<lparr>User_UpdatedAt := now\<rparr>)) c p),
     g_Delete = mem_Rewrite users put_users user_live (\<lambda>now r. Some (r\<lparr>User_DeletedAt := Some now\<rparr>)),
     g_Save = (\<lambda>c r w. (Inr r, w))\<rparr>"

definition mem_tokens :: "(mem, RefreshTokenEntity) gorm_table" where
  "mem_tokens = \<lparr>
     g_Create = mem_Create refresh_tokens put_refresh_tokens token_clash
       (\<lambda>now r. r\<lparr>RT_CreatedAt := now, RT_UpdatedAt := now\<rparr>),
     g_First = mem_First refresh_tokens (\<lambda>_. True), g_Find = mem_Find refresh_tokens (\<lambda>_. True),
     g_Count = mem_Count refresh_tokens (\<lambda>_. True), g_Updates = (\<lambda>c p q w. (Inr 0, w)),
     g_Delete = mem_Rewrite refresh_tokens put_refresh_tokens (\<lambda>_. True) (\<lambda>now r. None),
     g_Save = (\<lambda>c r w. (Inr r, w))\<rparr>"

definition mem_counters :: "(mem, CounterEntity) gorm_table" where
  "mem_counters = \<lparr>
     g_Create = mem_Create counters put_counters counter_clash
       (\<lambda>now r. r\<lparr>Counter_CreatedAt := now, Counter_UpdatedAt := now\<rparr>),
     g_First = mem_First counters (\<lambda>_. True), g_Find = mem_Find counters (\<lambda>_. True),
     g_Count = mem_Count counters (\<lambda>_. True), g_Updates = (\<lambda>c p q w. (Inr 0, w)),
     g_Delete = mem_Rewrite counters put_counters (\<lambda>_. True) (\<lambda>now r. None),
     g_Save = mem_Save\<rparr>"

definition mem_messages :: "(mem, MessageEntity) gorm_table" where
  "mem_messages = \<lparr>
     g_Create = mem_Create messages put_messages message_clash
       (\<lambda>now r. r\<lparr>Message_CreatedAt := now, Message_UpdatedAt := now\<rparr>),
     g_First = mem_First messages (\<lambda>_. True), g_Find = mem_Find messages (\<lambda>_. True),
     g_Count = mem_Count messages (\<lambda>_. True), g_Updates = (\<lambda>c p q w. (Inr 0, w)),
     g_Delete = mem_Rewrite messages put_messages (\<lambda>_. True) (\<lambda>now r. None),
     g_Save = (\<lambda>c r w. (Inr r, w))\<rparr>"

definition mem_db :: "mem gorm" where
  "mem_db = \<lparr>db_users = mem_users, db_refresh_tokens = mem_tokens, db_counters = mem_counters,
     db_messages = mem_messages,
     db_Begin = mem_stmt (\<lambda>w. (Inr (), w\<lparr>m_tx := m_pool w\<rparr>)),
     db_SavePoint = mem_stmt (\<lambda>w. (Inr (), w)), db_RollbackTo = id,
     db_Commit = mem_stmt (\<lambda>w. (Inr (), w\<lparr>m_pool := m_tx w\<rparr>)), db_Rollback = id\<rparr>"

subsection \<open>Runtime, random sources, password hashing\<close>

definition mem_uuid_String :: "uuid \<Rightarrow> string" where
  "mem_uuid_String u = hex_EncodeToString (be_bytes 16 (uint u))"

definition mem_uuid_Parse :: "string \<Rightarrow> go_error + uuid" where
  "mem_uuid_Parse s =
     (case hex_DecodeString s of
        Some bs \<Rightarrow> if length bs = 16 then Inr (word_of_int (be_int bs)) else Inl (errors_New ''invalid UUID length'')
      | None \<Rightarrow> Inl (errors_New ''invalid UUID format''))"

definition mem_bcrypt :: "string \<Rightarrow> byte list" where
  "mem_bcrypt p = 36 # bytes p"

definition mem_matches :: "byte list \<Rightarrow> string \<Rightarrow> bool" where
  "mem_matches h p \<longleftrightarrow> h = mem_bcrypt p"

definition mem_lib :: "mem golib" where
  "mem_lib = \<lparr>
     ctx_Err = (\<lambda>ctx w. (map_option (\<lambda>late. if late then DeadlineExceeded else Canceled) (m_done w), w)),
     time_Now = (\<lambda>w. (m_now w, w\<lparr>m_now := m_now w + 1\<rparr>)),
     uuid_New = (\<lambda>w. (of_nat (m_next w), w\<lparr>m_next := Suc (m_next w)\<rparr>)),
     uuid_String = mem_uuid_String, uuid_Parse = mem_uuid_Parse,
     rand_Read = (\<lambda>n w. (Inr (replicate n (of_nat (m_next w))), w\<lparr>m_next := Suc (m_next w)\<rparr>)),
     bcrypt_GenerateFromPassword = (\<lambda>p w.
       (if length p \<le> 72 then Inr (mem_bcrypt p) else Inl (errors_New ''bcrypt: password length exceeds 72 bytes''),
        w\<lparr>m_work := Suc (m_work w)\<rparr>)),
     bcrypt_CompareHashAndPassword = (\<lambda>h p w.
       (if mem_matches h p then None else Some (errors_New ''bcrypt: hashedPassword is not the hash of the given password''),
        w\<lparr>m_work := Suc (m_work w)\<rparr>)),
     once_get = m_once, once_set = (\<lambda>h w. w\<lparr>m_once := Some h\<rparr>)\<rparr>"

subsection \<open>Tokens\<close>

text \<open>A token is its method, key and claims in hexadecimal, separated by dots.\<close>

fun nat_bits :: "nat \<Rightarrow> string" where
  "nat_bits n = (if n = 0 then [] else (if odd n then CHR ''1'' else CHR ''0'') # nat_bits (n div 2))"

declare nat_bits.simps [simp del]

fun bits_nat :: "string \<Rightarrow> nat" where
  "bits_nat [] = 0"
| "bits_nat (c # s) = (if c = CHR ''1'' then 1 else 0) + 2 * bits_nat s"

definition put_date :: "time option \<Rightarrow> string" where
  "put_date d = (case d of None \<Rightarrow> ''n''
     | Some x \<Rightarrow> if x < 0 then CHR ''-'' # nat_bits (nat (- x)) else CHR ''+'' # nat_bits (nat x))"

definition get_date :: "string \<Rightarrow> time option" where
  "get_date s = (case s of c # r \<Rightarrow>
       if c = CHR ''-'' then Some (- int (bits_nat r)) else if c = CHR ''+'' then Some (int (bits_nat r)) else None
     | [] \<Rightarrow> None)"

definition put_method :: "SigningMethod \<Rightarrow> string" where
  "put_method m = (case m of SigningMethodHMAC s \<Rightarrow> CHR ''H'' # s | OtherSigningMethod s \<Rightarrow> CHR ''O'' # s)"

definition get_method :: "string \<Rightarrow> SigningMethod" where
  "get_method s = (case s of c # r \<Rightarrow> if c = CHR ''H'' then SigningMethodHMAC r else OtherSigningMethod r
     | [] \<Rightarrow> OtherSigningMethod [])"

definition put_field :: "string \<Rightarrow> string" where
  "put_field s = hex_EncodeToString (bytes s)"

definition get_field :: "string \<Rightarrow> string" where
  "get_field s = (case hex_DecodeString s of Some bs \<Rightarrow> map (\<lambda>b. char_of (unat b)) bs | None \<Rightarrow> [])"

definition mem_token :: "SigningMethod \<Rightarrow> TokenClaims \<Rightarrow> string \<Rightarrow> string" where
  "mem_token m cl key = strings_Join (map put_field [put_method m, key, mem_uuid_String (TC_UserID cl), TC_Email cl,
     TC_Name cl, TC_ID cl, put_date (TC_ExpiresAt cl), put_date (TC_IssuedAt cl), TC_Issuer cl]) ''.''"

definition mem_untoken :: "string \<Rightarrow> (SigningMethod \<times> string \<times> TokenClaims) option" where
  "mem_untoken t =
     (case map get_field (strings_Split CHR ''.'' t) of
        [m, key, u, em, nm, i, ex, ia, iss] \<Rightarrow>
          (case mem_uuid_Parse u of
             Inl _ \<Rightarrow> None
           | Inr uid \<Rightarrow> Some (get_method m, key,
               \<lparr>TC_UserID = uid, TC_Email = em, TC_Name = nm, TC_ID = i, TC_ExpiresAt = get_date ex,
                TC_IssuedAt = get_date ia, TC_Issuer = iss\<rparr>))
      | _ \<Rightarrow> None)"

definition mem_verified :: "SigningMethod \<Rightarrow> string \<Rightarrow> string \<Rightarrow> TokenClaims \<Rightarrow> bool" where
  "mem_verified m key t cl \<longleftrightarrow> mem_untoken t = Some (m, key, cl)"

definition mem_Parse :: "string \<Rightarrow> (SigningMethod \<Rightarrow> go_error + string) \<Rightarrow> (mem, go_error, TokenClaims) effect" where
  "mem_Parse t kf w =
     (case mem_untoken t of
        None \<Rightarrow> (Inl (errors_New ''token is malformed''), w)
      | Some (m, key, cl) \<Rightarrow>
          (case kf m of
             Inl e \<Rightarrow> (Inl (Errorf ''token is unverifiable'' e), w)
           | Inr k \<Rightarrow>
               if k \<noteq> key then (Inl (errors_New ''token signature is invalid''), w)
               else
                 (case TC_ExpiresAt cl of
                    Some ex \<Rightarrow> if m_now w < ex then (Inr cl, w) else (Inl (errors_New ''token is expired''), w)
                  | None \<Rightarrow> (Inr cl, w))))"

definition mem_jwt :: "mem jwtlib" where
  "mem_jwt = \<lparr>jwt_NewNumericDate = (\<lambda>x. x div Second * Second),
     jwt_SignedString = (\<lambda>m cl key. Inr (mem_token m cl key)),
     jwt_ParseWithClaims = mem_Parse\<rparr>"

subsection \<open>The statements keep the laws\<close>

lemma mem_put_view [simp]:
  "mem_view c (mem_put c t w) = t" "c' \<noteq> c \<Longrightarrow> mem_view c' (mem_put c t w) = mem_view c' w"
  "m_fault (mem_put c t w) = m_fault w" "m_done (mem_put c t w) = m_done w"
  by (auto simp: mem_view_def mem_put_def split: conn.splits)

lemma mem_view_aux [simp]:
  "mem_view c (w\<lparr>m_fault := f\<rparr>) = mem_view c w" "mem_view c (w\<lparr>m_now := n\<rparr>) = mem_view c w"
  "mem_view c (w\<lparr>m_next := k\<rparr>) = mem_view c w" "mem_view c (w\<lparr>m_work := k\<rparr>) = mem_view c w"
  "mem_view c (w\<lparr>m_once := h\<rparr>) = mem_view c w"
  by (simp_all add: mem_view_def split: conn.splits)

lemma mem_view_conn [simp]: "mem_view Pool w = m_pool w" "mem_view Tx w = m_tx w"
  by (simp_all add: mem_view_def)

text \<open>A statement either fails without a trace or runs its body on the same tables.\<close>

lemma mem_stmt_cases:
  assumes "mem_stmt f w = (r, w')"
  obtains "r = Inl (errors_New ''bad connection'')" "w' = w" "\<not> mem_up w"
  | w1 where "f w1 = (r, w')" "\<And>c. mem_view c w1 = mem_view c w" "mem_up w \<Longrightarrow> w1 = w"
      "m_pool w1 = m_pool w" "m_tx w1 = m_tx w" "m_now w1 = m_now w"
proof (cases "m_fault w")
  case None
  with assms have "f w = (r, w')" by (simp add: mem_stmt_def)
  with that(2) show ?thesis by blast
next
  case (Some n)
  then have down: "\<not> mem_up w" by (simp add: mem_up_def)
  show ?thesis
  proof (cases n)
    case 0
    with Some assms down that(1) show ?thesis by (simp add: mem_stmt_def)
  next
    case (Suc k)
    with Some assms have "f (w\<lparr>m_fault := Some k\<rparr>) = (r, w')" by (simp add: mem_stmt_def)
    with down that(2) show ?thesis by (metis mem_view_aux(1) mem_view_conn mem.select_convs(5) mem.surjective mem.update_convs(3))
  qed
qed

lemma mem_stmt_up [simp]: "mem_up w \<Longrightarrow> mem_stmt f w = f w"
  by (simp add: mem_stmt_def mem_up_def)

lemma mem_up_put [simp]: "mem_up (mem_put c t w) = mem_up w"
  by (simp add: mem_up_def)

lemma not_duplicate_fault [simp]:
  "\<not> errors_Is (errors_New s) ErrRecordNotFound" "\<not> errors_Is (errors_New s) ErrDuplicatedKey"
  "\<not> errors_Is ErrRecordNotFound ErrDuplicatedKey" "\<not> errors_Is ErrDuplicatedKey ErrRecordNotFound"
  by (simp_all add: errors_New_def std_error_defs)

lemma mset_insert_by [simp]: "mset (insert_by le x xs) = add_mset x (mset xs)"
  by (induction xs) auto

lemma sorted_insert_by: "total_preorder le \<Longrightarrow> sorted_wrt le xs \<Longrightarrow> sorted_wrt le (insert_by le x xs)"
proof (induction xs)
  case (Cons y ys)
  have "set (insert_by le x ys) = insert x (set ys)"
    by (metis mset_insert_by set_mset_add_mset_insert set_mset_mset)
  with Cons show ?case by (auto simp: total_preorder_def dest: transpD)
qed simp

lemma sort_by_rel_props:
  "mset (sort_by_rel le xs) = mset xs" "total_preorder le \<Longrightarrow> sorted_wrt le (sort_by_rel le xs)"
  by (induction xs) (auto simp: sort_by_rel_def sorted_insert_by)

lemma map_filter_None: "List.map_filter (\<lambda>r. if p r then None else Some r) rs = filter (\<lambda>r. \<not> p r) rs"
  by (induction rs) (auto simp: List.map_filter_def)

lemma map_filter_Some: "List.map_filter (\<lambda>r. if p r then Some (f r) else Some r) rs = map (\<lambda>r. if p r then f r else r) rs"
  by (induction rs) (auto simp: List.map_filter_def)

lemma rows_rewritten_map: "(\<And>r. step r (f r)) \<Longrightarrow> rows_rewritten p step rs (map (\<lambda>r. if p r then f r else r) rs)"
  by (simp add: rows_rewritten_def list_all2_map2 list_all2_same)

lemmas view_defs = same_views_def view_changed_def

lemma find_SomeD: "find p xs = Some x \<Longrightarrow> x \<in> set xs \<and> p x"
  by (auto simp: find_Some_iff)

lemma mem_First_laws:
  "mem_First get live c p w = (res, w') \<Longrightarrow> same_views mem_view w w'"
  "mem_First get live c p w = (Inr r, w') \<Longrightarrow> r \<in> set (get (mem_view c w)) \<and> live r \<and> p r"
  "mem_First get live c p w = (Inl e, w') \<Longrightarrow> errors_Is e ErrRecordNotFound \<Longrightarrow>
     r \<in> set (get (mem_view c w)) \<Longrightarrow> live r \<Longrightarrow> \<not> p r"
  "mem_up w \<Longrightarrow> mem_First get live c p w = (res, w') \<Longrightarrow>
     mem_up w' \<and> ((\<exists>x. res = Inr x) \<or> res = Inl ErrRecordNotFound)"
  unfolding mem_First_def
  by (auto elim!: mem_stmt_cases simp: view_defs find_None_iff split: option.splits dest!: find_SomeD)

lemma mem_Find_laws:
  "mem_Find get live c p le l off w = (fnd, w') \<Longrightarrow> same_views mem_view w w'"
  "mem_Find get live c p le l off w = (Inr rs, w') \<Longrightarrow> total_preorder le \<Longrightarrow> 0 < l \<Longrightarrow> 0 \<le> off \<Longrightarrow>
     \<exists>xs. mset xs = mset (filter (\<lambda>r. live r \<and> p r) (get (mem_view c w))) \<and> sorted_wrt le xs
       \<and> rs = window (nat off) (nat l) xs"
  "mem_up w \<Longrightarrow> mem_Find get live c p le l off w = (fnd, w') \<Longrightarrow> mem_up w' \<and> (\<exists>xs. fnd = Inr xs)"
  unfolding mem_Find_def
  subgoal by (auto elim!: mem_stmt_cases simp: view_defs)
  subgoal by (rule exI [of _ "sort_by_rel le (filter (\<lambda>r. live r \<and> p r) (get (mem_view c w)))"])
      (auto elim!: mem_stmt_cases simp: sort_by_rel_props)
  subgoal by (auto elim!: mem_stmt_cases)
  done

lemma mem_Count_laws:
  "mem_Count get live c p w = (cnt, w') \<Longrightarrow> same_views mem_view w w'"
  "mem_Count get live c p w = (Inr n, w') \<Longrightarrow> n = int (length (filter (\<lambda>r. live r \<and> p r) (get (mem_view c w))))"
  "mem_up w \<Longrightarrow> mem_Count get live c p w = (cnt, w') \<Longrightarrow> mem_up w' \<and> (\<exists>n. cnt = Inr n)"
  unfolding mem_Count_def by (auto elim!: mem_stmt_cases simp: view_defs)

lemma mem_Create_laws:
  "mem_Create get put clash stamp c r w = (Inl e, w') \<Longrightarrow> same_views mem_view w w'"
  "mem_Create get put clash stamp c r w = (Inl e, w') \<Longrightarrow> errors_Is e ErrDuplicatedKey \<Longrightarrow>
     \<exists>x \<in> set (get (mem_view c w)). clash r x"
  "(\<forall>now r. inserted r (stamp now r)) \<Longrightarrow> mem_Create get put clash stamp c r w = (Inr r', w') \<Longrightarrow>
     inserted r r' \<and> (\<forall>x \<in> set (get (mem_view c w)). \<not> clash r x)
     \<and> view_changed mem_view c (put (get (mem_view c w) @ [r']) (mem_view c w)) w w'"
  "mem_up w \<Longrightarrow> \<forall>x \<in> set (get (mem_view c w)). \<not> clash r x \<Longrightarrow>
     \<exists>r' w'. mem_Create get put clash stamp c r w = (Inr r', w') \<and> mem_up w'"
  "mem_up w \<Longrightarrow> x \<in> set (get (mem_view c w)) \<Longrightarrow> clash r x \<Longrightarrow>
     \<exists>w'. mem_Create get put clash stamp c r w = (Inl ErrDuplicatedKey, w')"
  unfolding mem_Create_def
  by (auto elim!: mem_stmt_cases simp: view_defs list_ex_iff Let_def split: if_splits)

lemma mem_Rewrite_laws:
  "mem_Rewrite get put live f c p w = (Inl e, w') \<Longrightarrow> same_views mem_view w w'"
  "mem_up w \<Longrightarrow> mem_Rewrite get put live f c p w = (cnt, w') \<Longrightarrow> mem_up w' \<and> (\<exists>n. cnt = Inr n)"
  "mem_Rewrite get put (\<lambda>_. True) (\<lambda>now r. None) c p w = (Inr n, w') \<Longrightarrow>
     n = int (length (filter p (get (mem_view c w))))
     \<and> view_changed mem_view c (put (filter (\<lambda>r. \<not> p r) (get (mem_view c w))) (mem_view c w)) w w'"
  unfolding mem_Rewrite_def
  by (auto elim!: mem_stmt_cases simp: view_defs Let_def map_filter_None)

lemma mem_Rewrite_rows:
  assumes "\<And>now r. step r (g now r)"
    and "mem_Rewrite get put live (\<lambda>now r. Some (g now r)) c p w = (Inr n, w')"
  shows "\<exists>rs. rows_rewritten (\<lambda>r. live r \<and> p r) step (get (mem_view c w)) rs
    \<and> view_changed mem_view c (put rs (mem_view c w)) w w'"
proof -
  let ?rs = "map (\<lambda>r. if live r \<and> p r then g (m_now w) r else r) (get (mem_view c w))"
  have "view_changed mem_view c (put ?rs (mem_view c w)) w w'"
    using assms(2) unfolding mem_Rewrite_def
    by (auto elim!: mem_stmt_cases simp: view_defs Let_def map_filter_Some cong: if_cong)
  moreover have "rows_rewritten (\<lambda>r. live r \<and> p r) step (get (mem_view c w)) ?rs"
    by (rule rows_rewritten_map) (rule assms(1))
  ultimately show ?thesis by blast
qed

lemma mem_Save_laws:
  "mem_Save c r w = (Inl e, w') \<Longrightarrow> same_views mem_view w w'"
  "mem_Save c r w = (Inr r', w') \<Longrightarrow> x \<in> set (counters (mem_view c w)) \<Longrightarrow> Counter_ID x = Counter_ID r \<Longrightarrow>
     (\<exists>t. r' = r\<lparr>Counter_UpdatedAt := t\<rparr>)
     \<and> view_changed mem_view c (put_counters
         (map (\<lambda>y. if Counter_ID y = Counter_ID r then r' else y) (counters (mem_view c w))) (mem_view c w)) w w'"
  "mem_up w \<Longrightarrow> mem_Save c r w = (cr, w') \<Longrightarrow> mem_up w' \<and> (\<exists>r'. cr = Inr r')"
  unfolding mem_Save_def
  by (auto 0 3 elim!: mem_stmt_cases simp: view_defs Let_def list_ex_iff counter_clash_def split: if_splits)

lemmas mem_laws = mem_First_laws mem_Find_laws mem_Count_laws mem_Create_laws(1,2,4,5)

lemma mem_inserted:
  "user_inserted u (u\<lparr>User_CreatedAt := now, User_UpdatedAt := now\<rparr>)"
  "token_inserted tk (tk\<lparr>RT_CreatedAt := now, RT_UpdatedAt := now\<rparr>)"
  "counter_inserted cr (cr\<lparr>Counter_CreatedAt := now, Counter_UpdatedAt := now\<rparr>)"
  "message_inserted msg (msg\<lparr>Message_CreatedAt := now, Message_UpdatedAt := now\<rparr>)"
  "user_updated q u ((user_overlay q u)\<lparr>User_UpdatedAt := now\<rparr>)"
  "user_soft_deleted u (u\<lparr>User_DeletedAt := Some now\<rparr>)"
  by (auto simp: user_inserted_def token_inserted_def counter_inserted_def message_inserted_def
      user_updated_def user_soft_deleted_def)

lemma mem_table_laws:
  assumes "g_Create T = mem_Create get put clash stamp" and "\<forall>now r. inserted r (stamp now r)"
    and "g_First T = mem_First get live" and "g_Find T = mem_Find get live" and "g_Count T = mem_Count get live"
  shows "gorm_table_laws T mem_view mem_up get put live clash inserted"
  by (unfold_locales, simp_all only: assms(1,3,4,5), (fact mem_laws mem_Create_laws(3) [OF assms(2)])+)

interpretation mem_users: gorm_soft_table mem_users mem_view mem_up users put_users user_live user_clash
  user_inserted user_updated user_soft_deleted
proof (rule gorm_soft_table.intro)
  show "gorm_table_laws mem_users mem_view mem_up users put_users user_live user_clash user_inserted"
    by (rule mem_table_laws) (auto simp: mem_users_def intro: mem_inserted)
  show "gorm_soft_table_axioms mem_users mem_view mem_up users put_users user_live user_updated user_soft_deleted"
    by (unfold_locales, simp_all only: mem_users_def gorm_table.simps, (fact mem_Rewrite_laws(1,2)
        mem_Rewrite_rows [of "user_updated _", OF mem_inserted(5)] mem_Rewrite_rows [of user_soft_deleted, OF mem_inserted(6)])+)
qed

lemma mem_hard_table:
  assumes "gorm_table_laws T mem_view mem_up get put (\<lambda>_. True) clash inserted"
    and "g_Delete T = mem_Rewrite get put (\<lambda>_. True) (\<lambda>now r. None)"
  shows "gorm_hard_table T mem_view mem_up get put (\<lambda>_. True) clash inserted"
proof (rule gorm_hard_table.intro [OF assms(1)])
  show "gorm_hard_table_axioms T mem_view mem_up get put (\<lambda>_. True)"
    by (unfold_locales, simp_all only: assms(2), (fact TrueI mem_Rewrite_laws)+)
qed

interpretation mem_tokens: gorm_hard_table mem_tokens mem_view mem_up refresh_tokens put_refresh_tokens "\<lambda>_. True"
  token_clash token_inserted
  by (rule mem_hard_table, rule mem_table_laws) (auto simp: mem_tokens_def intro: mem_inserted)

interpretation mem_counters: gorm_hard_table mem_counters mem_view mem_up counters put_counters "\<lambda>_. True"
  counter_clash counter_inserted
  by (rule mem_hard_table, rule mem_table_laws) (auto simp: mem_counters_def intro: mem_inserted)

interpretation mem_messages: gorm_hard_table mem_messages mem_view mem_up messages put_messages "\<lambda>_. True"
  message_clash message_inserted
  by (rule mem_hard_table, rule mem_table_laws) (auto simp: mem_messages_def intro: mem_inserted)

subsection \<open>The token format reads back\<close>

lemma bits_nat_bits [codec]: "bits_nat (nat_bits n) = n"
  by (induction n rule: nat_bits.induct) (subst nat_bits.simps, auto)

lemma get_put_date [codec]: "get_date (put_date d) = d"
  by (auto simp: get_date_def put_date_def codec split: option.splits)

lemma get_put_method [codec]: "get_method (put_method m) = m"
  by (cases m) (simp_all add: get_method_def put_method_def)

lemma char_of_byte: "char_of (unat (of_char c :: byte)) = c"
proof -
  have "(of_char c :: byte) = of_nat (of_char c :: nat)" by (simp add: of_nat_of_char)
  then have "unat (of_char c :: byte) = (of_char c :: nat)" by (simp add: unat_of_nat)
  then show ?thesis by simp
qed

lemma get_put_field [codec]: "get_field (put_field s) = s"
  by (simp add: get_field_def put_field_def codec bytes_def comp_def char_of_byte)

lemma Parse_uuid_String [codec]: "mem_uuid_Parse (mem_uuid_String u) = Inr u"
proof -
  have "uint u < 2 ^ 128" using uint_lt2p [of u] by simp
  then show ?thesis by (simp add: mem_uuid_Parse_def mem_uuid_String_def codec)
qed

lemma put_field_no_dot: "CHR ''.'' \<notin> set (put_field s)"
  by (simp add: put_field_def hex_Encode_no_dot)

lemma untoken_token [codec]: "mem_untoken (mem_token m cl key) = Some (m, key, cl)"
  by (simp add: mem_untoken_def mem_token_def strings_Split_append strings_Split_none put_field_no_dot codec)

lemma mem_token_nonempty: "mem_token m cl key \<noteq> []"
  by (simp add: mem_token_def)

lemma ascii_hex: "ascii (hex_EncodeToString bs)"
proof -
  have "\<forall>c \<in> set hextable. (of_char c :: nat) < 128" by (simp add: hextable_def)
  with hex_Encode_chars [of bs] show ?thesis by (auto simp: ascii_def list_all_iff)
qed

lemma mem_second: "x div Second * Second \<le> x \<and> x < x div Second * Second + Second"
  using Unix_of_bounds [of x] by (simp add: Unix_of_def)

subsection \<open>The reference world satisfies every law\<close>

interpretation mem: gorm_platform mem_lib mem_db mem_view mem_up mem_matches m_work
proof (intro gorm_platform.intro gorm_db.intro gorm_platform_axioms.intro)
  show "go_runtime mem_lib mem_view mem_up mem_matches m_work"
    by unfold_locales
      (auto simp: mem_lib_def view_defs mem_up_def mem_matches_def mem_bcrypt_def codec split: if_splits)
  show "gorm_soft_table (db_users mem_db) mem_view mem_up users put_users user_live user_clash user_inserted
      user_updated user_soft_deleted"
    unfolding mem_db_def gorm.simps by (rule mem_users.gorm_soft_table_axioms)
  show "gorm_hard_table (db_refresh_tokens mem_db) mem_view mem_up refresh_tokens put_refresh_tokens
      (\<lambda>_. True) token_clash token_inserted"
    unfolding mem_db_def gorm.simps by (rule mem_tokens.gorm_hard_table_axioms)
  show "gorm_hard_table (db_counters mem_db) mem_view mem_up counters put_counters
      (\<lambda>_. True) counter_clash counter_inserted"
    unfolding mem_db_def gorm.simps by (rule mem_counters.gorm_hard_table_axioms)
  show "gorm_hard_table (db_messages mem_db) mem_view mem_up messages put_messages
      (\<lambda>_. True) message_clash message_inserted"
    unfolding mem_db_def gorm.simps by (rule mem_messages.gorm_hard_table_axioms)
  have save: "g_Save (db_counters mem_db) = mem_Save" by (simp add: mem_db_def mem_counters_def)
  show "gorm_db_axioms mem_db mem_view mem_up"
    by unfold_locales (auto simp: save mem_Save_laws(2) dest: mem_Save_laws(1,3),
        auto simp: mem_db_def mem_up_def elim!: mem_stmt_cases)
  show "m_work w' = m_work w \<and> once_get mem_lib w' = once_get mem_lib w"
    if "g_First (db_users mem_db) c p w = (ou, w')" for c p w ou w'
    using that by (auto simp: mem_db_def mem_users_def mem_lib_def mem_First_def mem_stmt_def
        split: option.splits nat.splits)
qed

interpretation mem: jwt_runtime mem_lib mem_view mem_up mem_matches m_work mem_jwt mem_verified m_now
  using mem_second
  by unfold_locales
    (auto simp: mem_lib_def mem_jwt_def mem_verified_def mem_Parse_def mem_uuid_String_def ascii_hex codec
      mem_token_nonempty split: option.splits sum.splits if_splits)

end
