(* ===== verification/User_Service.thy ===== *)
theory User_Service
  imports Reference_World
begin

text \<open>
  Package \<open>internal/service/user\<close>: registration, login, refresh-token rotation with reuse
  detection, password change, account deletion, session listing, revocation and purging.
  The service is a record of the interfaces it was constructed with; the closures it
  passes to \<open>WithinTx\<close> are definitions of their own. Log lines are not part of the model.
\<close>

record 'w userService =
  userRepository :: "'w UserRepository"
  refreshTokenRepository :: "'w RefreshTokenRepository"
  tokenService :: "'w TokenService"
  txManager :: "'w TxManager"
  refreshTokenTTL :: duration

definition NewUserService ::
  "'w UserRepository \<Rightarrow> 'w RefreshTokenRepository \<Rightarrow> 'w TokenService \<Rightarrow> 'w TxManager \<Rightarrow> duration \<Rightarrow> 'w userService" where
  "NewUserService ur rtr ts tm ttl = \<lparr>userRepository = ur, refreshTokenRepository = rtr, tokenService = ts,
     txManager = tm, refreshTokenTTL = ttl\<rparr>"

subsection \<open>Issuing and revoking credentials\<close>

definition StoreRefreshToken ::
  "'w golib \<Rightarrow> 'w userService \<Rightarrow> Context \<Rightarrow> uuid \<Rightarrow> string \<Rightarrow> time \<Rightarrow> ('w, go_error, unit) effect" where
  "StoreRefreshToken L s ctx userID tokenStr expiresAt w =
     (case ctx_Err L ctx w of
        (Some err, w1) \<Rightarrow> (Inl err, w1)
      | (None, w1) \<Rightarrow>
          (let (i, w2) = uuid_New L w1;
               rec = \<lparr>RT_ID = i, RT_UserID = userID, RT_TokenHash = Hash tokenStr, RT_ExpiresAt = expiresAt,
                      RT_CreatedAt = zero_time, RT_UpdatedAt = zero_time\<rparr>
           in case RTR_Create (refreshTokenRepository s) ctx rec w2 of
                (Inl err, w3) \<Rightarrow> (Inl (Internal (Errorf ''storing refresh token'' err)), w3)
              | (Inr _, w3) \<Rightarrow> (Inr (), w3)))"

definition issueTokens ::
  "'w golib \<Rightarrow> 'w userService \<Rightarrow> Context \<Rightarrow> GetUser \<Rightarrow> ('w, go_error, captured) effect" where
  "issueTokens L s ctx user w =
     (case TS_GenerateAccessToken (tokenService s) (GU_ID user) (GU_Email user) (GU_Name user) w of
        (Inl err, w1) \<Rightarrow> (Inl (Internal (Errorf ''generating access token'' err)), w1)
      | (Inr accessToken, w1) \<Rightarrow>
          (case TS_GenerateRefreshToken (tokenService s) (GU_ID user) w1 of
             (Inl err, w2) \<Rightarrow> (Inl (Internal (Errorf ''generating refresh token'' err)), w2)
           | (Inr refreshToken, w2) \<Rightarrow>
               (let (now, w3) = time_Now L w2;
                    expiresAt = time_Add now (refreshTokenTTL s)
                in case StoreRefreshToken L s ctx (GU_ID user) refreshToken expiresAt w3 of
                     (Inl err, w4) \<Rightarrow> (Inl err, w4)
                   | (Inr _, w4) \<Rightarrow> (Inr (accessToken, refreshToken), w4))))"

definition RevokeRefreshTokens ::
  "'w golib \<Rightarrow> 'w userService \<Rightarrow> Context \<Rightarrow> uuid \<Rightarrow> ('w, go_error, unit) effect" where
  "RevokeRefreshTokens L s ctx userID w =
     (case ctx_Err L ctx w of
        (Some err, w1) \<Rightarrow> (Inl err, w1)
      | (None, w1) \<Rightarrow>
          (case RTR_DeleteByUserID (refreshTokenRepository s) ctx userID w1 of
             (Inl err, w2) \<Rightarrow> (Inl (Internal (Errorf ''revoking refresh tokens'' err)), w2)
           | (Inr _, w2) \<Rightarrow> (Inr (), w2)))"

definition PurgeExpiredRefreshTokens ::
  "'w golib \<Rightarrow> 'w userService \<Rightarrow> Context \<Rightarrow> ('w, go_error, int) effect" where
  "PurgeExpiredRefreshTokens L s ctx w =
     (case ctx_Err L ctx w of
        (Some err, w1) \<Rightarrow> (Inl err, w1)
      | (None, w1) \<Rightarrow>
          (let (now, w2) = time_Now L w1
           in case RTR_DeleteExpired (refreshTokenRepository s) ctx now w2 of
                (Inl err, w3) \<Rightarrow> (Inl (Internal (Errorf ''purging expired refresh tokens'' err)), w3)
              | (Inr removed, w3) \<Rightarrow> (Inr removed, w3)))"

subsection \<open>Registration\<close>

definition register_closure ::
  "'w golib \<Rightarrow> 'w userService \<Rightarrow> UserEntity \<Rightarrow> GetUser \<Rightarrow> Context \<Rightarrow> ('w, go_error, captured) effect" where
  "register_closure L s userEntity user ctx w =
     (case UR_Create (userRepository s) ctx userEntity w of
        (Inl createErr, w1) \<Rightarrow>
          if errors_Is createErr ErrDuplicatedKey then (Inl ErrUserAlreadyExists, w1)
          else (Inl (Internal (Errorf ''creating user'' createErr)), w1)
      | (Inr _, w1) \<Rightarrow> issueTokens L s ctx user w1)"

definition Register ::
  "'w golib \<Rightarrow> 'w userService \<Rightarrow> Context \<Rightarrow> RegisterUserRequest \<Rightarrow> ('w, go_error, RegisterResponse) effect" where
  "Register L s ctx req w =
     (case ctx_Err L ctx w of
        (Some err, w1) \<Rightarrow> (Inl err, w1)
      | (None, w1) \<Rightarrow>
          (case UR_FindByEmail (userRepository s) ctx (Reg_Email req) w1 of
             (Inl err, w2) \<Rightarrow> (Inl (Internal (Errorf ''checking existing user'' err)), w2)
           | (Inr (Some _), w2) \<Rightarrow> (Inl ErrUserAlreadyExists, w2)
           | (Inr None, w2) \<Rightarrow>
               (case bcrypt_GenerateFromPassword L (Reg_Password req) w2 of
                  (Inl err, w3) \<Rightarrow> (Inl (Internal (Errorf ''hashing password'' err)), w3)
                | (Inr hashedPassword, w3) \<Rightarrow>
                    (let (i, w4) = uuid_New L w3;
                         userEntity = zero_UserEntity\<lparr>User_ID := i, User_Email := Reg_Email req,
                           User_Password := hashedPassword, User_Name := Reg_Name req\<rparr>;
                         user = \<lparr>GU_ID = User_ID userEntity, GU_Email = User_Email userEntity,
                           GU_Name = User_Name userEntity\<rparr>
                     in case TM_WithinTx (txManager s) ctx (register_closure L s userEntity user) w4 of
                          (Inl err, w5) \<Rightarrow> (Inl err, w5)
                        | (Inr (accessToken, refreshToken), w5) \<Rightarrow>
                            (Inr \<lparr>RR_User = user, RR_AccessToken = accessToken,
                                  RR_RefreshToken = refreshToken\<rparr>, w5)))))"

subsection \<open>Login\<close>

text \<open>\<open>sync.OnceValue\<close>: the first call computes and stores the value, later calls return it.\<close>

definition dummyPasswordHash :: "'w golib \<Rightarrow> 'w \<Rightarrow> byte list \<times> 'w" where
  "dummyPasswordHash L w =
     (case once_get L w of
        Some hash \<Rightarrow> (hash, w)
      | None \<Rightarrow>
          (case bcrypt_GenerateFromPassword L ''timing-equalisation-placeholder'' w of
             (Inl err, w1) \<Rightarrow> ([], once_set L [] w1)
           | (Inr hash, w1) \<Rightarrow> (hash, once_set L hash w1)))"

definition Login ::
  "'w golib \<Rightarrow> 'w userService \<Rightarrow> Context \<Rightarrow> LoginRequest \<Rightarrow> ('w, go_error, LoginResponse) effect" where
  "Login L s ctx req w =
     (case ctx_Err L ctx w of
        (Some err, w1) \<Rightarrow> (Inl err, w1)
      | (None, w1) \<Rightarrow>
          (case UR_FindByEmail (userRepository s) ctx (Login_Email req) w1 of
             (Inl err, w2) \<Rightarrow> (Inl (Internal (Errorf ''finding user by email'' err)), w2)
           | (Inr None, w2) \<Rightarrow>
               (let (hash, w3) = dummyPasswordHash L w2;
                    (_, w4) = bcrypt_CompareHashAndPassword L hash (Login_Password req) w3
                in (Inl ErrInvalidCredentials, w4))
           | (Inr (Some user), w2) \<Rightarrow>
               (case bcrypt_CompareHashAndPassword L (User_Password user) (Login_Password req) w2 of
                  (Some err, w3) \<Rightarrow> (Inl ErrInvalidCredentials, w3)
                | (None, w3) \<Rightarrow>
                    (let authenticated = \<lparr>GU_ID = User_ID user, GU_Email = User_Email user, GU_Name = User_Name user\<rparr>
                     in case issueTokens L s ctx authenticated w3 of
                          (Inl err, w4) \<Rightarrow> (Inl err, w4)
                        | (Inr (accessToken, refreshToken), w4) \<Rightarrow>
                            (Inr \<lparr>LR_User = authenticated, LR_AccessToken = accessToken,
                                  LR_RefreshToken = refreshToken\<rparr>, w4)))))"

subsection \<open>Refresh\<close>

definition handleReuse ::
  "'w golib \<Rightarrow> 'w userService \<Rightarrow> Context \<Rightarrow> uuid \<Rightarrow> 'w \<Rightarrow> go_error \<times> 'w" where
  "handleReuse L s ctx userID w =
     (case RevokeRefreshTokens L s ctx userID w of (_, w1) \<Rightarrow> (ErrRefreshTokenRevoked, w1))"

definition rotate_closure ::
  "'w golib \<Rightarrow> 'w userService \<Rightarrow> string \<Rightarrow> TokenClaims \<Rightarrow> Context \<Rightarrow> ('w, go_error, captured) effect" where
  "rotate_closure L s tokenHash claims ctx w =
     (case RTR_DeleteByTokenHash (refreshTokenRepository s) ctx tokenHash w of
        (Inl delErr, w1) \<Rightarrow> (Inl (Internal (Errorf ''rotating refresh token'' delErr)), w1)
      | (Inr _, w1) \<Rightarrow>
          issueTokens L s ctx
            \<lparr>GU_ID = TC_UserID claims, GU_Email = TC_Email claims, GU_Name = TC_Name claims\<rparr> w1)"

definition Refresh ::
  "'w golib \<Rightarrow> 'w userService \<Rightarrow> Context \<Rightarrow> string \<Rightarrow> ('w, go_error, RefreshResponse) effect" where
  "Refresh L s ctx refreshToken w =
     (case ctx_Err L ctx w of
        (Some err, w1) \<Rightarrow> (Inl err, w1)
      | (None, w1) \<Rightarrow>
          (case TS_ValidateRefreshToken (tokenService s) refreshToken w1 of
             (Inl err, w2) \<Rightarrow> (Inl (WithCause ErrInvalidRefreshToken err), w2)
           | (Inr claims, w2) \<Rightarrow>
               (let tokenHash = Hash refreshToken
                in case RTR_FindByTokenHash (refreshTokenRepository s) ctx tokenHash w2 of
                     (Inl err, w3) \<Rightarrow> (Inl (Internal (Errorf ''verifying refresh token'' err)), w3)
                   | (Inr None, w3) \<Rightarrow>
                       (let (err, w4) = handleReuse L s ctx (TC_UserID claims) w3 in (Inl err, w4))
                   | (Inr (Some stored), w3) \<Rightarrow>
                       (let (now, w4) = time_Now L w3
                        in if time_Before (RT_ExpiresAt stored) now then
                             (let (_, w5) = RTR_DeleteByTokenHash (refreshTokenRepository s) ctx tokenHash w4
                              in (Inl ErrRefreshTokenExpired, w5))
                           else
                             (case TM_WithinTx (txManager s) ctx (rotate_closure L s tokenHash claims) w4 of
                                (Inl err, w5) \<Rightarrow> (Inl err, w5)
                              | (Inr (accessToken, newRefreshToken), w5) \<Rightarrow>
                                  (Inr \<lparr>RF_AccessToken = accessToken, RF_RefreshToken = newRefreshToken\<rparr>, w5))))))"

definition GetUser_service ::
  "'w golib \<Rightarrow> 'w userService \<Rightarrow> Context \<Rightarrow> string \<Rightarrow> ('w, go_error, GetUser) effect" where
  "GetUser_service L s ctx userID w =
     (case ctx_Err L ctx w of
        (Some err, w1) \<Rightarrow> (Inl err, w1)
      | (None, w1) \<Rightarrow>
          (case uuid_Parse L userID of
             Inl err \<Rightarrow> (Inl (WithCause ErrInvalidUserID err), w1)
           | Inr i \<Rightarrow>
               (case UR_FindByID (userRepository s) ctx i w1 of
                  (Inl err, w2) \<Rightarrow> (Inl (Internal (Errorf ''finding user by id'' err)), w2)
                | (Inr None, w2) \<Rightarrow> (Inl ErrUserNotFound, w2)
                | (Inr (Some user), w2) \<Rightarrow>
                    (Inr \<lparr>GU_ID = User_ID user, GU_Email = User_Email user, GU_Name = User_Name user\<rparr>, w2))))"

subsection \<open>Password change and account deletion\<close>

definition change_password_closure ::
  "'w golib \<Rightarrow> 'w userService \<Rightarrow> uuid \<Rightarrow> UserEntity \<Rightarrow> byte list \<Rightarrow> Context \<Rightarrow> ('w, go_error, captured) effect" where
  "change_password_closure L s userID user hashed ctx w =
     (case UR_Update (userRepository s) ctx userID (zero_UserEntity\<lparr>User_Password := hashed\<rparr>) w of
        (Inl updateErr, w1) \<Rightarrow> (Inl (Internal (Errorf ''updating password'' updateErr)), w1)
      | (Inr _, w1) \<Rightarrow>
          (case RevokeRefreshTokens L s ctx userID w1 of
             (Inl revokeErr, w2) \<Rightarrow> (Inl revokeErr, w2)
           | (Inr _, w2) \<Rightarrow>
               issueTokens L s ctx \<lparr>GU_ID = User_ID user, GU_Email = User_Email user, GU_Name = User_Name user\<rparr> w2))"

definition ChangePassword ::
  "'w golib \<Rightarrow> 'w userService \<Rightarrow> Context \<Rightarrow> uuid \<Rightarrow> ChangePasswordRequest
    \<Rightarrow> ('w, go_error, ChangePasswordResponse) effect" where
  "ChangePassword L s ctx userID req w =
     (case ctx_Err L ctx w of
        (Some err, w1) \<Rightarrow> (Inl err, w1)
      | (None, w1) \<Rightarrow>
          (case UR_FindByID (userRepository s) ctx userID w1 of
             (Inl err, w2) \<Rightarrow> (Inl (Internal (Errorf ''finding user by id'' err)), w2)
           | (Inr None, w2) \<Rightarrow> (Inl ErrInvalidCredentials, w2)
           | (Inr (Some user), w2) \<Rightarrow>
               (case bcrypt_CompareHashAndPassword L (User_Password user) (CurrentPassword req) w2 of
                  (Some err, w3) \<Rightarrow> (Inl ErrInvalidCredentials, w3)
                | (None, w3) \<Rightarrow>
                    (case bcrypt_GenerateFromPassword L (NewPassword req) w3 of
                       (Inl err, w4) \<Rightarrow> (Inl (Internal (Errorf ''hashing new password'' err)), w4)
                     | (Inr hashed, w4) \<Rightarrow>
                         (case TM_WithinTx (txManager s) ctx (change_password_closure L s userID user hashed) w4 of
                            (Inl err, w5) \<Rightarrow> (Inl err, w5)
                          | (Inr (accessToken, refreshToken), w5) \<Rightarrow>
                              (Inr \<lparr>CP_AccessToken = accessToken, CP_RefreshToken = refreshToken\<rparr>, w5))))))"

definition delete_account_closure ::
  "'w golib \<Rightarrow> 'w userService \<Rightarrow> uuid \<Rightarrow> Context \<Rightarrow> ('w, go_error, captured) effect" where
  "delete_account_closure L s userID ctx w =
     (case RevokeRefreshTokens L s ctx userID w of
        (Inl revokeErr, w1) \<Rightarrow> (Inl revokeErr, w1)
      | (Inr _, w1) \<Rightarrow>
          (case UR_Delete (userRepository s) ctx userID w1 of
             (Inl delErr, w2) \<Rightarrow> (Inl (Internal (Errorf ''deleting user'' delErr)), w2)
           | (Inr _, w2) \<Rightarrow> (Inr ('''', ''''), w2)))"

definition DeleteAccount ::
  "'w golib \<Rightarrow> 'w userService \<Rightarrow> Context \<Rightarrow> uuid \<Rightarrow> ('w, go_error, unit) effect" where
  "DeleteAccount L s ctx userID w =
     (case ctx_Err L ctx w of
        (Some err, w1) \<Rightarrow> (Inl err, w1)
      | (None, w1) \<Rightarrow>
          (case UR_FindByID (userRepository s) ctx userID w1 of
             (Inl err, w2) \<Rightarrow> (Inl (Internal (Errorf ''finding user by id'' err)), w2)
           | (Inr None, w2) \<Rightarrow> (Inl ErrUserNotFound, w2)
           | (Inr (Some user), w2) \<Rightarrow>
               (case TM_WithinTx (txManager s) ctx (delete_account_closure L s userID) w2 of
                  (Inl err, w3) \<Rightarrow> (Inl err, w3)
                | (Inr _, w3) \<Rightarrow> (Inr (), w3))))"

subsection \<open>Sessions\<close>

text \<open>The loop body: what a row shows of itself.\<close>

definition session_of :: "string \<Rightarrow> RefreshTokenEntity \<Rightarrow> Session" where
  "session_of currentHash row = \<lparr>Session_ID = RT_ID row,
     Session_Current = (currentHash \<noteq> '''' \<and> RT_TokenHash row = currentHash),
     Session_CreatedAt = RT_CreatedAt row, Session_ExpiresAt = RT_ExpiresAt row\<rparr>"

definition ListSessions ::
  "'w golib \<Rightarrow> 'w userService \<Rightarrow> Context \<Rightarrow> uuid \<Rightarrow> string \<Rightarrow> Pagination \<Rightarrow> ('w, go_error, SessionList) effect" where
  "ListSessions L s ctx userID currentRefreshToken page w =
     (case ctx_Err L ctx w of
        (Some err, w1) \<Rightarrow> (Inl err, w1)
      | (None, w1) \<Rightarrow>
          (let win = Normalized page; (now, w2) = time_Now L w1
           in case RTR_CountActiveByUserID (refreshTokenRepository s) ctx userID now w2 of
                (Inl err, w3) \<Rightarrow> (Inl (Internal (Errorf ''counting active sessions'' err)), w3)
              | (Inr tot, w3) \<Rightarrow>
                  (case RTR_ListActiveByUserID (refreshTokenRepository s) ctx userID now (Limit win) (Offset win) w3 of
                     (Inl err, w4) \<Rightarrow> (Inl (Internal (Errorf ''listing active sessions'' err)), w4)
                   | (Inr rows, w4) \<Rightarrow>
                       (let currentHash = (if currentRefreshToken \<noteq> '''' then Hash currentRefreshToken else '''')
                        in (Inr \<lparr>SL_Sessions = map (session_of currentHash) rows,
                                  SL_Meta = NewMeta (Page win) (Limit win) tot\<rparr>, w4)))))"

end
