(* ===== verification/User_Laws.thy ===== *)
theory User_Laws
  imports User_Service
begin

text \<open>
  What the operations of the user service do to the tables. The locale \<open>user_service\<close>
  states everything the service relies on: the contracts of its repositories, of the token
  service and of the transaction manager. The lemmas describe each operation by its effect
  on the committed tables; the sublocale at the end connects them to the GORM repositories
  and the JWT token service.
\<close>

text \<open>A row that records token \<open>t\<close> of user \<open>i\<close>, and the tables with a row added.\<close>

definition session_row :: "uuid \<Rightarrow> string \<Rightarrow> time \<Rightarrow> RefreshTokenEntity \<Rightarrow> bool" where
  "session_row i t ex row \<longleftrightarrow> RT_UserID row = i \<and> RT_TokenHash row = Hash t \<and> RT_ExpiresAt row = ex"

definition add_token :: "RefreshTokenEntity \<Rightarrow> tables \<Rightarrow> tables" where
  "add_token row t = t\<lparr>refresh_tokens := refresh_tokens t @ [row]\<rparr>"

definition drop_tokens :: "(RefreshTokenEntity \<Rightarrow> bool) \<Rightarrow> tables \<Rightarrow> tables" where
  "drop_tokens p t = t\<lparr>refresh_tokens := filter (\<lambda>r. \<not> p r) (refresh_tokens t)\<rparr>"

definition add_user :: "UserEntity \<Rightarrow> tables \<Rightarrow> tables" where
  "add_user u t = t\<lparr>users := users t @ [u]\<rparr>"

definition registered :: "(byte list \<Rightarrow> string \<Rightarrow> bool) \<Rightarrow> RegisterUserRequest \<Rightarrow> uuid \<Rightarrow> UserEntity \<Rightarrow> bool" where
  "registered pw_matches req i u \<longleftrightarrow> User_ID u = i \<and> User_Email u = Reg_Email req \<and> User_Name u = Reg_Name req
     \<and> pw_matches (User_Password u) (Reg_Password req) \<and> user_live u"

lemma table_ops [simp]:
  "users (add_token row t) = users t" "refresh_tokens (add_token row t) = refresh_tokens t @ [row]"
  "users (drop_tokens p t) = users t" "refresh_tokens (drop_tokens p t) = filter (\<lambda>r. \<not> p r) (refresh_tokens t)"
  "users (add_user u t) = users t @ [u]" "refresh_tokens (add_user u t) = refresh_tokens t"
  by (simp_all add: add_token_def drop_tokens_def add_user_def)

text \<open>Calls that leave the tables alone can be dropped in front of one that changes them.\<close>

lemma changed_after:
  "same_views view w w1 \<Longrightarrow> view_changed view c (f (view c w1)) w1 w' \<Longrightarrow> view_changed view c (f (view c w)) w w'"
  by (simp add: same_views_def view_changed_def)

locale user_service =
  go_runtime L view up pw_matches bcrypt_work +
  ur: user_repository "userRepository s" view up +
  rtr: refresh_token_repository "refreshTokenRepository s" view up +
  ts: token_service "tokenService s" view up refresh_claims +
  tm: tx_manager "txManager s" view up
  for L :: "'w golib" and s :: "'w userService" and view and up and pw_matches and bcrypt_work
    and refresh_claims +
  assumes FindByEmail_bcrypt: "UR_FindByEmail (userRepository s) ctx email w = (ou, w') \<Longrightarrow>
      bcrypt_work w' = bcrypt_work w \<and> once_get L w' = once_get L w"
begin

lemmas call_splits = prod.splits option.splits sum.splits if_splits

lemmas runtime_frames = ctx_Err_frame [THEN conjunct1] time_Now_frame [THEN conjunct1] uuid_New_frame
  Generate_frame [THEN conjunct1] Compare_frame [THEN conjunct1]

lemmas read_frames = ur.FindByID_frame ur.FindByEmail_frame rtr.FindByTokenHash_frame rtr.ListActive_frame
  rtr.CountActive_frame ts.GenAccess_frame ts.GenRefresh_frame ts.ValRefresh_frame

lemmas write_errors = ur.UCreate_error ur.Update_error ur.UDelete_error rtr.TCreate_error
  rtr.DeleteByUserID_error rtr.DeleteByTokenHash_error rtr.DeleteExpired_error

lemma guard_up: "up w \<Longrightarrow> \<exists>w1. ctx_Err L ctx w = (None, w1) \<and> up w1"
  using ctx_Err_up by (cases "ctx_Err L ctx w") blast

lemma errors_Is_Internal: "errors_Is e ErrDuplicatedKey \<Longrightarrow> errors_Is (Internal (Errorf p e)) ErrDuplicatedKey"
  by (simp add: Internal_def WithCause_def ErrInternal_def New_var_def ErrDuplicatedKey_def)

subsection \<open>Issuing and revoking\<close>

lemma Store_error: "StoreRefreshToken L s ctx i t ex w = (Inl e, w') \<Longrightarrow> same_views view w w'"
  by (auto simp: StoreRefreshToken_def Let_def split: call_splits dest!: runtime_frames write_errors
      intro: same_views_trans)

lemma Store_ok:
  assumes "StoreRefreshToken L s ctx i t ex w = (Inr (), w')"
  shows "\<exists>row. session_row i t ex row \<and> (\<forall>x \<in> set (seen_tokens view ctx w). \<not> token_clash row x)
    \<and> ctx_changed view ctx (add_token row) w w'"
proof -
  obtain w1 u w2 tok where w: "ctx_Err L ctx w = (None, w1)" "uuid_New L w1 = (u, w2)"
    and tok: "tok = \<lparr>RT_ID = u, RT_UserID = i, RT_TokenHash = Hash t, RT_ExpiresAt = ex,
      RT_CreatedAt = zero_time, RT_UpdatedAt = zero_time\<rparr>"
    and cr: "RTR_Create (refreshTokenRepository s) ctx tok w2 = (Inr (), w')"
    using assms by (auto simp: StoreRefreshToken_def Let_def split: call_splits)
  have same: "same_views view w w2" using w by (blast dest: runtime_frames intro: same_views_trans)
  from rtr.TCreate_row [OF cr] obtain row where row: "token_inserted tok row"
    "\<forall>x \<in> set (seen_tokens view ctx w2). \<not> token_clash tok x"
    "ctx_changed view ctx (add_token row) w2 w'" unfolding add_token_def by blast
  have "session_row i t ex row" "\<And>x. token_clash row x = token_clash tok x"
    using token_inserted_fields [OF row(1)] tok by (auto simp: session_row_def token_clash_def)
  with row(2) changed_after [where f = "add_token row", OF same row(3)] same_viewsD [OF same] show ?thesis by auto
qed

lemma Store_up:
  assumes "up w" and "StoreRefreshToken L s ctx i t ex w = (ru, w')"
  shows "(ru = Inr () \<and> up w') \<or> (\<exists>e. ru = Inl e \<and> errors_Is e ErrDuplicatedKey)"
proof -
  obtain w1 u w2 where w: "ctx_Err L ctx w = (None, w1)" "uuid_New L w1 = (u, w2)" "up w2"
    using guard_up [OF assms(1)] uuid_New_up by (metis surj_pair)
  let ?tok = "\<lparr>RT_ID = u, RT_UserID = i, RT_TokenHash = Hash t, RT_ExpiresAt = ex,
      RT_CreatedAt = zero_time, RT_UpdatedAt = zero_time\<rparr>"
  from assms(2) w rtr.TCreate_up [OF w(3), of ctx ?tok] rtr.TCreate_up_duplicate [OF w(3), of _ ctx ?tok]
  show ?thesis
    by (auto simp: StoreRefreshToken_def Let_def split: call_splits intro: errors_Is_Internal)
qed

lemma issue_error: "issueTokens L s ctx user w = (Inl e, w') \<Longrightarrow> same_views view w w'"
  by (auto simp: issueTokens_def Let_def split: call_splits dest!: runtime_frames read_frames Store_error
      intro: same_views_trans)

lemma issue_ok:
  assumes "issueTokens L s ctx user w = (Inr (a, r), w')"
  shows "\<exists>row ex cl. session_row (GU_ID user) r ex row \<and> refresh_claims r cl \<and> TC_UserID cl = GU_ID user
    \<and> TC_Email cl = '''' \<and> TC_Name cl = ''''
    \<and> (\<forall>x \<in> set (seen_tokens view ctx w). \<not> token_clash row x)
    \<and> ctx_changed view ctx (add_token row) w w'"
proof -
  obtain w1 w2 now w3 ex where w: "TS_GenerateAccessToken (tokenService s) (GU_ID user) (GU_Email user) (GU_Name user) w = (Inr a, w1)"
    "TS_GenerateRefreshToken (tokenService s) (GU_ID user) w1 = (Inr r, w2)" "time_Now L w2 = (now, w3)"
    and st: "StoreRefreshToken L s ctx (GU_ID user) r ex w3 = (Inr (), w')"
    using assms by (auto simp: issueTokens_def Let_def split: call_splits)
  have same: "same_views view w w3"
    using w by (blast dest: runtime_frames read_frames intro: same_views_trans)
  from Store_ok [OF st] obtain row where row: "session_row (GU_ID user) r ex row"
    "\<forall>x \<in> set (seen_tokens view ctx w3). \<not> token_clash row x" "ctx_changed view ctx (add_token row) w3 w'"
    by blast
  with changed_after [where f = "add_token row", OF same row(3)] same_viewsD [OF same] ts.GenRefresh_claims [OF w(2)] show ?thesis by auto
qed

lemma issue_up:
  assumes "up w" and "issueTokens L s ctx user w = (ru, w')"
  shows "(\<exists>p. ru = Inr p \<and> up w') \<or> (\<exists>e. ru = Inl e \<and> errors_Is e ErrDuplicatedKey)"
proof -
  obtain a w1 where w1: "TS_GenerateAccessToken (tokenService s) (GU_ID user) (GU_Email user) (GU_Name user) w = (Inr a, w1)" "up w1"
    using ts.GenAccess_up [OF assms(1)] by (metis surj_pair)
  obtain r w2 where w2: "TS_GenerateRefreshToken (tokenService s) (GU_ID user) w1 = (Inr r, w2)" "up w2"
    using ts.GenRefresh_up [OF w1(2)] by (metis surj_pair)
  obtain now w3 where w3: "time_Now L w2 = (now, w3)" "up w3"
    using time_Now_up [OF w2(2)] by (metis surj_pair)
  from assms(2) w1 w2 w3 show ?thesis
    by (auto simp: issueTokens_def Let_def split: call_splits dest!: Store_up [OF w3(2)])
qed

lemma Revoke_error: "RevokeRefreshTokens L s ctx i w = (Inl e, w') \<Longrightarrow> same_views view w w'"
  by (auto simp: RevokeRefreshTokens_def split: call_splits dest!: runtime_frames write_errors
      intro: same_views_trans)

lemma Revoke_ok:
  "RevokeRefreshTokens L s ctx i w = (Inr (), w') \<Longrightarrow>
     ctx_changed view ctx (drop_tokens (\<lambda>r. RT_UserID r = i)) w w'"
  by (auto simp: RevokeRefreshTokens_def split: call_splits dest!: runtime_frames rtr.DeleteByUserID_rows
      intro: changed_after simp flip: drop_tokens_def)

lemma Revoke_up: "up w \<Longrightarrow> RevokeRefreshTokens L s ctx i w = (ru, w') \<Longrightarrow> ru = Inr () \<and> up w'"
  using guard_up [of w ctx]
  by (auto simp: RevokeRefreshTokens_def split: call_splits dest: rtr.DeleteByUserID_up)

subsection \<open>Inside a transaction\<close>

lemma in_tx:
  assumes "ctx_changed view (dbtx_Into ctx Tx) f w w'"
  shows "view Tx w' = f (view Tx w)" and "view Pool w' = view Pool w"
  using assms by (auto simp: view_changed_def)

lemma pool_frames:
  "issueTokens L s (dbtx_Into ctx Tx) user w = (ri, w') \<Longrightarrow> view Pool w' = view Pool w"
  "RevokeRefreshTokens L s (dbtx_Into ctx Tx) i w = (ru, w') \<Longrightarrow> view Pool w' = view Pool w"
  "UR_Create (userRepository s) (dbtx_Into ctx Tx) u w = (rc, w') \<Longrightarrow> view Pool w' = view Pool w"
  "UR_Update (userRepository s) (dbtx_Into ctx Tx) i u w = (ru, w') \<Longrightarrow> view Pool w' = view Pool w"
  "UR_Delete (userRepository s) (dbtx_Into ctx Tx) i w = (ru, w') \<Longrightarrow> view Pool w' = view Pool w"
  "RTR_DeleteByTokenHash (refreshTokenRepository s) (dbtx_Into ctx Tx) h w = (ru, w') \<Longrightarrow> view Pool w' = view Pool w"
  subgoal by (cases ri) (auto dest!: issue_error issue_ok dest: in_tx same_viewsD)
  subgoal by (cases ru) (auto dest!: Revoke_error Revoke_ok dest: in_tx same_viewsD)
  subgoal by (cases rc) (auto dest!: ur.UCreate_error ur.UCreate_row dest: view_changedD(2) same_viewsD)
  subgoal by (cases ru) (auto dest!: ur.Update_error ur.Update_rows dest: view_changedD(2) same_viewsD)
  subgoal by (cases ru) (auto dest!: ur.UDelete_error ur.UDelete_rows dest: view_changedD(2) same_viewsD)
  subgoal by (cases ru) (auto dest!: rtr.DeleteByTokenHash_error rtr.DeleteByTokenHash_rows
        dest: view_changedD(2) same_viewsD)
  done

lemma closures_confined:
  "tx_confined view (register_closure L s u user (dbtx_Into ctx Tx))"
  "tx_confined view (rotate_closure L s h claims (dbtx_Into ctx Tx))"
  "tx_confined view (change_password_closure L s i u hash (dbtx_Into ctx Tx))"
  "tx_confined view (delete_account_closure L s i (dbtx_Into ctx Tx))"
  by (auto simp: tx_confined_def register_closure_def rotate_closure_def change_password_closure_def
      delete_account_closure_def split: call_splits dest!: pool_frames)

lemma rollback:
  assumes "dbtx_From ctx = None"
  shows "TM_WithinTx (txManager s) ctx (register_closure L s u user) w = (Inl e, w') \<Longrightarrow> view Pool w' = view Pool w"
    and "TM_WithinTx (txManager s) ctx (rotate_closure L s h claims) w = (Inl e, w') \<Longrightarrow> view Pool w' = view Pool w"
    and "TM_WithinTx (txManager s) ctx (change_password_closure L s i u hash) w = (Inl e, w') \<Longrightarrow> view Pool w' = view Pool w"
    and "TM_WithinTx (txManager s) ctx (delete_account_closure L s i) w = (Inl e, w') \<Longrightarrow> view Pool w' = view Pool w"
  using assms by (auto elim!: tm.WithinTx_error [rotated 2] intro: closures_confined)

lemma issue_in_tx:
  assumes "issueTokens L s (dbtx_Into ctx Tx) user w = (Inr (a, r), w')"
  shows "\<exists>row ex cl. session_row (GU_ID user) r ex row \<and> refresh_claims r cl \<and> TC_UserID cl = GU_ID user
    \<and> (\<forall>x \<in> set (refresh_tokens (view Tx w)). \<not> token_clash row x)
    \<and> view Tx w' = add_token row (view Tx w)"
  using issue_ok [OF assms] by (auto simp: view_changed_def)

lemma revoke_in_tx:
  "RevokeRefreshTokens L s (dbtx_Into ctx Tx) i w = (Inr (), w') \<Longrightarrow>
     view Tx w' = drop_tokens (\<lambda>r. RT_UserID r = i) (view Tx w)"
  by (drule Revoke_ok) (simp add: view_changed_def)

lemma register_closure_ok:
  assumes "register_closure L s u user (dbtx_Into ctx Tx) w = (Inr (a, r), w')"
  shows "\<exists>u' row ex cl. user_inserted u u' \<and> session_row (GU_ID user) r ex row
    \<and> refresh_claims r cl \<and> TC_UserID cl = GU_ID user
    \<and> (\<forall>x \<in> set (users (view Tx w)). \<not> user_clash u x)
    \<and> (\<forall>x \<in> set (refresh_tokens (view Tx w)). \<not> token_clash row x)
    \<and> view Tx w' = add_token row (add_user u' (view Tx w))"
proof -
  obtain i w1 where cr: "UR_Create (userRepository s) (dbtx_Into ctx Tx) u w = (Inr i, w1)"
    and iss: "issueTokens L s (dbtx_Into ctx Tx) user w1 = (Inr (a, r), w')"
    using assms by (auto simp: register_closure_def split: call_splits)
  from ur.UCreate_row [OF cr] obtain u' where u': "user_inserted u u'"
    "\<forall>x \<in> set (users (view Tx w)). \<not> user_clash u x" "view Tx w1 = add_user u' (view Tx w)"
    by (auto simp: view_changed_def add_user_def)
  from issue_in_tx [OF iss] u' show ?thesis by auto
qed

lemma rotate_closure_ok:
  assumes "rotate_closure L s h claims (dbtx_Into ctx Tx) w = (Inr (a, r), w')"
  shows "\<exists>row ex cl. session_row (TC_UserID claims) r ex row
    \<and> refresh_claims r cl \<and> TC_UserID cl = TC_UserID claims
    \<and> (\<forall>x \<in> set (refresh_tokens (view Tx w)). RT_TokenHash x \<noteq> h \<longrightarrow> \<not> token_clash row x)
    \<and> view Tx w' = add_token row (drop_tokens (\<lambda>x. RT_TokenHash x = h) (view Tx w))"
proof -
  obtain w1 where del: "RTR_DeleteByTokenHash (refreshTokenRepository s) (dbtx_Into ctx Tx) h w = (Inr (), w1)"
    and iss: "issueTokens L s (dbtx_Into ctx Tx)
      \<lparr>GU_ID = TC_UserID claims, GU_Email = TC_Email claims, GU_Name = TC_Name claims\<rparr> w1 = (Inr (a, r), w')"
    using assms by (auto simp: rotate_closure_def split: call_splits)
  from rtr.DeleteByTokenHash_rows [OF del] have "view Tx w1 = drop_tokens (\<lambda>x. RT_TokenHash x = h) (view Tx w)"
    by (simp add: view_changed_def drop_tokens_def)
  with issue_in_tx [OF iss] show ?thesis by auto
qed

lemma change_password_closure_ok:
  assumes "change_password_closure L s i u hash (dbtx_Into ctx Tx) w = (Inr (a, r), w')"
  shows "\<exists>us row ex cl. rows_rewritten (\<lambda>x. user_live x \<and> User_ID x = i)
      (user_updated (zero_UserEntity\<lparr>User_Password := hash\<rparr>)) (users (view Tx w)) us
    \<and> session_row (User_ID u) r ex row \<and> refresh_claims r cl \<and> TC_UserID cl = User_ID u
    \<and> (\<forall>x \<in> set (refresh_tokens (view Tx w)). RT_UserID x \<noteq> i \<longrightarrow> \<not> token_clash row x)
    \<and> view Tx w' = add_token row (drop_tokens (\<lambda>x. RT_UserID x = i) ((view Tx w)\<lparr>users := us\<rparr>))"
proof -
  let ?ctx = "dbtx_Into ctx Tx" and ?p = "zero_UserEntity\<lparr>User_Password := hash\<rparr>"
  obtain w1 w2 where upd: "UR_Update (userRepository s) ?ctx i ?p w = (Inr (), w1)"
    and rev: "RevokeRefreshTokens L s ?ctx i w1 = (Inr (), w2)"
    and iss: "issueTokens L s ?ctx \<lparr>GU_ID = User_ID u, GU_Email = User_Email u, GU_Name = User_Name u\<rparr> w2 = (Inr (a, r), w')"
    using assms by (auto simp: change_password_closure_def split: call_splits)
  from ur.Update_rows [OF upd] obtain us where us: "rows_rewritten (\<lambda>x. user_live x \<and> User_ID x = i)
      (user_updated ?p) (users (view Tx w)) us" "view Tx w1 = (view Tx w)\<lparr>users := us\<rparr>"
    by (auto simp: view_changed_def)
  with revoke_in_tx [OF rev] issue_in_tx [OF iss] show ?thesis
    by (intro exI [of _ us]) auto
qed

lemma delete_account_closure_ok:
  assumes "delete_account_closure L s i (dbtx_Into ctx Tx) w = (Inr p, w')"
  shows "\<exists>us. rows_rewritten (\<lambda>x. user_live x \<and> User_ID x = i) user_soft_deleted (users (view Tx w)) us
    \<and> view Tx w' = (drop_tokens (\<lambda>x. RT_UserID x = i) (view Tx w))\<lparr>users := us\<rparr>"
proof -
  let ?ctx = "dbtx_Into ctx Tx"
  obtain w1 where rev: "RevokeRefreshTokens L s ?ctx i w = (Inr (), w1)"
    and del: "UR_Delete (userRepository s) ?ctx i w1 = (Inr (), w')"
    using assms by (auto simp: delete_account_closure_def split: call_splits)
  from ur.UDelete_rows [OF del] revoke_in_tx [OF rev] show ?thesis
    by (auto simp: view_changed_def)
qed

subsection \<open>The operations\<close>

text \<open>A committed transaction ran its closure on the committed tables.\<close>

lemma commit:
  assumes "dbtx_From ctx = None" and "TM_WithinTx (txManager s) ctx fn w = (Inr p, w')"
  obtains w1 w2 where "view Tx w1 = view Pool w" "fn (dbtx_Into ctx Tx) w1 = (Inr p, w2)" "view Pool w' = view Tx w2"
  using tm.WithinTx_commit [OF assms] by blast

lemma Register_error:
  assumes "dbtx_From ctx = None" and "Register L s ctx req w = (Inl e, w')"
  shows "view Pool w' = view Pool w"
  using assms by (auto simp: Register_def Let_def same_views_def split: call_splits
      dest!: runtime_frames read_frames rollback(1) [OF assms(1)])

lemma Register_ok:
  assumes "dbtx_From ctx = None" and "Register L s ctx req w = (Inr resp, w')"
  shows "\<exists>u row ex cl. registered pw_matches req (GU_ID (RR_User resp)) u \<and> session_row (User_ID u) (RR_RefreshToken resp) ex row
    \<and> refresh_claims (RR_RefreshToken resp) cl \<and> TC_UserID cl = User_ID u
    \<and> GU_Email (RR_User resp) = Reg_Email req \<and> GU_Name (RR_User resp) = Reg_Name req
    \<and> (\<forall>x \<in> set (users (view Pool w)). \<not> user_clash u x)
    \<and> (\<forall>x \<in> set (refresh_tokens (view Pool w)). \<not> token_clash row x)
    \<and> view Pool w' = add_token row (add_user u (view Pool w))"
proof -
  obtain w1 w2 h w3 i w4 u user a r where
    w: "ctx_Err L ctx w = (None, w1)" "UR_FindByEmail (userRepository s) ctx (Reg_Email req) w1 = (Inr None, w2)"
      "bcrypt_GenerateFromPassword L (Reg_Password req) w2 = (Inr h, w3)" "uuid_New L w3 = (i, w4)"
    and u: "u = zero_UserEntity\<lparr>User_ID := i, User_Email := Reg_Email req, User_Password := h, User_Name := Reg_Name req\<rparr>"
      "user = \<lparr>GU_ID = i, GU_Email = Reg_Email req, GU_Name = Reg_Name req\<rparr>"
    and tx: "TM_WithinTx (txManager s) ctx (register_closure L s u user) w4 = (Inr (a, r), w')"
    and resp: "resp = \<lparr>RR_User = user, RR_AccessToken = a, RR_RefreshToken = r\<rparr>"
    using assms(2) by (auto simp: Register_def Let_def split: call_splits)
  have same: "view c w4 = view c w" for c
    using w by (auto simp: same_views_def dest!: runtime_frames read_frames)
  from tx assms(1) obtain w5 w6 where w5: "view Tx w5 = view Pool w4"
    "register_closure L s u user (dbtx_Into ctx Tx) w5 = (Inr (a, r), w6)" "view Pool w' = view Tx w6"
    by (metis commit)
  from register_closure_ok [OF w5(2)] obtain u' row ex cl where
    r: "user_inserted u u'" "session_row (GU_ID user) r ex row" "refresh_claims r cl" "TC_UserID cl = GU_ID user"
      "\<forall>x \<in> set (users (view Tx w5)). \<not> user_clash u x"
      "\<forall>x \<in> set (refresh_tokens (view Tx w5)). \<not> token_clash row x"
      "view Tx w6 = add_token row (add_user u' (view Tx w5))" by blast
  have "registered pw_matches req i u'" "\<And>x. user_clash u' x = user_clash u x" "User_ID u' = i"
    using user_inserted_fields [OF r(1)] u Generate_matches [OF w(3)]
    by (auto simp: registered_def user_clash_def user_live_def zero_UserEntity_def)
  with r w5 same u resp show ?thesis
    by (intro exI [of _ u'] exI [of _ row] exI [of _ ex] exI [of _ cl]) simp
qed

lemma dummy_frame: "dummyPasswordHash L w = (h, w') \<Longrightarrow> same_views view w w'"
  using once_set_frame by (auto simp: dummyPasswordHash_def split: call_splits dest!: runtime_frames
      intro: same_views_trans)

lemma Login_error: "Login L s ctx req w = (Inl e, w') \<Longrightarrow> same_views view w w'"
  by (auto simp: Login_def Let_def split: call_splits dest!: runtime_frames read_frames issue_error dummy_frame
      intro: same_views_trans)

lemma Login_ok:
  assumes "Login L s ctx req w = (Inr resp, w')"
  shows "\<exists>u row ex cl. u \<in> set (seen_users view ctx w) \<and> user_live u \<and> User_Email u = Login_Email req
    \<and> pw_matches (User_Password u) (Login_Password req)
    \<and> LR_User resp = \<lparr>GU_ID = User_ID u, GU_Email = User_Email u, GU_Name = User_Name u\<rparr>
    \<and> session_row (User_ID u) (LR_RefreshToken resp) ex row
    \<and> refresh_claims (LR_RefreshToken resp) cl \<and> TC_UserID cl = User_ID u
    \<and> (\<forall>x \<in> set (seen_tokens view ctx w). \<not> token_clash row x)
    \<and> ctx_changed view ctx (add_token row) w w'"
proof -
  obtain w1 w2 u w3 user a r where
    w: "ctx_Err L ctx w = (None, w1)" "UR_FindByEmail (userRepository s) ctx (Login_Email req) w1 = (Inr (Some u), w2)"
      "bcrypt_CompareHashAndPassword L (User_Password u) (Login_Password req) w2 = (None, w3)"
    and user: "user = \<lparr>GU_ID = User_ID u, GU_Email = User_Email u, GU_Name = User_Name u\<rparr>"
    and iss: "issueTokens L s ctx user w3 = (Inr (a, r), w')"
    and resp: "resp = \<lparr>LR_User = user, LR_AccessToken = a, LR_RefreshToken = r\<rparr>"
    using assms by (auto simp: Login_def Let_def split: call_splits)
  have s1: "same_views view w w1" and same: "same_views view w w3"
    using w by (blast dest: runtime_frames read_frames intro: same_views_trans)+
  from issue_ok [OF iss] obtain row ex cl where
    r: "session_row (GU_ID user) r ex row" "refresh_claims r cl" "TC_UserID cl = GU_ID user"
      "\<forall>x \<in> set (seen_tokens view ctx w3). \<not> token_clash row x" "ctx_changed view ctx (add_token row) w3 w'" by blast
  from changed_after [where f = "add_token row", OF same r(5)] r(1-4) user resp same_viewsD [OF same]
    same_viewsD [OF s1] ur.FindByEmail_found [OF w(2)] Compare_verdict [OF w(3)]
  show ?thesis by (intro exI [of _ u] exI [of _ row] exI [of _ ex] exI [of _ cl]) simp
qed

text \<open>A missing account and a wrong password: the same error, no change, and, once the dummy hash exists,
  the same one bcrypt comparison.\<close>

lemma Login_refused:
  assumes "up w" and "\<forall>u \<in> set (seen_users view ctx w). user_live u \<longrightarrow> User_Email u = Login_Email req \<longrightarrow>
      \<not> pw_matches (User_Password u) (Login_Password req)"
    and "Login L s ctx req w = (res, w')"
  shows "res = Inl ErrInvalidCredentials \<and> same_views view w w'"
    and "once_get L w \<noteq> None \<Longrightarrow> bcrypt_work w' = Suc (bcrypt_work w)"
proof -
  obtain w1 where w1: "ctx_Err L ctx w = (None, w1)" "up w1" using guard_up [OF assms(1)] by blast
  obtain ou w2 where w2: "UR_FindByEmail (userRepository s) ctx (Login_Email req) w1 = (Inr ou, w2)"
    using ur.FindByEmail_up [OF w1(2)] by (metis surj_pair)
  have s1: "\<And>c. view c w1 = view c w" using ctx_Err_frame [OF w1(1)] by (simp add: same_views_def)
  have bad: "\<not> pw_matches (User_Password u) (Login_Password req)" if "ou = Some u" for u
    using ur.FindByEmail_found [OF w2] that assms(2) by (auto simp: s1)
  have err: "res = Inl ErrInvalidCredentials"
    using assms(3) w1 w2 bad
    by (auto simp: Login_def Let_def split: call_splits dest!: Compare_verdict)
  then show "res = Inl ErrInvalidCredentials \<and> same_views view w w'"
    using Login_error assms(3) by blast
  show "bcrypt_work w' = Suc (bcrypt_work w)" if "once_get L w \<noteq> None"
  proof -
    have k: "bcrypt_work w2 = bcrypt_work w" "once_get L w2 = once_get L w"
      using FindByEmail_bcrypt [OF w2] ctx_Err_frame [OF w1(1)] by simp_all
    show ?thesis
    proof (cases ou)
      case None
      with assms(3) w1 w2 that show ?thesis
        by (auto simp: Login_def Let_def dummyPasswordHash_def k split: call_splits dest!: Compare_frame)
    next
      case (Some u)
      obtain e w3 where w3: "bcrypt_CompareHashAndPassword L (User_Password u) (Login_Password req) w2 = (Some e, w3)"
        using bad [OF Some] Compare_verdict by (metis not_Some_eq surj_pair)
      with Some assms(3) w1 w2 Compare_frame [OF w3] show ?thesis by (simp add: Login_def k)
    qed
  qed
qed

subsection \<open>Refresh\<close>

lemma Refresh_ok:
  assumes "dbtx_From ctx = None" and "Refresh L s ctx t w = (Inr resp, w')"
  shows "\<exists>stored row ex cl cl'. refresh_claims t cl
    \<and> stored \<in> set (refresh_tokens (view Pool w)) \<and> RT_TokenHash stored = Hash t
    \<and> session_row (TC_UserID cl) (RF_RefreshToken resp) ex row
    \<and> refresh_claims (RF_RefreshToken resp) cl' \<and> TC_UserID cl' = TC_UserID cl
    \<and> (\<forall>x \<in> set (refresh_tokens (view Pool w)). RT_TokenHash x \<noteq> Hash t \<longrightarrow> \<not> token_clash row x)
    \<and> view Pool w' = add_token row (drop_tokens (\<lambda>x. RT_TokenHash x = Hash t) (view Pool w))"
proof -
  obtain w1 cl w2 stored w3 now w4 a r where
    w: "ctx_Err L ctx w = (None, w1)" "TS_ValidateRefreshToken (tokenService s) t w1 = (Inr cl, w2)"
      "RTR_FindByTokenHash (refreshTokenRepository s) ctx (Hash t) w2 = (Inr (Some stored), w3)"
      "time_Now L w3 = (now, w4)"
    and tx: "TM_WithinTx (txManager s) ctx (rotate_closure L s (Hash t) cl) w4 = (Inr (a, r), w')"
    and resp: "resp = \<lparr>RF_AccessToken = a, RF_RefreshToken = r\<rparr>"
    using assms(2) by (auto simp: Refresh_def Let_def split: call_splits)
  have same: "view c w2 = view c w" "view c w4 = view c w" for c
    using w by (auto simp: same_views_def dest!: runtime_frames read_frames)
  from tx assms(1) obtain w5 w6 where w5: "view Tx w5 = view Pool w4"
    "rotate_closure L s (Hash t) cl (dbtx_Into ctx Tx) w5 = (Inr (a, r), w6)" "view Pool w' = view Tx w6"
    by (metis commit)
  from rotate_closure_ok [OF w5(2)] obtain row ex cl' where
    r: "session_row (TC_UserID cl) r ex row" "refresh_claims r cl'" "TC_UserID cl' = TC_UserID cl"
      "\<forall>x \<in> set (refresh_tokens (view Tx w5)). RT_TokenHash x \<noteq> Hash t \<longrightarrow> \<not> token_clash row x"
      "view Tx w6 = add_token row (drop_tokens (\<lambda>x. RT_TokenHash x = Hash t) (view Tx w5))" by blast
  with w5 same resp ts.ValRefresh_claims [OF w(2)] rtr.FindByTokenHash_found [OF w(3)] assms(1)
  show ?thesis
    by (intro exI [of _ stored] exI [of _ row] exI [of _ ex] exI [of _ cl] exI [of _ cl']) simp
qed

lemma drop_hash:
  assumes "RTR_DeleteByTokenHash (refreshTokenRepository s) ctx h w = (ru, w')"
  shows "same_views view w w' \<or> ctx_changed view ctx (drop_tokens (\<lambda>x. RT_TokenHash x = h)) w w'"
proof (cases ru)
  case (Inl e)
  with assms rtr.DeleteByTokenHash_error show ?thesis by blast
next
  case (Inr u)
  with assms rtr.DeleteByTokenHash_rows [of ctx h w w'] show ?thesis by (simp add: drop_tokens_def)
qed

lemma reuse_frame:
  assumes "handleReuse L s ctx i w = (e, w')"
  shows "e = ErrRefreshTokenRevoked"
    and "same_views view w w' \<or> ctx_changed view ctx (drop_tokens (\<lambda>x. RT_UserID x = i)) w w'"
    and "up w \<Longrightarrow> up w' \<and> ctx_changed view ctx (drop_tokens (\<lambda>x. RT_UserID x = i)) w w'"
proof -
  obtain ru where ru: "RevokeRefreshTokens L s ctx i w = (ru, w')" and e: "e = ErrRefreshTokenRevoked"
    using assms by (auto simp: handleReuse_def split: prod.splits)
  from e show "e = ErrRefreshTokenRevoked" .
  from ru show "same_views view w w' \<or> ctx_changed view ctx (drop_tokens (\<lambda>x. RT_UserID x = i)) w w'"
    by (cases ru) (auto dest: Revoke_error Revoke_ok)
  from ru show "up w' \<and> ctx_changed view ctx (drop_tokens (\<lambda>x. RT_UserID x = i)) w w'" if "up w"
    using Revoke_up [OF that ru] Revoke_ok by auto
qed

text \<open>A refused refresh creates no session: it leaves the tables alone, or ends every session
  of the token's user (reuse), or removes the expired row.\<close>

lemma Refresh_error:
  assumes "dbtx_From ctx = None" and "Refresh L s ctx t w = (Inl e, w')"
  shows "view Pool w' = view Pool w
    \<or> (e = ErrRefreshTokenRevoked \<and> (\<exists>cl. refresh_claims t cl
         \<and> view Pool w' = drop_tokens (\<lambda>x. RT_UserID x = TC_UserID cl) (view Pool w)))
    \<or> (e = ErrRefreshTokenExpired \<and> view Pool w' = drop_tokens (\<lambda>x. RT_TokenHash x = Hash t) (view Pool w))"
proof -
  obtain oe w1 where w1: "ctx_Err L ctx w = (oe, w1)" by (metis surj_pair)
  obtain oc w2 where w2: "TS_ValidateRefreshToken (tokenService s) t w1 = (oc, w2)" by (metis surj_pair)
  obtain ot w3 where w3: "RTR_FindByTokenHash (refreshTokenRepository s) ctx (Hash t) w2 = (ot, w3)" by (metis surj_pair)
  obtain now w4 where w4: "time_Now L w3 = (now, w4)" by (metis surj_pair)
  have same: "view c w1 = view c w" "view c w2 = view c w" "view c w3 = view c w" "view c w4 = view c w" for c
    using w1 w2 w3 w4 by (auto simp: same_views_def dest!: runtime_frames read_frames)
  note steps = assms(2) w1 w2 w3 w4
  show ?thesis
  proof (cases "oe = None \<and> (\<exists>cl. oc = Inr cl) \<and> (\<exists>st. ot = Inr st)")
    case False
    with steps have "w' = w1 \<or> w' = w2 \<or> w' = w3" by (auto simp: Refresh_def Let_def split: call_splits)
    with same show ?thesis by auto
  next
    case True
    then obtain cl st where c: "oe = None" "oc = Inr cl" "ot = Inr st" by blast
    have cl: "refresh_claims t cl" using ts.ValRefresh_claims w2 c by blast
    show ?thesis
    proof (cases st)
      case None
      with steps c have "handleReuse L s ctx (TC_UserID cl) w3 = (e, w')"
        by (auto simp: Refresh_def Let_def split: call_splits)
      with reuse_frame [OF this] same cl assms(1) show ?thesis by (auto simp: view_changed_def same_views_def)
    next
      case (Some stored)
      show ?thesis
      proof (cases "time_Before (RT_ExpiresAt stored) now")
        case True
        with steps c Some obtain ru where "RTR_DeleteByTokenHash (refreshTokenRepository s) ctx (Hash t) w4 = (ru, w')"
          "e = ErrRefreshTokenExpired" by (auto simp: Refresh_def Let_def split: call_splits)
        with drop_hash [OF this(1)] same assms(1) show ?thesis by (auto simp: view_changed_def same_views_def)
      next
        case False
        with steps c Some have "TM_WithinTx (txManager s) ctx (rotate_closure L s (Hash t) cl) w4 = (Inl e, w')"
          by (auto simp: Refresh_def Let_def split: call_splits)
        with rollback(2) [OF assms(1)] same show ?thesis by metis
      qed
    qed
  qed
qed

text \<open>A token without a row is never exchanged; if it verifies, its user's sessions end.\<close>

lemma Refresh_unknown:
  assumes "dbtx_From ctx = None" and "up w"
    and "\<forall>x \<in> set (refresh_tokens (view Pool w)). RT_TokenHash x \<noteq> Hash t"
    and "Refresh L s ctx t w = (res, w')"
  shows "(res = Inl ErrRefreshTokenRevoked \<and> (\<exists>cl. refresh_claims t cl
      \<and> view Pool w' = drop_tokens (\<lambda>x. RT_UserID x = TC_UserID cl) (view Pool w)))
    \<or> ((\<exists>c. res = Inl (WithCause ErrInvalidRefreshToken c)) \<and> view Pool w' = view Pool w)"
proof -
  obtain w1 where w1: "ctx_Err L ctx w = (None, w1)" "up w1" using guard_up [OF assms(2)] by blast
  obtain oc w2 where w2: "TS_ValidateRefreshToken (tokenService s) t w1 = (oc, w2)" "up w2"
    using ts.ValRefresh_up [OF w1(2)] by (metis surj_pair)
  obtain st w3 where w3: "RTR_FindByTokenHash (refreshTokenRepository s) ctx (Hash t) w2 = (Inr st, w3)" "up w3"
    using rtr.FindByTokenHash_up [OF w2(2)] by (metis surj_pair)
  have same: "view c w2 = view c w" "view c w3 = view c w" for c
    using w1 w2 w3 by (auto simp: same_views_def dest!: runtime_frames read_frames)
  have none: "st = None" using rtr.FindByTokenHash_found [OF w3(1)] same assms(1,3) by (cases st) auto
  show ?thesis
  proof (cases oc)
    case (Inl e)
    with assms(4) w1 w2 same show ?thesis by (auto simp: Refresh_def)
  next
    case (Inr cl)
    obtain e where e: "handleReuse L s ctx (TC_UserID cl) w3 = (e, w')" "res = Inl e"
      using Inr assms(4) w1 w2 w3 none by (auto simp: Refresh_def Let_def split: prod.splits)
    moreover have "refresh_claims t cl" using ts.ValRefresh_claims w2(1) Inr by blast
    ultimately show ?thesis using reuse_frame [OF e(1)] w3 same assms(1)
      by (auto simp: view_changed_def)
  qed
qed

subsection \<open>Password change and account deletion\<close>

lemma ChangePassword_error:
  assumes "dbtx_From ctx = None" and "ChangePassword L s ctx i req w = (Inl e, w')"
  shows "view Pool w' = view Pool w"
  using assms by (auto simp: ChangePassword_def Let_def same_views_def split: call_splits
      dest!: runtime_frames read_frames rollback(3) [OF assms(1)])

lemma ChangePassword_ok:
  assumes "dbtx_From ctx = None" and "ChangePassword L s ctx i req w = (Inr resp, w')"
  shows "\<exists>u h us row ex cl. u \<in> set (users (view Pool w)) \<and> user_live u \<and> User_ID u = i
    \<and> pw_matches (User_Password u) (CurrentPassword req) \<and> h \<noteq> [] \<and> pw_matches h (NewPassword req)
    \<and> rows_rewritten (\<lambda>x. user_live x \<and> User_ID x = i)
        (user_updated (zero_UserEntity\<lparr>User_Password := h\<rparr>)) (users (view Pool w)) us
    \<and> session_row i (CP_RefreshToken resp) ex row \<and> refresh_claims (CP_RefreshToken resp) cl \<and> TC_UserID cl = i
    \<and> (\<forall>x \<in> set (refresh_tokens (view Pool w)). RT_UserID x \<noteq> i \<longrightarrow> \<not> token_clash row x)
    \<and> view Pool w' = add_token row (drop_tokens (\<lambda>x. RT_UserID x = i) ((view Pool w)\<lparr>users := us\<rparr>))"
proof -
  obtain w1 u w2 w3 h w4 a r where
    w: "ctx_Err L ctx w = (None, w1)" "UR_FindByID (userRepository s) ctx i w1 = (Inr (Some u), w2)"
      "bcrypt_CompareHashAndPassword L (User_Password u) (CurrentPassword req) w2 = (None, w3)"
      "bcrypt_GenerateFromPassword L (NewPassword req) w3 = (Inr h, w4)"
    and tx: "TM_WithinTx (txManager s) ctx (change_password_closure L s i u h) w4 = (Inr (a, r), w')"
    and resp: "resp = \<lparr>CP_AccessToken = a, CP_RefreshToken = r\<rparr>"
    using assms(2) by (auto simp: ChangePassword_def Let_def split: call_splits)
  have same: "view c w1 = view c w" "view c w4 = view c w" for c
    using w by (auto simp: same_views_def dest!: runtime_frames read_frames)
  have u: "u \<in> set (users (view Pool w))" "user_live u" "User_ID u = i"
    using ur.FindByID_found [OF w(2)] same assms(1) by auto
  from tx assms(1) obtain w5 w6 where w5: "view Tx w5 = view Pool w4"
    "change_password_closure L s i u h (dbtx_Into ctx Tx) w5 = (Inr (a, r), w6)" "view Pool w' = view Tx w6"
    by (metis commit)
  from change_password_closure_ok [OF w5(2)] obtain us row ex cl where
    r: "rows_rewritten (\<lambda>x. user_live x \<and> User_ID x = i) (user_updated (zero_UserEntity\<lparr>User_Password := h\<rparr>))
        (users (view Tx w5)) us"
      "session_row (User_ID u) r ex row" "refresh_claims r cl" "TC_UserID cl = User_ID u"
      "\<forall>x \<in> set (refresh_tokens (view Tx w5)). RT_UserID x \<noteq> i \<longrightarrow> \<not> token_clash row x"
      "view Tx w6 = add_token row (drop_tokens (\<lambda>x. RT_UserID x = i) ((view Tx w5)\<lparr>users := us\<rparr>))" by blast
  with w5 same resp u Compare_verdict [OF w(3)] Generate_matches [OF w(4)] show ?thesis
    by (intro exI [of _ u] exI [of _ h] exI [of _ us] exI [of _ row] exI [of _ ex] exI [of _ cl]) simp
qed

lemma DeleteAccount_error:
  assumes "dbtx_From ctx = None" and "DeleteAccount L s ctx i w = (Inl e, w')"
  shows "view Pool w' = view Pool w"
  using assms by (auto simp: DeleteAccount_def Let_def same_views_def split: call_splits
      dest!: runtime_frames read_frames rollback(4) [OF assms(1)])

lemma DeleteAccount_ok:
  assumes "dbtx_From ctx = None" and "DeleteAccount L s ctx i w = (Inr (), w')"
  shows "\<exists>u us. u \<in> set (users (view Pool w)) \<and> user_live u \<and> User_ID u = i
    \<and> rows_rewritten (\<lambda>x. user_live x \<and> User_ID x = i) user_soft_deleted (users (view Pool w)) us
    \<and> view Pool w' = (drop_tokens (\<lambda>x. RT_UserID x = i) (view Pool w))\<lparr>users := us\<rparr>"
proof -
  obtain w1 u w2 p where
    w: "ctx_Err L ctx w = (None, w1)" "UR_FindByID (userRepository s) ctx i w1 = (Inr (Some u), w2)"
    and tx: "TM_WithinTx (txManager s) ctx (delete_account_closure L s i) w2 = (Inr p, w')"
    using assms(2) by (auto simp: DeleteAccount_def Let_def split: call_splits)
  have same: "view c w1 = view c w" "view c w2 = view c w" for c
    using w by (auto simp: same_views_def dest!: runtime_frames read_frames)
  have u: "u \<in> set (users (view Pool w))" "user_live u" "User_ID u = i"
    using ur.FindByID_found [OF w(2)] same assms(1) by auto
  from tx assms(1) obtain w5 w6 where w5: "view Tx w5 = view Pool w2"
    "delete_account_closure L s i (dbtx_Into ctx Tx) w5 = (Inr p, w6)" "view Pool w' = view Tx w6"
    by (metis commit)
  from delete_account_closure_ok [OF w5(2)] w5 same u show ?thesis by auto
qed

subsection \<open>Reading and purging\<close>

lemma GetUser_frame: "GetUser_service L s ctx i w = (og, w') \<Longrightarrow> same_views view w w'"
  by (auto simp: GetUser_service_def split: call_splits dest!: runtime_frames read_frames intro: same_views_trans)

lemma ListSessions_frame: "ListSessions L s ctx i t pg w = (osl, w') \<Longrightarrow> same_views view w w'"
  by (auto simp: ListSessions_def Let_def split: call_splits dest!: runtime_frames read_frames intro: same_views_trans)

lemma ListSessions_ok:
  assumes "ListSessions L s ctx i t pg w = (Inr sl, w')" and "Page (Normalized pg) < 2 ^ 56"
  shows "\<exists>xs. mset xs = mset (filter (token_active i (fst (time_Now L (snd (ctx_Err L ctx w))))) (seen_tokens view ctx w))
    \<and> sorted_wrt newest_first xs
    \<and> SL_Sessions sl = map (session_of (if t \<noteq> '''' then Hash t else ''''))
        (window (nat ((Page (Normalized pg) - 1) * Limit (Normalized pg))) (nat (Limit (Normalized pg))) xs)
    \<and> SL_Meta sl = NewMeta (Page (Normalized pg)) (Limit (Normalized pg)) (int (length xs))"
proof -
  let ?n = "Normalized pg" and ?h = "if t \<noteq> '''' then Hash t else ''''"
  obtain w1 now w2 k w3 rows where
    w: "ctx_Err L ctx w = (None, w1)" "time_Now L w1 = (now, w2)"
      "RTR_CountActiveByUserID (refreshTokenRepository s) ctx i now w2 = (Inr k, w3)"
      "RTR_ListActiveByUserID (refreshTokenRepository s) ctx i now (Limit ?n) (Offset ?n) w3 = (Inr rows, w')"
    and sl: "sl = \<lparr>SL_Sessions = map (session_of ?h) rows, SL_Meta = NewMeta (Page ?n) (Limit ?n) k\<rparr>"
    using assms(1) by (auto simp: ListSessions_def Let_def split: call_splits)
  have same: "view c w2 = view c w" "view c w3 = view c w" for c
    using w by (auto simp: same_views_def dest!: runtime_frames read_frames)
  have off: "Offset ?n = (Page ?n - 1) * Limit ?n"
    using Offset_exact [of ?n] assms(2) by (simp add: Normalized_idem)
  have "0 \<le> Offset ?n" using Normalized_bounds [of pg] off by simp
  with rtr.ListActive_rows [OF w(4)] obtain xs where
    xs: "mset xs = mset (filter (token_active i now) (seen_tokens view ctx w))" "sorted_wrt newest_first xs"
      "rows = window (nat (Offset ?n)) (nat (Limit ?n)) xs"
    using Normalized_bounds [of pg] same by auto
  have "k = int (length xs)"
    using rtr.CountActive_rows [OF w(3)] same xs(1) by (metis mset_eq_length)
  with xs sl off w(1,2) show ?thesis by (intro exI [of _ xs]) simp
qed

lemma Purge_error: "PurgeExpiredRefreshTokens L s ctx w = (Inl e, w') \<Longrightarrow> same_views view w w'"
  by (auto simp: PurgeExpiredRefreshTokens_def Let_def split: call_splits dest!: runtime_frames write_errors
      intro: same_views_trans)

lemma Purge_ok:
  assumes "PurgeExpiredRefreshTokens L s ctx w = (Inr n, w')"
  shows "\<exists>now. n = int (length (filter (\<lambda>r. RT_ExpiresAt r < now) (seen_tokens view ctx w)))
    \<and> ctx_changed view ctx (drop_tokens (\<lambda>r. RT_ExpiresAt r < now)) w w'"
proof -
  obtain w1 now w2 where w: "ctx_Err L ctx w = (None, w1)" "time_Now L w1 = (now, w2)"
    and del: "RTR_DeleteExpired (refreshTokenRepository s) ctx now w2 = (Inr n, w')"
    using assms by (auto simp: PurgeExpiredRefreshTokens_def Let_def split: call_splits)
  have same: "same_views view w w2" using w by (blast dest: runtime_frames intro: same_views_trans)
  from rtr.DeleteExpired_rows [OF del]
  have "n = int (length (filter (\<lambda>r. RT_ExpiresAt r < now) (seen_tokens view ctx w2)))"
    and ch: "ctx_changed view ctx (drop_tokens (\<lambda>r. RT_ExpiresAt r < now)) w2 w'"
    by (simp_all add: drop_tokens_def)
  with changed_after [where f = "drop_tokens (\<lambda>r. RT_ExpiresAt r < now)", OF same ch] same_viewsD [OF same]
  show ?thesis by auto
qed

subsection \<open>When nothing fails\<close>

text \<open>In a world that is \<open>up\<close> the operations return a result or the error their rules prescribe; the
  only other way to fail is a key that is already taken.\<close>

lemma tx_up:
  assumes "dbtx_From ctx = None" and "up w"
    and "\<And>w1 ri w2. up w1 \<Longrightarrow> view Tx w1 = view Pool w \<Longrightarrow> fn (dbtx_Into ctx Tx) w1 = (ri, w2) \<Longrightarrow>
      (\<exists>p. ri = Inr p \<and> up w2) \<or> (\<exists>e. ri = Inl e \<and> P e)"
    and "TM_WithinTx (txManager s) ctx fn w = (res, w')"
  shows "(\<exists>p. res = Inr p \<and> up w') \<or> (\<exists>e. res = Inl e \<and> P e)"
proof -
  obtain w1 where w1: "up w1" "view Tx w1 = view Pool w"
    "\<And>a w2. fn (dbtx_Into ctx Tx) w1 = (Inr a, w2) \<Longrightarrow> up w2 \<Longrightarrow>
       \<exists>w'. TM_WithinTx (txManager s) ctx fn w = (Inr a, w') \<and> up w'"
    "\<And>e w2. fn (dbtx_Into ctx Tx) w1 = (Inl e, w2) \<Longrightarrow> \<exists>w'. TM_WithinTx (txManager s) ctx fn w = (Inl e, w')"
    using tm.WithinTx_up [OF assms(1,2), of fn] by blast
  obtain ri w2 where "fn (dbtx_Into ctx Tx) w1 = (ri, w2)" by (metis surj_pair)
  with w1 assms(3) [OF w1(1,2)] assms(4) show ?thesis by fastforce
qed

lemma register_closure_up:
  assumes "up w" and "register_closure L s u user ctx w = (ri, w')"
  shows "(\<exists>p. ri = Inr p \<and> up w') \<or>
    (\<exists>e. ri = Inl e \<and> (e = ErrUserAlreadyExists \<or> errors_Is e ErrDuplicatedKey))"
proof (cases "\<exists>x \<in> set (seen_users view ctx w). user_clash u x")
  case True
  with ur.UCreate_up_duplicate [OF assms(1)] assms(2) show ?thesis
    by (fastforce simp: register_closure_def ErrDuplicatedKey_def)
next
  case False
  with ur.UCreate_up [OF assms(1), of ctx u] obtain w1 where
    w1: "UR_Create (userRepository s) ctx u w = (Inr (User_ID u), w1)" "up w1" by blast
  with assms(2) have "issueTokens L s ctx user w1 = (ri, w')" by (simp add: register_closure_def)
  with issue_up [OF w1(2)] show ?thesis by blast
qed

text \<open>The steps of \<open>Register\<close> up to the transaction, in a world that is \<open>up\<close>.\<close>

lemma Register_steps:
  assumes "up w" and "length (Reg_Password req) \<le> 72"
  obtains w1 ou w2 h w3 i w4 where "ctx_Err L ctx w = (None, w1)"
    "UR_FindByEmail (userRepository s) ctx (Reg_Email req) w1 = (Inr ou, w2)"
    "bcrypt_GenerateFromPassword L (Reg_Password req) w2 = (Inr h, w3)" "uuid_New L w3 = (i, w4)" "up w4"
    "\<And>c. view c w1 = view c w" "\<And>c. view c w4 = view c w"
proof -
  obtain w1 where w1: "ctx_Err L ctx w = (None, w1)" "up w1" using guard_up [OF assms(1)] by blast
  obtain ou w2 where w2: "UR_FindByEmail (userRepository s) ctx (Reg_Email req) w1 = (Inr ou, w2)" "up w2"
    using ur.FindByEmail_up [OF w1(2)] by (metis surj_pair)
  obtain h w3 where w3: "bcrypt_GenerateFromPassword L (Reg_Password req) w2 = (Inr h, w3)" "up w3"
    using Generate_up [OF w2(2) assms(2)] by (metis surj_pair)
  obtain i w4 where w4: "uuid_New L w3 = (i, w4)" "up w4" using uuid_New_up [OF w3(2)] by (metis surj_pair)
  have "view c w1 = view c w" "view c w4 = view c w" for c
    using w1 w2 w3 w4 by (auto simp: same_views_def dest!: runtime_frames read_frames)
  with that w1 w2 w3 w4 show ?thesis by blast
qed

lemma Register_up:
  assumes "dbtx_From ctx = None" and "up w" and "length (Reg_Password req) \<le> 72"
    and "Register L s ctx req w = (res, w')"
  shows "(\<exists>resp. res = Inr resp) \<or> res = Inl ErrUserAlreadyExists \<or> (\<exists>e. res = Inl e \<and> errors_Is e ErrDuplicatedKey)"
proof -
  obtain w1 ou w2 h w3 i w4 where
    w: "ctx_Err L ctx w = (None, w1)" "UR_FindByEmail (userRepository s) ctx (Reg_Email req) w1 = (Inr ou, w2)"
      "bcrypt_GenerateFromPassword L (Reg_Password req) w2 = (Inr h, w3)" "uuid_New L w3 = (i, w4)" "up w4"
    using assms(2,3) by (rule Register_steps [where ctx = ctx]) blast
  show ?thesis
  proof (cases ou)
    case (Some u)
    with w assms(4) show ?thesis by (auto simp: Register_def)
  next
    case None
    let ?u = "zero_UserEntity\<lparr>User_ID := i, User_Email := Reg_Email req, User_Password := h, User_Name := Reg_Name req\<rparr>"
    let ?g = "\<lparr>GU_ID = i, GU_Email = Reg_Email req, GU_Name = Reg_Name req\<rparr>"
    obtain rt w5 where tx: "TM_WithinTx (txManager s) ctx (register_closure L s ?u ?g) w4 = (rt, w5)" by (metis surj_pair)
    from tx_up [OF assms(1) w(5) register_closure_up tx] have
      "(\<exists>p. rt = Inr p \<and> up w5) \<or> (\<exists>e. rt = Inl e \<and> (e = ErrUserAlreadyExists \<or> errors_Is e ErrDuplicatedKey))" .
    with tx None w assms(4) show ?thesis by (auto simp: Register_def)
  qed
qed

text \<open>An address that any row holds, deleted or not, cannot be registered again, even past the check.\<close>

lemma register_closure_conflict:
  assumes "dbtx_From ctx = None" and "up w" and "x \<in> set (users (view Pool w))" and "user_clash u x"
    and "TM_WithinTx (txManager s) ctx (register_closure L s u user) w = (rt, w')"
  shows "rt = Inl ErrUserAlreadyExists"
proof -
  have dup: "\<exists>w2. register_closure L s u user (dbtx_Into ctx Tx) v = (Inl ErrUserAlreadyExists, w2)"
    if "up v" "view Tx v = view Pool w" for v
    using ur.UCreate_up_duplicate [OF that(1), of x "dbtx_Into ctx Tx" u] that(2) assms(3,4)
    by (auto simp: register_closure_def ErrDuplicatedKey_def)
  show ?thesis using tm.WithinTx_up [OF assms(1,2), of "register_closure L s u user"] dup assms(5) by fastforce
qed

lemma Register_conflict:
  assumes "dbtx_From ctx = None" and "up w" and "length (Reg_Password req) \<le> 72"
    and "x \<in> set (users (view Pool w))" and "User_Email x = Reg_Email req"
    and "Register L s ctx req w = (res, w')"
  shows "res = Inl ErrUserAlreadyExists"
proof -
  obtain w1 ou w2 h w3 i w4 where
    w: "ctx_Err L ctx w = (None, w1)" "UR_FindByEmail (userRepository s) ctx (Reg_Email req) w1 = (Inr ou, w2)"
      "bcrypt_GenerateFromPassword L (Reg_Password req) w2 = (Inr h, w3)" "uuid_New L w3 = (i, w4)" "up w4"
    and same: "\<And>c. view c w4 = view c w"
    using assms(2,3) by (rule Register_steps [where ctx = ctx]) blast
  show ?thesis
  proof (cases ou)
    case (Some u)
    with w assms(6) show ?thesis by (auto simp: Register_def)
  next
    case None
    let ?u = "zero_UserEntity\<lparr>User_ID := i, User_Email := Reg_Email req, User_Password := h, User_Name := Reg_Name req\<rparr>"
    let ?g = "\<lparr>GU_ID = i, GU_Email = Reg_Email req, GU_Name = Reg_Name req\<rparr>"
    obtain rt w5 where tx: "TM_WithinTx (txManager s) ctx (register_closure L s ?u ?g) w4 = (rt, w5)" by (metis surj_pair)
    have "rt = Inl ErrUserAlreadyExists"
      by (rule register_closure_conflict [OF assms(1) w(5) _ _ tx, of x]) (use assms(4,5) same in \<open>simp_all add: user_clash_def\<close>)
    with tx None w assms(6) show ?thesis by (auto simp: Register_def)
  qed
qed

lemma Login_up:
  assumes "up w" and "u \<in> set (seen_users view ctx w)" and "user_live u" and "User_Email u = Login_Email req"
    and "\<forall>x \<in> set (seen_users view ctx w). User_Email x = Login_Email req \<longrightarrow>
      pw_matches (User_Password x) (Login_Password req)"
    and "Login L s ctx req w = (res, w')"
  shows "(\<exists>resp. res = Inr resp) \<or> (\<exists>e. res = Inl e \<and> errors_Is e ErrDuplicatedKey)"
proof -
  obtain w1 where w1: "ctx_Err L ctx w = (None, w1)" "up w1" using guard_up [OF assms(1)] by blast
  have s1: "\<And>c. view c w1 = view c w" using ctx_Err_frame [OF w1(1)] by (simp add: same_views_def)
  obtain ou w2 where w2: "UR_FindByEmail (userRepository s) ctx (Login_Email req) w1 = (Inr ou, w2)" "up w2"
    using ur.FindByEmail_up [OF w1(2)] by (metis surj_pair)
  from ur.FindByEmail_found [OF w2(1)] assms(2-5) obtain x where x: "ou = Some x"
    "pw_matches (User_Password x) (Login_Password req)" by (cases ou) (auto simp: s1)
  obtain w3 where w3: "bcrypt_CompareHashAndPassword L (User_Password x) (Login_Password req) w2 = (None, w3)" "up w3"
    using Compare_verdict Compare_up [OF w2(2)] x(2) by (metis surj_pair)
  let ?g = "\<lparr>GU_ID = User_ID x, GU_Email = User_Email x, GU_Name = User_Name x\<rparr>"
  obtain ri w4 where iss: "issueTokens L s ctx ?g w3 = (ri, w4)" by (metis surj_pair)
  with issue_up [OF w3(2) iss] assms(6) w1 w2 x w3 show ?thesis by (auto simp: Login_def Let_def)
qed

lemma delete_account_closure_up:
  assumes "up w" and "delete_account_closure L s i ctx w = (ri, w')"
  shows "\<exists>p. ri = Inr p \<and> up w'"
proof -
  obtain w1 where w1: "RevokeRefreshTokens L s ctx i w = (Inr (), w1)" "up w1"
    using Revoke_up [OF assms(1)] by (metis surj_pair)
  obtain w2 where w2: "UR_Delete (userRepository s) ctx i w1 = (Inr (), w2)" "up w2"
    using ur.UDelete_up [OF w1(2)] by (metis surj_pair)
  with w1 assms(2) show ?thesis by (auto simp: delete_account_closure_def)
qed

lemma DeleteAccount_up:
  assumes "dbtx_From ctx = None" and "up w" and "u \<in> set (users (view Pool w))" and "user_live u" and "User_ID u = i"
    and "DeleteAccount L s ctx i w = (res, w')"
  shows "res = Inr () \<and> up w'"
proof -
  obtain w1 where w1: "ctx_Err L ctx w = (None, w1)" "up w1" using guard_up [OF assms(2)] by blast
  have s1: "\<And>c. view c w1 = view c w" using ctx_Err_frame [OF w1(1)] by (simp add: same_views_def)
  obtain ou w2 where w2: "UR_FindByID (userRepository s) ctx i w1 = (Inr ou, w2)" "up w2"
    using ur.FindByID_up [OF w1(2)] by (metis surj_pair)
  obtain x where x: "ou = Some x" using ur.FindByID_found [OF w2(1)] assms by (cases ou) (auto simp: s1)
  obtain rt w3 where tx: "TM_WithinTx (txManager s) ctx (delete_account_closure L s i) w2 = (rt, w3)" by (metis surj_pair)
  from tx_up [where P = "\<lambda>_. False", OF assms(1) w2(2) _ tx] delete_account_closure_up
  have "\<exists>p. rt = Inr p \<and> up w3" by blast
  with tx x w1 w2 assms(6) show ?thesis by (auto simp: DeleteAccount_def)
qed

end

subsection \<open>The service as the container wires it\<close>

definition wired_user_service :: "'w golib \<Rightarrow> 'w gorm \<Rightarrow> 'w jwtlib \<Rightarrow> TokenConfig \<Rightarrow> 'w userService" where
  "wired_user_service L G J cfg = NewUserService (GORMUserRepository L G) (GORMRefreshTokenRepository L G)
     (NewTokenService L J cfg) (GORMTxManager G) (RefreshTokenExpiry cfg)"

text \<open>Everything imported keeps its laws: the Go runtime, bcrypt, uuid, GORM and jwt.\<close>

locale backend =
  gorm_platform L G view up pw_matches bcrypt_work +
  jwt_runtime L view up pw_matches bcrypt_work J verified clock
  for L :: "'w golib" and G :: "'w gorm" and view and up and pw_matches and bcrypt_work
    and J :: "'w jwtlib" and verified and clock

abbreviation refresh_of :: "(SigningMethod \<Rightarrow> string \<Rightarrow> string \<Rightarrow> TokenClaims \<Rightarrow> bool) \<Rightarrow> TokenConfig
    \<Rightarrow> string \<Rightarrow> TokenClaims \<Rightarrow> bool" where
  "refresh_of verified cfg t cl \<equiv> \<exists>alg. verified (SigningMethodHMAC alg) (RefreshTokenSecret cfg) t cl"

lemma wired_fields [simp]:
  "userRepository (wired_user_service L G J cfg) = GORMUserRepository L G"
  "refreshTokenRepository (wired_user_service L G J cfg) = GORMRefreshTokenRepository L G"
  "tokenService (wired_user_service L G J cfg) = NewTokenService L J cfg"
  "txManager (wired_user_service L G J cfg) = GORMTxManager G"
  "refreshTokenTTL (wired_user_service L G J cfg) = RefreshTokenExpiry cfg"
  by (simp_all add: wired_user_service_def NewUserService_def)

sublocale backend \<subseteq> us: user_service L "wired_user_service L G J cfg" view up pw_matches bcrypt_work
  "refresh_of verified cfg"
proof (intro user_service.intro user_service_axioms.intro)
  show "bcrypt_work w' = bcrypt_work w \<and> once_get L w' = once_get L w"
    if "UR_FindByEmail (userRepository (wired_user_service L G J cfg)) ctx email w = (ou, w')" for ctx email w ou w'
    using that FindByEmail_work by (simp add: GORMUserRepository_def)
qed (simp_all only: wired_fields, (rule go_runtime_axioms ur.user_repository_axioms
    rtr.refresh_token_repository_axioms ts.token_service_axioms tm.tx_manager_axioms)+)

interpretation mem: backend mem_lib mem_db mem_view mem_up mem_matches m_work mem_jwt mem_verified m_now
  by unfold_locales

context backend
begin

lemma wired_service: "user_service L (wired_user_service L G J cfg) view up pw_matches bcrypt_work (refresh_of verified cfg)"
  by (rule us.user_service_axioms)

end

text \<open>The facts about the wired service, with the laws of the imports as their only premise.\<close>

lemmas wired_Register = user_service.Register_error [OF backend.wired_service]
  user_service.Register_ok [OF backend.wired_service]
  user_service.Register_up [OF backend.wired_service]
  user_service.Register_conflict [OF backend.wired_service]

lemmas wired_Login = user_service.Login_error [OF backend.wired_service]
  user_service.Login_ok [OF backend.wired_service]
  user_service.Login_refused [OF backend.wired_service]
  user_service.Login_up [OF backend.wired_service]

lemmas wired_Refresh = user_service.Refresh_error [OF backend.wired_service]
  user_service.Refresh_ok [OF backend.wired_service]
  user_service.Refresh_unknown [OF backend.wired_service]

lemmas wired_ChangePassword = user_service.ChangePassword_error [OF backend.wired_service]
  user_service.ChangePassword_ok [OF backend.wired_service]

lemmas wired_DeleteAccount = user_service.DeleteAccount_error [OF backend.wired_service]
  user_service.DeleteAccount_ok [OF backend.wired_service]
  user_service.DeleteAccount_up [OF backend.wired_service]

lemmas wired_sessions = user_service.ListSessions_ok [OF backend.wired_service]
  user_service.Purge_ok [OF backend.wired_service]
  user_service.Purge_error [OF backend.wired_service]

end
