(* ===== verification/Scenario.thy ===== *)
theory Scenario
  imports User_Laws
begin

text \<open>
  Concrete inputs in the reference world: a token configuration, a registration request, an
  empty database and one with a single account that holds a single session. \<open>run\<close> collects
  the definitions that evaluate an operation of the user service there.
\<close>

definition cfg0 :: TokenConfig where
  "cfg0 = \<lparr>AccessTokenSecret = ''access'', AccessTokenExpiry = 15 * Minute, RefreshTokenSecret = ''refresh'',
     RefreshTokenExpiry = 168 * Hour\<rparr>"

abbreviation svc0 :: "mem userService" where
  "svc0 \<equiv> wired_user_service mem_lib mem_db mem_jwt cfg0"

definition ann :: RegisterUserRequest where
  "ann = \<lparr>Reg_Email = ''ann@example.com'', Reg_Password = ''secret12'', Reg_Name = ''Ann''\<rparr>"

definition ann_row :: UserEntity where
  "ann_row = zero_UserEntity\<lparr>User_ID := 1, User_Email := ''ann@example.com'', User_Password := mem_bcrypt ''secret12'',
     User_Name := ''Ann''\<rparr>"

definition t1_claims :: TokenClaims where
  "t1_claims = \<lparr>TC_UserID = 1, TC_Email = '''', TC_Name = '''', TC_ID = ''s1'', TC_ExpiresAt = Some (1700604800 * Second),
     TC_IssuedAt = Some (1700000000 * Second), TC_Issuer = ''go-vite-react''\<rparr>"

definition t1 :: string where
  "t1 = mem_token SigningMethodHS256 t1_claims ''refresh''"

definition t1_row :: RefreshTokenEntity where
  "t1_row = \<lparr>RT_ID = 2, RT_UserID = 1, RT_TokenHash = Hash t1, RT_ExpiresAt = 1700604800 * Second,
     RT_CreatedAt = 1700000000 * Second, RT_UpdatedAt = 1700000000 * Second\<rparr>"

text \<open>Ann's account, without and with her session; \<open>mem2\<close> has already computed the dummy hash.\<close>

definition mem1 :: mem where
  "mem1 = mem0\<lparr>m_pool := no_rows\<lparr>users := [ann_row]\<rparr>, m_next := 10\<rparr>"

definition mem2 :: mem where
  "mem2 = mem0\<lparr>m_pool := no_rows\<lparr>users := [ann_row], refresh_tokens := [t1_row]\<rparr>, m_next := 10, m_once := Some [0]\<rparr>"

lemmas scenario_defs = cfg0_def ann_def mem0_def mem1_def mem2_def no_rows_def ann_row_def t1_row_def zero_UserEntity_def

lemmas mem_stmt_defs = mem_First_def mem_Find_def mem_Count_def mem_Create_def mem_Rewrite_def mem_Save_def mem_stmt_def
  mem_put_def

lemmas mem_lib_defs = mem_lib_def mem_db_def mem_users_def mem_tokens_def mem_counters_def mem_messages_def mem_jwt_def

lemmas repository_defs = GORMUserRepository_def GORMRefreshTokenRepository_def NewTokenService_def GORMTxManager_def
  GORMTx_WithinTx_def gorm_Transaction_def GORMUser_Create_def GORMUser_FindByID_def GORMUser_FindByEmail_def
  GORMUser_Update_def GORMUser_Delete_def GORMToken_Create_def GORMToken_FindByTokenHash_def
  GORMToken_ListActiveByUserID_def GORMToken_CountActiveByUserID_def GORMToken_DeleteByUserID_def
  GORMToken_DeleteByTokenHash_def GORMToken_DeleteExpired_def

lemmas token_service_defs = GenerateAccessToken_def GenerateRefreshToken_def ValidateAccessToken_def
  ValidateRefreshToken_def keyfunc_def SigningMethodHS256_def mem_Parse_def

lemmas user_service_defs = Register_def register_closure_def issueTokens_def StoreRefreshToken_def Login_def
  dummyPasswordHash_def Refresh_def rotate_closure_def handleReuse_def RevokeRefreshTokens_def GetUser_service_def
  ChangePassword_def change_password_closure_def DeleteAccount_def delete_account_closure_def ListSessions_def
  session_of_def PurgeExpiredRefreshTokens_def

lemmas run = mem_stmt_defs mem_lib_defs repository_defs token_service_defs user_service_defs scenario_defs
  Let_def time_Add_def time_Before_def List.map_filter_def user_live_def mem_matches_def mem_bcrypt_def bytes_def
  t1_claims_def token_active_def user_overlay_def mem_up_def

lemma t1_reads_back [simp]: "mem_untoken t1 = Some (SigningMethodHMAC ''HS256'', ''refresh'', t1_claims)"
  by (simp add: t1_def codec SigningMethodHS256_def)

lemma t1_nonempty [simp]: "t1 \<noteq> []"
  by (simp add: t1_def mem_token_nonempty)

lemma mem_up_scenario [simp]: "mem_up mem0" "mem_up mem1" "mem_up mem2"
  by (simp_all add: mem_up_def mem0_def mem1_def mem2_def)

lemmas mem_backend = mem.backend_axioms

end
