(* ===== verification/User_Properties.thy ===== *)
theory User_Properties
  imports Scenario
begin

text \<open>
  The guarantees of the user service, stated for the service as the container wires it
  (\<open>wired_user_service\<close>) and for every GORM, bcrypt, uuid and jwt that keep their laws
  (\<open>backend\<close>). \<open>view Pool\<close> is what is committed. A request starts outside any
  transaction, so its context carries none. Each property is followed by an instance of it
  in the reference world.
\<close>

subsection \<open>Registration\<close>

text \<open>C31. A successful registration commits exactly one new account, with the requested address and name
  and a password hash that matches the requested password, and exactly one session for it, stored
  as the digest of the refresh token that was returned; neither clashes with a row that was there,
  soft-deleted ones included, and no other row changes.\<close>

theorem register_creates:
  assumes "backend L G view up pw_matches bcrypt_work J verified clock" and "dbtx_From ctx = None"
    and "Register L (wired_user_service L G J cfg) ctx req w = (Inr resp, w')"
  shows "\<exists>u row. registered pw_matches req (GU_ID (RR_User resp)) u
    \<and> GU_Email (RR_User resp) = Reg_Email req \<and> GU_Name (RR_User resp) = Reg_Name req
    \<and> RT_UserID row = User_ID u \<and> RT_TokenHash row = Hash (RR_RefreshToken resp)
    \<and> (\<forall>x \<in> set (users (view Pool w)). User_Email x \<noteq> Reg_Email req \<and> User_ID x \<noteq> User_ID u)
    \<and> (\<forall>x \<in> set (refresh_tokens (view Pool w)). RT_TokenHash x \<noteq> RT_TokenHash row)
    \<and> view Pool w' = (view Pool w)\<lparr>users := users (view Pool w) @ [u],
         refresh_tokens := refresh_tokens (view Pool w) @ [row]\<rparr>"
  using wired_Register(2) [OF assms]
  by (fastforce simp: session_row_def user_clash_def token_clash_def registered_def add_token_def add_user_def)

theorem register_creates_witness:
  "\<exists>resp w' u row. Register mem_lib svc0 Background ann mem0 = (Inr resp, w')
     \<and> registered mem_matches ann (GU_ID (RR_User resp)) u \<and> RT_TokenHash row = Hash (RR_RefreshToken resp)
     \<and> mem_view Pool w' = no_rows\<lparr>users := [u], refresh_tokens := [row]\<rparr>"
proof -
  obtain resp w' where r: "Register mem_lib svc0 Background ann mem0 = (Inr resp, w')" by (simp add: run)
  from register_creates [OF mem_backend dbtx_From_Background r] r show ?thesis by (auto simp: mem0_def no_rows_def)
qed

text \<open>An address that any account holds, also a deleted one, cannot be registered again: with the
  infrastructure up, the answer is the conflict error.\<close>

lemma register_conflict:
  assumes "backend L G view up pw_matches bcrypt_work J verified clock" and "dbtx_From ctx = None"
    and "up w" and "length (Reg_Password req) \<le> 72"
    and "x \<in> set (users (view Pool w))" and "User_Email x = Reg_Email req"
    and "Register L (wired_user_service L G J cfg) ctx req w = (res, w')"
  shows "res = Inl ErrUserAlreadyExists \<and> view Pool w' = view Pool w"
proof -
  have "res = Inl ErrUserAlreadyExists" using assms by (rule wired_Register(4))
  with wired_Register(1) [OF assms(1,2)] assms(7) show ?thesis by blast
qed



subsection \<open>Login\<close>



text \<open>C29. A successful login authenticated a live account by its address and password and committed
  exactly one new session for it, stored as the digest of the returned token.\<close>

theorem login_creates_session:
  assumes "backend L G view up pw_matches bcrypt_work J verified clock" and "dbtx_From ctx = None"
    and "Login L (wired_user_service L G J cfg) ctx req w = (Inr resp, w')"
  shows "\<exists>u row. u \<in> set (users (view Pool w)) \<and> user_live u \<and> User_Email u = Login_Email req
    \<and> pw_matches (User_Password u) (Login_Password req)
    \<and> LR_User resp = \<lparr>GU_ID = User_ID u, GU_Email = User_Email u, GU_Name = User_Name u\<rparr>
    \<and> RT_UserID row = User_ID u \<and> RT_TokenHash row = Hash (LR_RefreshToken resp)
    \<and> view Pool w' = (view Pool w)\<lparr>refresh_tokens := refresh_tokens (view Pool w) @ [row]\<rparr>"
  using wired_Login(2) [OF assms(1,3)] assms(2)
  by (fastforce simp: session_row_def view_changed_def add_token_def)

theorem login_creates_session_witness:
  "\<exists>resp w' row. Login mem_lib svc0 Background \<lparr>Login_Email = ''ann@example.com'', Login_Password = ''secret12''\<rparr> mem1
       = (Inr resp, w') \<and> RT_TokenHash row = Hash (LR_RefreshToken resp)
     \<and> mem_view Pool w' = (m_pool mem1)\<lparr>refresh_tokens := [row]\<rparr>"
proof -
  let ?q = "\<lparr>Login_Email = ''ann@example.com'', Login_Password = ''secret12''\<rparr>"
  obtain resp w' where r: "Login mem_lib svc0 Background ?q mem1 = (Inr resp, w')" by (simp add: run)
  from login_creates_session [OF mem_backend dbtx_From_Background r] r show ?thesis by (auto simp: mem1_def no_rows_def)
qed

subsection \<open>Refresh-token rotation\<close>

text \<open>C6. A successful refresh was given a token that verifies and has a row; it commits one change of
  state: every row with that digest is gone and one new row stands for the returned token, for
  the user the old token names. Accounts and all other sessions stay.\<close>

theorem refresh_rotates:
  assumes "backend L G view up pw_matches bcrypt_work J verified clock" and "dbtx_From ctx = None"
    and "Refresh L (wired_user_service L G J cfg) ctx t w = (Inr resp, w')"
  shows "\<exists>stored row cl. refresh_of verified cfg t cl
    \<and> stored \<in> set (refresh_tokens (view Pool w)) \<and> RT_TokenHash stored = Hash t
    \<and> RT_UserID row = TC_UserID cl \<and> RT_TokenHash row = Hash (RF_RefreshToken resp)
    \<and> view Pool w' = (view Pool w)\<lparr>refresh_tokens :=
         filter (\<lambda>x. RT_TokenHash x \<noteq> Hash t) (refresh_tokens (view Pool w)) @ [row]\<rparr>"
  using wired_Refresh(2) [OF assms]
  by (fastforce simp: session_row_def add_token_def drop_tokens_def)

theorem refresh_rotates_witness:
  "\<exists>resp w' row. Refresh mem_lib svc0 Background t1 mem2 = (Inr resp, w')
     \<and> RT_UserID row = 1 \<and> RT_TokenHash row = Hash (RF_RefreshToken resp)
     \<and> mem_view Pool w' = (m_pool mem2)\<lparr>refresh_tokens := [row]\<rparr>"
proof -
  obtain resp w' where r: "Refresh mem_lib svc0 Background t1 mem2 = (Inr resp, w')" by (simp add: run)
  from refresh_rotates [OF mem_backend dbtx_From_Background r] r show ?thesis
    by (auto simp: mem2_def no_rows_def mem_verified_def t1_row_def t1_claims_def)
qed



text \<open>C28. A refresh that is refused never creates a session and never touches an account. Apart from leaving
  the tables alone it can do two things: end all sessions of the token's user, when it reports reuse, or drop
  the row of the token, when it reports that the row has expired.\<close>

theorem refresh_refused_only_revokes:
  assumes "backend L G view up pw_matches bcrypt_work J verified clock" and "dbtx_From ctx = None"
    and "Refresh L (wired_user_service L G J cfg) ctx t w = (Inl e, w')"
  shows "users (view Pool w') = users (view Pool w)
    \<and> (refresh_tokens (view Pool w') = refresh_tokens (view Pool w)
      \<or> (e = ErrRefreshTokenRevoked \<and> (\<exists>cl. refresh_of verified cfg t cl \<and>
           refresh_tokens (view Pool w') = filter (\<lambda>x. RT_UserID x \<noteq> TC_UserID cl) (refresh_tokens (view Pool w))))
      \<or> (e = ErrRefreshTokenExpired \<and>
           refresh_tokens (view Pool w') = filter (\<lambda>x. RT_TokenHash x \<noteq> Hash t) (refresh_tokens (view Pool w))))"
  using wired_Refresh(1) [OF assms] by auto

theorem refresh_refused_only_revokes_witness:
  "\<exists>e w'. Refresh mem_lib svc0 Background t1 mem1 = (Inl e, w') \<and> users (mem_view Pool w') = users (m_pool mem1)"
proof -
  obtain e w' where r: "Refresh mem_lib svc0 Background t1 mem1 = (Inl e, w')" by (simp add: run)
  from refresh_refused_only_revokes [OF mem_backend dbtx_From_Background r] r show ?thesis by auto
qed

subsection \<open>Password change and account deletion\<close>

text \<open>Rows of an updated table: who they belong to and what they hold.\<close>

lemma rewritten_user:
  assumes "rows_rewritten sel step us us'" and "x \<in> set us'"
  obtains y where "y \<in> set us" "sel y \<and> step y x \<or> \<not> sel y \<and> x = y"
proof -
  obtain k where "k < length us'" "x = us' ! k" using assms(2) by (auto simp: in_set_conv_nth)
  with assms(1) that [of "us ! k"] show ?thesis
    by (auto simp: rows_rewritten_def list_all2_conv_all_nth split: if_splits)
qed

text \<open>C12. A successful password change proves knowledge of the current password, gives the account a hash
  that matches the new password, changes no other account, and leaves the account exactly one session:
  the one whose token was returned. Sessions of other accounts stay.\<close>

theorem change_password_ends_sessions:
  assumes "backend L G view up pw_matches bcrypt_work J verified clock" and "dbtx_From ctx = None"
    and "ChangePassword L (wired_user_service L G J cfg) ctx i req w = (Inr resp, w')"
  shows "(\<exists>u \<in> set (users (view Pool w)). user_live u \<and> User_ID u = i
        \<and> pw_matches (User_Password u) (CurrentPassword req))
    \<and> (\<forall>x \<in> set (users (view Pool w')). if user_live x \<and> User_ID x = i
        then pw_matches (User_Password x) (NewPassword req) else x \<in> set (users (view Pool w)))
    \<and> (\<exists>row. RT_TokenHash row = Hash (CP_RefreshToken resp) \<and> RT_UserID row = i
        \<and> filter (\<lambda>x. RT_UserID x = i) (refresh_tokens (view Pool w')) = [row]
        \<and> filter (\<lambda>x. RT_UserID x \<noteq> i) (refresh_tokens (view Pool w'))
          = filter (\<lambda>x. RT_UserID x \<noteq> i) (refresh_tokens (view Pool w)))"
proof -
  from wired_ChangePassword(2) [OF assms] obtain u h us row ex where
    u: "u \<in> set (users (view Pool w))" "user_live u" "User_ID u = i" "pw_matches (User_Password u) (CurrentPassword req)"
    and h: "h \<noteq> []" "pw_matches h (NewPassword req)"
    and us: "rows_rewritten (\<lambda>x. user_live x \<and> User_ID x = i) (user_updated (zero_UserEntity\<lparr>User_Password := h\<rparr>))
        (users (view Pool w)) us"
    and row: "session_row i (CP_RefreshToken resp) ex row"
    and v: "view Pool w' = add_token row (drop_tokens (\<lambda>x. RT_UserID x = i) ((view Pool w)\<lparr>users := us\<rparr>))" by blast
  have "if user_live x \<and> User_ID x = i then pw_matches (User_Password x) (NewPassword req)
      else x \<in> set (users (view Pool w))" if "x \<in> set us" for x
    using us that by (rule rewritten_user)
      (auto simp: user_updated_def user_overlay_def user_live_def h zero_UserEntity_def)
  with u row v show ?thesis by (auto simp: session_row_def filter_none_iff)
qed

theorem change_password_ends_sessions_witness:
  "\<exists>resp w' row. ChangePassword mem_lib svc0 Background 1 \<lparr>CurrentPassword = ''secret12'', NewPassword = ''better34''\<rparr> mem2
       = (Inr resp, w') \<and> RT_TokenHash row = Hash (CP_RefreshToken resp)
     \<and> filter (\<lambda>x. RT_UserID x = 1) (refresh_tokens (mem_view Pool w')) = [row]"
proof -
  let ?q = "\<lparr>CurrentPassword = ''secret12'', NewPassword = ''better34''\<rparr>"
  obtain resp w' where r: "ChangePassword mem_lib svc0 Background 1 ?q mem2 = (Inr resp, w')" by (simp add: run)
  from change_password_ends_sessions [OF mem_backend dbtx_From_Background r] r show ?thesis by blast
qed

text \<open>C19. Registration, password change and deletion are all or nothing: one that reports an error, wherever its
  transaction was struck, leaves accounts, passwords and sessions exactly as they were.\<close>

theorem failed_writes_roll_back:
  assumes "backend L G view up pw_matches bcrypt_work J verified clock" and "dbtx_From ctx = None"
    and "Register L (wired_user_service L G J cfg) ctx req w = (Inl e, w')
      \<or> ChangePassword L (wired_user_service L G J cfg) ctx i preq w = (Inl e, w')
      \<or> DeleteAccount L (wired_user_service L G J cfg) ctx i w = (Inl e, w')"
  shows "view Pool w' = view Pool w"
  using assms(3) wired_Register(1) [OF assms(1,2)] wired_ChangePassword(1) [OF assms(1,2)] wired_DeleteAccount(1) [OF assms(1,2)] by blast

text \<open>The fault strikes inside the transaction: between the two inserts of a registration, and after the sessions were
  deleted by a password change and by a deletion.\<close>

theorem failed_writes_roll_back_witness:
  "(\<exists>e w'. Register mem_lib svc0 Background ann (mem0\<lparr>m_fault := Some 3\<rparr>) = (Inl e, w')
     \<and> users (m_tx w') \<noteq> [] \<and> mem_view Pool w' = mem_view Pool (mem0\<lparr>m_fault := Some 3\<rparr>))
   \<and> (\<exists>e w'. ChangePassword mem_lib svc0 Background 1 \<lparr>CurrentPassword = ''secret12'', NewPassword = ''better34''\<rparr>
       (mem2\<lparr>m_fault := Some 4\<rparr>) = (Inl e, w') \<and> refresh_tokens (m_tx w') = []
     \<and> mem_view Pool w' = mem_view Pool (mem2\<lparr>m_fault := Some 4\<rparr>))
   \<and> (\<exists>e w'. DeleteAccount mem_lib svc0 Background 1 (mem2\<lparr>m_fault := Some 3\<rparr>) = (Inl e, w')
     \<and> refresh_tokens (m_tx w') = [] \<and> mem_view Pool w' = mem_view Pool (mem2\<lparr>m_fault := Some 3\<rparr>))"
proof (intro conjI)
  note roll = failed_writes_roll_back [OF mem_backend dbtx_From_Background]
  obtain e w' where r: "Register mem_lib svc0 Background ann (mem0\<lparr>m_fault := Some 3\<rparr>) = (Inl e, w')" "users (m_tx w') \<noteq> []"
    by (simp add: run)
  from roll [OF disjI1 [OF r(1)]] r show "\<exists>e w'. Register mem_lib svc0 Background ann (mem0\<lparr>m_fault := Some 3\<rparr>) = (Inl e, w')
     \<and> users (m_tx w') \<noteq> [] \<and> mem_view Pool w' = mem_view Pool (mem0\<lparr>m_fault := Some 3\<rparr>)" by blast
  let ?q = "\<lparr>CurrentPassword = ''secret12'', NewPassword = ''better34''\<rparr>"
  obtain e w' where r: "ChangePassword mem_lib svc0 Background 1 ?q (mem2\<lparr>m_fault := Some 4\<rparr>) = (Inl e, w')"
    "refresh_tokens (m_tx w') = []" by (simp add: run)
  from roll [OF disjI2 [OF disjI1 [OF r(1)]]] r show "\<exists>e w'. ChangePassword mem_lib svc0 Background 1 ?q (mem2\<lparr>m_fault := Some 4\<rparr>) = (Inl e, w')
     \<and> refresh_tokens (m_tx w') = [] \<and> mem_view Pool w' = mem_view Pool (mem2\<lparr>m_fault := Some 4\<rparr>)" by blast
  obtain e w' where r: "DeleteAccount mem_lib svc0 Background 1 (mem2\<lparr>m_fault := Some 3\<rparr>) = (Inl e, w')"
    "refresh_tokens (m_tx w') = []" by (simp add: run)
  from roll [OF disjI2 [OF disjI2 [OF r(1)]]] r show "\<exists>e w'. DeleteAccount mem_lib svc0 Background 1 (mem2\<lparr>m_fault := Some 3\<rparr>) = (Inl e, w')
     \<and> refresh_tokens (m_tx w') = [] \<and> mem_view Pool w' = mem_view Pool (mem2\<lparr>m_fault := Some 3\<rparr>)" by blast
qed


subsection \<open>Where the code does something else than its comments say\<close>

text \<open>A refresh token carries no address and no name, and \<open>Refresh\<close> issues the access token from its claims: after
  a login and a refresh the access token identifies the user but names nobody.\<close>

lemma refreshed_token_names_nobody:
  "\<exists>l w1 r w2 cl w3. Login mem_lib svc0 Background \<lparr>Login_Email = ''ann@example.com'', Login_Password = ''secret12''\<rparr> mem1 = (Inr l, w1)
     \<and> Refresh mem_lib svc0 Background (LR_RefreshToken l) w1 = (Inr r, w2)
     \<and> TS_ValidateAccessToken (tokenService svc0) (RF_AccessToken r) w2 = (Inr cl, w3)
     \<and> TC_UserID cl = 1 \<and> TC_Email cl = '''' \<and> TC_Name cl = ''''"
  by (simp add: run wired_user_service_def NewUserService_def mem_token_nonempty codec)

text \<open>A deadline that strikes inside a repository is reported as an internal error, not as a timeout.\<close>

lemma repository_deadline_is_internal:
  assumes "ctx_Err L ctx w = (None, w1)"
    and "UR_FindByEmail (userRepository s) ctx (Login_Email req) w1 = (Inl DeadlineExceeded, w2)"
  shows "\<exists>e. Login L s ctx req w = (Inl e, w2) \<and> errors_Is e DeadlineExceeded \<and> HTTPStatus e = 500"
  using assms by (simp add: Login_def Internal_def WithCause_def HTTPStatus_def ErrInternal_def New_var_def statusForCode_def
    code_defs std_error_defs)

end
