(* ===== verification/Basic_Services.thy ===== *)
theory Basic_Services
  imports Scenario
begin

text \<open>
  Packages \<open>internal/service/counter\<close>, \<open>internal/service/message\<close> and
  \<open>internal/service/health\<close>: thin services over the counter and message repositories, and the
  health checks over a map of dependency checks.
\<close>

subsection \<open>Services\<close>

definition GetCounter_service :: "'w CounterRepository \<Rightarrow> Context \<Rightarrow> ('w, go_error, GetCounter) effect" where
  "GetCounter_service repo ctx w =
     (case CR_GetCounter repo ctx w of
        (Inl err, w1) \<Rightarrow> (Inl (Internal (Errorf ''reading counter'' err)), w1)
      | (Inr v, w1) \<Rightarrow> (Inr \<lparr>GC_Value = v\<rparr>, w1))"

definition IncrementCounter_service :: "'w CounterRepository \<Rightarrow> Context \<Rightarrow> ('w, go_error, GetCounter) effect" where
  "IncrementCounter_service repo ctx w =
     (case CR_IncrementCounter repo ctx w of
        (Inl err, w1) \<Rightarrow> (Inl (Internal (Errorf ''incrementing counter'' err)), w1)
      | (Inr v, w1) \<Rightarrow> (Inr \<lparr>GC_Value = v\<rparr>, w1))"

text \<open>A nil message is not an error: the service returns nil, nil.\<close>

definition GetMessage_service :: "'w MessageRepository \<Rightarrow> Context \<Rightarrow> ('w, go_error, GetMessage option) effect" where
  "GetMessage_service repo ctx w =
     (case MR_GetMessage repo ctx ''default'' w of
        (Inl err, w1) \<Rightarrow> (Inl (Internal (Errorf ''reading message'' err)), w1)
      | (Inr None, w1) \<Rightarrow> (Inr None, w1)
      | (Inr (Some message), w1) \<Rightarrow> (Inr (Some \<lparr>GM_Content = message\<rparr>), w1))"

definition Check :: "'w golib \<Rightarrow> Context \<Rightarrow> ('w, go_error, HealthStatus) effect" where
  "Check L ctx w =
     (case ctx_Err L ctx w of
        (Some err, w1) \<Rightarrow> (Inl err, w1)
      | (None, w1) \<Rightarrow>
          (let (now, w2) = time_Now L w1
           in (Inr \<lparr>HS_Status = ''ok'', HS_Message = ''Service is healthy'',
                     HS_Details = [(''timestamp'', Timestamp now)]\<rparr>, w2)))"

text \<open>The checks in the order in which \<open>range\<close> visits the map.\<close>

type_synonym 'w checks = "(string \<times> (Context \<Rightarrow> 'w \<Rightarrow> go_error option \<times> 'w)) list"

text \<open>The loop: the details collected so far and the number of failures.\<close>

fun run_checks :: "Context \<Rightarrow> 'w checks \<Rightarrow> (string, HealthDetail) gomap \<times> nat \<Rightarrow> 'w
    \<Rightarrow> ((string, HealthDetail) gomap \<times> nat) \<times> 'w" where
  "run_checks ctx [] acc w = (acc, w)"
| "run_checks ctx ((name, check) # cs) (details, unhealthyCount) w =
     (case check ctx w of
        (Some err, w1) \<Rightarrow>
          run_checks ctx cs (gomap_set details name (Dependency (Unhealthy (Error err))), unhealthyCount + 1) w1
      | (None, w1) \<Rightarrow>
          run_checks ctx cs (gomap_set details name (Dependency Healthy), unhealthyCount) w1)"

definition CheckWithDependencies ::
  "'w golib \<Rightarrow> Context \<Rightarrow> 'w checks \<Rightarrow> ('w, go_error, HealthStatus) effect" where
  "CheckWithDependencies L ctx checks w =
     (case ctx_Err L ctx w of
        (Some err, w1) \<Rightarrow> (Inl err, w1)
      | (None, w1) \<Rightarrow>
          (let ((details, unhealthyCount), w2) = run_checks ctx checks ([], 0) w1;
               status = \<lparr>HS_Status = ''ok'', HS_Message = ''All dependencies healthy'', HS_Details = details\<rparr>
           in if unhealthyCount > 0
              then (Inr (status\<lparr>HS_Status := ''degraded'',
                     HS_Message := nat_to_string unhealthyCount @ '' dependency checks failed''\<rparr>), w2)
              else (Inr status, w2)))"

text \<open>The interfaces the handlers see, and the constructors. The structs behind them hold at most a repository, which is the
  receiver of the functions above.\<close>

record 'w CounterService =
  CtS_GetCounter :: "Context \<Rightarrow> ('w, go_error, GetCounter) effect"
  CtS_IncrementCounter :: "Context \<Rightarrow> ('w, go_error, GetCounter) effect"

definition NewCounterService :: "'w CounterRepository \<Rightarrow> 'w CounterService" where
  "NewCounterService repo = \<lparr>CtS_GetCounter = GetCounter_service repo, CtS_IncrementCounter = IncrementCounter_service repo\<rparr>"

record 'w MessageService =
  MgS_GetMessage :: "Context \<Rightarrow> ('w, go_error, GetMessage option) effect"

definition NewMessageService :: "'w MessageRepository \<Rightarrow> 'w MessageService" where
  "NewMessageService repo = \<lparr>MgS_GetMessage = GetMessage_service repo\<rparr>"

record 'w HealthService =
  HlS_Check :: "Context \<Rightarrow> ('w, go_error, HealthStatus) effect"
  HlS_CheckWithDependencies :: "Context \<Rightarrow> 'w checks \<Rightarrow> ('w, go_error, HealthStatus) effect"

definition NewHealthService :: "'w golib \<Rightarrow> 'w HealthService" where
  "NewHealthService L = \<lparr>HlS_Check = Check L, HlS_CheckWithDependencies = CheckWithDependencies L\<rparr>"

subsection \<open>The counter\<close>

context gorm_platform
begin

lemma increment_closure_ok:
  assumes "increment_closure G c w = (Inr r, w')"
  shows "\<exists>x \<in> set (counters (view c w)). Counter_Value r = wrap64 (Counter_Value x + 1) \<and> Counter_ID r = Counter_ID x
    \<and> view_changed view c ((view c w)\<lparr>counters := map (\<lambda>y. if Counter_ID y = Counter_ID x then r else y)
        (counters (view c w))\<rparr>) w w'"
proof -
  obtain x w1 where x: "g_First (db_counters G) c (\<lambda>_. True) w = (Inr x, w1)"
    and sv: "g_Save (db_counters G) c (x\<lparr>Counter_Value := wrap64 (Counter_Value x + 1)\<rparr>) w1 = (Inr r, w')"
    using assms by (auto simp: increment_closure_def split: call_splits)
  have same: "same_views view w w1" and mem: "x \<in> set (counters (view c w))"
    using counter_table.First_frame [OF x] counter_table.First_found [OF x] by auto
  then have "x \<in> set (counters (view c w1))" by (simp add: same_viewsD)
  from Save_row [OF sv this] mem same show ?thesis
    by (auto simp: same_viewsD intro!: bexI [of _ x] intro: view_changed_same(1))
qed

lemma increment_confined: "increment_closure G Tx w = (cr, w') \<Longrightarrow> view Pool w' = view Pool w"
proof (cases cr)
  case (Inl e)
  assume "increment_closure G Tx w = (cr, w')"
  with Inl show ?thesis
    by (auto simp: increment_closure_def same_views_def split: call_splits
        dest!: counter_table.First_frame Save_error)
next
  case (Inr r)
  assume "increment_closure G Tx w = (cr, w')"
  with Inr increment_closure_ok [of Tx w r w'] show ?thesis by (auto dest: view_changedD(2))
qed

lemma Increment_error:
  assumes "dbtx_From ctx = None" and "GORMCounter_IncrementCounter L G ctx w = (Inl e, w')"
  shows "view Pool w' = view Pool w"
  using assms by (auto simp: GORMCounter_IncrementCounter_def guard_view split: call_splits
      dest!: Transaction_error [OF _ increment_confined])

lemma Increment_ok:
  assumes "dbtx_From ctx = None" and "GORMCounter_IncrementCounter L G ctx w = (Inr v, w')"
  shows "\<exists>x \<in> set (counters (view Pool w)). \<exists>r. v = wrap64 (Counter_Value x + 1) \<and> Counter_Value r = v
    \<and> Counter_ID r = Counter_ID x \<and> view Pool w' = (view Pool w)\<lparr>counters :=
        map (\<lambda>y. if Counter_ID y = Counter_ID x then r else y) (counters (view Pool w))\<rparr>"
proof -
  obtain w1 r where w1: "ctx_Err L ctx w = (None, w1)"
    and tx: "gorm_Transaction G Pool (increment_closure G) w1 = (Inr r, w')" and v: "v = Counter_Value r"
    using assms by (auto simp: GORMCounter_IncrementCounter_def split: call_splits)
  from Transaction_commit [OF tx] obtain w2 w3 where w2: "view Tx w2 = view Pool w1"
    "increment_closure G Tx w2 = (Inr r, w3)" "view Pool w' = view Tx w3" by blast
  from increment_closure_ok [OF w2(2)] w2 v guard_view [OF w1] show ?thesis
    by (auto simp: view_changed_def)
qed

lemma Increment_up:
  assumes "dbtx_From ctx = None" and "up w" and "counters (view Pool w) \<noteq> []"
  shows "\<exists>v w'. GORMCounter_IncrementCounter L G ctx w = (Inr v, w') \<and> up w'"
proof -
  obtain w1 where w1: "ctx_Err L ctx w = (None, w1)" "up w1" using guard_up [OF assms(2)] by blast
  obtain w2 where w2: "up w2" "view Tx w2 = view Pool w1"
    "\<And>a w3. increment_closure G Tx w2 = (Inr a, w3) \<Longrightarrow> up w3 \<Longrightarrow>
       \<exists>w'. gorm_Transaction G Pool (increment_closure G) w1 = (Inr a, w') \<and> up w'"
    using Transaction_up [OF w1(2), of "increment_closure G"] by blast
  obtain x w3 where x: "g_First (db_counters G) Tx (\<lambda>_. True) w2 = (Inr x, w3)" "up w3"
    using counter_table.First_up [OF w2(1), of Tx "\<lambda>_. True"]
      counter_table.First_missing [of Tx "\<lambda>_. True" w2 ErrRecordNotFound] assms(3) w2(2) guard_view [OF w1(1)]
    by (metis errors_Is_not_found list.set_sel(1) surj_pair)
  obtain r w4 where "increment_closure G Tx w2 = (Inr r, w4)" "up w4"
    using x Save_up [OF x(2)] by (auto simp: increment_closure_def) (metis surj_pair)
  with w2(3) w1 assms(1) show ?thesis by (fastforce simp: GORMCounter_IncrementCounter_def)
qed

lemma Get_ok:
  "GORMCounter_GetCounter L G ctx w = (Inr v, w') \<Longrightarrow>
     \<exists>x \<in> set (counters (view (dbtx_Conn ctx Pool) w)). v = Counter_Value x"
  by (auto simp: GORMCounter_GetCounter_def guard_view split: call_splits dest!: counter_table.First_found)

lemma Get_up:
  assumes "dbtx_From ctx = None" and "up w" and "counters (view Pool w) \<noteq> []"
  shows "\<exists>v w'. GORMCounter_GetCounter L G ctx w = (Inr v, w')"
proof -
  obtain w1 where w1: "ctx_Err L ctx w = (None, w1)" "up w1" using guard_up [OF assms(2)] by blast
  obtain x w2 where "g_First (db_counters G) Pool (\<lambda>_. True) w1 = (Inr x, w2)"
    using counter_table.First_up [OF w1(2), of Pool "\<lambda>_. True"]
      counter_table.First_missing [of Pool "\<lambda>_. True" w1 ErrRecordNotFound] assms(3) guard_view [OF w1(1)]
    by (metis errors_Is_not_found list.set_sel(1) surj_pair)
  with w1 assms(1) show ?thesis by (simp add: GORMCounter_GetCounter_def)
qed

end

text \<open>The counter as the container wires it.\<close>

abbreviation increment :: "'w golib \<Rightarrow> 'w gorm \<Rightarrow> Context \<Rightarrow> ('w, go_error, GetCounter) effect" where
  "increment L G ctx \<equiv> IncrementCounter_service (GORMCounterRepository L G) ctx"

lemma one_increment:
  assumes "gorm_platform L G view up pw_matches bcrypt_work" and "dbtx_From ctx = None" and "up w"
    and "counters (view Pool w) = [c]"
  shows "\<exists>w' c'. increment L G ctx w = (Inr \<lparr>GC_Value = wrap64 (Counter_Value c + 1)\<rparr>, w') \<and> up w'
    \<and> counters (view Pool w') = [c'] \<and> Counter_Value c' = wrap64 (Counter_Value c + 1)"
proof -
  from gorm_platform.Increment_up [OF assms(1-3)] assms(4) obtain v w' where
    r: "GORMCounter_IncrementCounter L G ctx w = (Inr v, w')" "up w'" by auto
  with gorm_platform.Increment_ok [OF assms(1,2) r(1)] assms(4) show ?thesis
    by (auto simp: IncrementCounter_service_def GORMCounterRepository_def)
qed

lemma many_increments:
  assumes "gorm_platform L G view up pw_matches bcrypt_work" and "dbtx_From ctx = None" and "up w"
    and "counters (view Pool w) = [c]" and "is_int64 (Counter_Value c)" and "Counter_Value c + int n < 2 ^ 63"
  shows "\<exists>w' c'. ((\<lambda>w. snd (increment L G ctx w)) ^^ n) w = w' \<and> up w'
    \<and> counters (view Pool w') = [c'] \<and> Counter_Value c' = Counter_Value c + int n"
  using assms(6)
proof (induction n)
  case 0
  with assms(3,4) show ?case by simp
next
  case (Suc n)
  then obtain w1 c1 where w1: "((\<lambda>w. snd (increment L G ctx w)) ^^ n) w = w1" "up w1"
    "counters (view Pool w1) = [c1]" "Counter_Value c1 = Counter_Value c + int n" by auto
  have "is_int64 (Counter_Value c1 + 1)" using Suc.prems assms(5) w1(4) by (simp add: is_int64_def)
  with one_increment [OF assms(1,2) w1(2,3)] w1 show ?case by (auto simp: wrap64_id)
qed

text \<open>C34. Increments are never lost: with the infrastructure up and one counter row, after \<open>n\<close> increments
  the counter service reads back the initial value plus \<open>n\<close>, as long as the sum fits in an \<open>int\<close>.\<close>

theorem counter_counts:
  assumes "gorm_platform L G view up pw_matches bcrypt_work" and "dbtx_From ctx = None" and "up w"
    and "counters (view Pool w) = [c]" and "is_int64 (Counter_Value c)" and "Counter_Value c + int n < 2 ^ 63"
  shows "\<exists>w'. GetCounter_service (GORMCounterRepository L G) ctx
      (((\<lambda>w. snd (IncrementCounter_service (GORMCounterRepository L G) ctx w)) ^^ n) w)
    = (Inr \<lparr>GC_Value = Counter_Value c + int n\<rparr>, w')"
proof -
  from many_increments [OF assms] obtain w1 c1 where
    w1: "((\<lambda>w. snd (increment L G ctx w)) ^^ n) w = w1" "up w1" "counters (view Pool w1) = [c1]"
      "Counter_Value c1 = Counter_Value c + int n" by blast
  from gorm_platform.Get_up [OF assms(1,2) w1(2)] w1(3) obtain v w2 where
    r: "GORMCounter_GetCounter L G ctx w1 = (Inr v, w2)" by auto
  with gorm_platform.Get_ok [OF assms(1) r] w1 assms(2) show ?thesis
    by (simp add: GetCounter_service_def GORMCounterRepository_def)
qed

definition counter0 :: CounterEntity where
  "counter0 = \<lparr>Counter_ID = 7, Counter_Value = 40, Counter_CreatedAt = 0, Counter_UpdatedAt = 0\<rparr>"

theorem counter_counts_witness:
  "\<exists>w'. GetCounter_service (GORMCounterRepository mem_lib mem_db) Background
      (((\<lambda>w. snd (IncrementCounter_service (GORMCounterRepository mem_lib mem_db) Background w)) ^^ 2)
        (mem0\<lparr>m_pool := no_rows\<lparr>counters := [counter0]\<rparr>\<rparr>))
    = (Inr \<lparr>GC_Value = 42\<rparr>, w')"
  using counter_counts [OF mem.gorm_platform_axioms dbtx_From_Background,
      of "mem0\<lparr>m_pool := no_rows\<lparr>counters := [counter0]\<rparr>\<rparr>" counter0 2]
  by (simp add: mem_up_def mem0_def no_rows_def counter0_def is_int64_def)

text \<open>An increment that fails leaves every committed row as it was; one that succeeds reports the successor
  of a stored value, wrapped to 64 bits, and stores exactly that.\<close>

theorem increment_all_or_nothing:
  assumes "gorm_platform L G view up pw_matches bcrypt_work" and "dbtx_From ctx = None"
    and "IncrementCounter_service (GORMCounterRepository L G) ctx w = (res, w')"
  shows "case res of
      Inl e \<Rightarrow> view Pool w' = view Pool w \<and> client_view e = (500, ''Internal server error'', [])
    | Inr r \<Rightarrow> \<exists>x \<in> set (counters (view Pool w)). \<exists>c. GC_Value r = wrap64 (Counter_Value x + 1)
        \<and> Counter_Value c = GC_Value r \<and> view Pool w' = (view Pool w)\<lparr>counters :=
            map (\<lambda>y. if Counter_ID y = Counter_ID x then c else y) (counters (view Pool w))\<rparr>"
proof (cases res)
  case (Inl e)
  with assms(3) obtain e' where "GORMCounter_IncrementCounter L G ctx w = (Inl e', w')"
    "e = Internal (Errorf ''incrementing counter'' e')"
    by (auto simp: IncrementCounter_service_def GORMCounterRepository_def split: prod.splits sum.splits)
  with Inl gorm_platform.Increment_error [OF assms(1,2)] show ?thesis by (auto simp: client_view_Internal)
next
  case (Inr r)
  with assms(3) have "GORMCounter_IncrementCounter L G ctx w = (Inr (GC_Value r), w')"
    by (auto simp: IncrementCounter_service_def GORMCounterRepository_def split: prod.splits sum.splits)
  with Inr gorm_platform.Increment_ok [OF assms(1,2) this] show ?thesis by auto
qed

theorem increment_all_or_nothing_witness:
  "\<exists>e w'. IncrementCounter_service (GORMCounterRepository mem_lib mem_db) Background
      (mem0\<lparr>m_pool := no_rows\<lparr>counters := [counter0]\<rparr>, m_fault := Some 2\<rparr>) = (Inl e, w')
    \<and> mem_view Pool w' = no_rows\<lparr>counters := [counter0]\<rparr>"
proof -
  let ?w = "mem0\<lparr>m_pool := no_rows\<lparr>counters := [counter0]\<rparr>, m_fault := Some 2\<rparr>"
  obtain e w' where r: "IncrementCounter_service (GORMCounterRepository mem_lib mem_db) Background ?w = (Inl e, w')"
    by (simp add: run IncrementCounter_service_def GORMCounterRepository_def GORMCounter_IncrementCounter_def
        increment_closure_def)
  from increment_all_or_nothing [OF mem.gorm_platform_axioms dbtx_From_Background r] r show ?thesis
    by (auto simp: mem0_def)
qed

subsection \<open>Health checks\<close>

text \<open>The verdict of each check, run once and in order.\<close>

fun verdicts :: "Context \<Rightarrow> 'w checks \<Rightarrow> 'w \<Rightarrow> (string \<times> go_error option) list \<times> 'w" where
  "verdicts ctx [] w = ([], w)"
| "verdicts ctx ((name, check) # cs) w =
     (let (v, w1) = check ctx w; (vs, w2) = verdicts ctx cs w1 in ((name, v) # vs, w2))"

definition detail_of :: "go_error option \<Rightarrow> HealthDetail" where
  "detail_of v = Dependency (case v of None \<Rightarrow> Healthy | Some err \<Rightarrow> Unhealthy (Error err))"

lemma verdict_names: "verdicts ctx cs w = (vs, w') \<Longrightarrow> map fst vs = map fst cs"
  by (induction ctx cs w arbitrary: vs rule: verdicts.induct) (auto simp: Let_def split: prod.splits)

lemma run_checks_verdicts:
  "run_checks ctx cs (d, k) w =
     (let (vs, w') = verdicts ctx cs w
      in ((fold (\<lambda>(n, v) d. gomap_set d n (detail_of v)) vs d, k + length (filter (\<lambda>(n, v). v \<noteq> None) vs)), w'))"
  by (induction cs arbitrary: d k w) (auto simp: detail_of_def Let_def split: prod.splits option.splits)

lemma fold_details:
  assumes "distinct (map fst vs)"
  shows "map_of (fold (\<lambda>(n, v) d. gomap_set d n (detail_of v)) vs d) m =
    (case map_of vs m of Some v \<Rightarrow> Some (detail_of v) | None \<Rightarrow> map_of d m)"
  using assms
proof (induction vs arbitrary: d)
  case (Cons p vs)
  obtain n v where p: "p = (n, v)" by (cases p)
  have "map_of vs n = None" using Cons.prems p by (simp add: map_of_eq_None_iff)
  with Cons p show ?case by (auto simp: update_conv split: option.splits)
qed simp

text \<open>C35. The readiness report tells the truth about every dependency, whatever order the checks run in: it
  is degraded exactly when some check failed, its message counts the failures, and its details hold the verdict
  of each check under its name and nothing else.\<close>

theorem readiness_report_exact:
  assumes "distinct (map fst checks)" and "ctx_Err L ctx w = (None, w1)" and "verdicts ctx checks w1 = (vs, w2)"
  shows "\<exists>st. CheckWithDependencies L ctx checks w = (Inr st, w2)
    \<and> (HS_Status st = ''ok'' \<longleftrightarrow> (\<forall>p \<in> set vs. snd p = None))
    \<and> (\<forall>n. map_of (HS_Details st) n = map_option detail_of (map_of vs n))
    \<and> ((\<exists>p \<in> set vs. snd p \<noteq> None) \<longrightarrow> HS_Status st = ''degraded'' \<and>
         HS_Message st = nat_to_string (length (filter (\<lambda>(n, v). v \<noteq> None) vs)) @ '' dependency checks failed'')"
proof -
  let ?k = "length (filter (\<lambda>(n, v). v \<noteq> None) vs)"
  have d: "distinct (map fst vs)" using assms(1) verdict_names [OF assms(3)] by simp
  have k: "?k = 0 \<longleftrightarrow> (\<forall>p \<in> set vs. snd p = None)" by (auto simp: filter_none_iff case_prod_beta)
  show ?thesis
  proof (cases "?k = 0")
    case True
    with assms(2,3) k show ?thesis
      by (auto simp: CheckWithDependencies_def Let_def run_checks_verdicts fold_details [OF d] split: option.splits)
  next
    case False
    with assms(2,3) k show ?thesis
      by (auto simp: CheckWithDependencies_def Let_def run_checks_verdicts fold_details [OF d] split: option.splits)
  qed
qed

theorem readiness_report_exact_witness:
  "\<exists>st. CheckWithDependencies mem_lib Background [(''database'', \<lambda>ctx w. (Some (errors_New ''no connection''), w))] mem0
      = (Inr st, mem0) \<and> HS_Status st = ''degraded''"
  using readiness_report_exact
    [of "[(''database'', \<lambda>ctx w. (Some (errors_New ''no connection''), w))]" mem_lib Background mem0 mem0]
  by (auto simp: mem_lib_def mem0_def)

end
