(* ===== verification/Http_Core.thy ===== *)
theory Http_Core
  imports User_Properties Basic_Services
begin

text \<open>
  The shared part of package \<open>internal/api\<close>: writing the response envelope
  (\<open>handler/respond.go\<close>, \<open>middleware/respond.go\<close>), binding and validation messages,
  pagination, and the request id.

  \<open>gin.Context\<close> is an abstract type \<open>'c\<close>; the methods the code calls are the fields
  of the record \<open>ginlib\<close>. A gin handler maps a context and a world to the next ones; a
  middleware is given what \<open>c.Next()\<close> runs. Log lines and span events are not modelled.
\<close>

subsection \<open>gin\<close>

text \<open>The values the code stores under a key of the context.\<close>

datatype ctx_value = StrVal string | ClaimsVal TokenClaims | OtherVal

record cookie =
  ck_name :: string
  ck_value :: string
  ck_maxAge :: int
  ck_path :: string
  ck_domain :: string
  ck_secure :: bool
  ck_httpOnly :: bool
  ck_sameSiteLax :: bool

record 'c ginlib =
  gin_Get :: "'c \<Rightarrow> string \<Rightarrow> ctx_value option"
  gin_Set :: "string \<Rightarrow> ctx_value \<Rightarrow> 'c \<Rightarrow> 'c"
  gin_Cookie :: "'c \<Rightarrow> string \<Rightarrow> go_error + string"
  gin_GetHeader :: "'c \<Rightarrow> string \<Rightarrow> string"
  gin_Method :: "'c \<Rightarrow> string"
  gin_ClientIP :: "'c \<Rightarrow> string"
  gin_Context :: "'c \<Rightarrow> Context"
  gin_Header :: "string \<Rightarrow> string \<Rightarrow> 'c \<Rightarrow> 'c"
  gin_SetCookie :: "cookie \<Rightarrow> 'c \<Rightarrow> 'c"
  gin_JSON :: "nat \<Rightarrow> APIResponse \<Rightarrow> 'c \<Rightarrow> 'c"
  gin_AbortWithStatusJSON :: "nat \<Rightarrow> APIResponse \<Rightarrow> 'c \<Rightarrow> 'c"
  gin_BindRegister :: "'c \<Rightarrow> go_error + RegisterUserRequest"
  gin_BindLogin :: "'c \<Rightarrow> go_error + LoginRequest"
  gin_BindChangePassword :: "'c \<Rightarrow> go_error + ChangePasswordRequest"
  gin_BindQuery :: "'c \<Rightarrow> go_error + Pagination"

type_synonym ('c, 'w) gin_handler = "'c \<Rightarrow> 'w \<Rightarrow> 'c \<times> 'w"
type_synonym ('c, 'w) gin_middleware = "('c, 'w) gin_handler \<Rightarrow> ('c, 'w) gin_handler"

text \<open>
  What the code relies on: a value that was set can be read back, and a response that was
  written stays written. \<open>sent c\<close> is the list of responses written so far, \<open>cookies_of c\<close> the
  cookies and \<open>headers_of c\<close> the headers set so far, \<open>aborted c\<close> that the chain was stopped.
  Writing does not change what the request says.
\<close>

locale gin_laws =
  fixes N :: "'c ginlib"
    and sent :: "'c \<Rightarrow> (nat \<times> APIResponse) list"
    and cookies_of :: "'c \<Rightarrow> cookie list"
    and headers_of :: "'c \<Rightarrow> (string \<times> string) list"
    and aborted :: "'c \<Rightarrow> bool"
  assumes Get_Set: "gin_Get N (gin_Set N k v c) k' = (if k' = k then Some v else gin_Get N c k')"
    and Set_frame: "sent (gin_Set N k v c) = sent c" "cookies_of (gin_Set N k v c) = cookies_of c"
      "headers_of (gin_Set N k v c) = headers_of c" "aborted (gin_Set N k v c) = aborted c"
      "gin_Context N (gin_Set N k v c) = gin_Context N c" "gin_Method N (gin_Set N k v c) = gin_Method N c"
      "gin_GetHeader N (gin_Set N k v c) h = gin_GetHeader N c h" "gin_Cookie N (gin_Set N k v c) n = gin_Cookie N c n"
    and JSON_sent: "sent (gin_JSON N st r c) = sent c @ [(st, r)]"
    and JSON_frame: "cookies_of (gin_JSON N st r c) = cookies_of c" "aborted (gin_JSON N st r c) = aborted c"
    and Abort_sent: "sent (gin_AbortWithStatusJSON N st r c) = sent c @ [(st, r)]"
    and Abort_frame: "cookies_of (gin_AbortWithStatusJSON N st r c) = cookies_of c"
      "headers_of (gin_AbortWithStatusJSON N st r c) = headers_of c"
    and Abort_aborted: "aborted (gin_AbortWithStatusJSON N st r c)"
    and SetCookie_cookies: "cookies_of (gin_SetCookie N ck c) = cookies_of c @ [ck]"
    and SetCookie_frame: "sent (gin_SetCookie N ck c) = sent c" "aborted (gin_SetCookie N ck c) = aborted c"
      "gin_Get N (gin_SetCookie N ck c) k = gin_Get N c k"
    and Header_set: "headers_of (gin_Header N hn hv c) = headers_of c @ [(hn, hv)]"
    and Header_frame: "sent (gin_Header N hn hv c) = sent c" "gin_Get N (gin_Header N hn hv c) k = gin_Get N c k"
      "gin_Context N (gin_Header N hn hv c) = gin_Context N c" "gin_Method N (gin_Header N hn hv c) = gin_Method N c"
      "cookies_of (gin_Header N hn hv c) = cookies_of c" "aborted (gin_Header N hn hv c) = aborted c"

subsection \<open>Request id and correlation\<close>

definition RequestIDHeader :: string where "RequestIDHeader = ''X-Request-ID''"
definition RequestIDCtxKey :: string where "RequestIDCtxKey = ''request_id''"
definition TraceIDCtxKey :: string where "TraceIDCtxKey = ''trace_id''"
definition maxRequestIDLength :: nat where "maxRequestIDLength = 128"

definition stringFromContext :: "'c ginlib \<Rightarrow> 'c \<Rightarrow> string \<Rightarrow> string" where
  "stringFromContext N c key =
     (case gin_Get N c key of
        None \<Rightarrow> ''''
      | Some (StrVal str) \<Rightarrow> str
      | Some _ \<Rightarrow> '''')"

definition GetRequestID :: "'c ginlib \<Rightarrow> 'c \<Rightarrow> string" where
  "GetRequestID N c = stringFromContext N c RequestIDCtxKey"

definition GetTraceID :: "'c ginlib \<Rightarrow> 'c \<Rightarrow> string" where
  "GetTraceID N c = stringFromContext N c TraceIDCtxKey"

text \<open>One step of the loop over the runes of the id. A byte of a multi-byte rune is at least 128,
  so looking at bytes rejects the same strings.\<close>

definition request_id_char :: "char \<Rightarrow> bool" where
  "request_id_char ch = (let r = (of_char ch :: nat) in
     (97 \<le> r \<and> r \<le> 122) \<or> (65 \<le> r \<and> r \<le> 90) \<or> (48 \<le> r \<and> r \<le> 57) \<or> ch = CHR ''-'' \<or> ch = CHR ''_'' \<or> ch = CHR ''.'')"

definition sanitizeRequestID :: "string \<Rightarrow> string" where
  "sanitizeRequestID i =
     (if i = '''' \<or> length i > maxRequestIDLength then ''''
      else if list_all request_id_char i then i
      else '''')"

definition resolveRequestID :: "'w golib \<Rightarrow> 'c ginlib \<Rightarrow> 'c \<Rightarrow> string \<Rightarrow> 'w \<Rightarrow> string \<times> 'w" where
  "resolveRequestID L N c traceID w =
     (let i = sanitizeRequestID (gin_GetHeader N c RequestIDHeader)
      in if i \<noteq> '''' then (i, w)
         else if traceID \<noteq> '''' then (traceID, w)
         else (let (u, w1) = uuid_New L w in (uuid_String L u, w1)))"

text \<open>The trace id of the request's span comes from the tracing library.\<close>

definition RequestID_middleware :: "'w golib \<Rightarrow> 'c ginlib \<Rightarrow> (Context \<Rightarrow> string) \<Rightarrow> ('c, 'w) gin_middleware" where
  "RequestID_middleware L N traceIDOf next c w =
     (let traceID = traceIDOf (gin_Context N c);
          (i, w1) = resolveRequestID L N c traceID w;
          c1 = gin_Set N RequestIDCtxKey (StrVal i) c;
          c2 = gin_Header N RequestIDHeader i c1;
          c3 = (if traceID \<noteq> '''' then gin_Set N TraceIDCtxKey (StrVal traceID) c2 else c2)
      in next c3 w1)"

subsection \<open>Writing responses\<close>

definition abortWithError :: "'c ginlib \<Rightarrow> nat \<Rightarrow> string \<Rightarrow> 'c \<Rightarrow> 'c" where
  "abortWithError N status message c =
     gin_AbortWithStatusJSON N status (WithCorrelation (response_Err message) (GetRequestID N c) (GetTraceID N c)) c"

definition OK :: "'c ginlib \<Rightarrow> nat \<Rightarrow> string \<Rightarrow> payload option \<Rightarrow> 'c \<Rightarrow> 'c" where
  "OK N status message data c = gin_JSON N status (response_OK message data) c"

definition OKWithMeta :: "'c ginlib \<Rightarrow> nat \<Rightarrow> string \<Rightarrow> payload option \<Rightarrow> Meta \<Rightarrow> 'c \<Rightarrow> 'c" where
  "OKWithMeta N status message data meta c = gin_JSON N status (response_OKWithMeta message data meta) c"

definition Fail :: "'c ginlib \<Rightarrow> go_error \<Rightarrow> 'c \<Rightarrow> 'c" where
  "Fail N err c =
     (let status = HTTPStatus err; requestID = GetRequestID N c; traceID = GetTraceID N c; flds = Fields err
      in if length flds > 0
         then gin_AbortWithStatusJSON N status
                (WithCorrelation (response_ValidationErr (ClientMessage err) flds) requestID traceID) c
         else gin_AbortWithStatusJSON N status
                (WithCorrelation (response_Err (ClientMessage err)) requestID traceID) c)"

subsection \<open>Binding\<close>

fun strings_ReplaceAll :: "char \<Rightarrow> string \<Rightarrow> string \<Rightarrow> string" where
  "strings_ReplaceAll ch by [] = []"
| "strings_ReplaceAll ch by (x # xs) = (if x = ch then by @ strings_ReplaceAll ch by xs else x # strings_ReplaceAll ch by xs)"

text \<open>\<open>%q\<close> of a tag: validator tags contain no character that needs escaping.\<close>

definition quoted :: "string \<Rightarrow> string" where
  "quoted s = CHR 0x22 # s @ [CHR 0x22]"

definition validationMessage :: "FieldError \<Rightarrow> string" where
  "validationMessage fe =
     (let tag = fe_Tag fe; param = fe_Param fe in
      if tag = ''required'' then ''This field is required''
      else if tag = ''email'' then ''Must be a valid email address''
      else if tag = ''min'' then
        (if fe_IsString fe then ''Must be at least '' @ param @ '' characters'' else ''Must be at least '' @ param)
      else if tag = ''max'' then
        (if fe_IsString fe then ''Must be at most '' @ param @ '' characters'' else ''Must be at most '' @ param)
      else if tag = ''len'' then ''Must be exactly '' @ param @ '' characters''
      else if tag = ''oneof'' then ''Must be one of: '' @ strings_ReplaceAll CHR '' '' '', '' param
      else if tag = ''uuid'' \<or> tag = ''uuid4'' then ''Must be a valid UUID''
      else if tag = ''url'' then ''Must be a valid URL''
      else if tag = ''eqfield'' then ''Must match '' @ param
      else ''Failed the '' @ quoted tag @ '' rule'')"

definition validationFields :: "FieldError list \<Rightarrow> (string, string) gomap" where
  "validationFields errs = fold (\<lambda>fe m. gomap_set m (fe_Field fe) (validationMessage fe)) errs []"

text \<open>\<open>BindJSON\<close> for a request whose decoding gave \<open>bound\<close>: the decoded value, or \<open>None\<close> when
  a response has been written.\<close>

definition BindJSON :: "'c ginlib \<Rightarrow> go_error + 'r \<Rightarrow> 'c \<Rightarrow> 'r option \<times> 'c" where
  "BindJSON N bound c =
     (case bound of
        Inr req \<Rightarrow> (Some req, c)
      | Inl err \<Rightarrow>
          (case As_MaxBytesError err of
             Some _ \<Rightarrow> (None, Fail N (WithCause (New CodeInvalidInput ''Request body is too large'') err) c)
           | None \<Rightarrow>
               (case As_ValidationErrors err of
                  Some errs \<Rightarrow> (None, Fail N (WithCause (WithFields ErrValidation (validationFields errs)) err) c)
                | None \<Rightarrow> (None, Fail N (WithCause ErrBadRequest err) c))))"

definition BindPagination :: "'c ginlib \<Rightarrow> 'c \<Rightarrow> Pagination option \<times> 'c" where
  "BindPagination N c =
     (case gin_BindQuery N c of
        Inr page \<Rightarrow> (Some (Normalized page), c)
      | Inl err \<Rightarrow>
          (case As_ValidationErrors err of
             Some errs \<Rightarrow> (None, Fail N (WithCause (WithFields ErrValidation (validationFields errs)) err) c)
           | None \<Rightarrow>
               (None, Fail N (WithCause (WithFields ErrValidation
                  [(''page'', ''Must be a positive whole number''),
                   (''limit'', ''Must be a whole number between 1 and 100'')]) err) c)))"

end
