(* ===== verification/Middleware.thy ===== *)
theory Middleware
  imports Http_Core
begin

text \<open>
  Package \<open>internal/api/middleware\<close>: authentication, CSRF, rate limiting, panic recovery,
  security headers. \<open>golang.org/x/time/rate\<close> is a parameter: a bucket is an abstract
  value with a constructor and an \<open>Allow\<close> step.
\<close>

subsection \<open>Authentication\<close>

definition AccessTokenCookie :: string where "AccessTokenCookie = ''access_token''"
definition RefreshTokenCookie :: string where "RefreshTokenCookie = ''refresh_token''"
definition UserIDCtxKey :: string where "UserIDCtxKey = ''user_id''"
definition UserEmailCtxKey :: string where "UserEmailCtxKey = ''user_email''"
definition ClaimsCtxKey :: string where "ClaimsCtxKey = ''claims''"

lemmas ctx_keys = UserIDCtxKey_def UserEmailCtxKey_def ClaimsCtxKey_def RequestIDCtxKey_def TraceIDCtxKey_def

definition ErrNoUserInContext :: go_error where
  "ErrNoUserInContext = ErrorString (Some ''middleware.ErrNoUserInContext'') ''user not found in context''"

definition setAuthContext :: "'w golib \<Rightarrow> 'c ginlib \<Rightarrow> TokenClaims \<Rightarrow> 'c \<Rightarrow> 'c" where
  "setAuthContext L N claims c =
     gin_Set N ClaimsCtxKey (ClaimsVal claims)
       (gin_Set N UserEmailCtxKey (StrVal (TC_Email claims))
         (gin_Set N UserIDCtxKey (StrVal (uuid_String L (TC_UserID claims))) c))"

definition AuthMiddleware :: "'w golib \<Rightarrow> 'c ginlib \<Rightarrow> 'w TokenService \<Rightarrow> ('c, 'w) gin_middleware" where
  "AuthMiddleware L N ts next c w =
     (case gin_Cookie N c AccessTokenCookie of
        Inl err \<Rightarrow> (abortWithError N StatusUnauthorized (err_Message ErrMissingAccessToken) c, w)
      | Inr tokenStr \<Rightarrow>
          (case TS_ValidateAccessToken ts tokenStr w of
             (Inl err, w1) \<Rightarrow> (abortWithError N StatusUnauthorized (err_Message ErrInvalidAccessToken) c, w1)
           | (Inr claims, w1) \<Rightarrow> next (setAuthContext L N claims c) w1))"

definition OptionalAuthMiddleware :: "'w golib \<Rightarrow> 'c ginlib \<Rightarrow> 'w TokenService \<Rightarrow> ('c, 'w) gin_middleware" where
  "OptionalAuthMiddleware L N ts next c w =
     (case gin_Cookie N c AccessTokenCookie of
        Inl err \<Rightarrow> next c w
      | Inr tokenStr \<Rightarrow>
          (case TS_ValidateAccessToken ts tokenStr w of
             (Inl err, w1) \<Rightarrow> next c w1
           | (Inr claims, w1) \<Rightarrow> next (setAuthContext L N claims c) w1))"

definition GetUserIDFromContext :: "'w golib \<Rightarrow> 'c ginlib \<Rightarrow> 'c \<Rightarrow> go_error + uuid" where
  "GetUserIDFromContext L N c =
     (case gin_Get N c UserIDCtxKey of
        None \<Rightarrow> Inl ErrNoUserInContext
      | Some (StrVal raw) \<Rightarrow>
          (case uuid_Parse L raw of
             Inl err \<Rightarrow> Inl (WithCause ErrInvalidUserID err)
           | Inr i \<Rightarrow> Inr i)
      | Some _ \<Rightarrow> Inl ErrInvalidUserID)"

definition GetEmailFromContext :: "'c ginlib \<Rightarrow> 'c \<Rightarrow> string" where
  "GetEmailFromContext N c =
     (case gin_Get N c UserEmailCtxKey of
        None \<Rightarrow> ''''
      | Some (StrVal email) \<Rightarrow> email
      | Some _ \<Rightarrow> '''')"

definition GetClaimsFromContext :: "'c ginlib \<Rightarrow> 'c \<Rightarrow> TokenClaims option" where
  "GetClaimsFromContext N c =
     (case gin_Get N c ClaimsCtxKey of
        None \<Rightarrow> None
      | Some (ClaimsVal claims) \<Rightarrow> Some claims
      | Some _ \<Rightarrow> None)"

subsection \<open>CSRF\<close>

record 'w CSRFService =
  CS_GenerateToken :: "('w, go_error, string) effect"
  CS_ValidateToken :: "string \<Rightarrow> 'w \<Rightarrow> bool \<times> 'w"

definition csrf_methods :: "'w golib \<Rightarrow> csrfService \<Rightarrow> 'w CSRFService" where
  "csrf_methods L s = \<lparr>CS_GenerateToken = csrf_GenerateToken L s, CS_ValidateToken = csrf_ValidateToken L s\<rparr>"

definition CSRFMiddleware :: "'c ginlib \<Rightarrow> 'w CSRFService \<Rightarrow> ('c, 'w) gin_middleware" where
  "CSRFMiddleware N csrfService next c w =
     (if gin_Method N c \<in> {''POST'', ''PUT'', ''PATCH'', ''DELETE''} then
        (let csrfToken = gin_GetHeader N c ''X-CSRF-Token''
         in if csrfToken = '''' then (abortWithError N StatusForbidden (err_Message ErrMissingCSRFToken) c, w)
            else (case CS_ValidateToken csrfService csrfToken w of
                    (False, w1) \<Rightarrow> (abortWithError N StatusForbidden (err_Message ErrInvalidCSRFToken) c, w1)
                  | (True, w1) \<Rightarrow> next c w1))
      else next c w)"

subsection \<open>Rate limiting\<close>

text \<open>The bucket type of \<open>x/time/rate\<close> over a rate of type \<open>'f\<close>: \<open>NewLimiter\<close> and \<open>Allow\<close>, which
  reads the clock of the world.\<close>

record ('f, 'b, 'w) ratelib =
  rate_NewLimiter :: "'f \<Rightarrow> int \<Rightarrow> 'b"
  rate_Allow :: "'b \<Rightarrow> 'w \<Rightarrow> (bool \<times> 'b) \<times> 'w"

record 'f RateLimitConfig =
  RL_RPS :: 'f
  RL_Burst :: int
  RL_TTL :: duration

record 'b bucket =
  bk_limiter :: 'b
  bk_seen :: time

record ('f, 'b) IPRateLimiter =
  il_buckets :: "(string, 'b bucket) gomap"
  il_rps :: 'f
  il_burst :: int
  il_ttl :: duration
  il_lastGC :: time

definition NewIPRateLimiter :: "'f RateLimitConfig \<Rightarrow> ('f, 'b) IPRateLimiter" where
  "NewIPRateLimiter cfg =
     (let cfg1 = (if RL_TTL cfg \<le> 0 then cfg\<lparr>RL_TTL := 10 * Minute\<rparr> else cfg)
      in \<lparr>il_buckets = [], il_rps = RL_RPS cfg1, il_burst = RL_Burst cfg1, il_ttl = RL_TTL cfg1, il_lastGC = zero_time\<rparr>)"

definition gcLocked :: "time \<Rightarrow> ('f, 'b) IPRateLimiter \<Rightarrow> ('f, 'b) IPRateLimiter" where
  "gcLocked now l =
     (if time_Sub now (il_lastGC l) < il_ttl l then l
      else l\<lparr>il_lastGC := now,
             il_buckets := filter (\<lambda>(key, b). \<not> time_Sub now (bk_seen b) > il_ttl l) (il_buckets l)\<rparr>)"

text \<open>\<open>Allow\<close> runs under the limiter's mutex, so calls are a sequence of these steps.\<close>

definition Allow :: "'w golib \<Rightarrow> ('f, 'b, 'w) ratelib \<Rightarrow> string \<Rightarrow> ('f, 'b) IPRateLimiter \<Rightarrow> 'w
    \<Rightarrow> (bool \<times> ('f, 'b) IPRateLimiter) \<times> 'w" where
  "Allow L R key l w =
     (let (now, w1) = time_Now L w;
          l1 = gcLocked now l;
          b = (case gomap_get (il_buckets l1) key of
                 Some b \<Rightarrow> b
               | None \<Rightarrow> \<lparr>bk_limiter = rate_NewLimiter R (il_rps l1) (il_burst l1), bk_seen = zero_time\<rparr>);
          ((ok, lim), w2) = rate_Allow R (bk_limiter b) w1;
          l2 = l1\<lparr>il_buckets := gomap_set (il_buckets l1) key \<lparr>bk_limiter = lim, bk_seen = now\<rparr>\<rparr>
      in ((ok, l2), w2))"

text \<open>The interface \<open>Limiter\<close>; its state is part of the world. \<open>ret\<close> makes the outcome of a middleware
  that returns without calling \<open>next\<close>, which may itself panic.\<close>

definition RateLimit :: "('c \<Rightarrow> 'w \<Rightarrow> 'r) \<Rightarrow> 'c ginlib \<Rightarrow> (string \<Rightarrow> 'w \<Rightarrow> bool \<times> 'w) \<Rightarrow> ('c \<Rightarrow> 'w \<Rightarrow> 'r) \<Rightarrow> 'c \<Rightarrow> 'w \<Rightarrow> 'r" where
  "RateLimit ret N limiterAllow next c w =
     (case limiterAllow (gin_ClientIP N c) w of
        (False, w1) \<Rightarrow> ret (abortWithError N StatusTooManyRequests (err_Message ErrRateLimit) c) w1
      | (True, w1) \<Rightarrow> next c w1)"

subsection \<open>Recovery, headers, timeout\<close>

text \<open>A handler that may panic reports so together with the state it left.\<close>

definition Recovery :: "'c ginlib \<Rightarrow> ('c \<Rightarrow> 'w \<Rightarrow> bool \<times> 'c \<times> 'w) \<Rightarrow> ('c, 'w) gin_handler" where
  "Recovery N next c w =
     (case next c w of
        (True, c1, w1) \<Rightarrow> (abortWithError N StatusInternalServerError (err_Message ErrInternal) c1, w1)
      | (False, c1, w1) \<Rightarrow> (c1, w1))"

definition SecurityHeaders :: "'c ginlib \<Rightarrow> bool \<Rightarrow> ('c \<Rightarrow> 'w \<Rightarrow> 'r) \<Rightarrow> 'c \<Rightarrow> 'w \<Rightarrow> 'r" where
  "SecurityHeaders N devMode next c w =
     (let c1 = gin_Header N ''X-Content-Type-Options'' ''nosniff'' c;
          c2 = gin_Header N ''X-Frame-Options'' ''DENY'' c1;
          c3 = gin_Header N ''Referrer-Policy'' ''no-referrer'' c2;
          c4 = gin_Header N ''Cross-Origin-Opener-Policy'' ''same-origin'' c3;
          c5 = gin_Header N ''Cross-Origin-Resource-Policy'' ''same-site'' c4;
          c6 = gin_Header N ''Content-Security-Policy''
                 (''default-src '' @ [CHR 0x27] @ ''none'' @ [CHR 0x27] @ ''; frame-ancestors '' @ [CHR 0x27] @ ''none'' @ [CHR 0x27]) c5;
          c7 = gin_Header N ''Permissions-Policy'' ''geolocation=(), microphone=(), camera=()'' c6;
          c8 = (if \<not> devMode then gin_Header N ''Strict-Transport-Security'' ''max-age=31536000; includeSubDomains'' c7
                else c7)
      in next c8 w)"

end
