(* ===== verification/Handlers.thy ===== *)
theory Handlers
  imports Middleware
begin

text \<open>
  Package \<open>internal/api/handler\<close> and the route table of \<open>internal/api/router.go\<close>.
\<close>

subsection \<open>The user service interface\<close>

record 'w UserService =
  US_Register :: "Context \<Rightarrow> RegisterUserRequest \<Rightarrow> ('w, go_error, RegisterResponse) effect"
  US_Login :: "Context \<Rightarrow> LoginRequest \<Rightarrow> ('w, go_error, LoginResponse) effect"
  US_Refresh :: "Context \<Rightarrow> string \<Rightarrow> ('w, go_error, RefreshResponse) effect"
  US_GetUser :: "Context \<Rightarrow> string \<Rightarrow> ('w, go_error, GetUser) effect"
  US_ListSessions :: "Context \<Rightarrow> uuid \<Rightarrow> string \<Rightarrow> Pagination \<Rightarrow> ('w, go_error, SessionList) effect"
  US_ChangePassword :: "Context \<Rightarrow> uuid \<Rightarrow> ChangePasswordRequest \<Rightarrow> ('w, go_error, ChangePasswordResponse) effect"
  US_DeleteAccount :: "Context \<Rightarrow> uuid \<Rightarrow> ('w, go_error, unit) effect"
  US_StoreRefreshToken :: "Context \<Rightarrow> uuid \<Rightarrow> string \<Rightarrow> time \<Rightarrow> ('w, go_error, unit) effect"
  US_RevokeRefreshTokens :: "Context \<Rightarrow> uuid \<Rightarrow> ('w, go_error, unit) effect"
  US_PurgeExpiredRefreshTokens :: "Context \<Rightarrow> ('w, go_error, int) effect"

definition user_methods :: "'w golib \<Rightarrow> 'w userService \<Rightarrow> 'w UserService" where
  "user_methods L s = \<lparr>US_Register = Register L s, US_Login = Login L s, US_Refresh = Refresh L s,
     US_GetUser = GetUser_service L s, US_ListSessions = ListSessions L s, US_ChangePassword = ChangePassword L s,
     US_DeleteAccount = DeleteAccount L s, US_StoreRefreshToken = StoreRefreshToken L s,
     US_RevokeRefreshTokens = RevokeRefreshTokens L s, US_PurgeExpiredRefreshTokens = PurgeExpiredRefreshTokens L s\<rparr>"

record CookieConfig =
  AccessTTL :: duration
  RefreshTTL :: duration
  Secure :: bool

record 'w UserHandler =
  uh_userService :: "'w UserService"
  uh_csrfService :: "'w CSRFService"
  uh_cookies :: CookieConfig

definition NewUserHandler :: "'w UserService \<Rightarrow> 'w CSRFService \<Rightarrow> CookieConfig \<Rightarrow> 'w UserHandler" where
  "NewUserHandler us cs ck = \<lparr>uh_userService = us, uh_csrfService = cs, uh_cookies = ck\<rparr>"

subsection \<open>Cookies\<close>

text \<open>\<open>int(d.Seconds())\<close>: whole seconds, rounded towards zero.\<close>

definition seconds_of :: "duration \<Rightarrow> int" where
  "seconds_of d = (if 0 \<le> d then d div Second else - ((- d) div Second))"

text \<open>\<open>SetSameSite(Lax)\<close> followed by \<open>SetCookie(name, value, maxAge, "/", "", secure, true)\<close>.\<close>

definition auth_cookie :: "CookieConfig \<Rightarrow> string \<Rightarrow> string \<Rightarrow> int \<Rightarrow> cookie" where
  "auth_cookie cfg name value maxAge = \<lparr>ck_name = name, ck_value = value, ck_maxAge = maxAge, ck_path = ''/'',
     ck_domain = '''', ck_secure = Secure cfg, ck_httpOnly = True, ck_sameSiteLax = True\<rparr>"

definition setAuthCookies :: "'c ginlib \<Rightarrow> 'w UserHandler \<Rightarrow> string \<Rightarrow> string \<Rightarrow> 'c \<Rightarrow> 'c" where
  "setAuthCookies N h accessToken refreshToken c =
     (let cfg = uh_cookies h
      in gin_SetCookie N (auth_cookie cfg RefreshTokenCookie refreshToken (seconds_of (RefreshTTL cfg)))
           (gin_SetCookie N (auth_cookie cfg AccessTokenCookie accessToken (seconds_of (AccessTTL cfg))) c))"

definition clearAuthCookies :: "'c ginlib \<Rightarrow> 'w UserHandler \<Rightarrow> 'c \<Rightarrow> 'c" where
  "clearAuthCookies N h c =
     (let cfg = uh_cookies h
      in gin_SetCookie N (auth_cookie cfg RefreshTokenCookie '''' (- 1))
           (gin_SetCookie N (auth_cookie cfg AccessTokenCookie '''' (- 1)) c))"

subsection \<open>User handler\<close>

definition handle_Register :: "'c ginlib \<Rightarrow> 'w UserHandler \<Rightarrow> ('c, 'w) gin_handler" where
  "handle_Register N h c w =
     (case BindJSON N (gin_BindRegister N c) c of
        (None, c1) \<Rightarrow> (c1, w)
      | (Some req, c1) \<Rightarrow>
          (case US_Register (uh_userService h) (gin_Context N c1) req w of
             (Inl err, w1) \<Rightarrow> (Fail N err c1, w1)
           | (Inr resp, w1) \<Rightarrow>
               (OK N StatusCreated ''Registration successful'' (Some (RegisterData resp))
                  (setAuthCookies N h (RR_AccessToken resp) (RR_RefreshToken resp) c1), w1)))"

definition handle_Login :: "'c ginlib \<Rightarrow> 'w UserHandler \<Rightarrow> ('c, 'w) gin_handler" where
  "handle_Login N h c w =
     (case BindJSON N (gin_BindLogin N c) c of
        (None, c1) \<Rightarrow> (c1, w)
      | (Some req, c1) \<Rightarrow>
          (case US_Login (uh_userService h) (gin_Context N c1) req w of
             (Inl err, w1) \<Rightarrow> (Fail N err c1, w1)
           | (Inr resp, w1) \<Rightarrow>
               (OK N StatusOK ''Login successful'' (Some (LoginData resp))
                  (setAuthCookies N h (LR_AccessToken resp) (LR_RefreshToken resp) c1), w1)))"

definition handle_Refresh :: "'c ginlib \<Rightarrow> 'w UserHandler \<Rightarrow> ('c, 'w) gin_handler" where
  "handle_Refresh N h c w =
     (case gin_Cookie N c RefreshTokenCookie of
        Inl err \<Rightarrow> (Fail N (WithCause ErrMissingRefreshToken err) c, w)
      | Inr tokenStr \<Rightarrow>
          (case US_Refresh (uh_userService h) (gin_Context N c) tokenStr w of
             (Inl err, w1) \<Rightarrow> (Fail N err c, w1)
           | (Inr resp, w1) \<Rightarrow>
               (OK N StatusOK ''Token refreshed'' None
                  (setAuthCookies N h (RF_AccessToken resp) (RF_RefreshToken resp) c), w1)))"

definition handle_Logout :: "'w golib \<Rightarrow> 'c ginlib \<Rightarrow> 'w UserHandler \<Rightarrow> ('c, 'w) gin_handler" where
  "handle_Logout L N h c w =
     (let w1 = (case GetUserIDFromContext L N c of
                  Inr userID \<Rightarrow> snd (US_RevokeRefreshTokens (uh_userService h) (gin_Context N c) userID w)
                | Inl _ \<Rightarrow> w)
      in (OK N StatusOK ''Logged out successfully'' None (clearAuthCookies N h c), w1))"

definition handle_GetMe :: "'w golib \<Rightarrow> 'c ginlib \<Rightarrow> 'w UserHandler \<Rightarrow> ('c, 'w) gin_handler" where
  "handle_GetMe L N h c w =
     (case GetUserIDFromContext L N c of
        Inl err \<Rightarrow> (Fail N (WithCause ErrUnauthorized err) c, w)
      | Inr userID \<Rightarrow>
          (case US_GetUser (uh_userService h) (gin_Context N c) (uuid_String L userID) w of
             (Inl err, w1) \<Rightarrow> (Fail N err c, w1)
           | (Inr user, w1) \<Rightarrow> (OK N StatusOK ''User retrieved'' (Some (UserData user)) c, w1)))"

definition handle_ListSessions :: "'w golib \<Rightarrow> 'c ginlib \<Rightarrow> 'w UserHandler \<Rightarrow> ('c, 'w) gin_handler" where
  "handle_ListSessions L N h c w =
     (case GetUserIDFromContext L N c of
        Inl err \<Rightarrow> (Fail N (WithCause ErrUnauthorized err) c, w)
      | Inr userID \<Rightarrow>
          (case BindPagination N c of
             (None, c1) \<Rightarrow> (c1, w)
           | (Some page, c1) \<Rightarrow>
               (let currentRefreshToken = (case gin_Cookie N c1 RefreshTokenCookie of Inr t \<Rightarrow> t | Inl _ \<Rightarrow> '''')
                in case US_ListSessions (uh_userService h) (gin_Context N c1) userID currentRefreshToken page w of
                     (Inl err, w1) \<Rightarrow> (Fail N err c1, w1)
                   | (Inr result, w1) \<Rightarrow>
                       (OKWithMeta N StatusOK ''Sessions retrieved'' (Some (SessionsData (SL_Sessions result)))
                          (SL_Meta result) c1, w1))))"

definition handle_ChangePassword :: "'w golib \<Rightarrow> 'c ginlib \<Rightarrow> 'w UserHandler \<Rightarrow> ('c, 'w) gin_handler" where
  "handle_ChangePassword L N h c w =
     (case GetUserIDFromContext L N c of
        Inl err \<Rightarrow> (Fail N (WithCause ErrUnauthorized err) c, w)
      | Inr userID \<Rightarrow>
          (case BindJSON N (gin_BindChangePassword N c) c of
             (None, c1) \<Rightarrow> (c1, w)
           | (Some req, c1) \<Rightarrow>
               (case US_ChangePassword (uh_userService h) (gin_Context N c1) userID req w of
                  (Inl err, w1) \<Rightarrow> (Fail N err c1, w1)
                | (Inr resp, w1) \<Rightarrow>
                    (OK N StatusOK ''Password changed'' None
                       (setAuthCookies N h (CP_AccessToken resp) (CP_RefreshToken resp) c1), w1))))"

definition handle_DeleteAccount :: "'w golib \<Rightarrow> 'c ginlib \<Rightarrow> 'w UserHandler \<Rightarrow> ('c, 'w) gin_handler" where
  "handle_DeleteAccount L N h c w =
     (case GetUserIDFromContext L N c of
        Inl err \<Rightarrow> (Fail N (WithCause ErrUnauthorized err) c, w)
      | Inr userID \<Rightarrow>
          (case US_DeleteAccount (uh_userService h) (gin_Context N c) userID w of
             (Inl err, w1) \<Rightarrow> (Fail N err c, w1)
           | (Inr _, w1) \<Rightarrow> (OK N StatusOK ''Account deleted'' None (clearAuthCookies N h c), w1)))"

definition handle_GetCSRFToken :: "'c ginlib \<Rightarrow> 'w UserHandler \<Rightarrow> ('c, 'w) gin_handler" where
  "handle_GetCSRFToken N h c w =
     (case CS_GenerateToken (uh_csrfService h) w of
        (Inl err, w1) \<Rightarrow> (Fail N (Internal err) c, w1)
      | (Inr token, w1) \<Rightarrow> (OK N StatusOK ''CSRF token generated'' (Some (CSRFData token)) c, w1))"

subsection \<open>Counter, message and health handlers\<close>

record 'w CounterHandler =
  ch_service :: "'w CounterService"

definition NewCounterHandler :: "'w CounterService \<Rightarrow> 'w CounterHandler" where
  "NewCounterHandler svc = \<lparr>ch_service = svc\<rparr>"

record 'w MessageHandler =
  mh_service :: "'w MessageService"

definition NewMessageHandler :: "'w MessageService \<Rightarrow> 'w MessageHandler" where
  "NewMessageHandler svc = \<lparr>mh_service = svc\<rparr>"

record 'w HealthHandler =
  hh_service :: "'w HealthService"
  hh_checks :: "'w checks"

definition NewHealthHandler :: "'w HealthService \<Rightarrow> 'w checks \<Rightarrow> 'w HealthHandler" where
  "NewHealthHandler svc checks = \<lparr>hh_service = svc, hh_checks = checks\<rparr>"

definition handle_GetCounter :: "'c ginlib \<Rightarrow> 'w CounterHandler \<Rightarrow> ('c, 'w) gin_handler" where
  "handle_GetCounter N h c w =
     (case CtS_GetCounter (ch_service h) (gin_Context N c) w of
        (Inl err, w1) \<Rightarrow> (Fail N err c, w1)
      | (Inr v, w1) \<Rightarrow> (OK N StatusOK ''Counter retrieved'' (Some (CounterData v)) c, w1))"

definition handle_IncrementCounter :: "'c ginlib \<Rightarrow> 'w CounterHandler \<Rightarrow> ('c, 'w) gin_handler" where
  "handle_IncrementCounter N h c w =
     (case CtS_IncrementCounter (ch_service h) (gin_Context N c) w of
        (Inl err, w1) \<Rightarrow> (Fail N err c, w1)
      | (Inr v, w1) \<Rightarrow> (OK N StatusOK ''Counter incremented'' (Some (CounterData v)) c, w1))"

definition handle_GetMessage :: "'c ginlib \<Rightarrow> 'w MessageHandler \<Rightarrow> ('c, 'w) gin_handler" where
  "handle_GetMessage N h c w =
     (case MgS_GetMessage (mh_service h) (gin_Context N c) w of
        (Inl err, w1) \<Rightarrow> (Fail N err c, w1)
      | (Inr msg, w1) \<Rightarrow> (OK N StatusOK ''Message retrieved'' (Some (MessageData msg)) c, w1))"

definition handle_Check :: "'c ginlib \<Rightarrow> 'w HealthHandler \<Rightarrow> ('c, 'w) gin_handler" where
  "handle_Check N h c w =
     (case HlS_Check (hh_service h) (gin_Context N c) w of
        (Inl err, w1) \<Rightarrow> (Fail N err c, w1)
      | (Inr status, w1) \<Rightarrow> (OK N StatusOK ''Service is healthy'' (Some (HealthData status)) c, w1))"

definition handle_Ready :: "'c ginlib \<Rightarrow> 'w HealthHandler \<Rightarrow> ('c, 'w) gin_handler" where
  "handle_Ready N h c w =
     (case HlS_CheckWithDependencies (hh_service h) (gin_Context N c) (hh_checks h) w of
        (Inl err, w1) \<Rightarrow> (Fail N err c, w1)
      | (Inr status, w1) \<Rightarrow>
          if HS_Status status \<noteq> ''ok'' then
            (gin_AbortWithStatusJSON N StatusServiceUnavailable
               (WithCorrelation \<lparr>Success = False, Message = HS_Message status, Data = Some (HealthData status),
                  MetaField = None, Errors = [], RequestID = '''', TraceID = ''''\<rparr>
                  (GetRequestID N c) (GetTraceID N c)) c, w1)
          else (OK N StatusOK ''Service is ready'' (Some (HealthData status)) c, w1))"

lemmas basic_wiring = NewCounterService_def NewMessageService_def NewHealthService_def
  NewCounterHandler_def NewMessageHandler_def NewHealthHandler_def

subsection \<open>Routes\<close>

record ('c, 'w) route =
  rt_method :: string
  rt_path :: string
  rt_handler :: "('c, 'w) gin_handler"

text \<open>What \<open>SetupRoutes\<close> is given: the handlers, the token and CSRF services and the limiter
  of the credential endpoints.\<close>

record ('c, 'w) api =
  api_user :: "'w UserHandler"
  api_counter :: "'w CounterHandler"
  api_message :: "'w MessageHandler"
  api_tokens :: "'w TokenService"
  api_csrf :: "'w CSRFService"
  api_authLimiter :: "('c, 'w) gin_middleware"

definition public_routes :: "'c ginlib \<Rightarrow> ('c, 'w) api \<Rightarrow> ('c, 'w) route list" where
  "public_routes N a =
     [\<lparr>rt_method = ''GET'', rt_path = ''/api/v1/message'', rt_handler = handle_GetMessage N (api_message a)\<rparr>,
      \<lparr>rt_method = ''POST'', rt_path = ''/api/v1/auth/register'',
       rt_handler = api_authLimiter a (handle_Register N (api_user a))\<rparr>,
      \<lparr>rt_method = ''POST'', rt_path = ''/api/v1/auth/login'',
       rt_handler = api_authLimiter a (handle_Login N (api_user a))\<rparr>,
      \<lparr>rt_method = ''POST'', rt_path = ''/api/v1/auth/refresh'',
       rt_handler = api_authLimiter a (CSRFMiddleware N (api_csrf a) (handle_Refresh N (api_user a)))\<rparr>,
      \<lparr>rt_method = ''GET'', rt_path = ''/api/v1/csrf'', rt_handler = handle_GetCSRFToken N (api_user a)\<rparr>]"

definition protected_routes :: "'w golib \<Rightarrow> 'c ginlib \<Rightarrow> ('c, 'w) api \<Rightarrow> ('c, 'w) route list" where
  "protected_routes L N a =
     (let auth = AuthMiddleware L N (api_tokens a); csrf = CSRFMiddleware N (api_csrf a); h = api_user a in
     [\<lparr>rt_method = ''GET'', rt_path = ''/api/v1/auth/me'', rt_handler = auth (handle_GetMe L N h)\<rparr>,
      \<lparr>rt_method = ''GET'', rt_path = ''/api/v1/auth/sessions'', rt_handler = auth (handle_ListSessions L N h)\<rparr>,
      \<lparr>rt_method = ''POST'', rt_path = ''/api/v1/auth/logout'', rt_handler = auth (csrf (handle_Logout L N h))\<rparr>,
      \<lparr>rt_method = ''PATCH'', rt_path = ''/api/v1/auth/password'', rt_handler = auth (csrf (handle_ChangePassword L N h))\<rparr>,
      \<lparr>rt_method = ''DELETE'', rt_path = ''/api/v1/auth/me'', rt_handler = auth (csrf (handle_DeleteAccount L N h))\<rparr>,
      \<lparr>rt_method = ''GET'', rt_path = ''/api/v1/counter'', rt_handler = auth (handle_GetCounter N (api_counter a))\<rparr>,
      \<lparr>rt_method = ''POST'', rt_path = ''/api/v1/counter'',
       rt_handler = auth (csrf (handle_IncrementCounter N (api_counter a)))\<rparr>])"

definition SetupRoutes :: "'w golib \<Rightarrow> 'c ginlib \<Rightarrow> ('c, 'w) api \<Rightarrow> ('c, 'w) route list" where
  "SetupRoutes L N a = public_routes N a @ protected_routes L N a"

definition SetupHealthRoutes :: "'c ginlib \<Rightarrow> 'w HealthHandler \<Rightarrow> ('c, 'w) route list" where
  "SetupHealthRoutes N h =
     [\<lparr>rt_method = ''GET'', rt_path = ''/api/health'', rt_handler = handle_Ready N h\<rparr>,
      \<lparr>rt_method = ''GET'', rt_path = ''/api/health/live'', rt_handler = handle_Check N h\<rparr>,
      \<lparr>rt_method = ''GET'', rt_path = ''/api/health/ready'', rt_handler = handle_Ready N h\<rparr>]"

definition NoRoute :: "'c ginlib \<Rightarrow> ('c, 'w) gin_handler" where
  "NoRoute N c w = (gin_AbortWithStatusJSON N StatusNotFound
     (WithCorrelation (response_Err ''Route not found'') (GetRequestID N c) (GetTraceID N c)) c, w)"

definition NoMethod :: "'c ginlib \<Rightarrow> ('c, 'w) gin_handler" where
  "NoMethod N c w = (gin_AbortWithStatusJSON N StatusMethodNotAllowed
     (WithCorrelation (response_Err ''Method not allowed'') (GetRequestID N c) (GetTraceID N c)) c, w)"

end
