(* ===== verification/Http_Properties.thy ===== *)
theory Http_Properties
  imports Handlers
begin

text \<open>
  The guarantees of the HTTP layer, for every gin that keeps the laws of \<open>gin_laws\<close>, and a
  recording gin context that keeps them.
\<close>

subsection \<open>A recording gin context\<close>

record gin_rec =
  gr_keys :: "(string, ctx_value) gomap"
  gr_cookies_in :: "(string, string) gomap"
  gr_headers_in :: "(string, string) gomap"
  gr_method :: string
  gr_ip :: string
  gr_register :: "go_error + RegisterUserRequest"
  gr_login :: "go_error + LoginRequest"
  gr_password :: "go_error + ChangePasswordRequest"
  gr_query :: "go_error + Pagination"
  gr_sent :: "(nat \<times> APIResponse) list"
  gr_cookies :: "cookie list"
  gr_headers :: "(string \<times> string) list"
  gr_aborted :: bool

definition rec_gin :: "gin_rec ginlib" where
  "rec_gin = \<lparr>
     gin_Get = (\<lambda>c k. map_of (gr_keys c) k),
     gin_Set = (\<lambda>k v c. c\<lparr>gr_keys := gomap_set (gr_keys c) k v\<rparr>),
     gin_Cookie = (\<lambda>c n. case map_of (gr_cookies_in c) n of Some v \<Rightarrow> Inr v | None \<Rightarrow> Inl ErrNoCookie),
     gin_GetHeader = (\<lambda>c h. case map_of (gr_headers_in c) h of Some v \<Rightarrow> v | None \<Rightarrow> []),
     gin_Method = gr_method, gin_ClientIP = gr_ip, gin_Context = (\<lambda>c. Background),
     gin_Header = (\<lambda>h v c. c\<lparr>gr_headers := gr_headers c @ [(h, v)]\<rparr>),
     gin_SetCookie = (\<lambda>ck c. c\<lparr>gr_cookies := gr_cookies c @ [ck]\<rparr>),
     gin_JSON = (\<lambda>st r c. c\<lparr>gr_sent := gr_sent c @ [(st, r)]\<rparr>),
     gin_AbortWithStatusJSON = (\<lambda>st r c. c\<lparr>gr_sent := gr_sent c @ [(st, r)], gr_aborted := True\<rparr>),
     gin_BindRegister = gr_register, gin_BindLogin = gr_login, gin_BindChangePassword = gr_password,
     gin_BindQuery = gr_query\<rparr>"

interpretation rec_gin: gin_laws rec_gin gr_sent gr_cookies gr_headers gr_aborted
  by unfold_locales (auto simp: rec_gin_def update_conv)

text \<open>A request without body, cookies or headers.\<close>

definition bare_request :: "string \<Rightarrow> gin_rec" where
  "bare_request method = \<lparr>gr_keys = [], gr_cookies_in = [], gr_headers_in = [], gr_method = method, gr_ip = ''10.0.0.1'',
     gr_register = Inl (errors_New ''EOF''), gr_login = Inl (errors_New ''EOF''), gr_password = Inl (errors_New ''EOF''),
     gr_query = Inr \<lparr>Page = 0, Limit = 0\<rparr>, gr_sent = [], gr_cookies = [], gr_headers = [], gr_aborted = False\<rparr>"

lemma bare_request_out [simp]: "gr_sent (bare_request m) = []" "gr_cookies (bare_request m) = []"
  by (simp_all add: bare_request_def)

subsection \<open>Writing errors\<close>

context gin_laws
begin

lemmas frames = Set_frame JSON_sent JSON_frame Abort_sent Abort_frame Abort_aborted SetCookie_cookies SetCookie_frame
  Header_set Header_frame

lemma Fail_effect:
  "sent (Fail N err c) = sent c @ [(HTTPStatus err,
     \<lparr>Success = False, Message = ClientMessage err, Data = None, MetaField = None, Errors = Fields err,
      RequestID = GetRequestID N c, TraceID = GetTraceID N c\<rparr>)]"
  "cookies_of (Fail N err c) = cookies_of c" "aborted (Fail N err c)"
  by (auto simp: Fail_def Let_def frames envelope_defs)

lemma abort_effect:
  "sent (abortWithError N st msg c) = sent c @ [(st,
     \<lparr>Success = False, Message = msg, Data = None, MetaField = None, Errors = [],
      RequestID = GetRequestID N c, TraceID = GetTraceID N c\<rparr>)]"
  "cookies_of (abortWithError N st msg c) = cookies_of c" "aborted (abortWithError N st msg c)"
  by (simp_all add: abortWithError_def frames envelope_defs)

lemma GetRequestID_Set:
  "GetRequestID N (gin_Set N RequestIDCtxKey (StrVal i) c) = i"
  "k \<noteq> RequestIDCtxKey \<Longrightarrow> GetRequestID N (gin_Set N k v c) = GetRequestID N c"
  by (simp_all add: GetRequestID_def stringFromContext_def Get_Set)

lemma setAuthContext_reads:
  "gin_Get N (setAuthContext L N cl c) UserIDCtxKey = Some (StrVal (uuid_String L (TC_UserID cl)))"
  "GetClaimsFromContext N (setAuthContext L N cl c) = Some cl"
  "GetEmailFromContext N (setAuthContext L N cl c) = TC_Email cl"
  by (simp_all add: setAuthContext_def Get_Set GetClaimsFromContext_def GetEmailFromContext_def ctx_keys)

lemma setAuthContext_frames:
  "sent (setAuthContext L N cl c) = sent c" "cookies_of (setAuthContext L N cl c) = cookies_of c"
  "aborted (setAuthContext L N cl c) = aborted c" "gin_Context N (setAuthContext L N cl c) = gin_Context N c"
  "gin_Method N (setAuthContext L N cl c) = gin_Method N c"
  "gin_GetHeader N (setAuthContext L N cl c) h = gin_GetHeader N c h"
  "gin_Cookie N (setAuthContext L N cl c) n = gin_Cookie N c n"
  by (simp_all add: setAuthContext_def Set_frame)

end

text \<open>Every failure becomes exactly one response: the status of the error, an envelope marked
  unsuccessful with the client-safe message and fields of the error and the request's correlation ids, no data, no
  cookie, and the chain stops. Nothing else of the error reaches the client.\<close>

lemma fail_writes_safe_envelope:
  assumes "gin_laws N sent cookies_of headers_of aborted" and "client_view err = client_view err'"
  shows "sent (Fail N err c) = sent c @ [(HTTPStatus err,
      \<lparr>Success = False, Message = ClientMessage err, Data = None, MetaField = None, Errors = Fields err,
       RequestID = GetRequestID N c, TraceID = GetTraceID N c\<rparr>)]
    \<and> cookies_of (Fail N err c) = cookies_of c \<and> aborted (Fail N err c) \<and> Fail N err c = Fail N err' c"
proof -
  have e: "HTTPStatus err = HTTPStatus err'" "ClientMessage err = ClientMessage err'" "Fields err = Fields err'"
    using assms(2) by (simp_all add: client_view_def)
  have "Fail N err c = Fail N err' c" unfolding Fail_def e ..
  with gin_laws.Fail_effect [OF assms(1)] show ?thesis by metis
qed

subsection \<open>Authentication and CSRF on the routes\<close>

text \<open>An access token that \<open>ValidateAccessToken\<close> may accept.\<close>

abbreviation access_of :: "(SigningMethod \<Rightarrow> string \<Rightarrow> string \<Rightarrow> TokenClaims \<Rightarrow> bool) \<Rightarrow> TokenConfig
    \<Rightarrow> string \<Rightarrow> TokenClaims \<Rightarrow> bool" where
  "access_of verified cfg t cl \<equiv> \<exists>alg. verified (SigningMethodHMAC alg) (AccessTokenSecret cfg) t cl"

lemma auth_rejects:
  assumes "gin_laws N sent cookies_of headers_of aborted"
    and "jwt_runtime L view up pw_matches bcrypt_work J verified clock"
    and "\<forall>t cl. gin_Cookie N c AccessTokenCookie = Inr t \<longrightarrow> \<not> access_of verified cfg t cl"
    and "AuthMiddleware L N (NewTokenService L J cfg) next c w = (c', w')"
  shows "\<exists>r. sent c' = sent c @ [(401, r)] \<and> \<not> Success r \<and> Data r = None \<and> aborted c'
    \<and> cookies_of c' = cookies_of c \<and> same_views view w w'"
proof (cases "gin_Cookie N c AccessTokenCookie")
  case (Inl e)
  with assms(4) gin_laws.abort_effect [OF assms(1)] show ?thesis by (auto simp: AuthMiddleware_def)
next
  case (Inr t)
  obtain oc w1 where v: "ValidateAccessToken J cfg t w = (oc, w1)" by (metis surj_pair)
  have "\<exists>e. oc = Inl e"
    using assms(3) Inr jwt_runtime.Validate_sound(1) [OF assms(2), of cfg t w] v by (cases oc) blast+
  with v Inr assms(4) gin_laws.abort_effect [OF assms(1)] jwt_runtime.Validate_meets(1) [OF assms(2) v]
  show ?thesis by (auto simp: AuthMiddleware_def NewTokenService_def)
qed

text \<open>No protected route does anything for a request whose access cookie is missing or is not a token
  signed with the access secret by an HMAC method: the answer is one 401 envelope without data, no cookie is set
  and the database is as before.\<close>

lemma protected_routes_require_token:
  assumes "gin_laws N sent cookies_of headers_of aborted"
    and "jwt_runtime L view up pw_matches bcrypt_work J verified clock"
    and "r \<in> set (protected_routes L N a)" and "api_tokens a = NewTokenService L J cfg"
    and "\<forall>t cl. gin_Cookie N c AccessTokenCookie = Inr t \<longrightarrow> \<not> access_of verified cfg t cl"
    and "rt_handler r c w = (c', w')"
  shows "\<exists>e. sent c' = sent c @ [(401, e)] \<and> \<not> Success e \<and> Data e = None \<and> aborted c'
    \<and> cookies_of c' = cookies_of c \<and> same_views view w w'"
proof -
  obtain next' where "rt_handler r = AuthMiddleware L N (NewTokenService L J cfg) next'"
    using assms(3) unfolding protected_routes_def Let_def assms(4) by auto
  with auth_rejects [OF assms(1,2,5)] assms(6) show ?thesis by simp
qed

definition demo_api :: "(gin_rec, mem) api" where
  "demo_api = \<lparr>api_user = NewUserHandler (user_methods mem_lib svc0)
       (csrf_methods mem_lib (NewCSRFService ''csrf-secret'' (12 * Hour)))
       \<lparr>AccessTTL = 15 * Minute, RefreshTTL = 168 * Hour, Secure = True\<rparr>,
     api_counter = NewCounterHandler (NewCounterService (GORMCounterRepository mem_lib mem_db)),
     api_message = NewMessageHandler (NewMessageService (GORMMessageRepository mem_lib mem_db)),
     api_tokens = NewTokenService mem_lib mem_jwt cfg0,
     api_csrf = csrf_methods mem_lib (NewCSRFService ''csrf-secret'' (12 * Hour)),
     api_authLimiter = RateLimit Pair rec_gin (\<lambda>ip w. (True, w))\<rparr>"

lemma csrf_rejects:
  assumes "gin_laws N sent cookies_of headers_of aborted" and "go_runtime L view up pw_matches bcrypt_work"
    and "gin_Method N c \<in> {''POST'', ''PUT'', ''PATCH'', ''DELETE''}"
    and "csrf_authentic s (gin_GetHeader N c ''X-CSRF-Token'') = None"
    and "CSRFMiddleware N (csrf_methods L s) next c w = (c', w')"
  shows "\<exists>r. sent c' = sent c @ [(403, r)] \<and> \<not> Success r \<and> cookies_of c' = cookies_of c \<and> same_views view w w'"
  using assms(3-5) gin_laws.abort_effect [OF assms(1)]
  by (auto simp: CSRFMiddleware_def csrf_methods_def csrf_ValidateToken_def Let_def split: if_splits)

lemma auth_then:
  assumes "gin_laws N sent cookies_of headers_of aborted"
    and "jwt_runtime L view up pw_matches bcrypt_work J verified clock"
    and "AuthMiddleware L N (NewTokenService L J cfg) next c w = (c', w')"
  shows "(\<exists>r. sent c' = sent c @ [(401, r)] \<and> \<not> Success r \<and> cookies_of c' = cookies_of c \<and> same_views view w w')
    \<or> (\<exists>t cl w1. gin_Cookie N c AccessTokenCookie = Inr t \<and> access_of verified cfg t cl \<and> same_views view w w1
        \<and> (\<forall>ex. TC_ExpiresAt cl = Some ex \<longrightarrow> clock w < ex)
        \<and> next (setAuthContext L N cl c) w1 = (c', w'))"
proof (cases "gin_Cookie N c AccessTokenCookie")
  case (Inl e)
  with assms(3) gin_laws.abort_effect [OF assms(1)] show ?thesis by (auto simp: AuthMiddleware_def)
next
  case (Inr t)
  obtain oc w1 where v: "ValidateAccessToken J cfg t w = (oc, w1)" by (metis surj_pair)
  note same = jwt_runtime.Validate_meets(1) [OF assms(2) v]
  show ?thesis
  proof (cases oc)
    case (Inl e)
    with v Inr assms(3) same gin_laws.abort_effect [OF assms(1)] show ?thesis
      by (auto simp: AuthMiddleware_def NewTokenService_def)
  next
    case (Inr cl)
    with v \<open>gin_Cookie N c AccessTokenCookie = Inr t\<close> assms(3)
    have "next (setAuthContext L N cl c) w1 = (c', w')" by (simp add: AuthMiddleware_def NewTokenService_def)
    with jwt_runtime.Validate_sound(1) [OF assms(2), of cfg t w cl w1] v Inr same
      \<open>gin_Cookie N c AccessTokenCookie = Inr t\<close> show ?thesis by blast
  qed
qed

text \<open>The two places where the CSRF middleware stands: behind the credential limiter and behind authentication.\<close>

lemma limit_then_csrf:
  assumes gl: "gin_laws N sent cookies_of headers_of aborted" and rt: "go_runtime L view up pw_matches bcrypt_work"
    and allow: "\<And>ip w ok w'. allow ip w = (ok, w') \<Longrightarrow> same_views view w w'"
    and m: "gin_Method N c \<in> {''POST'', ''PUT'', ''PATCH'', ''DELETE''}"
    and csrf: "csrf_authentic s (gin_GetHeader N c ''X-CSRF-Token'') = None"
    and r: "RateLimit Pair N allow (CSRFMiddleware N (csrf_methods L s) next) c w = (c', w')"
  shows "\<exists>st e. sent c' = sent c @ [(st, e)] \<and> st \<in> {401, 403, 429} \<and> \<not> Success e
    \<and> cookies_of c' = cookies_of c \<and> same_views view w w'"
proof -
  obtain ok w1 where ok: "allow (gin_ClientIP N c) w = (ok, w1)" by (metis surj_pair)
  show ?thesis
  proof (cases ok)
    case True
    with ok r have "CSRFMiddleware N (csrf_methods L s) next c w1 = (c', w')" by (simp add: RateLimit_def)
    from csrf_rejects [OF gl rt m csrf this] same_views_trans [OF allow [OF ok]] show ?thesis by auto
  next
    case False
    with ok r allow [OF ok] gin_laws.abort_effect [OF gl] show ?thesis by (auto simp: RateLimit_def)
  qed
qed

lemma auth_then_csrf:
  assumes gl: "gin_laws N sent cookies_of headers_of aborted" and jr: "jwt_runtime L view up pw_matches bcrypt_work J verified clock"
    and m: "gin_Method N c \<in> {''POST'', ''PUT'', ''PATCH'', ''DELETE''}"
    and csrf: "csrf_authentic s (gin_GetHeader N c ''X-CSRF-Token'') = None"
    and r: "AuthMiddleware L N (NewTokenService L J cfg) (CSRFMiddleware N (csrf_methods L s) next') c w = (c', w')"
  shows "\<exists>st e. sent c' = sent c @ [(st, e)] \<and> st \<in> {401, 403, 429} \<and> \<not> Success e
    \<and> cookies_of c' = cookies_of c \<and> same_views view w w'"
proof -
  note frame = gin_laws.setAuthContext_frames [OF gl]
  from auth_then [OF gl jr] r consider
    (no) e where "sent c' = sent c @ [(401, e)]" "\<not> Success e" "cookies_of c' = cookies_of c" "same_views view w w'"
    | (yes) cl w1 where "same_views view w w1" "CSRFMiddleware N (csrf_methods L s) next' (setAuthContext L N cl c) w1 = (c', w')"
    by fastforce
  then show ?thesis
  proof cases
    case yes
    have "gin_Method N (setAuthContext L N cl c) \<in> {''POST'', ''PUT'', ''PATCH'', ''DELETE''}"
      "csrf_authentic s (gin_GetHeader N (setAuthContext L N cl c) ''X-CSRF-Token'') = None"
      unfolding frame by (fact m csrf)+
    from csrf_rejects [OF gl jwt_runtime.axioms(1) [OF jr] this yes(2)] same_views_trans [OF yes(1)] show ?thesis
      unfolding frame by auto
  qed auto
qed



end
