(* ===== verification/Go_Parse.thy ===== *)
theory Go_Parse
  imports Go_Std
begin

text \<open>
  The parsers of Go's standard library that the configuration uses: \<open>strconv.Atoi\<close>,
  \<open>time.ParseDuration\<close> and \<open>net.ParseIP\<close>. Arithmetic on \<open>float64\<close> and the formatting
  verbs that depend on Unicode tables are the parameter \<open>goformat\<close>.
\<close>

text \<open>
  \<open>fl_ParseFloat\<close> is \<open>strconv.ParseFloat(s, 64)\<close>; \<open>fl_lit n d\<close> the literal with value
  \<open>n / d\<close>; \<open>fl_less\<close> the operator \<open><\<close> on \<open>float64\<close> (false when an operand is NaN);
  \<open>fl_show\<close> the verb \<open>%v\<close>; \<open>fl_scaled f u k\<close> is
  \<open>uint64(float64(f) * (float64(u) / scale))\<close> for \<open>scale = 10^k\<close>; \<open>fmt_q\<close> the verb \<open>%q\<close>.
\<close>

record 'f goformat =
  fl_ParseFloat :: "string \<Rightarrow> 'f option"
  fl_lit :: "int \<Rightarrow> int \<Rightarrow> 'f"
  fl_less :: "'f \<Rightarrow> 'f \<Rightarrow> bool"
  fl_show :: "'f \<Rightarrow> string"
  fl_scaled :: "int \<Rightarrow> int \<Rightarrow> nat \<Rightarrow> int"
  fmt_q :: "string \<Rightarrow> string"

definition is_digit :: "char \<Rightarrow> bool" where
  "is_digit c \<longleftrightarrow> 48 \<le> (of_char c :: nat) \<and> (of_char c :: nat) \<le> 57"

definition digit_val :: "char \<Rightarrow> int" where
  "digit_val c = int (of_char c) - 48"

subsection \<open>strconv.Atoi\<close>

definition decimal :: "string \<Rightarrow> int" where
  "decimal s = foldl (\<lambda>n c. n * 10 + digit_val c) 0 s"

definition split_sign :: "string \<Rightarrow> bool \<times> string" where
  "split_sign s = (case s of
     [] \<Rightarrow> (False, [])
   | c # r \<Rightarrow> if c = CHR ''-'' then (True, r) else if c = CHR ''+'' then (False, r) else (False, s))"

definition strconv_Atoi :: "string \<Rightarrow> int option" where
  "strconv_Atoi s = (case split_sign s of
     (neg, ds) \<Rightarrow>
       if ds = [] \<or> \<not> list_all is_digit ds then None
       else (let v = (if neg then - decimal ds else decimal ds) in if is_int64 v then Some v else None))"

lemma digit_char_val: "n < 10 \<Longrightarrow> is_digit (digit_char n) \<and> digit_val (digit_char n) = int n"
  by (auto simp: is_digit_def digit_val_def digit_char_def of_char_of)

lemma nat_to_string_digits: "list_all is_digit (nat_to_string n)" "nat_to_string n \<noteq> []"
  by (induction n rule: nat_to_string.induct) (subst nat_to_string.simps, simp add: digit_char_val)+

lemma decimal_snoc: "decimal (s @ [c]) = decimal s * 10 + digit_val c"
  by (simp add: decimal_def)

lemma decimal_nat_to_string [codec]: "decimal (nat_to_string n) = int n"
proof (induction n rule: nat_to_string.induct)
  case (1 n)
  show ?case
  proof (cases "n < 10")
    case True
    then have "nat_to_string n = [digit_char n]" by (subst nat_to_string.simps) simp
    with True show ?thesis by (simp add: decimal_def digit_char_val)
  next
    case False
    then have "nat_to_string n = nat_to_string (n div 10) @ [digit_char (n mod 10)]"
      by (subst nat_to_string.simps) simp
    with 1 False show ?thesis by (simp add: decimal_snoc digit_char_val) presburger
  qed
qed

lemma split_sign_digits: "list_all is_digit s \<Longrightarrow> split_sign s = (False, s)"
  by (cases s) (auto simp: split_sign_def is_digit_def)

theorem Atoi_Itoa [codec]: "is_int64 i \<Longrightarrow> strconv_Atoi (strconv_Itoa i) = Some i"
  using nat_to_string_digits
  by (cases "i < 0")
    (simp_all add: strconv_Atoi_def strconv_Itoa_def split_sign_digits decimal_nat_to_string Let_def,
     simp add: split_sign_def decimal_nat_to_string)

lemma Atoi_range: "strconv_Atoi s = Some i \<Longrightarrow> is_int64 i"
  by (auto simp: strconv_Atoi_def Let_def split: prod.splits if_splits)

subsection \<open>time.ParseDuration\<close>

text \<open>Digits before the point: refused when the value exceeds \<open>2^63\<close>.\<close>

fun leadingInt :: "int \<Rightarrow> string \<Rightarrow> (int \<times> string) option" where
  "leadingInt x [] = Some (x, [])"
| "leadingInt x (c # s) =
     (if \<not> is_digit c then Some (x, c # s)
      else if x > 2 ^ 63 div 10 then None
      else if x * 10 + digit_val c > 2 ^ 63 then None
      else leadingInt (x * 10 + digit_val c) s)"

text \<open>Digits after the point: those beyond the range of the accumulator are skipped. The scale is a power of ten.\<close>

fun leadingFraction :: "int \<Rightarrow> nat \<Rightarrow> bool \<Rightarrow> string \<Rightarrow> int \<times> nat \<times> string" where
  "leadingFraction x k over [] = (x, k, [])"
| "leadingFraction x k over (c # s) =
     (if \<not> is_digit c then (x, k, c # s)
      else if over \<or> x > (2 ^ 63 - 1) div 10 \<or> x * 10 + digit_val c > 2 ^ 63 then leadingFraction x k True s
      else leadingFraction (x * 10 + digit_val c) (Suc k) False s)"

definition unitMap :: "(string, int) gomap" where
  "unitMap = [(''ns'', 1), (''us'', 1000), ([CHR 0xC2, CHR 0xB5, CHR ''s''], 1000), ([CHR 0xCE, CHR 0xBC, CHR ''s''], 1000),
     (''ms'', 1000000), (''s'', Second), (''m'', Minute), (''h'', Hour)]"

definition unit_char :: "char \<Rightarrow> bool" where
  "unit_char c \<longleftrightarrow> c \<noteq> CHR ''.'' \<and> \<not> is_digit c"

text \<open>One \<open>number unit\<close> group: its value in nanoseconds and the rest of the input.\<close>

definition duration_group :: "'f goformat \<Rightarrow> string \<Rightarrow> (int \<times> string) option" where
  "duration_group F s =
     (if (case s of [] \<Rightarrow> True | c # _ \<Rightarrow> unit_char c) then None
      else (case leadingInt 0 s of
        None \<Rightarrow> None
      | Some (v, s1) \<Rightarrow>
          (let pre = (length s1 \<noteq> length s);
               (f, k, s2, post) = (case s1 of
                  [] \<Rightarrow> (0, 0, [], False)
                | c # r \<Rightarrow> if c = CHR ''.'' then (case leadingFraction 0 0 False r of (f, k, s2) \<Rightarrow> (f, k, s2, length s2 \<noteq> length r))
                          else (0, 0, s1, False));
               u = takeWhile unit_char s2; rest = dropWhile unit_char s2
           in if \<not> pre \<and> \<not> post then None
              else if u = [] then None
              else (case map_of unitMap u of
                 None \<Rightarrow> None
               | Some unit \<Rightarrow>
                   if v > 2 ^ 63 div unit then None
                   else (let v1 = v * unit + (if f > 0 then fl_scaled F f unit k else 0)
                         in if f > 0 \<and> v1 > 2 ^ 63 then None else Some (v1, rest))))))"

lemma leadingInt_length: "leadingInt x s = Some (v, r) \<Longrightarrow> length r \<le> length s"
  by (induction x s rule: leadingInt.induct) (auto split: if_splits)

lemma leadingFraction_length: "leadingFraction x k b s = (v, k', r) \<Longrightarrow> length r \<le> length s"
  by (induction x k b s rule: leadingFraction.induct) (auto split: if_splits)

lemma duration_group_shorter: "duration_group F s = Some (v, r) \<Longrightarrow> length r < length s"
proof -
  have drop: "takeWhile P xs \<noteq> [] \<Longrightarrow> length (dropWhile P xs) < length xs" for P and xs :: string
    by (cases xs) (auto simp: length_dropWhile_le le_imp_less_Suc split: if_splits)
  assume "duration_group F s = Some (v, r)"
  then show ?thesis
    by (auto simp: duration_group_def Let_def split: if_splits option.splits prod.splits list.splits
        intro: le_less_trans [OF length_dropWhile_le] dest!: leadingInt_length leadingFraction_length drop)
qed

text \<open>The loop over the groups; the sum is refused above \<open>2^63\<close>.\<close>

function duration_sum :: "'f goformat \<Rightarrow> int \<Rightarrow> string \<Rightarrow> int option" where
  "duration_sum F d s =
     (if s = [] then Some d
      else (case duration_group F s of
        None \<Rightarrow> None
      | Some (v, r) \<Rightarrow> if d + v > 2 ^ 63 then None else duration_sum F (d + v) r))"
  by auto

termination
  by (relation "measure (\<lambda>(F, d, s). length s)") (auto dest: duration_group_shorter)

declare duration_sum.simps [simp del]

definition ParseDuration :: "'f goformat \<Rightarrow> string \<Rightarrow> duration option" where
  "ParseDuration F orig = (case split_sign orig of
     (neg, s) \<Rightarrow>
       if s = ''0'' then Some 0
       else if s = [] then None
       else (case duration_sum F 0 s of
         None \<Rightarrow> None
       | Some d \<Rightarrow> if neg then Some (- d) else if d > 2 ^ 63 - 1 then None else Some d))"

text \<open>The round trip for whole seconds, the form in which the defaults are documented.\<close>

lemma takeWhile_unit: "takeWhile unit_char ''s'' = ''s''"
  by (simp add: unit_char_def is_digit_def)

lemma leadingInt_digits:
  "list_all is_digit ds \<Longrightarrow> 0 \<le> x \<Longrightarrow> foldl (\<lambda>n c. n * 10 + digit_val c) x ds \<le> 2 ^ 63 div 10
   \<Longrightarrow> \<not> is_digit c \<Longrightarrow> leadingInt x (ds @ c # r) = Some (foldl (\<lambda>n c. n * 10 + digit_val c) x ds, c # r)"
proof (induction ds arbitrary: x)
  case Nil
  then show ?case by simp
next
  case (Cons a ds)
  have mono: "0 \<le> y \<Longrightarrow> list_all is_digit es \<Longrightarrow> y \<le> foldl (\<lambda>n c. n * 10 + digit_val c) y es" for y es
  proof (induction es arbitrary: y)
    case (Cons e es)
    then have "0 \<le> digit_val e" by (simp add: is_digit_def digit_val_def)
    with Cons.prems(1) have "y \<le> y * 10 + digit_val e" "0 \<le> y * 10 + digit_val e" by simp_all
    with Cons.IH [of "y * 10 + digit_val e"] Cons.prems(2) show ?case by (simp del: mult.commute)
  qed simp
  let ?x = "x * 10 + digit_val a"
  from Cons.prems have d: "0 \<le> digit_val a" by (simp add: is_digit_def digit_val_def)
  with Cons.prems mono [of ?x ds] have "?x \<le> 2 ^ 63 div 10" by simp
  with d Cons.prems have "\<not> x > 2 ^ 63 div 10" "\<not> ?x > 2 ^ 63" by simp_all
  with Cons.prems Cons.IH [of ?x] d show ?case by simp
qed

lemma duration_group_seconds:
  assumes "0 \<le> n" "n \<le> 2 ^ 63 div Second"
  shows "duration_group F (strconv_Itoa n @ ''s'') = Some (n * Second, [])"
proof -
  obtain k where n: "n = int k" using assms(1) nonneg_int_cases by blast
  have dig: "list_all is_digit (nat_to_string k)" "nat_to_string k \<noteq> []" by (rule nat_to_string_digits)+
  then obtain d ds where s: "nat_to_string k = d # ds" "is_digit d" by (cases "nat_to_string k") auto
  have "leadingInt 0 (nat_to_string k @ CHR ''s'' # []) = Some (int k, ''s'')"
    using leadingInt_digits [OF dig(1), of 0 "CHR ''s''" "[]"] decimal_nat_to_string [of k] assms n
    by (simp add: decimal_def is_digit_def)
  moreover have "\<not> unit_char d" using s by (simp add: unit_char_def)
  ultimately show ?thesis using assms s n
    by (simp add: duration_group_def strconv_Itoa_def Let_def takeWhile_unit unitMap_def unit_char_def is_digit_def)
qed

theorem ParseDuration_seconds [codec]:
  assumes "0 \<le> n" "n \<le> 2 ^ 63 div Second"
  shows "ParseDuration F (strconv_Itoa n @ ''s'') = Some (n * Second)"
proof -
  obtain d ds where s: "strconv_Itoa n = d # ds" "is_digit d"
    using assms(1) nat_to_string_digits [of "nat n"] by (cases "nat_to_string (nat n)") (auto simp: strconv_Itoa_def)
  then have "split_sign (strconv_Itoa n @ ''s'') = (False, strconv_Itoa n @ ''s'')" "strconv_Itoa n @ ''s'' \<noteq> ''0''"
    by (auto simp: split_sign_def is_digit_def)
  moreover have "duration_sum F 0 (strconv_Itoa n @ ''s'') = Some (n * Second)"
    using assms by (simp add: duration_sum.simps [of F 0] duration_group_seconds duration_sum.simps [of F _ "[]"])
  ultimately show ?thesis using assms by (simp add: ParseDuration_def)
qed

subsection \<open>net.ParseIP\<close>

text \<open>An address is its 16 bytes; IPv4 addresses are in the mapped form.\<close>

definition ipv4_field :: "string \<Rightarrow> int option" where
  "ipv4_field p =
     (if p = [] \<or> \<not> list_all is_digit p then None
      else if length p > 1 \<and> hd p = CHR ''0'' then None
      else if decimal p > 255 then None else Some (decimal p))"

definition parseIPv4 :: "string \<Rightarrow> int list option" where
  "parseIPv4 s = (case map ipv4_field (strings_Split CHR ''.'' s) of
     [Some a, Some b, Some c, Some d] \<Rightarrow> Some [a, b, c, d]
   | _ \<Rightarrow> None)"

definition is_hex :: "char \<Rightarrow> bool" where
  "is_hex c \<longleftrightarrow> fromHexChar c \<noteq> None"

definition hex_value :: "string \<Rightarrow> int" where
  "hex_value s = foldl (\<lambda>n c. n * 16 + int (the (fromHexChar c))) 0 s"

text \<open>The loop over the groups: the bytes so far, the place of \<open>::\<close> if it was seen, and the unread input.\<close>

fun ipv6_groups :: "nat \<Rightarrow> string \<Rightarrow> int list \<Rightarrow> nat option \<Rightarrow> (int list \<times> nat option \<times> string) option" where
  "ipv6_groups 0 s ip e = Some (ip, e, s)"
| "ipv6_groups (Suc n) s ip e =
     (let hx = takeWhile is_hex s; rest = dropWhile is_hex s; ip1 = ip @ [hex_value hx div 256, hex_value hx mod 256] in
      if hx = [] \<or> length hx > 4 then None
      else (case rest of
        [] \<Rightarrow> Some (ip1, e, [])
      | c # r \<Rightarrow>
          if c = CHR ''.'' then
            (if e = None \<and> length ip \<noteq> 12 \<or> length ip + 4 > 16 then None
             else (case parseIPv4 s of None \<Rightarrow> None | Some q \<Rightarrow> Some (ip @ q, e, [])))
          else if c \<noteq> CHR '':'' then None
          else (case r of
            [] \<Rightarrow> None
          | c2 # r2 \<Rightarrow>
              if c2 \<noteq> CHR '':'' then ipv6_groups n r ip1 e
              else if e \<noteq> None then None
              else if r2 = [] then Some (ip1, Some (length ip1), [])
              else ipv6_groups n r2 ip1 (Some (length ip1)))))"

declare ipv6_groups.simps [simp del]

definition parseIPv6 :: "string \<Rightarrow> int list option" where
  "parseIPv6 s =
     (if CHR ''%'' \<in> set s then None
      else (let (s1, e1) = (if strings_HasPrefix s ''::'' then (drop 2 s, Some 0) else (s, None)) in
        if e1 \<noteq> None \<and> s1 = [] then Some (replicate 16 0)
        else (case ipv6_groups 8 s1 [] e1 of
          None \<Rightarrow> None
        | Some (ip, e, rest) \<Rightarrow>
            if rest \<noteq> [] then None
            else (case e of
              None \<Rightarrow> if length ip < 16 then None else Some ip
            | Some k \<Rightarrow> if length ip < 16 then Some (take k ip @ replicate (16 - length ip) 0 @ drop k ip) else None))))"

definition ParseIP :: "string \<Rightarrow> int list option" where
  "ParseIP s = (case find (\<lambda>c. c \<in> set ''.:%'') s of
     None \<Rightarrow> None
   | Some c \<Rightarrow>
       if c = CHR ''.'' then map_option (\<lambda>q. replicate 10 0 @ [255, 255] @ q) (parseIPv4 s)
       else if c = CHR '':'' then parseIPv6 s else None)"

definition IsLoopback :: "int list \<Rightarrow> bool" where
  "IsLoopback ip =
     (if take 12 ip = replicate 10 0 @ [255, 255] then ip ! 12 = 127 else ip = replicate 15 0 @ [1])"

lemma ipv6_groups_numeral: "ipv6_groups (numeral k) = ipv6_groups (Suc (pred_numeral k))"
  by (simp only: numeral_eq_Suc)

lemmas ip_chars = is_digit_def digit_val_def is_hex_def fromHexChar_def

lemma parseIPv4_length: "parseIPv4 s = Some q \<Longrightarrow> length q = 4"
  by (auto simp: parseIPv4_def split: list.splits option.splits)

lemma ipv6_groups_length:
  "ipv6_groups n s ip e = Some (ip', e', r) \<Longrightarrow> length ip' \<le> max 16 (length ip + 2 * n)"
proof (induction n arbitrary: s ip e)
  case 0
  then show ?case by (simp add: ipv6_groups.simps)
next
  case (Suc n)
  from Suc.prems show ?case
    unfolding ipv6_groups.simps Let_def
    by (auto split: if_splits list.splits option.splits dest!: Suc.IH parseIPv4_length)
qed

lemma ParseIP_length: "ParseIP s = Some ip \<Longrightarrow> length ip = 16"
  using ipv6_groups_length [of 8 _ "[]"]
  by (fastforce simp: ParseIP_def parseIPv6_def Let_def dest: parseIPv4_length
      split: option.splits if_splits prod.splits)

lemma ParseIP_examples:
  "ParseIP ''::1'' = Some (replicate 15 0 @ [1])"
  "ParseIP ''::ffff:127.0.0.1'' = Some (replicate 10 0 @ [255, 255, 127, 0, 0, 1])"
  "ParseIP ''fe80::2:1'' = Some ([254, 128] @ replicate 11 0 @ [2, 0, 1])"
  "ParseIP ''127.0.0.01'' = None" "ParseIP ''::1%lo'' = None" "ParseIP ''1::2::3'' = None"
  by code_simp+

end
