(* ===== verification/Platform_Config.thy ===== *)
theory Platform_Config
  imports Go_Parse Apperr "HOL-Library.Multiset"
begin

text \<open>
  Package \<open>internal/platform\<close>, files \<open>config.go\<close> and \<open>config_validate.go\<close>: the
  configuration read from the environment, and its validation. \<open>env\<close> is \<open>os.Getenv\<close>:
  an unset variable reads as the empty string. The handle \<open>Database.Gorm\<close> is filled in
  later by the container and is not part of the record.
\<close>

subsection \<open>The configuration\<close>

record AuthConfig =
  JWTAccessSecret :: string
  JWTRefreshSecret :: string
  CSRFSecret :: string
  DevMode :: bool
  AllowedOrigins :: "string list"
  AccessTokenTTL_cfg :: duration
  RefreshTokenTTL_cfg :: duration
  CSRFTokenTTL :: duration
  RefreshTokenPurgeInterval :: duration

record ServerConfig =
  Port :: int
  Host :: string
  ReadTimeout :: duration
  WriteTimeout :: duration
  IdleTimeout :: duration
  ShutdownTimeout :: duration
  RequestTimeout :: duration

record DatabaseConfig =
  DB_Type :: string
  DB_DSN :: string
  MaxOpenConns :: int
  MaxIdleConns :: int
  ConnMaxLifetime :: duration
  DB_LogLevel :: string
  AutoMigrate :: bool

record LogConfig =
  Log_Level :: string
  Log_Format :: string

record 'f TracingConfig =
  Tracing_Enabled :: bool
  ServiceName :: string
  ServiceVersion :: string
  Environment :: string
  Exporter :: string
  Endpoint :: string
  Insecure :: bool
  SampleRatio :: 'f

record ObservabilityConfig =
  MetricsEnabled :: bool
  PprofEnabled :: bool
  AdminHost :: string
  AdminPort :: int

record 'f SecurityConfig =
  RateLimitEnabled :: bool
  RateLimitRPS :: 'f
  RateLimitBurst :: int
  AuthRateLimitRPS :: 'f
  AuthRateLimitBurst :: int
  MaxRequestBody :: int
  TrustedProxies :: "string list"

record 'f Config =
  Server :: ServerConfig
  Database :: DatabaseConfig
  Auth :: AuthConfig
  Log :: LogConfig
  Security :: "'f SecurityConfig"
  Tracing :: "'f TracingConfig"
  Observability :: ObservabilityConfig

subsection \<open>Reading the environment\<close>

type_synonym environ = "string \<Rightarrow> string"

definition getEnv :: "environ \<Rightarrow> string \<Rightarrow> string \<Rightarrow> string" where
  "getEnv env key def = (let value = env key in if value \<noteq> [] then value else def)"

definition getEnvInt :: "environ \<Rightarrow> string \<Rightarrow> int \<Rightarrow> int" where
  "getEnvInt env key def =
     (let value = env key in
      if value \<noteq> [] then (case strconv_Atoi value of Some v \<Rightarrow> v | None \<Rightarrow> def) else def)"

definition getEnvFloat :: "'f goformat \<Rightarrow> environ \<Rightarrow> string \<Rightarrow> 'f \<Rightarrow> 'f" where
  "getEnvFloat F env key def =
     (let value = env key in
      if value \<noteq> [] then (case fl_ParseFloat F value of Some v \<Rightarrow> v | None \<Rightarrow> def) else def)"

definition getEnvBool :: "environ \<Rightarrow> string \<Rightarrow> bool \<Rightarrow> bool" where
  "getEnvBool env key def =
     (let value = env key in
      if value \<noteq> [] then value = ''true'' \<or> value = ''1'' \<or> value = ''yes'' else def)"

definition getEnvDuration :: "'f goformat \<Rightarrow> environ \<Rightarrow> string \<Rightarrow> duration \<Rightarrow> duration" where
  "getEnvDuration F env key def =
     (let value = env key in
      if value \<noteq> [] then (case ParseDuration F value of Some v \<Rightarrow> v | None \<Rightarrow> def) else def)"

definition parseCSVEnv :: "environ \<Rightarrow> string \<Rightarrow> string \<Rightarrow> string list" where
  "parseCSVEnv env key def =
     (let value = env key in
      if value \<noteq> [] then map strings_TrimSpace (strings_Split CHR '','' value)
      else if def \<noteq> [] then [def] else [])"

definition defaultLogLevel :: "bool \<Rightarrow> string" where
  "defaultLogLevel devMode = (if devMode then ''debug'' else ''info'')"

definition defaultLogFormat :: "bool \<Rightarrow> string" where
  "defaultLogFormat devMode = (if devMode then ''text'' else ''json'')"

definition defaultEnvironment :: "bool \<Rightarrow> string" where
  "defaultEnvironment devMode = (if devMode then ''development'' else ''production'')"

definition defaultDatabaseLogLevel :: "bool \<Rightarrow> string" where
  "defaultDatabaseLogLevel devMode = (if devMode then ''info'' else ''warn'')"

definition NewConfig :: "'f goformat \<Rightarrow> environ \<Rightarrow> 'f Config" where
  "NewConfig F env =
     (let devMode = getEnvBool env ''DEV_MODE'' False in
      \<lparr>Server = \<lparr>
         Port = getEnvInt env ''SERVER_PORT'' 8080,
         Host = getEnv env ''SERVER_HOST'' '''',
         ReadTimeout = getEnvDuration F env ''SERVER_READ_TIMEOUT'' (15 * Second),
         WriteTimeout = getEnvDuration F env ''SERVER_WRITE_TIMEOUT'' (15 * Second),
         IdleTimeout = getEnvDuration F env ''SERVER_IDLE_TIMEOUT'' (60 * Second),
         ShutdownTimeout = getEnvDuration F env ''SERVER_SHUTDOWN_TIMEOUT'' (10 * Second),
         RequestTimeout = getEnvDuration F env ''SERVER_REQUEST_TIMEOUT'' (10 * Second)\<rparr>,
       Database = \<lparr>
         DB_Type = getEnv env ''DATABASE_TYPE'' ''sqlite'',
         DB_DSN = getEnv env ''DATABASE_DSN'' ''dev.db'',
         MaxOpenConns = getEnvInt env ''DATABASE_MAX_OPEN_CONNS'' 25,
         MaxIdleConns = getEnvInt env ''DATABASE_MAX_IDLE_CONNS'' 5,
         ConnMaxLifetime = getEnvDuration F env ''DATABASE_CONN_MAX_LIFETIME'' (5 * Minute),
         DB_LogLevel = getEnv env ''DATABASE_LOG_LEVEL'' (defaultDatabaseLogLevel devMode),
         AutoMigrate = getEnvBool env ''DATABASE_AUTO_MIGRATE'' True\<rparr>,
       Auth = \<lparr>
         JWTAccessSecret = env ''JWT_ACCESS_SECRET'',
         JWTRefreshSecret = env ''JWT_REFRESH_SECRET'',
         CSRFSecret = env ''CSRF_SECRET'',
         DevMode = devMode,
         AllowedOrigins = parseCSVEnv env ''ALLOWED_ORIGINS'' ''http://localhost:5173'',
         AccessTokenTTL_cfg = getEnvDuration F env ''JWT_ACCESS_TTL'' (15 * Minute),
         RefreshTokenTTL_cfg = getEnvDuration F env ''JWT_REFRESH_TTL'' (7 * 24 * Hour),
         CSRFTokenTTL = getEnvDuration F env ''CSRF_TOKEN_TTL'' (12 * Hour),
         RefreshTokenPurgeInterval = getEnvDuration F env ''REFRESH_TOKEN_PURGE_INTERVAL'' Hour\<rparr>,
       Log = \<lparr>
         Log_Level = strings_ToLower (getEnv env ''LOG_LEVEL'' (defaultLogLevel devMode)),
         Log_Format = strings_ToLower (getEnv env ''LOG_FORMAT'' (defaultLogFormat devMode))\<rparr>,
       Security = \<lparr>
         RateLimitEnabled = getEnvBool env ''RATE_LIMIT_ENABLED'' True,
         RateLimitRPS = getEnvFloat F env ''RATE_LIMIT_RPS'' (fl_lit F 20 1),
         RateLimitBurst = getEnvInt env ''RATE_LIMIT_BURST'' 40,
         AuthRateLimitRPS = getEnvFloat F env ''AUTH_RATE_LIMIT_RPS'' (fl_lit F 2 10),
         AuthRateLimitBurst = getEnvInt env ''AUTH_RATE_LIMIT_BURST'' 5,
         MaxRequestBody = getEnvInt env ''MAX_REQUEST_BODY_BYTES'' (2 ^ 20),
         TrustedProxies = parseCSVEnv env ''TRUSTED_PROXIES'' ''''\<rparr>,
       Tracing = \<lparr>
         Tracing_Enabled = getEnvBool env ''OTEL_ENABLED'' False,
         ServiceName = getEnv env ''OTEL_SERVICE_NAME'' ''clean-arch-go-gin'',
         ServiceVersion = getEnv env ''OTEL_SERVICE_VERSION'' ''dev'',
         Environment = getEnv env ''OTEL_ENVIRONMENT'' (defaultEnvironment devMode),
         Exporter = strings_ToLower (getEnv env ''OTEL_TRACES_EXPORTER'' ''otlp''),
         Endpoint = getEnv env ''OTEL_EXPORTER_OTLP_ENDPOINT'' ''http://localhost:4318'',
         Insecure = getEnvBool env ''OTEL_EXPORTER_OTLP_INSECURE'' True,
         SampleRatio = getEnvFloat F env ''OTEL_TRACES_SAMPLER_ARG'' (fl_lit F 1 1)\<rparr>,
       Observability = \<lparr>
         MetricsEnabled = getEnvBool env ''METRICS_ENABLED'' False,
         PprofEnabled = getEnvBool env ''PPROF_ENABLED'' False,
         AdminHost = getEnv env ''ADMIN_HOST'' ''127.0.0.1'',
         AdminPort = getEnvInt env ''ADMIN_PORT'' 9090\<rparr>\<rparr>)"

subsection \<open>Validation\<close>

definition DatabaseTypeSQLite :: string where "DatabaseTypeSQLite = ''sqlite''"
definition DatabaseTypePostgres :: string where "DatabaseTypePostgres = ''postgres''"
definition ExporterOTLP :: string where "ExporterOTLP = ''otlp''"
definition ExporterConsole :: string where "ExporterConsole = ''console''"

lemmas config_consts = DatabaseTypeSQLite_def DatabaseTypePostgres_def ExporterOTLP_def ExporterConsole_def

definition minSecretLength :: int where
  "minSecretLength = 32"

definition intVars :: "string list" where
  "intVars = [''SERVER_PORT'', ''DATABASE_MAX_OPEN_CONNS'', ''DATABASE_MAX_IDLE_CONNS'', ''RATE_LIMIT_BURST'',
     ''MAX_REQUEST_BODY_BYTES'', ''ADMIN_PORT'']"

definition durationVars :: "string list" where
  "durationVars = [''SERVER_READ_TIMEOUT'', ''SERVER_WRITE_TIMEOUT'', ''SERVER_IDLE_TIMEOUT'',
     ''SERVER_SHUTDOWN_TIMEOUT'', ''SERVER_REQUEST_TIMEOUT'', ''DATABASE_CONN_MAX_LIFETIME'', ''JWT_ACCESS_TTL'',
     ''JWT_REFRESH_TTL'', ''CSRF_TOKEN_TTL'', ''REFRESH_TOKEN_PURGE_INTERVAL'']"

text \<open>One raw value that is set but does not parse.\<close>

definition unparsed :: "'f goformat \<Rightarrow> environ \<Rightarrow> (string \<Rightarrow> 'a option) \<Rightarrow> string \<Rightarrow> string \<Rightarrow> string list" where
  "unparsed F env parse what key =
     (let raw = env key in
      if raw \<noteq> [] \<and> parse raw = None then [key @ ''='' @ fmt_q F raw @ what] else [])"

definition validateParsing :: "'f goformat \<Rightarrow> environ \<Rightarrow> string list" where
  "validateParsing F env =
     concat (map (unparsed F env strconv_Atoi '' is not an integer'') intVars) @
     concat (map (unparsed F env (ParseDuration F) '' is not a duration (e.g. 15s, 5m, 24h)'') durationVars) @
     unparsed F env (fl_ParseFloat F) '' is not a number'' ''RATE_LIMIT_RPS''"

definition validateServer :: "'f Config \<Rightarrow> string list" where
  "validateServer c =
     (if Port (Server c) < 1 \<or> Port (Server c) > 65535
      then [''SERVER_PORT='' @ strconv_Itoa (Port (Server c)) @ '' is outside 1-65535''] else []) @
     (if ShutdownTimeout (Server c) \<le> 0 then [''SERVER_SHUTDOWN_TIMEOUT must be positive''] else [])"

definition validateDatabase :: "'f goformat \<Rightarrow> 'f Config \<Rightarrow> string list" where
  "validateDatabase F c =
     (let d = Database c in
      (if DB_Type d \<in> {DatabaseTypeSQLite, DatabaseTypePostgres} then []
       else [''DATABASE_TYPE='' @ fmt_q F (DB_Type d) @ '' is not supported (want '' @ fmt_q F DatabaseTypeSQLite @ '' or ''
             @ fmt_q F DatabaseTypePostgres @ '')'']) @
      (if DB_DSN d = [] then [''DATABASE_DSN must not be empty''] else []) @
      (if MaxOpenConns d < 1 then [''DATABASE_MAX_OPEN_CONNS must be at least 1''] else []) @
      (if MaxIdleConns d > MaxOpenConns d then [''DATABASE_MAX_IDLE_CONNS must not exceed DATABASE_MAX_OPEN_CONNS''] else []))"

text \<open>The secrets are ranged over as a map, in the order \<open>it\<close> of that iteration.\<close>

definition secret_problem :: "string \<times> string \<Rightarrow> string list" where
  "secret_problem nv = (case nv of (name, value) \<Rightarrow>
     if value = [] then [name @ '' must be set when DEV_MODE is false'']
     else if int (length value) < minSecretLength
     then [name @ '' must be at least '' @ strconv_Itoa minSecretLength @ '' characters (got ''
           @ strconv_Itoa (int (length value)) @ '')'']
     else [])"

definition validateAuth :: "((string \<times> string) list \<Rightarrow> (string \<times> string) list) \<Rightarrow> 'f Config \<Rightarrow> string list" where
  "validateAuth it c =
     (let a = Auth c;
          ttl = (if AccessTokenTTL_cfg a \<le> 0 then [''JWT_ACCESS_TTL must be positive''] else []) @
                (if RefreshTokenTTL_cfg a \<le> AccessTokenTTL_cfg a
                 then [''JWT_REFRESH_TTL must be longer than JWT_ACCESS_TTL''] else [])
      in if DevMode a then ttl
         else ttl @
           concat (map secret_problem (it [(''JWT_ACCESS_SECRET'', JWTAccessSecret a), (''JWT_REFRESH_SECRET'', JWTRefreshSecret a),
             (''CSRF_SECRET'', CSRFSecret a)])) @
           (if JWTAccessSecret a \<noteq> [] \<and> JWTAccessSecret a = JWTRefreshSecret a
            then [''JWT_ACCESS_SECRET and JWT_REFRESH_SECRET must differ, otherwise a refresh token is accepted as an access token'']
            else []) @
           concat (map (\<lambda>origin. if origin = ''*''
             then [''ALLOWED_ORIGINS must not be '' @ [CHR 0x22] @ ''*'' @ [CHR 0x22] @ '' because credentials are allowed''] else [])
             (AllowedOrigins a)))"

definition validateLog :: "'f goformat \<Rightarrow> 'f Config \<Rightarrow> string list" where
  "validateLog F c =
     (if Log_Level (Log c) \<in> {''debug'', ''info'', ''warn'', ''warning'', ''error''} then []
      else [''LOG_LEVEL='' @ fmt_q F (Log_Level (Log c)) @ '' is not supported (want debug, info, warn or error)'']) @
     (if Log_Format (Log c) \<in> {''json'', ''text''} then []
      else [''LOG_FORMAT='' @ fmt_q F (Log_Format (Log c)) @ '' is not supported (want json or text)''])"

definition isLoopbackEndpoint :: "string \<Rightarrow> bool" where
  "isLoopbackEndpoint endpoint \<longleftrightarrow> strings_Contains endpoint ''localhost'' \<or> strings_Contains endpoint ''127.0.0.1''
     \<or> strings_Contains endpoint ''[::1]''"

definition validateTracing :: "'f goformat \<Rightarrow> 'f Config \<Rightarrow> string list" where
  "validateTracing F c =
     (let t = Tracing c in
      if \<not> Tracing_Enabled t then []
      else
        (if Exporter t \<in> {ExporterOTLP, ExporterConsole, ''stdout''} then []
         else [''OTEL_TRACES_EXPORTER='' @ fmt_q F (Exporter t) @ '' is not supported (want '' @ fmt_q F ExporterOTLP @ '' or ''
               @ fmt_q F ExporterConsole @ '')'']) @
        (if Exporter t = ExporterOTLP \<and> Endpoint t = []
         then [''OTEL_EXPORTER_OTLP_ENDPOINT must be set when the otlp exporter is used''] else []) @
        (if fl_less F (SampleRatio t) (fl_lit F 0 1) \<or> fl_less F (fl_lit F 1 1) (SampleRatio t)
         then [''OTEL_TRACES_SAMPLER_ARG='' @ fl_show F (SampleRatio t) @ '' is outside 0-1''] else []) @
        (if ServiceName t = [] then [''OTEL_SERVICE_NAME must not be empty when tracing is enabled''] else []) @
        (if \<not> DevMode (Auth c) \<and> Insecure t \<and> Exporter t = ExporterOTLP \<and> \<not> isLoopbackEndpoint (Endpoint t)
         then [''OTEL_EXPORTER_OTLP_INSECURE must be false outside DEV_MODE for a remote collector ('' @ Endpoint t @ '')'']
         else []))"

definition validateTokenLifetimes :: "'f Config \<Rightarrow> string list" where
  "validateTokenLifetimes c =
     (if CSRFTokenTTL (Auth c) \<le> 0 then [''CSRF_TOKEN_TTL must be positive''] else []) @
     (if RefreshTokenPurgeInterval (Auth c) < 0
      then [''REFRESH_TOKEN_PURGE_INTERVAL must not be negative (0 disables the sweep)''] else [])"

definition isLoopbackHost :: "string \<Rightarrow> bool" where
  "isLoopbackHost host =
     (if host \<in> {''localhost'', ''127.0.0.1'', ''::1'', ''[::1]''} then True
      else (case ParseIP (strings_Trim host ''[]'') of Some ip \<Rightarrow> IsLoopback ip | None \<Rightarrow> False))"

definition validateObservability :: "'f goformat \<Rightarrow> 'f Config \<Rightarrow> string list" where
  "validateObservability F c =
     (let ob = Observability c in
      if \<not> MetricsEnabled ob \<and> \<not> PprofEnabled ob then []
      else
        (if AdminPort ob < 1 \<or> AdminPort ob > 65535
         then [''ADMIN_PORT='' @ strconv_Itoa (AdminPort ob) @ '' is outside 1-65535''] else []) @
        (if AdminPort ob = Port (Server c)
         then [''ADMIN_PORT='' @ strconv_Itoa (AdminPort ob) @ '' must differ from SERVER_PORT, otherwise the admin endpoints would be served on the public listener'']
         else []) @
        (if AdminHost ob = [] then [''ADMIN_HOST must not be empty''] else []) @
        (if \<not> DevMode (Auth c) \<and> PprofEnabled ob \<and> \<not> isLoopbackHost (AdminHost ob)
         then [''PPROF_ENABLED requires a loopback ADMIN_HOST outside DEV_MODE (got '' @ fmt_q F (AdminHost ob) @ ''): pprof lets an unauthenticated caller dump the heap and stall the process with a 30s CPU profile. Bind it to 127.0.0.1 and reach it with a port forward'']
         else []))"

definition problems_of :: "'f goformat \<Rightarrow> environ \<Rightarrow> ((string \<times> string) list \<Rightarrow> (string \<times> string) list) \<Rightarrow> 'f Config \<Rightarrow> string list" where
  "problems_of F env it c =
     validateParsing F env @ validateServer c @ validateDatabase F c @ validateAuth it c @ validateLog F c @
     validateTracing F c @ validateObservability F c @ validateTokenLifetimes c"

text \<open>\<open>None\<close> is a nil error. The messages are joined with a newline, two blanks and a dash.\<close>

definition Validate :: "'f goformat \<Rightarrow> environ \<Rightarrow> ((string \<times> string) list \<Rightarrow> (string \<times> string) list) \<Rightarrow> 'f Config \<Rightarrow> go_error option" where
  "Validate F env it c =
     (let problems = problems_of F env it c; sep = [CHR 0x0A] @ ''  - '' in
      if problems = [] then None
      else Some (errors_New (''invalid configuration:'' @ sep @ strings_Join problems sep)))"

subsection \<open>What validation accepts\<close>

text \<open>The requirements on a deployment, independent of how and in which order they are checked.\<close>

definition parses_if_set :: "environ \<Rightarrow> (string \<Rightarrow> 'a option) \<Rightarrow> string \<Rightarrow> bool" where
  "parses_if_set env parse key \<longleftrightarrow> env key = [] \<or> parse (env key) \<noteq> None"

definition production_auth :: "AuthConfig \<Rightarrow> bool" where
  "production_auth a \<longleftrightarrow> length (JWTAccessSecret a) \<ge> 32 \<and> length (JWTRefreshSecret a) \<ge> 32 \<and> length (CSRFSecret a) \<ge> 32
     \<and> JWTAccessSecret a \<noteq> JWTRefreshSecret a \<and> ''*'' \<notin> set (AllowedOrigins a)"

definition sound_tracing :: "'f goformat \<Rightarrow> bool \<Rightarrow> 'f TracingConfig \<Rightarrow> bool" where
  "sound_tracing F dev t \<longleftrightarrow> Exporter t \<in> {''otlp'', ''console'', ''stdout''} \<and> ServiceName t \<noteq> []
     \<and> \<not> fl_less F (SampleRatio t) (fl_lit F 0 1) \<and> \<not> fl_less F (fl_lit F 1 1) (SampleRatio t)
     \<and> (Exporter t = ''otlp'' \<longrightarrow> Endpoint t \<noteq> [] \<and> (dev \<or> \<not> Insecure t \<or> isLoopbackEndpoint (Endpoint t)))"

definition sound_admin :: "bool \<Rightarrow> int \<Rightarrow> ObservabilityConfig \<Rightarrow> bool" where
  "sound_admin dev port ob \<longleftrightarrow> AdminPort ob \<in> {1..65535} \<and> AdminPort ob \<noteq> port \<and> AdminHost ob \<noteq> []
     \<and> (PprofEnabled ob \<longrightarrow> dev \<or> isLoopbackHost (AdminHost ob))"

definition sound_config :: "'f goformat \<Rightarrow> environ \<Rightarrow> 'f Config \<Rightarrow> bool" where
  "sound_config F env c \<longleftrightarrow>
     (\<forall>k \<in> set intVars. parses_if_set env strconv_Atoi k) \<and>
     (\<forall>k \<in> set durationVars. parses_if_set env (ParseDuration F) k) \<and>
     parses_if_set env (fl_ParseFloat F) ''RATE_LIMIT_RPS'' \<and>
     Port (Server c) \<in> {1..65535} \<and> 0 < ShutdownTimeout (Server c) \<and>
     DB_Type (Database c) \<in> {''sqlite'', ''postgres''} \<and> DB_DSN (Database c) \<noteq> [] \<and>
     0 < MaxOpenConns (Database c) \<and> MaxIdleConns (Database c) \<le> MaxOpenConns (Database c) \<and>
     0 < AccessTokenTTL_cfg (Auth c) \<and> AccessTokenTTL_cfg (Auth c) < RefreshTokenTTL_cfg (Auth c) \<and>
     0 < CSRFTokenTTL (Auth c) \<and> 0 \<le> RefreshTokenPurgeInterval (Auth c) \<and>
     (DevMode (Auth c) \<or> production_auth (Auth c)) \<and>
     Log_Level (Log c) \<in> {''debug'', ''info'', ''warn'', ''warning'', ''error''} \<and> Log_Format (Log c) \<in> {''json'', ''text''} \<and>
     (Tracing_Enabled (Tracing c) \<longrightarrow> sound_tracing F (DevMode (Auth c)) (Tracing c)) \<and>
     (MetricsEnabled (Observability c) \<or> PprofEnabled (Observability c)
        \<longrightarrow> sound_admin (DevMode (Auth c)) (Port (Server c)) (Observability c))"

lemma unparsed_iff: "unparsed F env parse what k = [] \<longleftrightarrow> parses_if_set env parse k"
  by (auto simp: unparsed_def parses_if_set_def Let_def)

lemma validateParsing_iff:
  "validateParsing F env = [] \<longleftrightarrow> (\<forall>k \<in> set intVars. parses_if_set env strconv_Atoi k)
     \<and> (\<forall>k \<in> set durationVars. parses_if_set env (ParseDuration F) k)
     \<and> parses_if_set env (fl_ParseFloat F) ''RATE_LIMIT_RPS''"
  by (simp add: validateParsing_def unparsed_iff)

lemma validateServer_iff: "validateServer c = [] \<longleftrightarrow> Port (Server c) \<in> {1..65535} \<and> 0 < ShutdownTimeout (Server c)"
  by (auto simp: validateServer_def)

lemma validateDatabase_iff:
  "validateDatabase F c = [] \<longleftrightarrow> DB_Type (Database c) \<in> {''sqlite'', ''postgres''} \<and> DB_DSN (Database c) \<noteq> []
     \<and> 0 < MaxOpenConns (Database c) \<and> MaxIdleConns (Database c) \<le> MaxOpenConns (Database c)"
  by (auto simp: validateDatabase_def Let_def config_consts)

lemma secret_problem_iff: "secret_problem (n, v) = [] \<longleftrightarrow> 32 \<le> length v"
  by (auto simp: secret_problem_def minSecretLength_def)

lemma iterated_set: "\<forall>xs. mset (it xs) = mset xs \<Longrightarrow> set (it xs) = set xs"
  by (metis set_mset_mset)

lemma validateAuth_iff:
  assumes "\<forall>xs. mset (it xs) = mset xs"
  shows "validateAuth it c = [] \<longleftrightarrow> 0 < AccessTokenTTL_cfg (Auth c) \<and> AccessTokenTTL_cfg (Auth c) < RefreshTokenTTL_cfg (Auth c)
     \<and> (DevMode (Auth c) \<or> production_auth (Auth c))"
proof -
  have no_star: "concat (map (\<lambda>origin. if origin = ''*'' then [p] else []) xs) = [] \<longleftrightarrow> ''*'' \<notin> set xs"
    for p :: string and xs :: "string list" by auto
  show ?thesis
    unfolding validateAuth_def Let_def
    by (auto simp: iterated_set [OF assms] secret_problem_iff production_auth_def no_star)
qed

lemma validateLog_iff:
  "validateLog F c = [] \<longleftrightarrow> Log_Level (Log c) \<in> {''debug'', ''info'', ''warn'', ''warning'', ''error''}
     \<and> Log_Format (Log c) \<in> {''json'', ''text''}"
  by (auto simp: validateLog_def)

lemma validateTracing_iff:
  "validateTracing F c = [] \<longleftrightarrow> (Tracing_Enabled (Tracing c) \<longrightarrow> sound_tracing F (DevMode (Auth c)) (Tracing c))"
  by (auto simp: validateTracing_def sound_tracing_def Let_def config_consts)

lemma validateObservability_iff:
  "validateObservability F c = [] \<longleftrightarrow> (MetricsEnabled (Observability c) \<or> PprofEnabled (Observability c)
     \<longrightarrow> sound_admin (DevMode (Auth c)) (Port (Server c)) (Observability c))"
  by (auto simp: validateObservability_def sound_admin_def Let_def)

lemma validateTokenLifetimes_iff:
  "validateTokenLifetimes c = [] \<longleftrightarrow> 0 < CSRFTokenTTL (Auth c) \<and> 0 \<le> RefreshTokenPurgeInterval (Auth c)"
  by (auto simp: validateTokenLifetimes_def)

lemmas validators_iff = validateParsing_iff validateServer_iff validateDatabase_iff validateLog_iff validateTracing_iff
  validateObservability_iff validateTokenLifetimes_iff

lemma Validate_nil: "Validate F env it c = None \<longleftrightarrow> problems_of F env it c = []"
  by (simp add: Validate_def Let_def)

lemma Validate_iff:
  assumes "\<forall>xs. mset (it xs) = mset xs"
  shows "Validate F env it c = None \<longleftrightarrow> sound_config F env c"
  unfolding Validate_nil problems_of_def append_is_Nil_conv validators_iff validateAuth_iff [OF assms] sound_config_def
  by argo

lemma sound_config_parts:
  assumes "sound_config F env c"
  shows "\<forall>k \<in> set intVars. parses_if_set env strconv_Atoi k" "\<forall>k \<in> set durationVars. parses_if_set env (ParseDuration F) k"
    "parses_if_set env (fl_ParseFloat F) ''RATE_LIMIT_RPS''" "DevMode (Auth c) \<or> production_auth (Auth c)"
  using assms by (simp_all add: sound_config_def)


subsection \<open>The environment as it is used\<close>

text \<open>The settings whose variables \<open>validateParsing\<close> re-reads.\<close>

definition int_settings :: "(string \<times> ('f Config \<Rightarrow> int)) list" where
  "int_settings = [(''SERVER_PORT'', \<lambda>c. Port (Server c)), (''DATABASE_MAX_OPEN_CONNS'', \<lambda>c. MaxOpenConns (Database c)),
     (''DATABASE_MAX_IDLE_CONNS'', \<lambda>c. MaxIdleConns (Database c)), (''RATE_LIMIT_BURST'', \<lambda>c. RateLimitBurst (Security c)),
     (''MAX_REQUEST_BODY_BYTES'', \<lambda>c. MaxRequestBody (Security c)), (''ADMIN_PORT'', \<lambda>c. AdminPort (Observability c))]"

definition duration_settings :: "(string \<times> ('f Config \<Rightarrow> duration)) list" where
  "duration_settings = [(''SERVER_READ_TIMEOUT'', \<lambda>c. ReadTimeout (Server c)), (''SERVER_WRITE_TIMEOUT'', \<lambda>c. WriteTimeout (Server c)),
     (''SERVER_IDLE_TIMEOUT'', \<lambda>c. IdleTimeout (Server c)), (''SERVER_SHUTDOWN_TIMEOUT'', \<lambda>c. ShutdownTimeout (Server c)),
     (''SERVER_REQUEST_TIMEOUT'', \<lambda>c. RequestTimeout (Server c)), (''DATABASE_CONN_MAX_LIFETIME'', \<lambda>c. ConnMaxLifetime (Database c)),
     (''JWT_ACCESS_TTL'', \<lambda>c. AccessTokenTTL_cfg (Auth c)), (''JWT_REFRESH_TTL'', \<lambda>c. RefreshTokenTTL_cfg (Auth c)),
     (''CSRF_TOKEN_TTL'', \<lambda>c. CSRFTokenTTL (Auth c)), (''REFRESH_TOKEN_PURGE_INTERVAL'', \<lambda>c. RefreshTokenPurgeInterval (Auth c))]"

lemma int_settings_keys: "map fst int_settings = intVars"
  by (simp add: int_settings_def intVars_def)

lemma duration_settings_keys: "map fst duration_settings = durationVars"
  by (simp add: duration_settings_def durationVars_def)

lemma int_settings_read:
  "(k, g) \<in> set int_settings \<Longrightarrow> env k \<noteq> [] \<Longrightarrow> strconv_Atoi (env k) = Some v \<Longrightarrow> g (NewConfig F env) = v"
  unfolding int_settings_def set_simps insert_iff empty_iff prod.inject
  by (elim disjE conjE; simp add: NewConfig_def getEnvInt_def Let_def)

lemma duration_settings_read:
  "(k, g) \<in> set duration_settings \<Longrightarrow> env k \<noteq> [] \<Longrightarrow> ParseDuration F (env k) = Some v \<Longrightarrow> g (NewConfig F env) = v"
  unfolding duration_settings_def set_simps insert_iff empty_iff prod.inject
  by (elim disjE conjE; simp add: NewConfig_def getEnvDuration_def Let_def)

lemma settings_parse:
  assumes "map fst settings = vars" and "\<forall>k \<in> set vars. parses_if_set env parse k"
    and "\<And>k g v. (k, g) \<in> set settings \<Longrightarrow> env k \<noteq> [] \<Longrightarrow> parse (env k) = Some v \<Longrightarrow> g cfg = v"
    and "(k, g) \<in> set settings" and "env k \<noteq> []"
  shows "parse (env k) = Some (g cfg)"
proof -
  have "k \<in> set vars" using assms(1,4) by force
  with assms(2,5) obtain v where "parse (env k) = Some v" by (auto simp: parses_if_set_def)
  with assms(3) [OF assms(4,5)] show ?thesis by simp
qed

text \<open>C36. When validation of the configuration read from the environment succeeds, none of the variables it
  re-reads was silently replaced: each integer, duration and the global rate is the value written in the
  environment. Outside development mode the secrets in the environment are the ones in use: at least 32 bytes each,
  and the access and refresh secrets differ.\<close>

theorem validated_environment_is_used:
  assumes "\<forall>xs. mset (it xs) = mset xs" and "Validate F env it (NewConfig F env) = None"
  shows "(\<forall>(k, g) \<in> set int_settings. env k \<noteq> [] \<longrightarrow> strconv_Atoi (env k) = Some (g (NewConfig F env)))
    \<and> (\<forall>(k, g) \<in> set duration_settings. env k \<noteq> [] \<longrightarrow> ParseDuration F (env k) = Some (g (NewConfig F env)))
    \<and> (env ''RATE_LIMIT_RPS'' \<noteq> [] \<longrightarrow> fl_ParseFloat F (env ''RATE_LIMIT_RPS'') = Some (RateLimitRPS (Security (NewConfig F env))))
    \<and> (getEnvBool env ''DEV_MODE'' False \<or> 32 \<le> length (env ''JWT_ACCESS_SECRET'') \<and> 32 \<le> length (env ''JWT_REFRESH_SECRET'')
         \<and> 32 \<le> length (env ''CSRF_SECRET'') \<and> env ''JWT_ACCESS_SECRET'' \<noteq> env ''JWT_REFRESH_SECRET'')"
proof -
  note v = sound_config_parts [OF Validate_iff [OF assms(1), THEN iffD1, OF assms(2)]]
  have auth: "DevMode (Auth (NewConfig F env)) = getEnvBool env ''DEV_MODE'' False"
    "JWTAccessSecret (Auth (NewConfig F env)) = env ''JWT_ACCESS_SECRET''"
    "JWTRefreshSecret (Auth (NewConfig F env)) = env ''JWT_REFRESH_SECRET''" "CSRFSecret (Auth (NewConfig F env)) = env ''CSRF_SECRET''"
    by (simp_all add: NewConfig_def Let_def)
  have "\<forall>(k, g) \<in> set int_settings. env k \<noteq> [] \<longrightarrow> strconv_Atoi (env k) = Some (g (NewConfig F env))"
    using settings_parse [OF int_settings_keys v(1), of "NewConfig F env"] int_settings_read by blast
  moreover have "\<forall>(k, g) \<in> set duration_settings. env k \<noteq> [] \<longrightarrow> ParseDuration F (env k) = Some (g (NewConfig F env))"
    using settings_parse [OF duration_settings_keys v(2), of "NewConfig F env"] duration_settings_read by blast
  moreover have "env ''RATE_LIMIT_RPS'' \<noteq> [] \<longrightarrow> fl_ParseFloat F (env ''RATE_LIMIT_RPS'') = Some (RateLimitRPS (Security (NewConfig F env)))"
    using v(3) by (auto simp: parses_if_set_def NewConfig_def getEnvFloat_def Let_def)
  moreover have "getEnvBool env ''DEV_MODE'' False \<or> 32 \<le> length (env ''JWT_ACCESS_SECRET'')
      \<and> 32 \<le> length (env ''JWT_REFRESH_SECRET'') \<and> 32 \<le> length (env ''CSRF_SECRET'')
      \<and> env ''JWT_ACCESS_SECRET'' \<noteq> env ''JWT_REFRESH_SECRET''"
    using v(4) by (auto simp: production_auth_def auth)
  ultimately show ?thesis by (intro conjI)
qed

subsection \<open>Concrete environments\<close>

definition env_of :: "(string, string) gomap \<Rightarrow> environ" where
  "env_of kvs k = (case map_of kvs k of Some v \<Rightarrow> v | None \<Rightarrow> [])"

text \<open>An instance of the formatting parameter: numbers in tenths, integers only in the input.\<close>

definition tenths :: "int goformat" where
  "tenths = \<lparr>fl_ParseFloat = (\<lambda>s. map_option ((*) 10) (strconv_Atoi s)), fl_lit = (\<lambda>n d. 10 * n div d), fl_less = (<),
     fl_show = (\<lambda>f. strconv_Itoa (f div 10)), fl_scaled = (\<lambda>f u k. f * u div 10 ^ k), fmt_q = (\<lambda>s. s)\<rparr>"

definition prod_env :: environ where
  "prod_env = env_of [(''JWT_ACCESS_SECRET'', replicate 32 CHR ''a''), (''JWT_REFRESH_SECRET'', replicate 32 CHR ''r''),
     (''CSRF_SECRET'', replicate 40 CHR ''c''), (''SERVER_PORT'', ''8443''), (''JWT_ACCESS_TTL'', ''5m''),
     (''PPROF_ENABLED'', ''true'')]"

definition typo_env :: environ where
  "typo_env = prod_env(''AUTH_RATE_LIMIT_BURST'' := ''1O'')"

definition collector_env :: environ where
  "collector_env = prod_env(''OTEL_ENABLED'' := ''true'',
     ''OTEL_EXPORTER_OTLP_ENDPOINT'' := ''http://localhost.collector.example:4318'')"

lemma permuting_rev: "\<forall>xs. mset (rev xs) = mset xs"
  by simp

lemma prod_env_accepted: "Validate tenths prod_env rev (NewConfig tenths prod_env) = None"
  by code_simp


theorem validated_environment_is_used_witness:
  "Port (Server (NewConfig tenths prod_env)) = 8443 \<and> AccessTokenTTL_cfg (Auth (NewConfig tenths prod_env)) = 5 * Minute"
proof -
  note used = validated_environment_is_used [OF permuting_rev prod_env_accepted]
  have "strconv_Atoi (prod_env ''SERVER_PORT'') = Some 8443" "prod_env ''SERVER_PORT'' \<noteq> []"
    "ParseDuration tenths (prod_env ''JWT_ACCESS_TTL'') = Some (5 * Minute)" "prod_env ''JWT_ACCESS_TTL'' \<noteq> []"
    by code_simp+
  moreover have "(''SERVER_PORT'', \<lambda>c :: int Config. Port (Server c)) \<in> set int_settings"
    "(''JWT_ACCESS_TTL'', \<lambda>c :: int Config. AccessTokenTTL_cfg (Auth c)) \<in> set duration_settings"
    by (simp_all add: int_settings_def duration_settings_def)
  ultimately show ?thesis using used by fastforce
qed

text \<open>
  Two inputs that validation accepts although its comments say it reports them. The limits of the credential
  endpoints are not among the variables that are re-read, so a misspelt value silently becomes the default; and an
  endpoint counts as local as soon as its text contains \<open>localhost\<close>, so spans may leave the machine in the clear.
\<close>

lemma auth_limit_typo_accepted:
  "Validate tenths typo_env rev (NewConfig tenths typo_env) = None"
  "strconv_Atoi (typo_env ''AUTH_RATE_LIMIT_BURST'') = None"
  "AuthRateLimitBurst (Security (NewConfig tenths typo_env)) = 5"
  by code_simp+

lemma remote_collector_accepted:
  "Validate tenths collector_env rev (NewConfig tenths collector_env) = None"
  "Insecure (Tracing (NewConfig tenths collector_env))"
  "Endpoint (Tracing (NewConfig tenths collector_env)) = ''http://localhost.collector.example:4318''"
  by code_simp+

end
