(* ===== verification/Migrations.thy ===== *)
theory Migrations
  imports Gorm_Store Go_Parse "HOL-Library.Sublist"
begin

text \<open>
  Package \<open>internal/platform\<close>, file \<open>migrate.go\<close>: the ordered list of schema migrations,
  its validation, and their application, each in a transaction with its ledger row.
  GORM's migrator, raw SQL and the ledger table are the parameter \<open>migrator\<close>; what the
  code relies on is the locale \<open>schema_db\<close>.
\<close>

subsection \<open>Data\<close>

text \<open>\<open>Mig_Up = None\<close> is a nil function.\<close>

record 'w Migration =
  Mig_Version :: int
  Mig_Name :: string
  Mig_Up :: "(conn \<Rightarrow> ('w, go_error, unit) effect) option"

record schemaMigration =
  SM_Version :: int
  SM_Name :: string
  SM_AppliedAt :: time

text \<open>A model given to \<open>AutoMigrate\<close> names a table.\<close>

datatype gorm_model = Model_User | Model_RefreshToken | Model_Counter | Model_Message | Model_schemaMigration

text \<open>\<open>mig_ColumnTypes\<close> gives the column names of the refresh token table.\<close>

record 'w migrator =
  mig_AutoMigrate :: "conn \<Rightarrow> gorm_model list \<Rightarrow> ('w, go_error, unit) effect"
  mig_FindLedger :: "conn \<Rightarrow> ('w, go_error, schemaMigration list) effect"
  mig_CreateLedger :: "conn \<Rightarrow> schemaMigration \<Rightarrow> ('w, go_error, unit) effect"
  mig_ColumnTypes :: "conn \<Rightarrow> ('w, go_error, string list) effect"
  mig_Exec :: "conn \<Rightarrow> string \<Rightarrow> ('w, go_error, unit) effect"

subsection \<open>The migrations\<close>

text \<open>\<open>strings.EqualFold(s, t)\<close> for an ASCII \<open>t\<close>: besides the two cases of a letter, the Kelvin sign
  folds to \<open>k\<close> and the long s to \<open>s\<close>.\<close>

fun fold_ascii :: "string \<Rightarrow> string" where
  "fold_ascii (a # b # c # s) =
     (if a = CHR 0xE2 \<and> b = CHR 0x84 \<and> c = CHR 0xAA then CHR ''k'' # fold_ascii s
      else if a = CHR 0xC5 \<and> b = CHR 0xBF then CHR ''s'' # fold_ascii (c # s)
      else ascii_lower a # fold_ascii (b # c # s))"
| "fold_ascii [a, b] = (if a = CHR 0xC5 \<and> b = CHR 0xBF then ''s'' else [ascii_lower a, ascii_lower b])"
| "fold_ascii [a] = [ascii_lower a]"
| "fold_ascii [] = []"

definition strings_EqualFold :: "string \<Rightarrow> string \<Rightarrow> bool" where
  "strings_EqualFold s t \<longleftrightarrow> fold_ascii s = strings_ToLower t"

definition hasColumn :: "'w migrator \<Rightarrow> conn \<Rightarrow> string \<Rightarrow> ('w, go_error, bool) effect" where
  "hasColumn M tx column w =
     (case mig_ColumnTypes M tx w of
        (Inl err, w1) \<Rightarrow> (Inl (Errorf ''reading columns'' err), w1)
      | (Inr types, w1) \<Rightarrow> (Inr (list_ex (\<lambda>n. strings_EqualFold n column) types), w1))"

definition dropLegacyRefreshTokenColumn :: "'w migrator \<Rightarrow> conn \<Rightarrow> ('w, go_error, unit) effect" where
  "dropLegacyRefreshTokenColumn M tx w =
     (case hasColumn M tx ''token'' w of
        (Inl err, w1) \<Rightarrow> (Inl err, w1)
      | (Inr present, w1) \<Rightarrow>
          if \<not> present then (Inr (), w1)
          else (case mig_Exec M tx ''ALTER TABLE refresh_token_entities DROP COLUMN token'' w1 of
             (Inl err, w2) \<Rightarrow> (Inl (Errorf ''dropping legacy refresh_token_entities.token'' err), w2)
           | (Inr _, w2) \<Rightarrow> (Inr (), w2)))"

definition seed_counter :: "'w golib \<Rightarrow> 'w gorm \<Rightarrow> conn \<Rightarrow> ('w, go_error, unit) effect" where
  "seed_counter L G tx w =
     (case g_Count (db_counters G) tx (\<lambda>_. True) w of
        (Inl err, w1) \<Rightarrow> (Inl (Errorf ''counting counters'' err), w1)
      | (Inr n, w1) \<Rightarrow>
          if n \<noteq> 0 then (Inr (), w1)
          else (let (i, w2) = uuid_New L w1 in
            case g_Create (db_counters G) tx \<lparr>Counter_ID = i, Counter_Value = 0, Counter_CreatedAt = zero_time, Counter_UpdatedAt = zero_time\<rparr> w2 of
              (Inl err, w3) \<Rightarrow> (Inl (Errorf ''seeding counter'' err), w3)
            | (Inr _, w3) \<Rightarrow> (Inr (), w3)))"

definition seed_message :: "'w golib \<Rightarrow> 'w gorm \<Rightarrow> conn \<Rightarrow> ('w, go_error, unit) effect" where
  "seed_message L G tx w =
     (case g_Count (db_messages G) tx (\<lambda>_. True) w of
        (Inl err, w1) \<Rightarrow> (Inl (Errorf ''counting messages'' err), w1)
      | (Inr n, w1) \<Rightarrow>
          if n \<noteq> 0 then (Inr (), w1)
          else (let (i, w2) = uuid_New L w1 in
            case g_Create (db_messages G) tx \<lparr>Message_ID = i, Message_Key = ''default'',
                Message_Value = ''Welcome to Clean Go Vite React!'', Message_CreatedAt = zero_time, Message_UpdatedAt = zero_time\<rparr> w2 of
              (Inl err, w3) \<Rightarrow> (Inl (Errorf ''seeding message'' err), w3)
            | (Inr _, w3) \<Rightarrow> (Inr (), w3)))"

definition seed :: "'w golib \<Rightarrow> 'w gorm \<Rightarrow> conn \<Rightarrow> ('w, go_error, unit) effect" where
  "seed L G tx w =
     (case seed_counter L G tx w of
        (Inl err, w1) \<Rightarrow> (Inl err, w1)
      | (Inr _, w1) \<Rightarrow> seed_message L G tx w1)"

definition entities :: "gorm_model list" where
  "entities = [Model_User, Model_RefreshToken, Model_Counter, Model_Message]"

definition migrations :: "'w golib \<Rightarrow> 'w gorm \<Rightarrow> 'w migrator \<Rightarrow> 'w Migration list" where
  "migrations L G M =
     [\<lparr>Mig_Version = 1, Mig_Name = ''create initial schema'', Mig_Up = Some (\<lambda>tx. mig_AutoMigrate M tx entities)\<rparr>,
      \<lparr>Mig_Version = 2, Mig_Name = ''seed demo rows'', Mig_Up = Some (seed L G)\<rparr>,
      \<lparr>Mig_Version = 3, Mig_Name = ''drop the plaintext refresh token column'',
       Mig_Up = Some (dropLegacyRefreshTokenColumn M)\<rparr>]"

subsection \<open>Validation and application\<close>

text \<open>The loop of \<open>validateMigrations\<close> over the sorted list beside the list as written. \<open>prev\<close> is
  \<open>sorted[i-1]\<close>.\<close>

fun check_migrations :: "'f goformat \<Rightarrow> 'w Migration option \<Rightarrow> ('w Migration \<times> 'w Migration) list \<Rightarrow> go_error option" where
  "check_migrations F prev [] = None"
| "check_migrations F prev ((m, l) # r) =
     (if Mig_Version m \<le> 0 then
        Some (errors_New (''migration '' @ fmt_q F (Mig_Name m) @ '' has version '' @ strconv_Itoa (Mig_Version m) @ ''; versions start at 1''))
      else if Mig_Up m = None then
        Some (errors_New (''migration '' @ strconv_Itoa (Mig_Version m) @ '' ('' @ Mig_Name m @ '') has no Up function''))
      else (case prev of
        Some p \<Rightarrow> if Mig_Version p = Mig_Version m then
            Some (errors_New (''duplicate migration version '' @ strconv_Itoa (Mig_Version m) @ '' ('' @ fmt_q F (Mig_Name p) @ '' and ''
              @ fmt_q F (Mig_Name m) @ '')''))
          else if Mig_Version l \<noteq> Mig_Version m then
            Some (errors_New (''migrations are out of order at version '' @ strconv_Itoa (Mig_Version m) @ '' ('' @ Mig_Name m
              @ ''); list them ascending''))
          else check_migrations F (Some m) r
      | None \<Rightarrow> if Mig_Version l \<noteq> Mig_Version m then
            Some (errors_New (''migrations are out of order at version '' @ strconv_Itoa (Mig_Version m) @ '' ('' @ Mig_Name m
              @ ''); list them ascending''))
          else check_migrations F (Some m) r))"

text \<open>\<open>srt\<close> is \<open>sort.Slice\<close> by version, which may order equal versions either way.\<close>

definition validateMigrations :: "'f goformat \<Rightarrow> ('w Migration list \<Rightarrow> 'w Migration list) \<Rightarrow> 'w Migration list \<Rightarrow> go_error option" where
  "validateMigrations F srt list = check_migrations F None (zip (srt list) list)"

definition appliedVersions :: "'w migrator \<Rightarrow> ('w, go_error, int set) effect" where
  "appliedVersions M w =
     (case mig_FindLedger M Pool w of
        (Inl err, w1) \<Rightarrow> (Inl (Errorf ''reading migration ledger'' err), w1)
      | (Inr rows, w1) \<Rightarrow> (Inr (set (map SM_Version rows)), w1))"

text \<open>Calling a nil function panics; \<open>validateMigrations\<close> has excluded it, so the case is closed with an error.\<close>

definition migration_closure :: "'w golib \<Rightarrow> 'w migrator \<Rightarrow> 'w Migration \<Rightarrow> conn \<Rightarrow> ('w, go_error, unit) effect" where
  "migration_closure L M m tx w =
     (case Mig_Up m of
        None \<Rightarrow> (Inl (errors_New ''nil pointer dereference''), w)
      | Some up \<Rightarrow>
          (case up tx w of
             (Inl err, w1) \<Rightarrow> (Inl err, w1)
           | (Inr _, w1) \<Rightarrow>
               (let (now, w2) = time_Now L w1 in
                mig_CreateLedger M tx \<lparr>SM_Version = Mig_Version m, SM_Name = Mig_Name m, SM_AppliedAt = now\<rparr> w2)))"

definition applyMigration :: "'w golib \<Rightarrow> 'w gorm \<Rightarrow> 'w migrator \<Rightarrow> 'w Migration \<Rightarrow> ('w, go_error, unit) effect" where
  "applyMigration L G M m w =
     (case gorm_Transaction G Pool (migration_closure L M m) w of
        (Inl err, w1) \<Rightarrow>
          (Inl (Errorf (''applying migration '' @ strconv_Itoa (Mig_Version m) @ '' ('' @ Mig_Name m @ '')'') err), w1)
      | (Inr _, w1) \<Rightarrow> (Inr (), w1))"

fun apply_pending :: "'w golib \<Rightarrow> 'w gorm \<Rightarrow> 'w migrator \<Rightarrow> int set \<Rightarrow> 'w Migration list \<Rightarrow> ('w, go_error, unit) effect" where
  "apply_pending L G M applied [] w = (Inr (), w)"
| "apply_pending L G M applied (m # ms) w =
     (if Mig_Version m \<in> applied then apply_pending L G M applied ms w
      else (case applyMigration L G M m w of
        (Inl err, w1) \<Rightarrow> (Inl err, w1)
      | (Inr _, w1) \<Rightarrow> apply_pending L G M applied ms w1))"

definition Migrate :: "'f goformat \<Rightarrow> 'w golib \<Rightarrow> 'w gorm \<Rightarrow> 'w migrator \<Rightarrow> ('w Migration list \<Rightarrow> 'w Migration list)
    \<Rightarrow> ('w, go_error, unit) effect" where
  "Migrate F L G M srt w =
     (let pending = migrations L G M in
      case validateMigrations F srt pending of
        Some err \<Rightarrow> (Inl err, w)
      | None \<Rightarrow>
          (case mig_AutoMigrate M Pool [Model_schemaMigration] w of
             (Inl err, w1) \<Rightarrow> (Inl (Errorf ''creating migration ledger'' err), w1)
           | (Inr _, w1) \<Rightarrow>
               (case appliedVersions M w1 of
                  (Inl err, w2) \<Rightarrow> (Inl err, w2)
                | (Inr applied, w2) \<Rightarrow> apply_pending L G M applied pending w2)))"

subsection \<open>The schema and the laws of the database\<close>

record schema =
  sc_created :: bool
  sc_legacy :: bool
  sc_counters :: "CounterEntity list"
  sc_messages :: "MessageEntity list"
  sc_ledger :: "schemaMigration list"

abbreviation versions :: "schema \<Rightarrow> int list" where
  "versions d \<equiv> map SM_Version (sc_ledger d)"

text \<open>What a statement on the open transaction may do: the committed schema stays, and on success the
  transaction's own schema is related by \<open>P\<close>.\<close>

definition tx_stmt :: "(conn \<Rightarrow> 'w \<Rightarrow> schema) \<Rightarrow> ('w, go_error, 'a) effect \<Rightarrow> ('a \<Rightarrow> schema \<Rightarrow> schema \<Rightarrow> bool) \<Rightarrow> bool" where
  "tx_stmt db f P \<longleftrightarrow> (\<forall>w r w'. f w = (r, w') \<longrightarrow> db Pool w' = db Pool w \<and> (\<forall>a. r = Inr a \<longrightarrow> P a (db Tx w) (db Tx w')))"

lemma tx_stmtD:
  "tx_stmt db f P \<Longrightarrow> f w = (r, w') \<Longrightarrow> db Pool w' = db Pool w"
  "tx_stmt db f P \<Longrightarrow> f w = (Inr a, w') \<Longrightarrow> P a (db Tx w) (db Tx w')"
  by (auto simp: tx_stmt_def)

locale schema_db =
  fixes L :: "'w golib" and G :: "'w gorm" and M :: "'w migrator"
    and db :: "conn \<Rightarrow> 'w \<Rightarrow> schema"
  assumes now_frame: "time_Now L w = (t, w') \<Longrightarrow> db c w' = db c w"
    and uuid_frame: "uuid_New L w = (i, w') \<Longrightarrow> db c w' = db c w"
    and begin_pool: "db_Begin G w = (u, w') \<Longrightarrow> db Pool w' = db Pool w"
    and begin_tx: "db_Begin G w = (Inr (), w') \<Longrightarrow> db Tx w' = db Pool w"
    and commit_error: "db_Commit G w = (Inl e, w') \<Longrightarrow> db Pool w' = db Pool w"
    and commit_ok: "db_Commit G w = (Inr (), w') \<Longrightarrow> db Pool w' = db Tx w"
    and rollback: "db Pool (db_Rollback G w) = db Pool w"
    and ledger_created: "mig_AutoMigrate M Pool [Model_schemaMigration] w = (u, w') \<Longrightarrow> db Pool w' = db Pool w"
    and ledger_read: "mig_FindLedger M Pool w = (found, w') \<Longrightarrow>
      db Pool w' = db Pool w \<and> (\<forall>rows. found = Inr rows \<longrightarrow> set rows = set (sc_ledger (db Pool w)))"
    and ledger_row: "tx_stmt db (mig_CreateLedger M Tx r) (\<lambda>_ d d'. SM_Version r \<notin> set (versions d)
      \<and> d' = d\<lparr>sc_ledger := sc_ledger d @ [r]\<rparr>)"
    and tables_created: "tx_stmt db (mig_AutoMigrate M Tx entities) (\<lambda>_ d d'. d' = d\<lparr>sc_created := True\<rparr>)"
    and column_types: "tx_stmt db (mig_ColumnTypes M Tx) (\<lambda>ns d d'. d' = d
      \<and> list_ex (\<lambda>n. strings_EqualFold n ''token'') ns = sc_legacy d)"
    and drop_column: "tx_stmt db (mig_Exec M Tx ''ALTER TABLE refresh_token_entities DROP COLUMN token'')
      (\<lambda>_ d d'. d' = d\<lparr>sc_legacy := False\<rparr>)"
    and count_counters: "tx_stmt db (g_Count (db_counters G) Tx (\<lambda>_. True)) (\<lambda>n d d'. d' = d \<and> n = int (length (sc_counters d)))"
    and create_counter: "tx_stmt db (g_Create (db_counters G) Tx k) (\<lambda>k' d d'. counter_inserted k k'
      \<and> d' = d\<lparr>sc_counters := sc_counters d @ [k']\<rparr>)"
    and count_messages: "tx_stmt db (g_Count (db_messages G) Tx (\<lambda>_. True)) (\<lambda>n d d'. d' = d \<and> n = int (length (sc_messages d)))"
    and create_message: "tx_stmt db (g_Create (db_messages G) Tx m) (\<lambda>m' d d'. message_inserted m m'
      \<and> d' = d\<lparr>sc_messages := sc_messages d @ [m']\<rparr>)"

subsection \<open>The specification of the migrations\<close>

definition counter_seeded :: "schema \<Rightarrow> schema \<Rightarrow> bool" where
  "counter_seeded d d' \<longleftrightarrow> (if sc_counters d \<noteq> [] then d' = d
     else \<exists>c. Counter_Value c = 0 \<and> d' = d\<lparr>sc_counters := [c]\<rparr>)"

definition message_seeded :: "schema \<Rightarrow> schema \<Rightarrow> bool" where
  "message_seeded d d' \<longleftrightarrow> (if sc_messages d \<noteq> [] then d' = d
     else \<exists>m. Message_Key m = ''default'' \<and> d' = d\<lparr>sc_messages := [m]\<rparr>)"

lemma counter_seededI:
  "sc_counters d \<noteq> [] \<Longrightarrow> counter_seeded d d"
  "sc_counters d = [] \<Longrightarrow> Counter_Value c = 0 \<Longrightarrow> counter_seeded d (d\<lparr>sc_counters := [c]\<rparr>)"
  by (auto simp: counter_seeded_def)

lemma message_seededI:
  "sc_messages d \<noteq> [] \<Longrightarrow> message_seeded d d"
  "sc_messages d = [] \<Longrightarrow> Message_Key c = ''default'' \<Longrightarrow> message_seeded d (d\<lparr>sc_messages := [c]\<rparr>)"
  by (auto simp: message_seeded_def)

definition up_spec :: "int \<Rightarrow> schema \<Rightarrow> schema \<Rightarrow> bool" where
  "up_spec v d d' \<longleftrightarrow>
     v = 1 \<and> d' = d\<lparr>sc_created := True\<rparr> \<or>
     v = 2 \<and> (\<exists>d1. counter_seeded d d1 \<and> message_seeded d1 d') \<or>
     v = 3 \<and> d' = d\<lparr>sc_legacy := False\<rparr>"

lemma up_spec_versions:
  "up_spec 1 = (\<lambda>d d'. d' = d\<lparr>sc_created := True\<rparr>)"
  "up_spec 2 = (\<lambda>d d'. \<exists>d1. counter_seeded d d1 \<and> message_seeded d1 d')"
  "up_spec 3 = (\<lambda>d d'. d' = d\<lparr>sc_legacy := False\<rparr>)"
  by (simp_all add: up_spec_def fun_eq_iff)

text \<open>A run of whole migrations: each changes the schema and records its version, which was not recorded before.\<close>

inductive migrated :: "int list \<Rightarrow> schema \<Rightarrow> schema \<Rightarrow> bool" where
  none: "migrated [] d d"
| step: "up_spec v d d1 \<Longrightarrow> SM_Version r = v \<Longrightarrow> v \<notin> set (versions d1) \<Longrightarrow>
    migrated vs (d1\<lparr>sc_ledger := sc_ledger d1 @ [r]\<rparr>) d' \<Longrightarrow> migrated (v # vs) d d'"

inductive_cases migrated_NilE: "migrated [] d d'"
inductive_cases migrated_ConsE: "migrated (v # vs) d d'"

lemma up_spec_ledger: "up_spec v d d' \<Longrightarrow> sc_ledger d' = sc_ledger d"
  by (auto simp: up_spec_def counter_seeded_def message_seeded_def split: if_splits)

lemma migrated_versions: "migrated vs d d' \<Longrightarrow> versions d' = versions d @ vs"
  by (induction rule: migrated.induct) (auto dest: up_spec_ledger)

lemma migrated_distinct: "migrated vs d d' \<Longrightarrow> distinct (versions d) \<Longrightarrow> distinct (versions d')"
  by (induction rule: migrated.induct) (auto dest: up_spec_ledger)

text \<open>What a recorded version promises of the schema.\<close>

definition schema_ok :: "schema \<Rightarrow> bool" where
  "schema_ok d \<longleftrightarrow> (1 \<in> set (versions d) \<longrightarrow> sc_created d)
     \<and> (2 \<in> set (versions d) \<longrightarrow> sc_counters d \<noteq> [] \<and> sc_messages d \<noteq> [])
     \<and> (3 \<in> set (versions d) \<longrightarrow> \<not> sc_legacy d)"

lemma seeded_effect:
  assumes "counter_seeded d d1" and "message_seeded d1 d2"
  shows "sc_counters d2 \<noteq> []" "sc_messages d2 \<noteq> []" "sc_created d2 = sc_created d" "sc_legacy d2 = sc_legacy d"
  using assms by (auto simp: counter_seeded_def message_seeded_def split: if_splits)

lemma up_spec_ok:
  assumes "up_spec v d d1" and "schema_ok d" and "SM_Version r = v"
  shows "schema_ok (d1\<lparr>sc_ledger := sc_ledger d1 @ [r]\<rparr>)"
proof -
  have led: "sc_ledger d1 = sc_ledger d" by (rule up_spec_ledger [OF assms(1)])
  from assms(1) consider "v = 1" "d1 = d\<lparr>sc_created := True\<rparr>" | d0 where "v = 2" "counter_seeded d d0" "message_seeded d0 d1"
    | "v = 3" "d1 = d\<lparr>sc_legacy := False\<rparr>" by (auto simp: up_spec_def)
  then show ?thesis
  proof cases
    case 2
    then show ?thesis using assms(2,3) by (simp add: schema_ok_def led seeded_effect [OF 2(2,3)])
  qed (use assms(2,3) in \<open>simp_all add: schema_ok_def\<close>)
qed

lemma migrated_ok: "migrated vs d d' \<Longrightarrow> schema_ok d \<Longrightarrow> schema_ok d'"
  by (induction rule: migrated.induct) (simp_all add: up_spec_ok)

subsection \<open>The implementation refines the specification\<close>

context schema_db
begin

lemma seed_counter_meets: "tx_stmt db (seed_counter L G Tx) (\<lambda>_. counter_seeded)"
proof -
  have "db Pool w' = db Pool w \<and> (\<forall>a. r = Inr a \<longrightarrow> counter_seeded (db Tx w) (db Tx w'))"
    if run: "seed_counter L G Tx w = (r, w')" for w r w'
  proof -
    obtain cnt w1 where c: "g_Count (db_counters G) Tx (\<lambda>_. True) w = (cnt, w1)" by (metis surj_pair)
    obtain i w2 where u: "uuid_New L w1 = (i, w2)" by (metis surj_pair)
    let ?row = "\<lparr>Counter_ID = i, Counter_Value = 0, Counter_CreatedAt = zero_time, Counter_UpdatedAt = zero_time\<rparr>"
    obtain cr w3 where k: "g_Create (db_counters G) Tx ?row w2 = (cr, w3)" by (metis surj_pair)
    note pool = tx_stmtD(1) [OF count_counters c] tx_stmtD(1) [OF create_counter k] uuid_frame [OF u]
    show ?thesis
    proof (cases cnt)
      case (Inl e)
      with run c pool show ?thesis by (auto simp: seed_counter_def)
    next
      case (Inr n)
      note n = tx_stmtD(2) [OF count_counters c [unfolded Inr]]
      show ?thesis
      proof (cases cr)
        case (Inl e)
        with run c u k Inr n pool show ?thesis by (auto simp: seed_counter_def counter_seededI split: if_splits)
      next
        case (Inr r')
        with run c u k \<open>cnt = Inr n\<close> n pool tx_stmtD(2) [OF create_counter k [unfolded Inr]] show ?thesis
          by (auto simp: seed_counter_def counter_inserted_def counter_seededI split: if_splits)
      qed
    qed
  qed
  then show ?thesis by (simp add: tx_stmt_def)
qed

lemma seed_message_meets: "tx_stmt db (seed_message L G Tx) (\<lambda>_. message_seeded)"
proof -
  have "db Pool w' = db Pool w \<and> (\<forall>a. r = Inr a \<longrightarrow> message_seeded (db Tx w) (db Tx w'))"
    if run: "seed_message L G Tx w = (r, w')" for w r w'
  proof -
    obtain cnt w1 where c: "g_Count (db_messages G) Tx (\<lambda>_. True) w = (cnt, w1)" by (metis surj_pair)
    obtain i w2 where u: "uuid_New L w1 = (i, w2)" by (metis surj_pair)
    let ?row = "\<lparr>Message_ID = i, Message_Key = ''default'', Message_Value = ''Welcome to Clean Go Vite React!'',
      Message_CreatedAt = zero_time, Message_UpdatedAt = zero_time\<rparr>"
    obtain cr w3 where k: "g_Create (db_messages G) Tx ?row w2 = (cr, w3)" by (metis surj_pair)
    note pool = tx_stmtD(1) [OF count_messages c] tx_stmtD(1) [OF create_message k] uuid_frame [OF u]
    show ?thesis
    proof (cases cnt)
      case (Inl e)
      with run c pool show ?thesis by (auto simp: seed_message_def)
    next
      case (Inr n)
      note n = tx_stmtD(2) [OF count_messages c [unfolded Inr]]
      show ?thesis
      proof (cases cr)
        case (Inl e)
        with run c u k Inr n pool show ?thesis by (auto simp: seed_message_def message_seededI split: if_splits)
      next
        case (Inr r')
        with run c u k \<open>cnt = Inr n\<close> n pool tx_stmtD(2) [OF create_message k [unfolded Inr]] show ?thesis
          by (auto simp: seed_message_def message_inserted_def message_seededI split: if_splits)
      qed
    qed
  qed
  then show ?thesis by (simp add: tx_stmt_def)
qed

lemma seed_meets: "tx_stmt db (seed L G Tx) (\<lambda>_ d d'. \<exists>d1. counter_seeded d d1 \<and> message_seeded d1 d')"
proof -
  have "db Pool w' = db Pool w \<and> (\<forall>a. r = Inr a \<longrightarrow> (\<exists>d1. counter_seeded (db Tx w) d1 \<and> message_seeded d1 (db Tx w')))"
    if run: "seed L G Tx w = (r, w')" for w r w'
  proof -
    obtain r1 w1 where c: "seed_counter L G Tx w = (r1, w1)" by (metis surj_pair)
    obtain r2 w2 where m: "seed_message L G Tx w1 = (r2, w2)" by (metis surj_pair)
    note pool = tx_stmtD(1) [OF seed_counter_meets c] tx_stmtD(1) [OF seed_message_meets m]
    show ?thesis
    proof (cases r1)
      case (Inr a)
      with run c m have "r = r2" "w' = w2" by (simp_all add: seed_def)
      with pool m tx_stmtD(2) [OF seed_counter_meets c [unfolded Inr]] tx_stmtD(2) [OF seed_message_meets]
      show ?thesis by auto
    qed (use run c pool in \<open>auto simp: seed_def\<close>)
  qed
  then show ?thesis by (simp add: tx_stmt_def)
qed

lemma drop_meets: "tx_stmt db (dropLegacyRefreshTokenColumn M Tx) (\<lambda>_ d d'. d' = d\<lparr>sc_legacy := False\<rparr>)"
proof -
  have "db Pool w' = db Pool w \<and> (\<forall>a. r = Inr a \<longrightarrow> db Tx w' = (db Tx w)\<lparr>sc_legacy := False\<rparr>)"
    if run: "dropLegacyRefreshTokenColumn M Tx w = (r, w')" for w r w'
  proof -
    obtain r1 w1 where c: "mig_ColumnTypes M Tx w = (r1, w1)" by (metis surj_pair)
    obtain r2 w2 where x: "mig_Exec M Tx ''ALTER TABLE refresh_token_entities DROP COLUMN token'' w1 = (r2, w2)"
      by (metis surj_pair)
    note pool = tx_stmtD(1) [OF column_types c] tx_stmtD(1) [OF drop_column x]
    have unchanged: "\<not> sc_legacy d \<Longrightarrow> d\<lparr>sc_legacy := False\<rparr> = d" for d :: schema by simp
    show ?thesis
    proof (cases r1)
      case (Inr ns)
      note cols = tx_stmtD(2) [OF column_types c [unfolded Inr]]
      show ?thesis using run c x Inr cols pool tx_stmtD(2) [OF drop_column, of w1 "()" w2] unchanged
        by (auto simp: dropLegacyRefreshTokenColumn_def hasColumn_def split: sum.splits if_splits)
    qed (use run c pool in \<open>auto simp: dropLegacyRefreshTokenColumn_def hasColumn_def\<close>)
  qed
  then show ?thesis by (simp add: tx_stmt_def)
qed

lemma migrations_meet:
  assumes "m \<in> set (migrations L G M)"
  shows "\<exists>f. Mig_Up m = Some f \<and> tx_stmt db (f Tx) (\<lambda>_. up_spec (Mig_Version m))"
  using assms tables_created seed_meets drop_meets by (auto simp: migrations_def up_spec_versions)

lemma closure_meets:
  assumes "m \<in> set (migrations L G M)"
  shows "tx_stmt db (migration_closure L M m Tx) (\<lambda>_ d d'. \<exists>d1 r. up_spec (Mig_Version m) d d1 \<and> SM_Version r = Mig_Version m
    \<and> Mig_Version m \<notin> set (versions d1) \<and> d' = d1\<lparr>sc_ledger := sc_ledger d1 @ [r]\<rparr>)" (is "tx_stmt db _ ?P")
proof -
  obtain f where f: "Mig_Up m = Some f" "tx_stmt db (f Tx) (\<lambda>_. up_spec (Mig_Version m))" using migrations_meet [OF assms] by blast
  have "db Pool w' = db Pool w \<and> (\<forall>a. res = Inr a \<longrightarrow> ?P a (db Tx w) (db Tx w'))"
    if run: "migration_closure L M m Tx w = (res, w')" for w res w'
  proof -
    obtain r1 w1 where u: "f Tx w = (r1, w1)" by (metis surj_pair)
    obtain now w2 where n: "time_Now L w1 = (now, w2)" by (metis surj_pair)
    let ?row = "\<lparr>SM_Version = Mig_Version m, SM_Name = Mig_Name m, SM_AppliedAt = now\<rparr>"
    note frame = now_frame [OF n] tx_stmtD(1) [OF f(2) u]
    show ?thesis
    proof (cases r1)
      case (Inr a)
      with run f u n have k: "mig_CreateLedger M Tx ?row w2 = (res, w')" by (simp add: migration_closure_def)
      from Inr u have s: "up_spec (Mig_Version m) (db Tx w) (db Tx w1)" using tx_stmtD(2) [OF f(2)] by blast
      have "?P a (db Tx w) (db Tx w')" if "res = Inr b" for b
        using s tx_stmtD(2) [OF ledger_row k [unfolded that]] frame(1)
        by (intro exI [of _ "db Tx w1"] exI [of _ ?row]) simp
      with frame tx_stmtD(1) [OF ledger_row k] show ?thesis by auto
    qed (use run f u frame in \<open>auto simp: migration_closure_def\<close>)
  qed
  then show ?thesis by (simp add: tx_stmt_def)
qed

lemma applyMigration_effect:
  assumes "m \<in> set (migrations L G M)" and run: "applyMigration L G M m w = (res, w')"
  shows "(\<exists>e. res = Inl e \<and> db Pool w' = db Pool w) \<or>
    (res = Inr () \<and> (\<exists>d1 r. up_spec (Mig_Version m) (db Pool w) d1 \<and> SM_Version r = Mig_Version m
       \<and> Mig_Version m \<notin> set (versions d1) \<and> db Pool w' = d1\<lparr>sc_ledger := sc_ledger d1 @ [r]\<rparr>))"
proof -
  note cl = closure_meets [OF assms(1)]
  obtain r1 w1 where b: "db_Begin G w = (r1, w1)" by (metis surj_pair)
  obtain r2 w2 where c: "migration_closure L M m Tx w1 = (r2, w2)" by (metis surj_pair)
  obtain r3 w3 where k: "db_Commit G w2 = (r3, w3)" by (metis surj_pair)
  note pool = begin_pool [OF b] tx_stmtD(1) [OF cl c]
  show ?thesis
  proof (cases r1)
    case (Inl e)
    with run b pool show ?thesis by (auto simp: applyMigration_def gorm_Transaction_def)
  next
    case b_ok: (Inr u)
    then have tx: "db Tx w1 = db Pool w" using begin_tx b by simp
    show ?thesis
    proof (cases r2)
      case (Inl e)
      with run b b_ok c pool rollback show ?thesis by (auto simp: applyMigration_def gorm_Transaction_def)
    next
      case c_ok: (Inr a)
      show ?thesis
      proof (cases r3)
        case (Inl e)
        with run b b_ok c c_ok k pool commit_error show ?thesis by (auto simp: applyMigration_def gorm_Transaction_def)
      next
        case (Inr v)
        with run b b_ok c c_ok k have "res = Inr ()" "w' = w3" by (auto simp: applyMigration_def gorm_Transaction_def)
        with tx_stmtD(2) [OF cl c [unfolded c_ok]] tx commit_ok k Inr show ?thesis by auto
      qed
    qed
  qed
qed

lemma apply_pending_refines:
  assumes "set ms \<subseteq> set (migrations L G M)" and "apply_pending L G M applied ms w = (res, w')"
  shows "\<exists>vs. prefix vs (filter (\<lambda>v. v \<notin> applied) (map Mig_Version ms)) \<and> migrated vs (db Pool w) (db Pool w')
    \<and> (res = Inr () \<longrightarrow> vs = filter (\<lambda>v. v \<notin> applied) (map Mig_Version ms))"
  using assms
proof (induction ms arbitrary: w)
  case Nil
  then show ?case by (auto intro: migrated.none)
next
  case (Cons m ms)
  show ?case
  proof (cases "Mig_Version m \<in> applied")
    case True
    with Cons show ?thesis by simp
  next
    case False
    obtain r1 w1 where a: "applyMigration L G M m w = (r1, w1)" by (metis surj_pair)
    have m: "m \<in> set (migrations L G M)" using Cons.prems(1) by simp
    from applyMigration_effect [OF m a] consider (err) e where "r1 = Inl e" "db Pool w1 = db Pool w"
      | (ok) d1 r where "r1 = Inr ()" "up_spec (Mig_Version m) (db Pool w) d1" "SM_Version r = Mig_Version m"
          "Mig_Version m \<notin> set (versions d1)" "db Pool w1 = d1\<lparr>sc_ledger := sc_ledger d1 @ [r]\<rparr>" by blast
    then show ?thesis
    proof cases
      case err
      with False a Cons.prems(2) show ?thesis by (auto intro!: exI [of _ "[]"] migrated.none)
    next
      case ok
      with False a Cons.prems(2) have "apply_pending L G M applied ms w1 = (res, w')" by simp
      with Cons.IH Cons.prems(1) obtain vs where "prefix vs (filter (\<lambda>v. v \<notin> applied) (map Mig_Version ms))"
        "migrated vs (db Pool w1) (db Pool w')" "res = Inr () \<longrightarrow> vs = filter (\<lambda>v. v \<notin> applied) (map Mig_Version ms)" by auto
      with False ok show ?thesis
        by (intro exI [of _ "Mig_Version m # vs"]) (auto intro: migrated.step)
    qed
  qed
qed

lemma Migrate_refines:
  assumes "Migrate F L G M srt w = (res, w')"
  shows "\<exists>vs. prefix vs (filter (\<lambda>v. v \<notin> set (versions (db Pool w))) [1, 2, 3]) \<and> migrated vs (db Pool w) (db Pool w')
    \<and> (res = Inr () \<longrightarrow> vs = filter (\<lambda>v. v \<notin> set (versions (db Pool w))) [1, 2, 3])"
proof -
  have stop: ?thesis if "db Pool w' = db Pool w" "res \<noteq> Inr ()"
    using that by (auto intro: exI [of _ "[]"] migrated.none)
  obtain r1 w1 where l: "mig_AutoMigrate M Pool [Model_schemaMigration] w = (r1, w1)" by (metis surj_pair)
  obtain r2 w2 where a: "mig_FindLedger M Pool w1 = (r2, w2)" by (metis surj_pair)
  note pool = ledger_created [OF l] ledger_read [OF a]
  have vers: "map Mig_Version (migrations L G M) = [1, 2, 3]" by (simp add: migrations_def)
  show ?thesis
  proof (cases "validateMigrations F srt (migrations L G M) = None \<and> (\<exists>u. r1 = Inr u) \<and> (\<exists>rows. r2 = Inr rows)")
    case True
    then obtain rows where ok: "validateMigrations F srt (migrations L G M) = None" "r1 = Inr ()" "r2 = Inr rows" by auto
    with assms l a have "apply_pending L G M (set (map SM_Version rows)) (migrations L G M) w2 = (res, w')"
      by (simp add: Migrate_def appliedVersions_def)
    from apply_pending_refines [OF _ this] pool ok(3) show ?thesis by (auto simp: vers)
  next
    case False
    then have "res \<noteq> Inr () \<and> w' \<in> {w, w1, w2}" using assms l a
      by (cases r1; cases r2) (auto simp: Migrate_def appliedVersions_def Let_def split: option.splits)
    with pool stop show ?thesis by auto
  qed
qed

end

subsection \<open>What Migrate leaves alone\<close>

text \<open>Something of the world, such as the number of open connection pools, that no single statement of a migration changes.\<close>

locale migration_frame =
  fixes L :: "'w golib" and G :: "'w gorm" and M :: "'w migrator" and obs :: "'w \<Rightarrow> 'o"
  assumes runtime_frame: "time_Now L w = (t, w') \<Longrightarrow> obs w' = obs w" "uuid_New L w = (i, w') \<Longrightarrow> obs w' = obs w"
    and transaction_frame: "db_Begin G w = (u, w') \<Longrightarrow> obs w' = obs w" "db_Commit G w = (u, w') \<Longrightarrow> obs w' = obs w"
      "obs (db_Rollback G w) = obs w"
    and schema_frame: "mig_AutoMigrate M c ms w = (u, w') \<Longrightarrow> obs w' = obs w" "mig_ColumnTypes M c w = (ns, w') \<Longrightarrow> obs w' = obs w"
      "mig_Exec M c sql w = (u, w') \<Longrightarrow> obs w' = obs w"
    and ledger_frame: "mig_FindLedger M c w = (rows, w') \<Longrightarrow> obs w' = obs w" "mig_CreateLedger M c r w = (u, w') \<Longrightarrow> obs w' = obs w"
    and seed_frame: "g_Count (db_counters G) c p w = (n, w') \<Longrightarrow> obs w' = obs w"
      "g_Create (db_counters G) c k w = (k', w') \<Longrightarrow> obs w' = obs w"
      "g_Count (db_messages G) c q w = (n, w') \<Longrightarrow> obs w' = obs w"
      "g_Create (db_messages G) c m w = (m', w') \<Longrightarrow> obs w' = obs w"
begin

lemmas statement_frames = runtime_frame transaction_frame(1,2) schema_frame ledger_frame seed_frame

lemma seed_keeps: "seed L G c w = (r, w') \<Longrightarrow> obs w' = obs w"
  by (auto simp: seed_def seed_counter_def seed_message_def Let_def split: prod.splits sum.splits if_splits dest!: statement_frames)

lemma drop_keeps: "dropLegacyRefreshTokenColumn M c w = (r, w') \<Longrightarrow> obs w' = obs w"
  by (auto simp: dropLegacyRefreshTokenColumn_def hasColumn_def split: prod.splits sum.splits if_splits dest!: statement_frames)

lemma applyMigration_keeps:
  assumes "m \<in> set (migrations L G M)" and "applyMigration L G M m w = (r, w')"
  shows "obs w' = obs w"
proof -
  have "\<exists>up. Mig_Up m = Some up \<and> (\<forall>c w r w'. up c w = (r, w') \<longrightarrow> obs w' = obs w)"
    using assms(1) by (auto simp: migrations_def dest: seed_keeps drop_keeps schema_frame(1))
  then obtain up where up: "Mig_Up m = Some up" and k: "\<And>c w r w'. up c w = (r, w') \<Longrightarrow> obs w' = obs w" by blast
  have "obs w' = obs w" if "migration_closure L M m c w = (r, w')" for c w r w'
    using that by (auto simp: migration_closure_def up Let_def split: prod.splits sum.splits dest!: k statement_frames)
  with assms(2) show ?thesis
    by (auto simp: applyMigration_def gorm_Transaction_def transaction_frame(3) split: prod.splits sum.splits dest!: transaction_frame(1,2))
qed

lemma apply_pending_keeps:
  "set ms \<subseteq> set (migrations L G M) \<Longrightarrow> apply_pending L G M applied ms w = (r, w') \<Longrightarrow> obs w' = obs w"
  by (induction ms arbitrary: w) (auto split: prod.splits sum.splits if_splits dest: applyMigration_keeps)

lemma Migrate_keeps: "Migrate F L G M srt w = (r, w') \<Longrightarrow> obs w' = obs w"
  by (auto simp: Migrate_def appliedVersions_def Let_def split: option.splits prod.splits sum.splits
      dest!: apply_pending_keeps [OF order_refl] statement_frames)

end

subsection \<open>The order of the list\<close>

abbreviation well_formed_migration :: "'w Migration \<Rightarrow> bool" where
  "well_formed_migration m \<equiv> 0 < Mig_Version m \<and> Mig_Up m \<noteq> None"

lemma check_migrations_iff:
  "length s = length l \<Longrightarrow> check_migrations F prev (zip s l) = None \<longleftrightarrow>
     list_all well_formed_migration s \<and> map Mig_Version s = map Mig_Version l
     \<and> successively (\<noteq>) ((case prev of None \<Rightarrow> [] | Some p \<Rightarrow> [Mig_Version p]) @ map Mig_Version s)"
proof (induction s l arbitrary: prev rule: list_induct2)
  case Nil
  then show ?case by (cases prev) simp_all
next
  case (Cons m s l ls)
  show ?case by (cases prev) (auto simp: Cons.IH)
qed

lemma strictly_sorted: "sorted xs \<and> successively (\<noteq>) xs \<longleftrightarrow> sorted_wrt (<) xs" for xs :: "int list"
proof (induction xs rule: induct_list012)
  case (3 x y zs)
  then show ?case by auto
qed simp_all

lemma validateMigrations_iff:
  assumes "\<forall>xs. mset (srt xs) = mset xs \<and> sorted (map Mig_Version (srt xs))"
  shows "validateMigrations F srt ms = None \<longleftrightarrow> list_all well_formed_migration ms \<and> sorted_wrt (<) (map Mig_Version ms)"
proof -
  have perm: "mset (srt ms) = mset ms" and srtd: "sorted (map Mig_Version (srt ms))" using assms by blast+
  have len: "length (srt ms) = length ms" using perm by (rule mset_eq_length)
  have all: "list_all well_formed_migration (srt ms) = list_all well_formed_migration ms"
    using mset_eq_setD [OF perm] by (simp add: list_all_iff)
  have "sorted_wrt (<) (map Mig_Version ms) \<Longrightarrow> map Mig_Version (srt ms) = map Mig_Version ms"
    using properties_for_sort [OF _ srtd] strict_sorted_imp_sorted sorted_sort_id perm by (metis mset_map)
  then show ?thesis
    unfolding validateMigrations_def check_migrations_iff [OF len] all
    using strictly_sorted [of "map Mig_Version (srt ms)"] srtd by auto
qed

text \<open>A list of migrations is accepted exactly when every entry has a positive version and an Up function and
  the versions are strictly ascending as written: duplicates, gaps filled out of order and forgotten functions are all
  refused, whatever order the unstable sort gives to equal versions.\<close>

lemma validate_migrations_exact:
  assumes "\<forall>xs. mset (srt xs) = mset xs \<and> sorted (map Mig_Version (srt xs))"
  shows "validateMigrations F srt ms = None \<longleftrightarrow>
    (\<forall>m \<in> set ms. 0 < Mig_Version m \<and> Mig_Up m \<noteq> None) \<and> sorted_wrt (<) (map Mig_Version ms)"
  using validateMigrations_iff [OF assms] by (simp add: list_all_iff)

subsection \<open>A database with a schema\<close>

text \<open>Only what the migrations touch, with faults: \<open>sw_fault = Some n\<close> lets \<open>n\<close> more statements succeed.\<close>

record sworld =
  sw_pool :: schema
  sw_tx :: schema
  sw_fault :: "nat option"
  sw_next :: nat

definition sw_db :: "conn \<Rightarrow> 'z sworld_scheme \<Rightarrow> schema" where
  "sw_db c w = (case c of Pool \<Rightarrow> sw_pool w | Tx \<Rightarrow> sw_tx w)"

definition sw_stmt :: "('z sworld_scheme, go_error, 'a) effect \<Rightarrow> ('z sworld_scheme, go_error, 'a) effect" where
  "sw_stmt f w =
     (case sw_fault w of
        None \<Rightarrow> f w
      | Some 0 \<Rightarrow> (Inl (errors_New ''bad connection''), w)
      | Some (Suc n) \<Rightarrow> f (w\<lparr>sw_fault := Some n\<rparr>))"

definition sw_set :: "conn \<Rightarrow> (schema \<Rightarrow> schema) \<Rightarrow> 'z sworld_scheme \<Rightarrow> 'z sworld_scheme" where
  "sw_set c f w = (case c of Pool \<Rightarrow> w\<lparr>sw_pool := f (sw_pool w)\<rparr> | Tx \<Rightarrow> w\<lparr>sw_tx := f (sw_tx w)\<rparr>)"

definition sw_table :: "(schema \<Rightarrow> 'r list) \<Rightarrow> ('r list \<Rightarrow> schema \<Rightarrow> schema) \<Rightarrow> ('z sworld_scheme, 'r) gorm_table" where
  "sw_table get put = \<lparr>
     g_Create = (\<lambda>c r. sw_stmt (\<lambda>w. (Inr r, sw_set c (\<lambda>d. put (get d @ [r]) d) w))),
     g_First = (\<lambda>c p. sw_stmt (\<lambda>w. (case find p (get (sw_db c w)) of None \<Rightarrow> Inl ErrRecordNotFound | Some r \<Rightarrow> Inr r, w))),
     g_Find = (\<lambda>c p le l off. sw_stmt (\<lambda>w. (Inr (filter p (get (sw_db c w))), w))),
     g_Count = (\<lambda>c p. sw_stmt (\<lambda>w. (Inr (int (length (filter p (get (sw_db c w))))), w))),
     g_Updates = (\<lambda>c p q w. (Inr 0, w)), g_Delete = (\<lambda>c p w. (Inr 0, w)), g_Save = (\<lambda>c r w. (Inr r, w))\<rparr>"

definition sw_gorm :: "'z sworld_scheme gorm" where
  "sw_gorm = \<lparr>db_users = sw_table (\<lambda>_. []) (\<lambda>_ d. d), db_refresh_tokens = sw_table (\<lambda>_. []) (\<lambda>_ d. d),
     db_counters = sw_table sc_counters (\<lambda>rs d. d\<lparr>sc_counters := rs\<rparr>),
     db_messages = sw_table sc_messages (\<lambda>rs d. d\<lparr>sc_messages := rs\<rparr>),
     db_Begin = sw_stmt (\<lambda>w. (Inr (), w\<lparr>sw_tx := sw_pool w\<rparr>)), db_SavePoint = sw_stmt (\<lambda>w. (Inr (), w)), db_RollbackTo = id,
     db_Commit = sw_stmt (\<lambda>w. (Inr (), w\<lparr>sw_pool := sw_tx w\<rparr>)), db_Rollback = id\<rparr>"

definition sw_migrator :: "'z sworld_scheme migrator" where
  "sw_migrator = \<lparr>
     mig_AutoMigrate = (\<lambda>c ms. sw_stmt (\<lambda>w. (Inr (), if set entities \<subseteq> set ms then sw_set c (sc_created_update (\<lambda>_. True)) w else w))),
     mig_FindLedger = (\<lambda>c. sw_stmt (\<lambda>w. (Inr (sc_ledger (sw_db c w)), w))),
     mig_CreateLedger = (\<lambda>c r. sw_stmt (\<lambda>w.
        if SM_Version r \<in> set (versions (sw_db c w)) then (Inl ErrDuplicatedKey, w)
        else (Inr (), sw_set c (\<lambda>d. d\<lparr>sc_ledger := sc_ledger d @ [r]\<rparr>) w))),
     mig_ColumnTypes = (\<lambda>c. sw_stmt (\<lambda>w. (Inr (''id'' # (if sc_legacy (sw_db c w) then [''Token''] else [])), w))),
     mig_Exec = (\<lambda>c sql. sw_stmt (\<lambda>w. (Inr (), sw_set c (sc_legacy_update (\<lambda>_. False)) w)))\<rparr>"

definition sw_lib :: "'z sworld_scheme golib" where
  "sw_lib = \<lparr>ctx_Err = (\<lambda>ctx w. (None, w)), time_Now = (\<lambda>w. (1700000000 * Second, w)),
     uuid_New = (\<lambda>w. (of_nat (sw_next w), w\<lparr>sw_next := Suc (sw_next w)\<rparr>)), uuid_String = (\<lambda>i. nat_to_string (unat i)),
     uuid_Parse = (\<lambda>s. Inl (errors_New ''invalid UUID'')), rand_Read = (\<lambda>n w. (Inr (replicate n 0), w)),
     bcrypt_GenerateFromPassword = (\<lambda>p w. (Inr [], w)), bcrypt_CompareHashAndPassword = (\<lambda>h p w. (None, w)),
     once_get = (\<lambda>w. None), once_set = (\<lambda>h w. w)\<rparr>"

lemma sw_stmt_tx:
  assumes "\<And>w r w'. f w = (r, w') \<Longrightarrow> sw_pool w' = sw_pool w \<and> (\<forall>a. r = Inr a \<longrightarrow> P a (sw_tx w) (sw_tx w'))"
  shows "tx_stmt sw_db (sw_stmt f) P"
proof -
  have "sw_db Pool w' = sw_db Pool w \<and> (\<forall>a. r = Inr a \<longrightarrow> P a (sw_db Tx w) (sw_db Tx w'))"
    if "sw_stmt f w = (r, w')" for w r w'
    using that assms [of w r w'] assms [of "w\<lparr>sw_fault := Some n\<rparr>" r w' for n]
    by (auto simp: sw_stmt_def sw_db_def split: option.splits nat.splits)
  then show ?thesis by (simp add: tx_stmt_def)
qed

lemma token_folds: "strings_EqualFold ''Token'' ''token''" "\<not> strings_EqualFold ''id'' ''token''"
  by code_simp+

lemma inserted_as_is: "counter_inserted k k" "message_inserted m m"
proof -
  have "k = k\<lparr>Counter_CreatedAt := Counter_CreatedAt k, Counter_UpdatedAt := Counter_UpdatedAt k\<rparr>"
    "m = m\<lparr>Message_CreatedAt := Message_CreatedAt m, Message_UpdatedAt := Message_UpdatedAt m\<rparr>" by simp_all
  then show "counter_inserted k k" "message_inserted m m" unfolding counter_inserted_def message_inserted_def by blast+
qed

interpretation sw: schema_db sw_lib sw_gorm sw_migrator sw_db
proof (unfold_locales, goal_cases)
  case (10 r)
  then show ?case by (auto simp: sw_migrator_def sw_db_def sw_set_def intro!: sw_stmt_tx split: if_splits)
next
  case 12
  then show ?case by (auto simp: sw_migrator_def sw_db_def token_folds intro!: sw_stmt_tx split: if_splits)
qed (auto simp: sw_lib_def sw_gorm_def sw_migrator_def entities_def sw_table_def sw_db_def sw_set_def sw_stmt_def inserted_as_is
      intro!: sw_stmt_tx split: option.splits nat.splits conn.splits)

subsection \<open>Properties of Migrate\<close>

text \<open>A database from before the ledger knew the second and third version, still with the plaintext column.\<close>

definition legacy0 :: sworld where
  "legacy0 = \<lparr>sw_pool = \<lparr>sc_created = True, sc_legacy = True, sc_counters = [], sc_messages = [],
       sc_ledger = [\<lparr>SM_Version = 1, SM_Name = ''create initial schema'', SM_AppliedAt = 0\<rparr>]\<rparr>,
     sw_tx = \<lparr>sc_created = False, sc_legacy = False, sc_counters = [], sc_messages = [], sc_ledger = []\<rparr>,
     sw_fault = None, sw_next = 7\<rparr>"

definition plain_fmt :: "unit goformat" where
  "plain_fmt = \<lparr>fl_ParseFloat = (\<lambda>s. None), fl_lit = (\<lambda>n d. ()), fl_less = (\<lambda>a b. False), fl_show = (\<lambda>f. []),
     fl_scaled = (\<lambda>f u k. 0), fmt_q = (\<lambda>s. s)\<rparr>"

abbreviation sw_Migrate :: "(sworld, go_error, unit) effect" where
  "sw_Migrate \<equiv> Migrate plain_fmt sw_lib sw_gorm sw_migrator (sort_key Mig_Version)"

text \<open>C15. However Migrate ends, the committed database has gone through whole migrations only, in ascending order
  and starting with the first one not yet recorded; each is applied together with its ledger row, a failing one leaves
  no trace, and a nil result means that none is left.\<close>

theorem migrate_applies_whole_migrations:
  assumes "schema_db L G M db" and "Migrate F L G M srt w = (res, w')"
  shows "\<exists>vs. prefix vs (filter (\<lambda>v. v \<notin> set (versions (db Pool w))) [1, 2, 3]) \<and> migrated vs (db Pool w) (db Pool w')
    \<and> (res = Inr () \<longrightarrow> vs = filter (\<lambda>v. v \<notin> set (versions (db Pool w))) [1, 2, 3])"
  using schema_db.Migrate_refines [OF assms] .

text \<open>The connection is lost while the third migration runs: the second one stays, the third leaves no trace.\<close>

theorem migrate_applies_whole_migrations_witness:
  "\<exists>res w'. sw_Migrate (legacy0\<lparr>sw_fault := Some 10\<rparr>) = (res, w') \<and> res \<noteq> Inr () \<and> migrated [2] (sw_pool legacy0) (sw_pool w')"
proof -
  let ?w = "legacy0\<lparr>sw_fault := Some 10\<rparr>"
  obtain res w' where run: "sw_Migrate ?w = (res, w')" by (metis surj_pair)
  have "case sw_Migrate ?w of (res, w') \<Rightarrow> versions (sw_pool w') = [1, 2] \<and> res \<noteq> Inr ()"
    by code_simp
  with run have v: "versions (sw_pool w') = [1, 2]" "res \<noteq> Inr ()" by simp_all
  obtain vs where vs: "migrated vs (sw_pool legacy0) (sw_pool w')"
    using migrate_applies_whole_migrations [OF sw.schema_db_axioms run] by (auto simp: sw_db_def)
  have "vs = [2]" using migrated_versions [OF vs] v(1) by (simp add: legacy0_def)
  with vs run v(2) show ?thesis by blast
qed

text \<open>C14. What the ledger promises stays true under Migrate, whether it succeeds or fails, and no version is ever
  recorded twice. After a nil result the tables exist, the counter and the message are seeded, the plaintext token
  column is gone, and a further run changes nothing however it ends.\<close>

theorem migrate_establishes_schema:
  assumes "schema_db L G M db" and "Migrate F L G M srt w = (res, w')"
    and "schema_ok (db Pool w)" and "distinct (versions (db Pool w))"
  shows "schema_ok (db Pool w') \<and> distinct (versions (db Pool w'))
    \<and> (res = Inr () \<longrightarrow> sc_created (db Pool w') \<and> sc_counters (db Pool w') \<noteq> [] \<and> sc_messages (db Pool w') \<noteq> []
        \<and> \<not> sc_legacy (db Pool w')
        \<and> (\<forall>res2 w2. Migrate F L G M srt w' = (res2, w2) \<longrightarrow> db Pool w2 = db Pool w'))"
proof -
  let ?todo = "\<lambda>w. filter (\<lambda>v. v \<notin> set (versions (db Pool w))) [1, 2, 3 :: int]"
  note refines = schema_db.Migrate_refines [OF assms(1)]
  obtain vs where vs: "migrated vs (db Pool w) (db Pool w')" "res = Inr () \<Longrightarrow> vs = ?todo w"
    using refines [OF assms(2)] by blast
  note ok = migrated_ok [OF vs(1) assms(3)]
  have recorded: "{1, 2, 3} \<subseteq> set (versions (db Pool w'))" if "res = Inr ()"
    using migrated_versions [OF vs(1)] vs(2) [OF that] by auto
  have "db Pool w2 = db Pool w'" if "res = Inr ()" "Migrate F L G M srt w' = (res2, w2)" for res2 w2
  proof -
    have "?todo w' = []" using recorded [OF that(1)] by auto
    with refines [OF that(2)] show ?thesis by (auto elim: migrated_NilE)
  qed
  with ok migrated_distinct [OF vs(1) assms(4)] recorded show ?thesis by (auto simp: schema_ok_def)
qed

theorem migrate_establishes_schema_witness:
  "\<exists>w'. sw_Migrate legacy0 = (Inr (), w') \<and> schema_ok (sw_pool w') \<and> \<not> sc_legacy (sw_pool w')"
proof -
  obtain res w' where run: "sw_Migrate legacy0 = (res, w')" by (metis surj_pair)
  have "case sw_Migrate legacy0 of (res, w') \<Rightarrow> res = Inr ()" by code_simp
  with run have "sw_Migrate legacy0 = (Inr (), w')" by simp
  from migrate_establishes_schema [OF sw.schema_db_axioms this] show ?thesis
    using \<open>sw_Migrate legacy0 = (Inr (), w')\<close> by (auto simp: sw_db_def schema_ok_def legacy0_def)
qed

end
