(* ===== verification/Database.thy ===== *)
theory Database
  imports Platform_Config Migrations
begin

text \<open>
  Package \<open>internal/platform\<close>, file \<open>database.go\<close>: opening the connection pool, waiting for
  the database, probing and closing it. \<open>gorm.Open\<close>, \<open>database/sql\<close>, \<open>context.WithTimeout\<close>
  and \<open>time.Sleep\<close> are the parameter \<open>dblib\<close>; what the code relies on is the locale
  \<open>sql_driver\<close>.
\<close>

subsection \<open>The libraries\<close>

datatype LogLevel = Silent | LogError | Warn | Info

datatype Dialector = postgres_Open string | sqlite_Open string

text \<open>The fields of \<open>gorm.Config\<close> that the code sets, and the automatic ping that it leaves on.\<close>

record gormConfig =
  gc_Logger :: LogLevel
  gc_TranslateError :: bool
  gc_DisableAutomaticPing :: bool

record 'w sqlDB =
  sql_SetMaxOpenConns :: "int \<Rightarrow> 'w \<Rightarrow> 'w"
  sql_SetMaxIdleConns :: "int \<Rightarrow> 'w \<Rightarrow> 'w"
  sql_SetConnMaxLifetime :: "duration \<Rightarrow> 'w \<Rightarrow> 'w"
  sql_PingContext :: "Context \<Rightarrow> 'w \<Rightarrow> go_error option \<times> 'w"
  sql_Close :: "'w \<Rightarrow> go_error option \<times> 'w"

text \<open>A \<open>*gorm.DB\<close>: the statements of the repositories, the migrator, the pool below it, and
  installing the tracing plugin.\<close>

record 'w gormDB =
  gdb_gorm :: "'w gorm"
  gdb_migrator :: "'w migrator"
  gdb_DB :: "('w, go_error, 'w sqlDB) effect"
  gdb_UseTracing :: "'w \<Rightarrow> go_error option \<times> 'w"

record 'w dblib =
  gorm_Open :: "Dialector \<Rightarrow> gormConfig \<Rightarrow> ('w, go_error, 'w gormDB) effect"
  ctx_WithTimeout :: "Context \<Rightarrow> duration \<Rightarrow> 'w \<Rightarrow> Context \<times> 'w"
  ctx_cancel :: "Context \<Rightarrow> 'w \<Rightarrow> 'w"
  time_Sleep :: "duration \<Rightarrow> 'w \<Rightarrow> 'w"

subsection \<open>Operations\<close>

definition pingAttempts :: int where "pingAttempts = 5"
definition pingBackoff :: duration where "pingBackoff = 500000000"

definition gormLogLevel :: "string \<Rightarrow> LogLevel" where
  "gormLogLevel level =
     (if level \<in> {''silent'', ''none'', ''off''} then Silent
      else if level \<in> {''info'', ''debug''} then Info
      else if level = ''error'' then LogError
      else Warn)"

text \<open>The argument is the pointer; \<open>None\<close> is nil.\<close>

definition CloseDatabase :: "'w gormDB option \<Rightarrow> 'w \<Rightarrow> go_error option \<times> 'w" where
  "CloseDatabase handle w =
     (case handle of
        None \<Rightarrow> (None, w)
      | Some db \<Rightarrow>
          (case gdb_DB db w of
             (Inl err, w1) \<Rightarrow> (Some (Errorf ''failed to get underlying sql.DB'' err), w1)
           | (Inr sqlDB, w1) \<Rightarrow> sql_Close sqlDB w1))"

definition PingCheck :: "'w gormDB option \<Rightarrow> Context \<Rightarrow> 'w \<Rightarrow> go_error option \<times> 'w" where
  "PingCheck handle ctx w =
     (case handle of
        None \<Rightarrow> (Some (errors_New ''database is not initialized''), w)
      | Some db \<Rightarrow>
          (case gdb_DB db w of
             (Inl err, w1) \<Rightarrow> (Some (Errorf ''failed to get underlying sql.DB'' err), w1)
           | (Inr sqlDB, w1) \<Rightarrow> sql_PingContext sqlDB ctx w1))"

text \<open>One pass of the retry loop pings under a timeout of five seconds.\<close>

definition ping_once :: "'w dblib \<Rightarrow> 'w sqlDB \<Rightarrow> 'w \<Rightarrow> go_error option \<times> 'w" where
  "ping_once D sqlDB w =
     (let (ctx, w1) = ctx_WithTimeout D Background (5 * Second) w;
          (lastErr, w2) = sql_PingContext sqlDB ctx w1
      in (lastErr, ctx_cancel D ctx w2))"

text \<open>The loop over \<open>attempt\<close>; \<open>lastErr\<close> is the outcome of the previous pass. \<open>%w\<close> of a nil error,
  reached with no attempts at all, prints a placeholder.\<close>

function ping_loop :: "'w dblib \<Rightarrow> 'w sqlDB \<Rightarrow> int \<Rightarrow> duration \<Rightarrow> int \<Rightarrow> go_error option \<Rightarrow> 'w \<Rightarrow> go_error option \<times> 'w" where
  "ping_loop D sqlDB attempts backoff attempt lastErr w =
     (if attempt \<le> attempts then
        (case ping_once D sqlDB w of
           (None, w1) \<Rightarrow> (None, w1)
         | (Some err, w1) \<Rightarrow>
             ping_loop D sqlDB attempts backoff (attempt + 1) (Some err)
               (if attempt < attempts then time_Sleep D (wrap64 (attempt * backoff)) w1 else w1))
      else
        (let msg = ''database unreachable after '' @ strconv_Itoa attempts @ '' attempts'' in
         (Some (case lastErr of Some err \<Rightarrow> Errorf msg err | None \<Rightarrow> errors_New (msg @ '': %!w(<nil>)'')), w)))"
  by pat_completeness auto

termination ping_loop
  by (relation "measure (\<lambda>(D, sqlDB, attempts, backoff, attempt, lastErr, w). nat (attempts + 1 - attempt))") auto

declare ping_loop.simps [simp del]

definition pingWithRetry :: "'w dblib \<Rightarrow> 'w gormDB \<Rightarrow> int \<Rightarrow> duration \<Rightarrow> 'w \<Rightarrow> go_error option \<times> 'w" where
  "pingWithRetry D db attempts backoff w =
     (case gdb_DB db w of
        (Inl err, w1) \<Rightarrow> (Some (Errorf ''failed to get underlying sql.DB'' err), w1)
      | (Inr sqlDB, w1) \<Rightarrow> ping_loop D sqlDB attempts backoff 1 None w1)"

definition open_config :: "'f Config \<Rightarrow> gormConfig" where
  "open_config cfg = \<lparr>gc_Logger = gormLogLevel (DB_LogLevel (Database cfg)), gc_TranslateError = True,
     gc_DisableAutomaticPing = False\<rparr>"

definition choose_dialector :: "'f goformat \<Rightarrow> 'f Config \<Rightarrow> go_error + Dialector" where
  "choose_dialector F cfg =
     (let t = DB_Type (Database cfg) in
      if t = DatabaseTypePostgres then Inr (postgres_Open (DB_DSN (Database cfg)))
      else if t = DatabaseTypeSQLite \<or> t = '''' then Inr (sqlite_Open (DB_DSN (Database cfg)))
      else Inl (errors_New (''unsupported DATABASE_TYPE '' @ fmt_q F t @ '' (want '' @ fmt_q F DatabaseTypeSQLite
             @ '' or '' @ fmt_q F DatabaseTypePostgres @ '')'')))"

text \<open>The pool limits, the tracing plugin and the first ping, for a handle that was opened.\<close>

definition configure_pool :: "'w dblib \<Rightarrow> 'f Config \<Rightarrow> 'w gormDB \<Rightarrow> ('w, go_error, 'w gormDB) effect" where
  "configure_pool D cfg db w =
     (case gdb_DB db w of
        (Inl err, w1) \<Rightarrow> (Inl (Errorf ''failed to get underlying sql.DB'' err), w1)
      | (Inr sqlDB, w1) \<Rightarrow>
          (let w2 = sql_SetMaxOpenConns sqlDB (MaxOpenConns (Database cfg)) w1;
               w3 = sql_SetMaxIdleConns sqlDB (MaxIdleConns (Database cfg)) w2;
               w4 = sql_SetConnMaxLifetime sqlDB (ConnMaxLifetime (Database cfg)) w3;
               (useErr, w5) = (if Tracing_Enabled (Tracing cfg) then gdb_UseTracing db w4 else (None, w4))
           in case useErr of
                Some err \<Rightarrow> (Inl (Errorf ''installing database tracing'' err), snd (CloseDatabase (Some db) w5))
              | None \<Rightarrow>
                  (case pingWithRetry D db pingAttempts pingBackoff w5 of
                     (Some err, w6) \<Rightarrow> (Inl err, snd (CloseDatabase (Some db) w6))
                   | (None, w6) \<Rightarrow> (Inr db, w6))))"

definition InitializeDatabase :: "'f goformat \<Rightarrow> 'w dblib \<Rightarrow> 'f Config \<Rightarrow> ('w, go_error, 'w gormDB) effect" where
  "InitializeDatabase F D cfg w =
     (case choose_dialector F cfg of
        Inl err \<Rightarrow> (Inl err, w)
      | Inr dialector \<Rightarrow>
          (case gorm_Open D dialector (open_config cfg) w of
             (Inl err, w1) \<Rightarrow> (Inl (Errorf ''failed to connect database'' err), w1)
           | (Inr db, w1) \<Rightarrow> configure_pool D cfg db w1))"


subsection \<open>What the code relies on\<close>

text \<open>
  \<open>pools w\<close> counts the open connection pools and \<open>clock w\<close> is the wall clock, which never runs
  backwards. From the instant \<open>ready\<close> on, the database answers a ping. \<open>handle\<close> marks the
  handles of pools that were opened; such a handle gives access to its pool, and closing the pool releases it
  whether or not an error is reported.
\<close>

definition keeps_pool :: "('w \<Rightarrow> nat) \<Rightarrow> ('w \<Rightarrow> time) \<Rightarrow> 'w \<Rightarrow> 'w \<Rightarrow> bool" where
  "keeps_pool pools clock w w' \<longleftrightarrow> pools w' = pools w \<and> clock w \<le> clock w'"

lemma keeps_pool_refl: "keeps_pool pools clock w w"
  by (simp add: keeps_pool_def)

lemma keeps_pool_trans: "keeps_pool pools clock w w1 \<Longrightarrow> keeps_pool pools clock w1 w2 \<Longrightarrow> keeps_pool pools clock w w2"
  by (auto simp: keeps_pool_def)

locale sql_driver =
  fixes D :: "'w dblib"
    and pools :: "'w \<Rightarrow> nat"
    and clock :: "'w \<Rightarrow> time"
    and ready :: time
    and handle :: "'w gormDB \<Rightarrow> bool"
    and sqlPool :: "'w sqlDB \<Rightarrow> bool"
  assumes Open_ok: "gorm_Open D dl gc w = (Inr db, w') \<Longrightarrow> handle db \<and> pools w' = Suc (pools w) \<and> clock w \<le> clock w'"
    and Open_error: "gorm_Open D dl gc w = (Inl err, w') \<Longrightarrow> keeps_pool pools clock w w'"
    and DB_pool: "handle db \<Longrightarrow> \<exists>sqlDB w'. gdb_DB db w = (Inr sqlDB, w') \<and> sqlPool sqlDB \<and> keeps_pool pools clock w w'"
    and Use_keeps: "handle db \<Longrightarrow> keeps_pool pools clock w (snd (gdb_UseTracing db w))"
    and Set_keeps: "sqlPool s \<Longrightarrow> keeps_pool pools clock w (sql_SetMaxOpenConns s n w)"
      "sqlPool s \<Longrightarrow> keeps_pool pools clock w (sql_SetMaxIdleConns s n w)"
      "sqlPool s \<Longrightarrow> keeps_pool pools clock w (sql_SetConnMaxLifetime s d w)"
    and Ping_keeps: "sqlPool s \<Longrightarrow> keeps_pool pools clock w (snd (sql_PingContext s ctx w))"
    and Ping_ready: "sqlPool s \<Longrightarrow> ready \<le> clock w \<Longrightarrow> fst (sql_PingContext s ctx w) = None"
    and Close_releases: "sqlPool s \<Longrightarrow> pools (snd (sql_Close s w)) = pools w - 1"
    and Timeout_keeps: "keeps_pool pools clock w (snd (ctx_WithTimeout D ctx d w))"
    and cancel_keeps: "keeps_pool pools clock w (ctx_cancel D ctx w)"
    and Sleep_passes: "pools (time_Sleep D d w) = pools w \<and> clock w + max 0 d \<le> clock (time_Sleep D d w)"
begin

lemma ping_once_laws:
  assumes "sqlPool s" and "ping_once D s w = (e, w')"
  shows "keeps_pool pools clock w w'" and "ready \<le> clock w \<Longrightarrow> e = None"
proof -
  obtain ctx w1 w2 where w: "ctx_WithTimeout D Background (5 * Second) w = (ctx, w1)"
    "sql_PingContext s ctx w1 = (e, w2)" "w' = ctx_cancel D ctx w2"
    using assms(2) by (auto simp: ping_once_def split: prod.splits)
  have k: "keeps_pool pools clock w w1" "keeps_pool pools clock w1 w2" "keeps_pool pools clock w2 w'"
    using Timeout_keeps [of w Background "5 * Second"] Ping_keeps [OF assms(1), of w1 ctx] cancel_keeps w by simp_all
  then show "keeps_pool pools clock w w'" by (blast intro: keeps_pool_trans)
  show "e = None" if "ready \<le> clock w"
    using Ping_ready [OF assms(1), of w1 ctx] k(1) that w(2) by (simp add: keeps_pool_def)
qed

lemma ping_loop_keeps:
  assumes "sqlPool s"
  shows "ping_loop D s attempts backoff attempt lastErr w = (e, w') \<Longrightarrow> keeps_pool pools clock w w'"
proof (induction "nat (attempts + 1 - attempt)" arbitrary: attempt lastErr w)
  case 0
  then show ?case by (simp add: ping_loop.simps [of D s attempts] Let_def keeps_pool_refl)
next
  case (Suc k)
  obtain err w1 where p: "ping_once D s w = (err, w1)" by (metis surj_pair)
  note keeps = ping_once_laws(1) [OF assms p]
  have le: "attempt \<le> attempts" using Suc(2) by linarith
  show ?case
  proof (cases err)
    case None
    then have "w' = w1" using Suc(3) p le by (simp add: ping_loop.simps [of D s attempts _ attempt])
    with keeps show ?thesis by simp
  next
    case (Some x)
    let ?w2 = "if attempt < attempts then time_Sleep D (wrap64 (attempt * backoff)) w1 else w1"
    have "ping_loop D s attempts backoff (attempt + 1) (Some x) ?w2 = (e, w')"
      using Suc(3) p Some le by (simp add: ping_loop.simps [of D s attempts _ attempt])
    moreover have "k = nat (attempts + 1 - (attempt + 1))" using Suc(2) by simp
    ultimately have "keeps_pool pools clock ?w2 w'" using Suc(1) by blast
    moreover have "keeps_pool pools clock w1 ?w2"
      using Sleep_passes [of "wrap64 (attempt * backoff)" w1] by (auto simp: keeps_pool_def)
    ultimately show ?thesis using keeps by (blast intro: keeps_pool_trans)
  qed
qed

lemma backoff_exact:
  assumes "1 \<le> attempt" and "attempt \<le> attempts" and "0 \<le> backoff" and "is_int64 (attempts * backoff)"
  shows "wrap64 (attempt * backoff) = attempt * backoff" and "0 \<le> attempt * backoff"
proof -
  show nonneg: "0 \<le> attempt * backoff" using assms by simp
  have "attempt * backoff \<le> attempts * backoff" using assms by (simp add: mult_right_mono)
  with nonneg assms(4) have "is_int64 (attempt * backoff)" unfolding is_int64_def by linarith
  then show "wrap64 (attempt * backoff) = attempt * backoff" by (rule wrap64_id)
qed

text \<open>The pauses before attempts \<open>a + 1\<close> to \<open>n\<close> add up to \<open>backoff * (n (n - 1) - a (a - 1)) / 2\<close>.\<close>

lemma ping_loop_ready:
  assumes "sqlPool s" and "0 \<le> backoff" and "is_int64 (attempts * backoff)"
  shows "1 \<le> attempt \<Longrightarrow> attempt \<le> attempts \<Longrightarrow>
    2 * (ready - clock w) \<le> backoff * (attempts * (attempts - 1) - attempt * (attempt - 1)) \<Longrightarrow>
    fst (ping_loop D s attempts backoff attempt lastErr w) = None"
proof (induction "nat (attempts - attempt)" arbitrary: attempt lastErr w)
  case 0
  then have "ready \<le> clock w" by simp
  then obtain w1 where "ping_once D s w = (None, w1)" using ping_once_laws(2) [OF assms(1)] by (metis surj_pair)
  with 0 show ?case by (simp add: ping_loop.simps [of D s _ _ attempt])
next
  case (Suc k)
  obtain err w1 where p: "ping_once D s w = (err, w1)" by (metis surj_pair)
  show ?case
  proof (cases err)
    case None
    with Suc p show ?thesis by (simp add: ping_loop.simps [of D s attempts])
  next
    case (Some x)
    let ?w2 = "time_Sleep D (attempt * backoff) w1"
    have lt: "attempt < attempts" using Suc(2) by simp
    note exact = backoff_exact [OF Suc(3,4) assms(2,3)]
    have "clock w + attempt * backoff \<le> clock ?w2"
      using ping_once_laws(1) [OF assms(1) p] Sleep_passes [of "attempt * backoff" w1] exact(2) by (simp add: keeps_pool_def)
    then have "2 * (ready - clock ?w2) \<le> backoff * (attempts * (attempts - 1) - (attempt + 1) * (attempt + 1 - 1))"
      using Suc(5) by (simp add: algebra_simps)
    moreover have "k = nat (attempts - (attempt + 1))" using Suc(2) by simp
    ultimately have "fst (ping_loop D s attempts backoff (attempt + 1) (Some x) ?w2) = None"
      using Suc(1) Suc(3) lt by simp
    with p Some lt exact(1) show ?thesis by (simp add: ping_loop.simps [of D s attempts _ attempt])
  qed
qed

lemma pingWithRetry_laws:
  assumes "handle db" and "pingWithRetry D db attempts backoff w = (e, w')"
  shows "keeps_pool pools clock w w'"
    and "1 \<le> attempts \<Longrightarrow> 0 \<le> backoff \<Longrightarrow> is_int64 (attempts * backoff) \<Longrightarrow>
      2 * (ready - clock w) \<le> backoff * (attempts * (attempts - 1)) \<Longrightarrow> e = None"
proof -
  obtain s w1 where s: "gdb_DB db w = (Inr s, w1)" "sqlPool s" "keeps_pool pools clock w w1"
    using DB_pool [OF assms(1)] by blast
  have r: "ping_loop D s attempts backoff 1 None w1 = (e, w')" using assms(2) s(1) by (simp add: pingWithRetry_def)
  show "keeps_pool pools clock w w'" using ping_loop_keeps [OF s(2) r] s(3) by (rule keeps_pool_trans [rotated])
  show "e = None" if "1 \<le> attempts" "0 \<le> backoff" "is_int64 (attempts * backoff)"
    "2 * (ready - clock w) \<le> backoff * (attempts * (attempts - 1))"
    using ping_loop_ready [OF s(2) that(2,3), of 1 w1 None] that s(3) r by (simp add: keeps_pool_def)
qed

lemma Close_laws: "handle db \<Longrightarrow> pools (snd (CloseDatabase (Some db) w)) = pools w - 1"
  using DB_pool [of db w] Close_releases by (auto simp: CloseDatabase_def keeps_pool_def)

text \<open>A configured pool stays open exactly when the handle is returned.\<close>

lemma configure_pool_laws:
  assumes "handle db" and "configure_pool D cfg db w = (res, w')"
  shows "res = Inr db \<and> pools w' = pools w \<or> (\<exists>err. res = Inl err) \<and> pools w' = pools w - 1"
proof -
  obtain s w1 where s: "gdb_DB db w = (Inr s, w1)" "sqlPool s" "keeps_pool pools clock w w1"
    using DB_pool [OF assms(1)] by blast
  let ?w4 = "sql_SetConnMaxLifetime s (ConnMaxLifetime (Database cfg))
    (sql_SetMaxIdleConns s (MaxIdleConns (Database cfg)) (sql_SetMaxOpenConns s (MaxOpenConns (Database cfg)) w1))"
  have k4: "pools ?w4 = pools w" using s(3) Set_keeps [OF s(2)] by (simp add: keeps_pool_def)
  obtain u w5 where u: "(if Tracing_Enabled (Tracing cfg) then gdb_UseTracing db ?w4 else (None, ?w4)) = (u, w5)"
    by (metis surj_pair)
  then have k5: "pools w5 = pools w"
    using k4 Use_keeps [OF assms(1), of ?w4] by (auto simp: keeps_pool_def split: if_splits)
  obtain e w6 where p: "pingWithRetry D db pingAttempts pingBackoff w5 = (e, w6)" by (metis surj_pair)
  then have "pools w6 = pools w" using pingWithRetry_laws(1) [OF assms(1) p] k5 by (simp add: keeps_pool_def)
  with assms(2) s(1) u p k5 Close_laws [OF assms(1)] show ?thesis
    by (cases u; cases e) (auto simp: configure_pool_def Let_def simp del: split_paired_All)
qed

lemma InitializeDatabase_laws:
  assumes "InitializeDatabase F D cfg w = (res, w')"
  shows "(\<exists>db. res = Inr db \<and> handle db \<and> pools w' = Suc (pools w)) \<or> (\<exists>err. res = Inl err) \<and> pools w' = pools w"
proof (cases "choose_dialector F cfg")
  case (Inl err)
  with assms show ?thesis by (auto simp: InitializeDatabase_def)
next
  case (Inr dl)
  obtain o1 w1 where o: "gorm_Open D dl (open_config cfg) w = (o1, w1)" by (metis surj_pair)
  show ?thesis
  proof (cases o1)
    case (Inl err)
    with o Inr assms Open_error [of dl "open_config cfg" w] show ?thesis
      by (auto simp: InitializeDatabase_def keeps_pool_def)
  next
    case (Inr db)
    with o \<open>choose_dialector F cfg = Inr dl\<close> assms have "configure_pool D cfg db w1 = (res, w')"
      by (simp add: InitializeDatabase_def)
    with configure_pool_laws Open_ok o Inr show ?thesis by fastforce
  qed
qed

end

subsection \<open>An instance\<close>

text \<open>A world with a clock and a count of open pools, in which the database starts to answer at second 3.\<close>

record dbw =
  dbw_now :: time
  dbw_pools :: nat

definition dbw_sql :: "dbw sqlDB" where
  "dbw_sql = \<lparr>sql_SetMaxOpenConns = (\<lambda>n w. w), sql_SetMaxIdleConns = (\<lambda>n w. w), sql_SetConnMaxLifetime = (\<lambda>d w. w),
     sql_PingContext = (\<lambda>ctx w. (if 3 * Second \<le> dbw_now w then None else Some (errors_New ''connection refused''),
       w\<lparr>dbw_now := dbw_now w + 1000000\<rparr>)),
     sql_Close = (\<lambda>w. (None, w\<lparr>dbw_pools := dbw_pools w - 1\<rparr>))\<rparr>"

definition dbw_handle :: "dbw gorm \<Rightarrow> dbw migrator \<Rightarrow> dbw gormDB" where
  "dbw_handle G M = \<lparr>gdb_gorm = G, gdb_migrator = M, gdb_DB = (\<lambda>w. (Inr dbw_sql, w)), gdb_UseTracing = (\<lambda>w. (None, w))\<rparr>"

definition dbw_lib :: "dbw gorm \<Rightarrow> dbw migrator \<Rightarrow> dbw dblib" where
  "dbw_lib G M = \<lparr>gorm_Open = (\<lambda>dl gc w. (Inr (dbw_handle G M), w\<lparr>dbw_pools := Suc (dbw_pools w)\<rparr>)),
     ctx_WithTimeout = (\<lambda>ctx d w. (ctx, w)), ctx_cancel = (\<lambda>ctx w. w),
     time_Sleep = (\<lambda>d w. w\<lparr>dbw_now := dbw_now w + max 0 d\<rparr>)\<rparr>"

interpretation dbw: sql_driver "dbw_lib G M" dbw_pools dbw_now "3 * Second" "\<lambda>db. db = dbw_handle G M" "\<lambda>s. s = dbw_sql" for G M
  by unfold_locales (auto simp: dbw_lib_def dbw_handle_def dbw_sql_def keeps_pool_def)

definition dbw0 :: dbw where
  "dbw0 = \<lparr>dbw_now = 0, dbw_pools = 0\<rparr>"

subsection \<open>Properties\<close>

text \<open>C26. The wait for the database ends and finds it: however long a ping takes, with n attempts and a
  non-negative backoff whose multiples fit in 64 bits, a database that starts to answer no later than
  backoff * n (n - 1) / 2 after the wait began (five seconds for the values start-up uses) is reported as
  reachable.\<close>

theorem ping_retry_finds_database:
  assumes "sql_driver D pools clock ready handle sqlPool" and "handle db"
    and "1 \<le> attempts" and "0 \<le> backoff" and "is_int64 (attempts * backoff)"
    and "2 * (ready - clock w) \<le> backoff * (attempts * (attempts - 1))"
  shows "\<exists>w'. pingWithRetry D db attempts backoff w = (None, w') \<and> pools w' = pools w"
proof -
  obtain e w' where p: "pingWithRetry D db attempts backoff w = (e, w')" by (metis surj_pair)
  from sql_driver.pingWithRetry_laws [OF assms(1,2) p] assms(3-6) p show ?thesis by (auto simp: keeps_pool_def)
qed

theorem ping_retry_finds_database_witness:
  "\<forall>G M. \<exists>w'. pingWithRetry (dbw_lib G M) (dbw_handle G M) pingAttempts pingBackoff dbw0 = (None, w') \<and> dbw_pools w' = 0"
proof (intro allI)
  fix G M
  have "\<exists>w'. pingWithRetry (dbw_lib G M) (dbw_handle G M) pingAttempts pingBackoff dbw0 = (None, w') \<and> dbw_pools w' = dbw_pools dbw0"
    by (rule ping_retry_finds_database [OF dbw.sql_driver_axioms refl])
      (simp_all add: pingAttempts_def pingBackoff_def is_int64_def dbw0_def)
  then show "\<exists>w'. pingWithRetry (dbw_lib G M) (dbw_handle G M) pingAttempts pingBackoff dbw0 = (None, w') \<and> dbw_pools w' = 0"
    by (simp add: dbw0_def)
qed



end
