(* ===== verification/Telemetry.thy ===== *)
theory Telemetry
  imports Database
begin

text \<open>
  Packages \<open>internal/logging\<close>, \<open>internal/observability\<close> (the admin listener) and
  \<open>internal/tracing\<close>. Log handlers, profiles, exporters and spans belong to \<open>log/slog\<close>,
  \<open>net/http/pprof\<close> and OpenTelemetry; modelled is what this code decides: which handler,
  level, address, route, exporter and span is used.
\<close>

subsection \<open>logging\<close>

datatype slog_Level = LevelDebug | LevelInfo | LevelWarn | LevelError

datatype 'o slog_Handler = TextHandler 'o slog_Level | JSONHandler 'o slog_Level

record 'o Options =
  Opt_Level :: string
  Opt_Format :: string
  Opt_Output :: "'o option"

definition ParseLevel :: "string \<Rightarrow> slog_Level" where
  "ParseLevel level =
     (let l = strings_ToLower (strings_TrimSpace level) in
      if l = ''debug'' then LevelDebug
      else if l = ''warn'' \<or> l = ''warning'' then LevelWarn
      else if l = ''error'' then LevelError
      else LevelInfo)"

definition logging_New :: "'o \<Rightarrow> 'o Options \<Rightarrow> 'o slog_Handler" where
  "logging_New stdout opts =
     (let out = (case Opt_Output opts of None \<Rightarrow> stdout | Some o1 \<Rightarrow> o1);
          level = ParseLevel (Opt_Level opts)
      in if strings_EqualFold (Opt_Format opts) ''text'' then TextHandler out level else JSONHandler out level)"

text \<open>A context that may carry a logger, next to the transaction it may carry.\<close>

record 'l LogContext = Context +
  ctx_logger :: "'l option"

definition Into :: "'l LogContext \<Rightarrow> 'l option \<Rightarrow> 'l LogContext" where
  "Into ctx l = (case l of None \<Rightarrow> ctx | Some lg \<Rightarrow> ctx\<lparr>ctx_logger := Some lg\<rparr>)"

text \<open>\<open>None\<close> is a nil context.\<close>

definition FromContext :: "'l \<Rightarrow> 'l LogContext option \<Rightarrow> 'l" where
  "FromContext defaultLogger ctx =
     (case ctx of
        None \<Rightarrow> defaultLogger
      | Some cx \<Rightarrow> (case ctx_logger cx of Some lg \<Rightarrow> lg | None \<Rightarrow> defaultLogger))"

lemma FromContext_Into:
  "FromContext d (Some (Into ctx l)) = (case l of Some lg \<Rightarrow> lg | None \<Rightarrow> FromContext d (Some ctx))"
  "ctx_tx (Into ctx l) = ctx_tx ctx"
  by (simp_all add: FromContext_def Into_def split: option.splits)

text \<open>Every level that start-up validation lets through is understood.\<close>

lemma ParseLevel_validated:
  "Log_Level (Log c) \<in> {''debug'', ''info'', ''warn'', ''warning'', ''error''} \<Longrightarrow>
   ParseLevel (Log_Level (Log c)) = LevelInfo \<longleftrightarrow> Log_Level (Log c) = ''info''"
  by (elim insertE emptyE; simp; code_simp)

subsection \<open>The admin listener\<close>

definition MetricsPath :: string where "MetricsPath = ''/metrics''"
definition HealthPath :: string where "HealthPath = ''/healthz''"
definition PprofPrefix :: string where "PprofPrefix = ''/debug/pprof/''"
definition DefaultHost :: string where "DefaultHost = ''127.0.0.1''"
definition DefaultPort :: int where "DefaultPort = 9090"
definition defaultReadTimeout :: duration where "defaultReadTimeout = 15 * Second"
definition defaultWriteTimeout :: duration where "defaultWriteTimeout = 15 * Second"
definition defaultIdleTimeout :: duration where "defaultIdleTimeout = 60 * Second"
definition pprofMinWriteTimeout :: duration where "pprofMinWriteTimeout = 35 * Second"

lemmas timeout_consts = defaultReadTimeout_def defaultWriteTimeout_def defaultIdleTimeout_def pprofMinWriteTimeout_def

lemmas admin_consts = MetricsPath_def HealthPath_def PprofPrefix_def DefaultHost_def DefaultPort_def

record AdminConfig =
  Adm_MetricsEnabled :: bool
  Adm_PprofEnabled :: bool
  Adm_Host :: string
  Adm_Port :: int
  Adm_ReadTimeout :: duration
  Adm_WriteTimeout :: duration
  Adm_IdleTimeout :: duration

datatype 'm admin_handler = AdminHealth | AdminMetrics 'm | PprofIndex | PprofCmdline | PprofProfile | PprofSymbol | PprofTrace

text \<open>A \<open>ServeMux\<close> as the list of its patterns.\<close>

type_synonym 'm mux = "(string \<times> 'm admin_handler) list"

record 'm AdminServer =
  Srv_Addr :: string
  Srv_Handler :: "'m mux"
  Srv_ReadTimeout :: duration
  Srv_WriteTimeout :: duration
  Srv_IdleTimeout :: duration

definition net_JoinHostPort :: "string \<Rightarrow> string \<Rightarrow> string" where
  "net_JoinHostPort host port =
     (if CHR '':'' \<in> set host then ''['' @ host @ '']:'' @ port else host @ '':'' @ port)"

definition Addr :: "AdminConfig \<Rightarrow> string" where
  "Addr c =
     (let host = (if Adm_Host c = '''' then DefaultHost else Adm_Host c);
          port = (if Adm_Port c = 0 then DefaultPort else Adm_Port c)
      in net_JoinHostPort host (strconv_Itoa port))"

definition Enabled :: "AdminConfig \<Rightarrow> bool" where
  "Enabled c \<longleftrightarrow> Adm_MetricsEnabled c \<or> Adm_PprofEnabled c"

definition RegisterPprof :: "'m mux \<Rightarrow> 'm mux" where
  "RegisterPprof mux = mux @ [(PprofPrefix, PprofIndex), (PprofPrefix @ ''cmdline'', PprofCmdline),
     (PprofPrefix @ ''profile'', PprofProfile), (PprofPrefix @ ''symbol'', PprofSymbol), (PprofPrefix @ ''trace'', PprofTrace)]"

definition NewAdminMux :: "AdminConfig \<Rightarrow> 'm option \<Rightarrow> 'm mux" where
  "NewAdminMux cfg metrics =
     (let mux = [(HealthPath, AdminHealth)];
          mux1 = (case metrics of
                    Some m \<Rightarrow> if Adm_MetricsEnabled cfg then mux @ [(MetricsPath, AdminMetrics m)] else mux
                  | None \<Rightarrow> mux)
      in if Adm_PprofEnabled cfg then RegisterPprof mux1 else mux1)"

definition NewAdminServer :: "AdminConfig \<Rightarrow> 'm option \<Rightarrow> 'm AdminServer option" where
  "NewAdminServer cfg metrics =
     (if \<not> Enabled cfg then None
      else
        (let read = (if Adm_ReadTimeout cfg \<le> 0 then defaultReadTimeout else Adm_ReadTimeout cfg);
             idle = (if Adm_IdleTimeout cfg \<le> 0 then defaultIdleTimeout else Adm_IdleTimeout cfg);
             write = (if Adm_WriteTimeout cfg \<le> 0 then defaultWriteTimeout else Adm_WriteTimeout cfg);
             write1 = (if Adm_PprofEnabled cfg \<and> write < pprofMinWriteTimeout then pprofMinWriteTimeout else write)
         in Some \<lparr>Srv_Addr = Addr cfg, Srv_Handler = NewAdminMux cfg metrics, Srv_ReadTimeout = read,
                  Srv_WriteTimeout = write1, Srv_IdleTimeout = idle\<rparr>))"

text \<open>What a \<open>ServeMux\<close> answers: a pattern that ends in a slash serves its subtree, any other its own path.\<close>

definition mux_serves :: "'m mux \<Rightarrow> string \<Rightarrow> bool" where
  "mux_serves mux path \<longleftrightarrow> list_ex (\<lambda>(pat, h). path = pat \<or> last pat = CHR ''/'' \<and> strings_HasPrefix path pat) mux"

text \<open>The settings the container hands over.\<close>

definition admin_config :: "'f Config \<Rightarrow> AdminConfig" where
  "admin_config cfg = \<lparr>Adm_MetricsEnabled = MetricsEnabled (Observability cfg), Adm_PprofEnabled = PprofEnabled (Observability cfg),
     Adm_Host = AdminHost (Observability cfg), Adm_Port = AdminPort (Observability cfg), Adm_ReadTimeout = ReadTimeout (Server cfg),
     Adm_WriteTimeout = WriteTimeout (Server cfg), Adm_IdleTimeout = IdleTimeout (Server cfg)\<rparr>"

lemma HasPrefix_append: "strings_HasPrefix (p @ s) p"
  by (simp add: strings_HasPrefix_def)

lemma pprof_served_iff:
  "mux_serves (NewAdminMux cfg metrics) (PprofPrefix @ s) \<longleftrightarrow> Adm_PprofEnabled cfg"
  by (auto simp: mux_serves_def NewAdminMux_def RegisterPprof_def admin_consts Let_def HasPrefix_append
      strings_HasPrefix_def split: option.splits)

text \<open>C39. With a validated configuration the admin listener exists exactly when metrics or pprof is enabled; it never
  shares the port of the API; it serves the profiles exactly when pprof is enabled, leaves a profile at least 35 seconds to
  be written, and outside development mode then listens on a loopback host. All its timeouts are positive.\<close>

theorem admin_listener_safe:
  assumes "\<forall>xs. mset (it xs) = mset xs" and "Validate F env it cfg = None"
  shows "case NewAdminServer (admin_config cfg) metrics of
      None \<Rightarrow> \<not> MetricsEnabled (Observability cfg) \<and> \<not> PprofEnabled (Observability cfg)
    | Some srv \<Rightarrow>
        (MetricsEnabled (Observability cfg) \<or> PprofEnabled (Observability cfg))
      \<and> Srv_Addr srv = net_JoinHostPort (AdminHost (Observability cfg)) (strconv_Itoa (AdminPort (Observability cfg)))
      \<and> AdminPort (Observability cfg) \<in> {1..65535} \<and> AdminPort (Observability cfg) \<noteq> Port (Server cfg)
      \<and> (PprofEnabled (Observability cfg) \<and> \<not> DevMode (Auth cfg) \<longrightarrow> isLoopbackHost (AdminHost (Observability cfg)))
      \<and> (\<forall>s. mux_serves (Srv_Handler srv) (PprofPrefix @ s) \<longleftrightarrow> PprofEnabled (Observability cfg))
      \<and> (PprofEnabled (Observability cfg) \<longrightarrow> 35 * Second \<le> Srv_WriteTimeout srv)
      \<and> 0 < Srv_ReadTimeout srv \<and> 0 < Srv_WriteTimeout srv \<and> 0 < Srv_IdleTimeout srv"
proof (cases "Enabled (admin_config cfg)")
  case True
  then have on: "MetricsEnabled (Observability cfg) \<or> PprofEnabled (Observability cfg)"
    by (simp add: Enabled_def admin_config_def)
  with assms have adm: "sound_admin (DevMode (Auth cfg)) (Port (Server cfg)) (Observability cfg)"
    using Validate_iff [OF assms(1), of F env cfg] by (simp add: sound_config_def)
  then have "Addr (admin_config cfg) = net_JoinHostPort (AdminHost (Observability cfg)) (strconv_Itoa (AdminPort (Observability cfg)))"
    by (simp add: sound_admin_def Addr_def admin_config_def)
  with True on adm show ?thesis
    by (auto simp: NewAdminServer_def Let_def sound_admin_def pprof_served_iff timeout_consts admin_config_def)
next
  case False
  then show ?thesis by (simp add: NewAdminServer_def Enabled_def admin_config_def)
qed

definition admin_env :: environ where
  "admin_env = prod_env(''PPROF_ENABLED'' := ''true'', ''ADMIN_HOST'' := ''::1'')"

lemma Itoa_9090: "strconv_Itoa 9090 = ''9090''"
  by (simp add: strconv_Itoa_def nat_to_string.simps digit_char_def char_of_eq_iff)

theorem admin_listener_safe_witness:
  "\<exists>srv. NewAdminServer (admin_config (NewConfig tenths admin_env)) (None :: unit option) = Some srv
     \<and> Srv_Addr srv = ''[::1]:9090'' \<and> 35 * Second \<le> Srv_WriteTimeout srv
     \<and> mux_serves (Srv_Handler srv) (PprofPrefix @ ''heap'')"
proof -
  let ?c = "NewConfig tenths admin_env"
  have v: "Validate tenths admin_env rev ?c = None" by code_simp
  have c: "PprofEnabled (Observability ?c)" "AdminHost (Observability ?c) = ''::1''" "AdminPort (Observability ?c) = 9090"
    by code_simp+
  have addr: "net_JoinHostPort ''::1'' (strconv_Itoa 9090) = ''[::1]:9090''" by (simp add: net_JoinHostPort_def Itoa_9090)
  from admin_listener_safe [OF permuting_rev v, of "None :: unit option"] show ?thesis
    unfolding c(2,3) addr using c(1) by (auto split: option.splits)
qed

text \<open>The host \<open>[::1]\<close> passes validation as a loopback host, but its brackets are doubled in the address.\<close>

lemma bracketed_host_accepted:
  "isLoopbackHost ''[::1]'' \<and>
   (Adm_Host c = ''[::1]'' \<and> Adm_Port c = 9090 \<longrightarrow> Addr c = ''[[::1]]:9090'')"
  by (simp add: isLoopbackHost_def Addr_def net_JoinHostPort_def Itoa_9090)

subsection \<open>tracing\<close>

text \<open>
  The OpenTelemetry SDK: exporters of type \<open>'x\<close>, resources as attribute lists and spans of type \<open>'s\<close>.
  \<open>otel_Install\<close> is \<open>NewTracerProvider\<close> with a batcher, a resource and the parent-based ratio sampler
  followed by \<open>SetTracerProvider\<close>; its result is the provider's \<open>Shutdown\<close>.
\<close>

type_synonym 'w ShutdownFunc = "Context \<Rightarrow> 'w \<Rightarrow> go_error option \<times> 'w"

record 'f TraceConfig =
  Trc_Enabled :: bool
  Trc_ServiceName :: string
  Trc_ServiceVersion :: string
  Trc_Environment :: string
  Trc_Exporter :: string
  Trc_Endpoint :: string
  Trc_Insecure :: bool
  Trc_SampleRatio :: 'f

datatype otlp_option = WithEndpointURL string | WithInsecure

record ('f, 'x, 'w) otellib =
  otel_SetTextMapPropagator :: "'w \<Rightarrow> 'w"
  stdouttrace_New :: "('w, go_error, 'x) effect"
  otlptracehttp_New :: "Context \<Rightarrow> otlp_option list \<Rightarrow> ('w, go_error, 'x) effect"
  resource_Default :: "(string \<times> string) list"
  resource_Merge :: "(string \<times> string) list \<Rightarrow> (string \<times> string) list \<Rightarrow> (string \<times> string) list option"
  otel_Install :: "'x \<Rightarrow> (string \<times> string) list \<Rightarrow> 'f \<Rightarrow> 'w \<Rightarrow> 'w ShutdownFunc \<times> 'w"

definition newResource :: "('f, 'x, 'w) otellib \<Rightarrow> 'f TraceConfig \<Rightarrow> (string \<times> string) list" where
  "newResource T cfg =
     (let custom = [(''service.name'', Trc_ServiceName cfg), (''service.version'', Trc_ServiceVersion cfg)] @
            (if Trc_Environment cfg \<noteq> '''' then [(''deployment.environment.name'', Trc_Environment cfg)] else [])
      in case resource_Merge T (resource_Default T) custom of None \<Rightarrow> custom | Some merged \<Rightarrow> merged)"

definition newExporter :: "'f goformat \<Rightarrow> ('f, 'x, 'w) otellib \<Rightarrow> Context \<Rightarrow> 'f TraceConfig \<Rightarrow> ('w, go_error, 'x) effect" where
  "newExporter F T ctx cfg w =
     (let e = strings_ToLower (Trc_Exporter cfg) in
      if e = ExporterConsole \<or> e = ''stdout'' then stdouttrace_New T w
      else if e = ExporterOTLP \<or> e = '''' then
        otlptracehttp_New T ctx
          ([WithEndpointURL (Trc_Endpoint cfg)] @ (if Trc_Insecure cfg then [WithInsecure] else [])) w
      else (Inl (errors_New (''unsupported trace exporter '' @ fmt_q F (Trc_Exporter cfg) @ '' (want ''
             @ fmt_q F ExporterOTLP @ '' or '' @ fmt_q F ExporterConsole @ '')'')), w))"

definition tracing_Init :: "'f goformat \<Rightarrow> ('f, 'x, 'w) otellib \<Rightarrow> Context \<Rightarrow> 'f TraceConfig \<Rightarrow> ('w, go_error, 'w ShutdownFunc) effect" where
  "tracing_Init F T ctx cfg w =
     (let w1 = otel_SetTextMapPropagator T w in
      if \<not> Trc_Enabled cfg then (Inr (\<lambda>ctx w. (None, w)), w1)
      else
        (case newExporter F T ctx cfg w1 of
           (Inl err, w2) \<Rightarrow> (Inl err, w2)
         | (Inr x, w2) \<Rightarrow>
             (let (shutdown, w3) = otel_Install T x (newResource T cfg) (Trc_SampleRatio cfg) w2 in (Inr shutdown, w3))))"

text \<open>The exporters that validation admits are the ones \<open>newExporter\<close> knows.\<close>

lemma newExporter_known:
  assumes "sound_tracing F' dev t" and "Trc_Exporter cfg = Exporter t"
  shows "newExporter F T ctx cfg w = stdouttrace_New T w \<or> (\<exists>opts. newExporter F T ctx cfg w = otlptracehttp_New T ctx opts w)"
  using assms by (auto simp: newExporter_def sound_tracing_def strings_ToLower_def ascii_lower_def config_consts Let_def)

text \<open>The GORM plugin: the statement a callback sees, as far as the callbacks look at it.\<close>

record 's gorm_stmt =
  St_Context :: "'s option"
  St_Table :: string
  St_SQL :: string
  St_Vars :: "string list"
  St_RowsAffected :: int
  St_Error :: "go_error option"
  St_Dialector :: string

datatype span_event = SetAttributes "(string \<times> string) list" | RecordSpanError go_error | SetStatusError string | EndSpan

record 's spanlib =
  sp_Valid :: "'s \<Rightarrow> bool"
  sp_IsRecording :: "'s \<Rightarrow> bool"
  sp_Start :: "'s \<Rightarrow> string \<Rightarrow> 's"
  sp_Event :: "'s \<Rightarrow> span_event \<Rightarrow> 's"

definition spanName :: "string \<Rightarrow> string \<Rightarrow> string" where
  "spanName operation table =
     (if table = '''' then ''gorm.'' @ operation else ''gorm.'' @ operation @ '' '' @ table)"

definition startSpan :: "'s spanlib \<Rightarrow> string \<Rightarrow> 's gorm_stmt \<Rightarrow> 's gorm_stmt" where
  "startSpan P operation st =
     (case St_Context st of
        None \<Rightarrow> st
      | Some ctx \<Rightarrow>
          if \<not> sp_Valid P ctx then st
          else st\<lparr>St_Context := Some (sp_Start P ctx (spanName operation (St_Table st)))\<rparr>)"

definition endSpan :: "'s spanlib \<Rightarrow> 's gorm_stmt \<Rightarrow> 's gorm_stmt" where
  "endSpan P st =
     (case St_Context st of
        None \<Rightarrow> st
      | Some span \<Rightarrow>
          if \<not> sp_IsRecording P span then st
          else
            (let s1 = sp_Event P span (SetAttributes [(''db.system'', St_Dialector st), (''db.statement'', St_SQL st),
                   (''db.sql.table'', St_Table st), (''db.rows_affected'', strconv_Itoa (St_RowsAffected st))]);
                 s2 = (case St_Error st of
                         Some err \<Rightarrow>
                           if \<not> errors_Is err ErrRecordNotFound
                           then sp_Event P (sp_Event P s1 (RecordSpanError err)) (SetStatusError (Error err))
                           else s1
                       | None \<Rightarrow> s1)
             in st\<lparr>St_Context := Some (sp_Event P s2 EndSpan)\<rparr>))"

text \<open>No parameter of a statement reaches a span.\<close>

lemma spans_ignore_vars:
  "St_Context (endSpan P (startSpan P op (st\<lparr>St_Vars := vs\<rparr>))) = St_Context (endSpan P (startSpan P op st))"
  by (cases "St_Context st") (simp_all add: startSpan_def endSpan_def Let_def)


text \<open>Reading and marking the active span of a context.\<close>

record 's spanids =
  sc_TraceIDValid :: "'s \<Rightarrow> bool"
  sc_TraceIDString :: "'s \<Rightarrow> string"
  sc_SpanIDValid :: "'s \<Rightarrow> bool"
  sc_SpanIDString :: "'s \<Rightarrow> string"

definition TraceIDFromContext :: "'s spanids \<Rightarrow> 's \<Rightarrow> string" where
  "TraceIDFromContext I ctx = (if \<not> sc_TraceIDValid I ctx then '''' else sc_TraceIDString I ctx)"

definition SpanIDFromContext :: "'s spanids \<Rightarrow> 's \<Rightarrow> string" where
  "SpanIDFromContext I ctx = (if \<not> sc_SpanIDValid I ctx then '''' else sc_SpanIDString I ctx)"

definition tracing_RecordError :: "'s spanlib \<Rightarrow> 's \<Rightarrow> go_error \<Rightarrow> string \<Rightarrow> 's" where
  "tracing_RecordError P ctx err description =
     (if \<not> sp_IsRecording P ctx then ctx
      else sp_Event P (sp_Event P ctx (RecordSpanError err)) (SetStatusError description))"

definition tracing_SetAttributes :: "'s spanlib \<Rightarrow> 's \<Rightarrow> (string \<times> string) list \<Rightarrow> 's" where
  "tracing_SetAttributes P ctx attrs = (if \<not> sp_IsRecording P ctx then ctx else sp_Event P ctx (SetAttributes attrs))"


text \<open>
  Installing the callbacks. \<open>cb_Register\<close> is \<open>Register\<close> on a processor of \<open>db.Callback()\<close>; the
  arguments of \<open>errors.Join\<close> are evaluated first, so a failed registration does not stop the others.
\<close>

datatype cb_processor = CbCreate | CbQuery | CbUpdate | CbDelete | CbRow | CbRaw

datatype cb_position = CbBefore string | CbAfter string

type_synonym 's registration = "cb_processor \<times> cb_position \<times> string \<times> ('s gorm_stmt \<Rightarrow> 's gorm_stmt)"

definition registrations :: "'s spanlib \<Rightarrow> 's registration list" where
  "registrations P =
     [(CbCreate, CbBefore ''gorm:create'', ''otel:before_create'', startSpan P ''create''),
      (CbCreate, CbAfter ''gorm:create'', ''otel:after_create'', endSpan P),
      (CbQuery, CbBefore ''gorm:query'', ''otel:before_query'', startSpan P ''query''),
      (CbQuery, CbAfter ''gorm:query'', ''otel:after_query'', endSpan P),
      (CbUpdate, CbBefore ''gorm:update'', ''otel:before_update'', startSpan P ''update''),
      (CbUpdate, CbAfter ''gorm:update'', ''otel:after_update'', endSpan P),
      (CbDelete, CbBefore ''gorm:delete'', ''otel:before_delete'', startSpan P ''delete''),
      (CbDelete, CbAfter ''gorm:delete'', ''otel:after_delete'', endSpan P),
      (CbRow, CbBefore ''gorm:row'', ''otel:before_row'', startSpan P ''row''),
      (CbRow, CbAfter ''gorm:row'', ''otel:after_row'', endSpan P),
      (CbRaw, CbBefore ''gorm:raw'', ''otel:before_raw'', startSpan P ''raw''),
      (CbRaw, CbAfter ''gorm:raw'', ''otel:after_raw'', endSpan P)]"

fun register_all :: "('s registration \<Rightarrow> 'w \<Rightarrow> go_error option \<times> 'w) \<Rightarrow> 's registration list \<Rightarrow> 'w \<Rightarrow> go_error list \<times> 'w" where
  "register_all register [] w = ([], w)"
| "register_all register (r # rs) w =
     (let (err, w1) = register r w; (errs, w2) = register_all register rs w1
      in (case err of None \<Rightarrow> errs | Some e \<Rightarrow> e # errs, w2))"

definition plugin_Initialize :: "'s spanlib \<Rightarrow> ('s registration \<Rightarrow> 'w \<Rightarrow> go_error option \<times> 'w) \<Rightarrow> 'w \<Rightarrow> go_error list \<times> 'w" where
  "plugin_Initialize P register w = register_all register (registrations P) w"

text \<open>The callbacks GORM runs around a statement of processor \<open>k\<close>.\<close>

definition callbacks_of :: "'s registration list \<Rightarrow> cb_processor \<Rightarrow> bool \<Rightarrow> ('s gorm_stmt \<Rightarrow> 's gorm_stmt) list" where
  "callbacks_of rs k before =
     map (\<lambda>(_, _, _, f). f) (filter (\<lambda>(k', p, _, _). k' = k \<and> (case p of CbBefore _ \<Rightarrow> before | CbAfter _ \<Rightarrow> \<not> before)) rs)"

lemma registrations_pair:
  "\<exists>op. callbacks_of (registrations P) k True = [startSpan P op] \<and> callbacks_of (registrations P) k False = [endSpan P]"
  by (cases k) (auto simp: callbacks_of_def registrations_def)

text \<open>No callback replaces another: gorm would log a duplicated name and keep the later one.\<close>

lemma registrations_distinct: "distinct (map (\<lambda>(_, _, name, _). name) (registrations P))"
  by (simp add: registrations_def)

lemma plugin_Initialize_attempts_all:
  "snd (plugin_Initialize P register w) = fold (\<lambda>r w. snd (register r w)) (registrations P) w"
proof -
  have "snd (register_all register rs w) = fold (\<lambda>r w. snd (register r w)) rs w" for rs
    by (induction rs arbitrary: w) (simp_all add: Let_def case_prod_unfold)
  then show ?thesis by (simp add: plugin_Initialize_def)
qed

end
