(* ===== verification/Pipeline.thy ===== *)
theory Pipeline
  imports Http_Properties Telemetry
begin

text \<open>
  What surrounds every handler: the remaining middleware of \<open>internal/api/middleware\<close>, the
  metrics middleware of \<open>internal/observability\<close>, the chain that \<open>newRouter\<close> of
  \<open>internal/di\<close> builds from them, and the dispatch of a request to a route. Inside
  \<open>Recovery\<close> a handler may panic: its outcome is a flag together with the context and the
  world it left. The limiters live in a heap of their own, as \<open>NewIPRateLimiter\<close> returns a
  pointer.
\<close>

subsection \<open>Handlers that may panic\<close>

type_synonym ('c, 'w) phandler = "'c \<Rightarrow> 'w \<Rightarrow> bool \<times> 'c \<times> 'w"

definition returned :: "'c \<Rightarrow> 'w \<Rightarrow> bool \<times> 'c \<times> 'w" where
  "returned c w = (False, c, w)"

record CorsConfig =
  Cors_AllowOrigins :: "string list"
  Cors_AllowMethods :: "string list"
  Cors_AllowHeaders :: "string list"
  Cors_ExposeHeaders :: "string list"
  Cors_AllowCredentials :: bool
  Cors_MaxAge :: duration

datatype log_attr = LogStatus nat | LogLatency duration | LogBytes int | LogClientIP string | LogQuery string | LogErrors string

text \<open>The rest of \<open>gin.Context\<close>, and the packages \<open>cors\<close>, \<open>otelgin\<close>, \<open>prometheus\<close> and \<open>slog\<close>.\<close>

record ('c, 'w) ginext =
  gx_FullPath :: "'c \<Rightarrow> string"
  gx_Path :: "'c \<Rightarrow> string"
  gx_Status :: "'c \<Rightarrow> nat"
  gx_Size :: "'c \<Rightarrow> int"
  gx_RawQuery :: "'c \<Rightarrow> string"
  gx_Errors :: "'c \<Rightarrow> string list"
  gx_ErrorsString :: "'c \<Rightarrow> string"
  gx_HasBody :: "'c \<Rightarrow> bool"
  gx_MaxBytesReader :: "int \<Rightarrow> 'c \<Rightarrow> 'c"
  gx_WithTimeout :: "duration \<Rightarrow> 'c \<Rightarrow> 'w \<Rightarrow> 'c \<times> 'w"
  gx_cancel :: "'c \<Rightarrow> 'w \<Rightarrow> 'w"
  otelgin_Middleware :: "string \<Rightarrow> (string \<Rightarrow> bool) \<Rightarrow> ('c, 'w) gin_middleware"
  cors_New :: "CorsConfig \<Rightarrow> ('c, 'w) phandler \<Rightarrow> ('c, 'w) phandler"
  prom_Inc :: "string list \<Rightarrow> 'w \<Rightarrow> 'w"
  prom_Observe :: "string list \<Rightarrow> duration \<Rightarrow> 'w \<Rightarrow> 'w"
  log_Line :: "slog_Level \<Rightarrow> log_attr list \<Rightarrow> 'w \<Rightarrow> 'w"

subsection \<open>Middleware\<close>

text \<open>The deferred \<open>cancel\<close> runs on a panic too.\<close>

definition Timeout :: "('c, 'w) ginext \<Rightarrow> duration \<Rightarrow> ('c, 'w) phandler \<Rightarrow> ('c, 'w) phandler" where
  "Timeout X d next c w =
     (if d \<le> 0 then next c w
      else
        (let (c1, w1) = gx_WithTimeout X d c w;
             (panicked, c2, w2) = next c1 w1
         in (panicked, c2, gx_cancel X c1 w2)))"

definition BodyLimit :: "('c, 'w) ginext \<Rightarrow> int \<Rightarrow> ('c, 'w) phandler \<Rightarrow> ('c, 'w) phandler" where
  "BodyLimit X maxBytes next c w =
     next (if maxBytes > 0 \<and> gx_HasBody X c then gx_MaxBytesReader X maxBytes c else c) w"

text \<open>Nothing after \<open>c.Next()\<close> runs when it panics. The latency is kept as a duration.\<close>

definition AccessLog :: "'w golib \<Rightarrow> 'c ginlib \<Rightarrow> ('c, 'w) ginext \<Rightarrow> ('c, 'w) phandler \<Rightarrow> ('c, 'w) phandler" where
  "AccessLog L N X next c w =
     (let (start, w1) = time_Now L w in
      case next c w1 of
        (True, c1, w2) \<Rightarrow> (True, c1, w2)
      | (False, c1, w2) \<Rightarrow>
          (let status = gx_Status X c1;
               (now, w3) = time_Now L w2;
               attrs = [LogStatus status, LogLatency (time_Sub now start), LogBytes (gx_Size X c1), LogClientIP (gin_ClientIP N c1)];
               attrs1 = (if gx_RawQuery X c1 \<noteq> '''' then attrs @ [LogQuery (gx_RawQuery X c1)] else attrs);
               attrs2 = (if length (gx_Errors X c1) > 0 then attrs1 @ [LogErrors (gx_ErrorsString X c1)] else attrs1);
               level = (if status \<ge> 500 then LevelError else if status \<ge> 400 then LevelWarn else LevelInfo)
           in (False, c1, log_Line X level attrs2 w3)))"

definition RouteUnmatched :: string where "RouteUnmatched = ''unmatched''"

definition Metrics_Middleware :: "'w golib \<Rightarrow> 'c ginlib \<Rightarrow> ('c, 'w) ginext \<Rightarrow> ('c, 'w) phandler \<Rightarrow> ('c, 'w) phandler" where
  "Metrics_Middleware L N X next c w =
     (let (start, w1) = time_Now L w in
      case next c w1 of
        (True, c1, w2) \<Rightarrow> (True, c1, w2)
      | (False, c1, w2) \<Rightarrow>
          (let route = (if gx_FullPath X c1 = '''' then RouteUnmatched else gx_FullPath X c1);
               method = gin_Method N c1;
               (now, w3) = time_Now L w2;
               elapsed = time_Sub now start;
               w4 = prom_Inc X [method, route, strconv_Itoa (int (gx_Status X c1))] w3
           in (False, c1, prom_Observe X [method, route] elapsed w4)))"

subsection \<open>Limiters on the heap\<close>

record ('f, 'b, 'w) limheap =
  lim_New :: "('f, 'b) IPRateLimiter \<Rightarrow> 'w \<Rightarrow> nat \<times> 'w"
  lim_Get :: "nat \<Rightarrow> 'w \<Rightarrow> ('f, 'b) IPRateLimiter"
  lim_Put :: "nat \<Rightarrow> ('f, 'b) IPRateLimiter \<Rightarrow> 'w \<Rightarrow> 'w"

definition limiter_Allow :: "'w golib \<Rightarrow> ('f, 'b, 'w) ratelib \<Rightarrow> ('f, 'b, 'w) limheap \<Rightarrow> nat \<Rightarrow> string \<Rightarrow> 'w \<Rightarrow> bool \<times> 'w" where
  "limiter_Allow L R H ref key w =
     (let ((ok, l), w1) = Allow L R key (lim_Get H ref w) w in (ok, lim_Put H ref l w1))"

subsection \<open>The chain\<close>

record ('c, 'w) engine =
  en_DebugMode :: bool
  en_TrustedProxies :: "string list"
  en_Use :: "('c, 'w) phandler \<Rightarrow> ('c, 'w) gin_handler"

definition cors_config :: "'f Config \<Rightarrow> CorsConfig" where
  "cors_config cfg = \<lparr>Cors_AllowOrigins = AllowedOrigins (Auth cfg),
     Cors_AllowMethods = [''GET'', ''POST'', ''PUT'', ''PATCH'', ''DELETE'', ''OPTIONS''],
     Cors_AllowHeaders = [''Content-Type'', ''Authorization'', ''X-CSRF-Token'', RequestIDHeader],
     Cors_ExposeHeaders = [RequestIDHeader], Cors_AllowCredentials = True, Cors_MaxAge = 12 * Hour\<rparr>"

text \<open>The request filter of the tracing middleware.\<close>

definition traced :: "string \<Rightarrow> bool" where
  "traced path \<longleftrightarrow> \<not> strings_HasPrefix path ''/api/health''"

text \<open>The middleware inside \<open>Recovery\<close>, in the order of the \<open>Use\<close> calls; \<open>limiter\<close> is the global
  rate limiter, if it is enabled.\<close>

definition inner_chain :: "'w golib \<Rightarrow> ('f, 'b, 'w) ratelib \<Rightarrow> ('f, 'b, 'w) limheap \<Rightarrow> 'c ginlib \<Rightarrow> ('c, 'w) ginext \<Rightarrow> 'f Config
    \<Rightarrow> bool \<Rightarrow> nat option \<Rightarrow> ('c, 'w) phandler \<Rightarrow> ('c, 'w) phandler" where
  "inner_chain L R H N X cfg metrics limiter h =
     (if metrics then Metrics_Middleware L N X else id)
       (AccessLog L N X
         (SecurityHeaders N (DevMode (Auth cfg))
           (cors_New X (cors_config cfg)
             (BodyLimit X (MaxRequestBody (Security cfg))
               ((case limiter of Some ref \<Rightarrow> RateLimit returned N (limiter_Allow L R H ref) | None \<Rightarrow> id)
                 (Timeout X (RequestTimeout (Server cfg)) h))))))"

definition newRouter :: "'w golib \<Rightarrow> ('f, 'b, 'w) ratelib \<Rightarrow> ('f, 'b, 'w) limheap \<Rightarrow> 'c ginlib \<Rightarrow> ('c, 'w) ginext
    \<Rightarrow> (Context \<Rightarrow> string) \<Rightarrow> 'f Config \<Rightarrow> bool \<Rightarrow> 'w \<Rightarrow> ('c, 'w) engine \<times> 'w" where
  "newRouter L R H N X traceIDOf cfg metrics w =
     (let (limiter, w1) =
            (if RateLimitEnabled (Security cfg)
             then (let (ref, w1) = lim_New H (NewIPRateLimiter \<lparr>RL_RPS = RateLimitRPS (Security cfg),
                         RL_Burst = RateLimitBurst (Security cfg), RL_TTL = 0\<rparr>) w
                   in (Some ref, w1))
             else (None, w));
          chain = (\<lambda>h. RequestID_middleware L N traceIDOf (Recovery N (inner_chain L R H N X cfg metrics limiter h)))
      in (\<lparr>en_DebugMode = DevMode (Auth cfg), en_TrustedProxies = TrustedProxies (Security cfg),
           en_Use = (\<lambda>h. if Tracing_Enabled (Tracing cfg)
                         then otelgin_Middleware X (ServiceName (Tracing cfg)) traced (chain h) else chain h)\<rparr>, w1))"

definition authRateLimiter :: "'w golib \<Rightarrow> ('f, 'b, 'w) ratelib \<Rightarrow> ('f, 'b, 'w) limheap \<Rightarrow> 'c ginlib \<Rightarrow> 'f Config
    \<Rightarrow> 'w \<Rightarrow> ('c, 'w) gin_middleware \<times> 'w" where
  "authRateLimiter L R H N cfg w =
     (if \<not> RateLimitEnabled (Security cfg) then (\<lambda>next. next, w)
      else
        (let (ref, w1) = lim_New H (NewIPRateLimiter \<lparr>RL_RPS = AuthRateLimitRPS (Security cfg),
               RL_Burst = AuthRateLimitBurst (Security cfg), RL_TTL = 0\<rparr>) w
         in (RateLimit Pair N (limiter_Allow L R H ref), w1)))"

text \<open>Dispatch: no route has parameters, so a route matches its own method and path. A path that is registered
  for another method is not distinguished, because \<open>HandleMethodNotAllowed\<close> is off.\<close>

definition dispatch :: "'c ginlib \<Rightarrow> ('c, 'w) ginext \<Rightarrow> ('c, 'w) route list \<Rightarrow> ('c, 'w) phandler" where
  "dispatch N X routes c w =
     (let (c1, w1) =
        (case find (\<lambda>r. rt_method r = gin_Method N c \<and> rt_path r = gx_Path X c) routes of
           Some r \<Rightarrow> rt_handler r c w
         | None \<Rightarrow> NoRoute N c w)
      in returned c1 w1)"


subsection \<open>What the chain relies on\<close>

text \<open>The headers \<open>SecurityHeaders\<close> sets.\<close>

definition security_headers :: "bool \<Rightarrow> (string \<times> string) list" where
  "security_headers dev =
     [(''X-Content-Type-Options'', ''nosniff''), (''X-Frame-Options'', ''DENY''), (''Referrer-Policy'', ''no-referrer''),
      (''Cross-Origin-Opener-Policy'', ''same-origin''), (''Cross-Origin-Resource-Policy'', ''same-site'')]
     @ (if dev then [] else [(''Strict-Transport-Security'', ''max-age=31536000; includeSubDomains'')])"

text \<open>What a request says, as far as routing and authentication look at it.\<close>

definition request :: "'c ginlib \<Rightarrow> ('c, 'w) ginext \<Rightarrow> 'c \<Rightarrow> string \<times> string \<times> (string \<Rightarrow> go_error + string)" where
  "request N X c = (gin_Method N c, gx_Path X c, gin_Cookie N c)"

text \<open>\<open>later\<close>: the same request, nothing more sent, possibly more headers set.\<close>

definition later :: "'c ginlib \<Rightarrow> ('c, 'w) ginext \<Rightarrow> ('c \<Rightarrow> (nat \<times> APIResponse) list) \<Rightarrow> ('c \<Rightarrow> (string \<times> string) list) \<Rightarrow> 'c \<Rightarrow> 'c \<Rightarrow> bool" where
  "later N X sent headers_of c c' \<longleftrightarrow> sent c' = sent c \<and> set (headers_of c) \<subseteq> set (headers_of c')
     \<and> gin_Get N c' = gin_Get N c \<and> request N X c' = request N X c"

lemma later_refl: "later N X sent headers_of c c"
  by (simp add: later_def)

lemma later_trans: "later N X sent headers_of c c1 \<Longrightarrow> later N X sent headers_of c1 c2 \<Longrightarrow> later N X sent headers_of c c2"
  by (auto simp: later_def)

text \<open>The \<open>cors\<close> middleware admits a request: it passes it on with its headers added.\<close>

definition cors_admits :: "'c ginlib \<Rightarrow> ('c, 'w) ginext \<Rightarrow> ('c \<Rightarrow> (nat \<times> APIResponse) list) \<Rightarrow> ('c \<Rightarrow> (string \<times> string) list) \<Rightarrow> CorsConfig \<Rightarrow> bool" where
  "cors_admits N X sent headers_of cc \<longleftrightarrow> (\<forall>h c w. \<exists>c1. cors_New X cc h c w = h c1 w \<and> later N X sent headers_of c c1)"

text \<open>
  Limiting the body, setting a deadline and setting headers change nothing of the request or of what was sent; the tracing
  middleware runs the rest of the chain once, between starting and ending a span. \<open>quiet w w'\<close> holds between worlds that
  differ in nothing the handlers store: clock, deadlines, metrics, log, limiters and spans are quiet.
\<close>

locale http_platform = gin_laws N sent cookies_of headers_of aborted
  for N :: "'c ginlib" and sent and cookies_of and headers_of and aborted +
  fixes X :: "('c, 'w) ginext"
    and L :: "'w golib"
    and R :: "('f, 'b, 'w) ratelib"
    and H :: "('f, 'b, 'w) limheap"
    and quiet :: "'w \<Rightarrow> 'w \<Rightarrow> bool"
  assumes quiet_refl: "quiet w w" and quiet_trans: "quiet w w1 \<Longrightarrow> quiet w1 w2 \<Longrightarrow> quiet w w2"
    and Request_frame: "request N X (gin_Header N hn hv c) = request N X c" "request N X (gin_Set N k v c) = request N X c"
    and Body_frame: "later N X sent headers_of c (gx_MaxBytesReader X n c)"
    and Deadline_frame: "gx_WithTimeout X d c w = (c', w') \<Longrightarrow> later N X sent headers_of c c' \<and> quiet w w'"
    and Tracing_frame: "otelgin_Middleware X sn f next c w = (c', w') \<Longrightarrow>
      \<exists>c1 w1 c2 w2. next c1 w1 = (c2, w2) \<and> later N X sent headers_of c c1 \<and> headers_of c1 = headers_of c
        \<and> sent c' = sent c2 \<and> headers_of c' = headers_of c2 \<and> quiet w w1 \<and> quiet w2 w'"
    and quiet_calls: "quiet w (gx_cancel X c w)" "quiet w (prom_Inc X ls w)" "quiet w (prom_Observe X ls d w)"
      "quiet w (log_Line X lv as w)" "quiet w (lim_Put H ref l w)" "time_Now L w = (t, w') \<Longrightarrow> quiet w w'"
      "uuid_New L w = (u, w') \<Longrightarrow> quiet w w'" "rate_Allow R b w = (x, w') \<Longrightarrow> quiet w w'"
begin

abbreviation after :: "'c \<Rightarrow> 'c \<Rightarrow> bool" where
  "after \<equiv> later N X sent headers_of"

text \<open>A handler that either panics before anything was written, if \<open>mp\<close> allows it, or refuses the request with one
  error envelope whose status is in \<open>S\<close>, and stores nothing.\<close>

definition refuses :: "bool \<Rightarrow> nat set \<Rightarrow> 'c \<Rightarrow> 'w \<Rightarrow> bool \<times> 'c \<times> 'w \<Rightarrow> bool" where
  "refuses mp S c w out = (case out of (p, c', w') \<Rightarrow> quiet w w' \<and> set (headers_of c) \<subseteq> set (headers_of c') \<and>
     (if p then mp \<and> sent c' = sent c \<and> gin_Get N c' = gin_Get N c
      else \<exists>st e. sent c' = sent c @ [(st, e)] \<and> st \<in> S \<and> \<not> Success e \<and> Data e = None \<and> RequestID e = GetRequestID N c))"

lemma later_RequestID: "after c c' \<Longrightarrow> GetRequestID N c' = GetRequestID N c"
  by (simp add: later_def GetRequestID_def stringFromContext_def)

lemma refuses_after: "after c c1 \<Longrightarrow> quiet w w1 \<Longrightarrow> refuses mp S c1 w1 out \<Longrightarrow> refuses mp S c w out"
  using later_RequestID [of c c1] unfolding refuses_def later_def by (fastforce intro: quiet_trans split: if_splits prod.splits)

lemma refuses_world: "refuses mp S c w (p, c', w1) \<Longrightarrow> quiet w1 w2 \<Longrightarrow> refuses mp S c w (p, c', w2)"
  unfolding refuses_def by (auto intro: quiet_trans split: if_splits)

lemma Timeout_refuses:
  assumes "\<And>c1 w1. after c c1 \<Longrightarrow> quiet w w1 \<Longrightarrow> refuses mp S c1 w1 (h c1 w1)"
  shows "refuses mp S c w (Timeout X d h c w)"
proof (cases "d \<le> 0")
  case True
  then show ?thesis using assms [OF later_refl quiet_refl] by (simp add: Timeout_def)
next
  case False
  obtain c1 w1 where t: "gx_WithTimeout X d c w = (c1, w1)" by (metis surj_pair)
  obtain p c2 w2 where h: "h c1 w1 = (p, c2, w2)" by (metis surj_pair)
  note d = Deadline_frame [OF t]
  have "refuses mp S c w (p, c2, w2)" using refuses_after d assms h by metis
  with t h False show ?thesis by (simp add: Timeout_def refuses_world quiet_calls)
qed

lemma abort_headers: "headers_of (abortWithError N st msg c) = headers_of c"
  by (simp add: abortWithError_def Abort_frame)

lemma limiter_quiet: "limiter_Allow L R H ref key w = (ok, w') \<Longrightarrow> quiet w w'"
  unfolding limiter_Allow_def Allow_def Let_def
  by (auto split: prod.splits) (meson quiet_calls quiet_trans)

lemma RateLimit_refuses:
  assumes "\<And>c1 w1. after c c1 \<Longrightarrow> quiet w w1 \<Longrightarrow> refuses mp S c1 w1 (h c1 w1)" and "429 \<in> S"
  shows "refuses mp S c w (RateLimit returned N (limiter_Allow L R H ref) h c w)"
proof -
  obtain ok w1 where a: "limiter_Allow L R H ref (gin_ClientIP N c) w = (ok, w1)" by (metis surj_pair)
  note q = limiter_quiet [OF a]
  show ?thesis
  proof (cases ok)
    case True
    with a refuses_after [OF later_refl q assms(1) [OF later_refl q]] show ?thesis by (simp add: RateLimit_def)
  next
    case False
    with a q assms(2) show ?thesis
      by (simp add: RateLimit_def returned_def refuses_def abort_effect abort_headers)
  qed
qed

lemma BodyLimit_refuses:
  assumes "\<And>c1 w1. after c c1 \<Longrightarrow> quiet w w1 \<Longrightarrow> refuses mp S c1 w1 (h c1 w1)"
  shows "refuses mp S c w (BodyLimit X n h c w)"
  unfolding BodyLimit_def
  by (rule refuses_after [OF _ quiet_refl assms [OF _ quiet_refl]]) (simp_all add: Body_frame later_refl)

text \<open>Code after \<open>c.Next()\<close> that only records.\<close>

lemma AccessLog_out:
  assumes "AccessLog L N X h c w = (p, c', w')"
  shows "\<exists>w1 w2. quiet w w1 \<and> h c w1 = (p, c', w2) \<and> quiet w2 w'"
  using assms unfolding AccessLog_def Let_def
  by (auto split: prod.splits bool.splits) (meson quiet_calls quiet_refl quiet_trans)+

lemma Metrics_out:
  assumes "Metrics_Middleware L N X h c w = (p, c', w')"
  shows "\<exists>w1 w2. quiet w w1 \<and> h c w1 = (p, c', w2) \<and> quiet w2 w'"
  using assms unfolding Metrics_Middleware_def Let_def
  by (auto split: prod.splits bool.splits) (meson quiet_calls quiet_refl quiet_trans)+

lemma SecurityHeaders_sets:
  "\<exists>c1. SecurityHeaders N dev h c w = h c1 w \<and> after c c1 \<and> set (security_headers dev) \<subseteq> set (headers_of c1)"
  unfolding SecurityHeaders_def Let_def
  by (intro exI conjI, rule refl) (auto simp: later_def security_headers_def frames Request_frame)

text \<open>Recording only surrounds the rest of the chain.\<close>

lemma recording_out:
  assumes "(if metrics then Metrics_Middleware L N X else id) (AccessLog L N X next) c w = (p, c', w')"
  obtains wa wb where "next c wa = (p, c', wb)" "quiet w wa" "quiet wb w'"
proof (cases metrics)
  case True
  then have "Metrics_Middleware L N X (AccessLog L N X next) c w = (p, c', w')" using assms by simp
  from Metrics_out [OF this] obtain w1 w2 where m: "quiet w w1" "AccessLog L N X next c w1 = (p, c', w2)" "quiet w2 w'" by blast
  from AccessLog_out [OF m(2)] obtain w3 w4 where "quiet w1 w3" "next c w3 = (p, c', w4)" "quiet w4 w2" by blast
  with m that show ?thesis by (blast intro: quiet_trans)
next
  case False
  then have "AccessLog L N X next c w = (p, c', w')" using assms by simp
  from AccessLog_out [OF this] show ?thesis using that by blast
qed

lemma chain_refuses:
  assumes h: "\<And>c1 w1. request N X c1 = request N X c \<Longrightarrow> quiet w w1 \<Longrightarrow> refuses mp S c1 w1 (h c1 w1)" and "429 \<in> S"
    and cors: "cors_admits N X sent headers_of (cors_config cfg)"
    and r: "inner_chain L R H N X cfg metrics limiter h c w = (p, c', w')"
  shows "refuses mp S c w (p, c', w')" and "set (security_headers (DevMode (Auth cfg))) \<subseteq> set (headers_of c')"
proof -
  define lim where "lim = (case limiter of Some ref \<Rightarrow> RateLimit returned N (limiter_Allow L R H ref) | None \<Rightarrow> id)
    (Timeout X (RequestTimeout (Server cfg)) h)"
  define body where "body = BodyLimit X (MaxRequestBody (Security cfg)) lim"
  let ?sec = "SecurityHeaders N (DevMode (Auth cfg)) (cors_New X (cors_config cfg) body)"
  have after: "request N X c2 = request N X c1" if "after c1 c2" for c1 c2 using that by (simp add: later_def)
  have time: "refuses mp S c1 w1 (Timeout X (RequestTimeout (Server cfg)) h c1 w1)"
    if "request N X c1 = request N X c" "quiet w w1" for c1 w1
    by (rule Timeout_refuses, rule h) (use that after quiet_trans in metis)+
  have lim: "refuses mp S c1 w1 (lim c1 w1)" if "request N X c1 = request N X c" "quiet w w1" for c1 w1
  proof (cases limiter)
    case None
    with time [OF that] show ?thesis by (simp add: lim_def)
  next
    case (Some ref)
    have "refuses mp S c1 w1 (RateLimit returned N (limiter_Allow L R H ref) (Timeout X (RequestTimeout (Server cfg)) h) c1 w1)"
      by (rule RateLimit_refuses [OF time assms(2)]) (use that after quiet_trans in metis)+
    with Some show ?thesis by (simp add: lim_def)
  qed
  have body: "refuses mp S c1 w1 (body c1 w1)" if "request N X c1 = request N X c" "quiet w w1" for c1 w1
    unfolding body_def by (rule BodyLimit_refuses, rule lim) (use that after quiet_trans in metis)+
  have "(if metrics then Metrics_Middleware L N X else id) (AccessLog L N X ?sec) c w = (p, c', w')"
    using r by (simp add: inner_chain_def body_def lim_def split: if_splits)
  then obtain wa wb where s: "?sec c wa = (p, c', wb)" "quiet w wa" "quiet wb w'" by (rule recording_out)
  obtain c1 where c1: "?sec c wa = cors_New X (cors_config cfg) body c1 wa" "after c c1"
    "set (security_headers (DevMode (Auth cfg))) \<subseteq> set (headers_of c1)"
    using SecurityHeaders_sets [of "DevMode (Auth cfg)" "cors_New X (cors_config cfg) body" c wa] by metis
  obtain c2 where c2: "cors_New X (cors_config cfg) body c1 wa = body c2 wa" "after c1 c2"
    using cors unfolding cors_admits_def by metis
  note ac2 = later_trans [OF c1(2) c2(2)]
  have b: "refuses mp S c2 wa (p, c', wb)" using body [OF after [OF ac2] s(2)] s(1) c1(1) c2(1) by simp
  show "refuses mp S c w (p, c', w')" by (rule refuses_world [OF refuses_after [OF ac2 s(2) b] s(3)])
  show "set (security_headers (DevMode (Auth cfg))) \<subseteq> set (headers_of c')"
    using b c1(3) c2(2) by (auto simp: refuses_def later_def)
qed

lemma resolve_quiet: "resolveRequestID L N c t w = (i, w') \<Longrightarrow> quiet w w'"
  by (auto simp: resolveRequestID_def Let_def quiet_refl split: if_splits prod.splits intro: quiet_calls)

text \<open>The outcome of the whole chain: one error envelope with the request's id, and the headers.\<close>

definition refused :: "nat set \<Rightarrow> 'f Config \<Rightarrow> 'c \<Rightarrow> 'w \<Rightarrow> 'c \<Rightarrow> 'w \<Rightarrow> bool" where
  "refused S cfg c w c' w' \<longleftrightarrow> (\<exists>st e. sent c' = sent c @ [(st, e)] \<and> st \<in> S \<and> \<not> Success e \<and> Data e = None
     \<and> (RequestIDHeader, RequestID e) \<in> set (headers_of c') \<and> set (security_headers (DevMode (Auth cfg))) \<subseteq> set (headers_of c'))
     \<and> quiet w w'"

lemma recovered:
  assumes h: "\<And>c1 w1. request N X c1 = request N X c \<Longrightarrow> quiet w w1 \<Longrightarrow> refuses mp S c1 w1 (h c1 w1)" and "429 \<in> S"
    and "cors_admits N X sent headers_of (cors_config cfg)"
    and "RequestID_middleware L N tid (Recovery N (inner_chain L R H N X cfg metrics limiter h)) c w = (c', w')"
  shows "refused (S \<union> (if mp then {500} else {})) cfg c w c' w'"
proof -
  obtain i w1 where i: "resolveRequestID L N c (tid (gin_Context N c)) w = (i, w1)" by (metis surj_pair)
  note q = resolve_quiet [OF i]
  let ?c2 = "gin_Header N RequestIDHeader i (gin_Set N RequestIDCtxKey (StrVal i) c)"
  define c3 where "c3 = (if tid (gin_Context N c) \<noteq> '''' then gin_Set N TraceIDCtxKey (StrVal (tid (gin_Context N c))) ?c2 else ?c2)"
  have c3: "sent c3 = sent c" "(RequestIDHeader, i) \<in> set (headers_of c3)" "GetRequestID N c3 = i" "request N X c3 = request N X c"
    by (simp_all add: c3_def frames GetRequestID_def stringFromContext_def Get_Set ctx_keys Request_frame)
  obtain p c1 w2 where r: "inner_chain L R H N X cfg metrics limiter h c3 w1 = (p, c1, w2)" by (metis surj_pair)
  have h3: "\<And>c1 wx. request N X c1 = request N X c3 \<Longrightarrow> quiet w1 wx \<Longrightarrow> refuses mp S c1 wx (h c1 wx)"
    using h c3(4) quiet_trans [OF q] by metis
  note ans = chain_refuses [OF h3 assms(2,3) r]
  have c': "c' = (if p then abortWithError N 500 (err_Message ErrInternal) c1 else c1)" "w' = w2"
    using assms(4) i r by (auto simp: c3_def RequestID_middleware_def Recovery_def Let_def split: if_splits bool.splits)
  have hdr: "set (headers_of c3) \<subseteq> set (headers_of c')" "set (security_headers (DevMode (Auth cfg))) \<subseteq> set (headers_of c')"
    using ans c' by (auto simp: refuses_def abort_headers)
  have "quiet w w'" using ans(1) c'(2) q by (auto simp: refuses_def intro: quiet_trans)
  moreover have "\<exists>st e. sent c' = sent c @ [(st, e)] \<and> st \<in> S \<union> (if mp then {500} else {}) \<and> \<not> Success e \<and> Data e = None \<and> RequestID e = i"
  proof (cases p)
    case True
    with ans have "sent c1 = sent c" "GetRequestID N c1 = i" mp
      using c3 by (simp_all add: refuses_def GetRequestID_def stringFromContext_def)
    with True c' show ?thesis by (intro exI [of _ 500]) (simp add: abort_effect)
  next
    case False
    with ans c3 c' show ?thesis by (auto simp: refuses_def)
  qed
  ultimately show ?thesis using hdr c3(2) unfolding refused_def by blast
qed

lemma router_refuses:
  assumes h: "\<And>c1 w1. request N X c1 = request N X c \<Longrightarrow> quiet w w1 \<Longrightarrow> refuses mp S c1 w1 (h c1 w1)" and "429 \<in> S"
    and "cors_admits N X sent headers_of (cors_config cfg)"
    and "newRouter L R H N X tid cfg metrics w0 = (router, w00)" and "en_Use router h c w = (c', w')"
  shows "refused (S \<union> (if mp then {500} else {})) cfg c w c' w'"
proof -
  obtain limiter where use: "en_Use router h = (if Tracing_Enabled (Tracing cfg)
      then otelgin_Middleware X (ServiceName (Tracing cfg)) traced
        (RequestID_middleware L N tid (Recovery N (inner_chain L R H N X cfg metrics limiter h)))
      else RequestID_middleware L N tid (Recovery N (inner_chain L R H N X cfg metrics limiter h)))"
    using assms(4) by (auto simp: newRouter_def Let_def split: prod.splits if_splits)
  show ?thesis
  proof (cases "Tracing_Enabled (Tracing cfg)")
    case True
    with use assms(5) have "otelgin_Middleware X (ServiceName (Tracing cfg)) traced
        (RequestID_middleware L N tid (Recovery N (inner_chain L R H N X cfg metrics limiter h))) c w = (c', w')" by simp
    from Tracing_frame [OF this] obtain c1 wa c2 wb where
      t: "RequestID_middleware L N tid (Recovery N (inner_chain L R H N X cfg metrics limiter h)) c1 wa = (c2, wb)"
      "after c c1" "sent c' = sent c2" "headers_of c' = headers_of c2" "quiet w wa" "quiet wb w'" by blast
    have h1: "\<And>cx wx. request N X cx = request N X c1 \<Longrightarrow> quiet wa wx \<Longrightarrow> refuses mp S cx wx (h cx wx)"
      using h t(2) quiet_trans [OF t(5)] by (simp add: later_def)
    have "refused (S \<union> (if mp then {500} else {})) cfg c1 wa c2 wb" by (rule recovered [OF h1 assms(2,3) t(1)])
    then show ?thesis using t(2-4) quiet_trans [OF t(5)] quiet_trans [OF _ t(6)] by (auto simp: refused_def later_def)
  next
    case False
    with use assms(5) recovered [OF h assms(2,3)] show ?thesis by simp
  qed
qed

end


subsection \<open>An instance\<close>

text \<open>On the recording context and a given path: no body limit or deadline is recorded, every origin is admitted,
  metrics, log lines and spans are dropped. On the in-memory world every limiter stays fresh.\<close>

definition rec_ext :: "string \<Rightarrow> (gin_rec, 'w) ginext" where
  "rec_ext path = \<lparr>gx_FullPath = (\<lambda>c. path), gx_Path = (\<lambda>c. path),
     gx_Status = (\<lambda>c. case gr_sent c of [] \<Rightarrow> 200 | _ \<Rightarrow> fst (last (gr_sent c))),
     gx_Size = (\<lambda>c. 0), gx_RawQuery = (\<lambda>c. ''''), gx_Errors = (\<lambda>c. []), gx_ErrorsString = (\<lambda>c. ''''), gx_HasBody = (\<lambda>c. False),
     gx_MaxBytesReader = (\<lambda>n c. c), gx_WithTimeout = (\<lambda>d c w. (c, w)), gx_cancel = (\<lambda>c w. w),
     otelgin_Middleware = (\<lambda>sn f next. next), cors_New = (\<lambda>cc h. h), prom_Inc = (\<lambda>ls w. w), prom_Observe = (\<lambda>ls d w. w),
     log_Line = (\<lambda>l as w. w)\<rparr>"

definition mem_rate :: "(int, nat, mem) ratelib" where
  "mem_rate = \<lparr>rate_NewLimiter = (\<lambda>rps burst. nat burst), rate_Allow = (\<lambda>b w. ((b > 0, b - 1), w))\<rparr>"

definition mem_heap :: "(int, nat, mem) limheap" where
  "mem_heap = \<lparr>lim_New = (\<lambda>l w. (0, w)), lim_Get = (\<lambda>r w. NewIPRateLimiter \<lparr>RL_RPS = 5, RL_Burst = 5, RL_TTL = 0\<rparr>),
     lim_Put = (\<lambda>r l w. w)\<rparr>"

lemma rec_admits: "cors_admits rec_gin (rec_ext path) sent headers_of cc"
  by (auto simp: cors_admits_def rec_ext_def later_def)

lemma mem_quiet:
  "time_Now mem_lib w = (t, w') \<Longrightarrow> same_views mem_view w w'" "uuid_New mem_lib w = (u, w') \<Longrightarrow> same_views mem_view w w'"
  by (auto simp: mem_lib_def same_views_def)

interpretation rec_http: http_platform rec_gin gr_sent gr_cookies gr_headers gr_aborted "rec_ext path" mem_lib mem_rate mem_heap
  "same_views mem_view" for path
  by unfold_locales (auto simp: same_views_def request_def later_def rec_gin_def rec_ext_def mem_rate_def mem_heap_def mem_lib_def)


text \<open>A request that panics leaves no trace in the metrics and no access log line, although the chain puts both
  inside \<open>Recovery\<close>.\<close>

lemma panic_not_recorded:
  "Metrics_Middleware L N X (AccessLog L N X (\<lambda>c w. (True, c, w))) c w = (True, c, snd (time_Now L (snd (time_Now L w))))"
  by (simp add: Metrics_Middleware_def AccessLog_def Let_def split: prod.splits)

text \<open>A path that exists for other methods is answered as unknown: 404, not 405.\<close>

lemma wrong_method_not_found:
  "gin_Method N c = ''PUT'' \<Longrightarrow> gx_Path X c = ''/api/v1/counter'' \<Longrightarrow>
   dispatch N X (SetupRoutes L N a) c w = (case NoRoute N c w of (c1, w1) \<Rightarrow> (False, c1, w1))"
  by (simp add: dispatch_def SetupRoutes_def public_routes_def protected_routes_def Let_def returned_def)

end
