(* ===== verification/Rate_Limits.thy ===== *)
theory Rate_Limits
  imports Pipeline
begin

text \<open>
  Rate limiting: what one call of \<open>Allow\<close> does to the buckets of all clients, and that the
  two limiters the router is built with have separate budgets.
\<close>

subsection \<open>A heap of limiters\<close>

record rworld =
  rw_now :: time
  rw_limiters :: "(int, nat) IPRateLimiter list"

definition rw_lib :: "rworld golib" where
  "rw_lib = \<lparr>ctx_Err = (\<lambda>ctx w. (None, w)), time_Now = (\<lambda>w. (rw_now w, w\<lparr>rw_now := rw_now w + 1\<rparr>)),
     uuid_New = (\<lambda>w. (5, w)), uuid_String = mem_uuid_String, uuid_Parse = mem_uuid_Parse,
     rand_Read = (\<lambda>n w. (Inr (replicate n 0), w)),
     bcrypt_GenerateFromPassword = (\<lambda>p w. (Inl (errors_New ''unused''), w)),
     bcrypt_CompareHashAndPassword = (\<lambda>h p w. (None, w)), once_get = (\<lambda>w. None), once_set = (\<lambda>h w. w)\<rparr>"

text \<open>A bucket that never refills.\<close>

definition rw_rate :: "(int, nat, rworld) ratelib" where
  "rw_rate = \<lparr>rate_NewLimiter = (\<lambda>rps burst. nat burst), rate_Allow = (\<lambda>b w. ((b > 0, b - 1), w))\<rparr>"

definition rw_heap :: "(int, nat, rworld) limheap" where
  "rw_heap = \<lparr>lim_New = (\<lambda>l w. (length (rw_limiters w), w\<lparr>rw_limiters := rw_limiters w @ [l]\<rparr>)),
     lim_Get = (\<lambda>r w. rw_limiters w ! r), lim_Put = (\<lambda>r l w. w\<lparr>rw_limiters := (rw_limiters w)[r := l]\<rparr>)\<rparr>"

definition rw0 :: rworld where
  "rw0 = \<lparr>rw_now = 1700000000 * Second, rw_limiters = []\<rparr>"

subsection \<open>Clients\<close>

lemma map_of_filter_distinct:
  "distinct (map fst xs) \<Longrightarrow> map_of (filter (\<lambda>(k, v). P v) xs) k = (case map_of xs k of Some v \<Rightarrow> if P v then Some v else None | None \<Rightarrow> None)"
proof (induction xs)
  case (Cons x xs)
  obtain a b where x: "x = (a, b)" by (cases x)
  have "map_of (filter (\<lambda>(k, v). P v) xs) a = None" if "a \<notin> fst ` set xs"
    using that by (auto simp: map_of_eq_None_iff)
  with Cons x show ?case by (auto split: option.splits)
qed simp

text \<open>A bucket that a collection at \<open>now\<close> drops.\<close>

definition collected :: "time \<Rightarrow> ('f, 'b) IPRateLimiter \<Rightarrow> 'b bucket \<Rightarrow> bool" where
  "collected now l b \<longleftrightarrow> il_ttl l \<le> time_Sub now (il_lastGC l) \<and> il_ttl l < time_Sub now (bk_seen b)"

lemma gcLocked_get:
  assumes "distinct (map fst (il_buckets l))"
  shows "gomap_get (il_buckets (gcLocked now l)) k =
      (case gomap_get (il_buckets l) k of Some b \<Rightarrow> if collected now l b then None else Some b | None \<Rightarrow> None)"
    and "distinct (map fst (il_buckets (gcLocked now l)))"
    and "il_rps (gcLocked now l) = il_rps l" "il_burst (gcLocked now l) = il_burst l" "il_ttl (gcLocked now l) = il_ttl l"
  using assms map_of_filter_distinct [OF assms, of "\<lambda>b. \<not> il_ttl l < time_Sub now (bk_seen b)" k]
  by (auto simp: gcLocked_def collected_def not_le distinct_map_filter split: option.splits)

text \<open>C23. The limiter keeps clients apart: a request of one client is decided by that client's own bucket (a
  fresh one if it has none or was idle for longer than the TTL when buckets are collected) and stores it as just seen; the
  bucket of every other client is untouched unless it is collected for having been idle longer than the TTL. There is
  never more than one bucket per client, and the settings stay.\<close>

theorem limiter_isolates_clients:
  assumes "distinct (map fst (il_buckets l))" and "time_Now L w = (now, w1)"
    and "own = (case gomap_get (il_buckets l) key of
        Some b \<Rightarrow> if collected now l b then rate_NewLimiter R (il_rps l) (il_burst l) else bk_limiter b
      | None \<Rightarrow> rate_NewLimiter R (il_rps l) (il_burst l))"
  shows "\<exists>ok lim w2. rate_Allow R own w1 = ((ok, lim), w2)
    \<and> (\<exists>l'. Allow L R key l w = ((ok, l'), w2) \<and> distinct (map fst (il_buckets l'))
        \<and> il_rps l' = il_rps l \<and> il_burst l' = il_burst l \<and> il_ttl l' = il_ttl l
        \<and> gomap_get (il_buckets l') key = Some \<lparr>bk_limiter = lim, bk_seen = now\<rparr>
        \<and> (\<forall>k. k \<noteq> key \<longrightarrow> gomap_get (il_buckets l') k =
             (case gomap_get (il_buckets l) k of Some b \<Rightarrow> if collected now l b then None else Some b | None \<Rightarrow> None)))"
proof -
  let ?l1 = "gcLocked now l"
  note gc = gcLocked_get [OF assms(1), of now]
  obtain ok lim w2 where a: "rate_Allow R own w1 = ((ok, lim), w2)" by (metis surj_pair)
  have b: "bk_limiter (case gomap_get (il_buckets ?l1) key of Some b \<Rightarrow> b
      | None \<Rightarrow> \<lparr>bk_limiter = rate_NewLimiter R (il_rps ?l1) (il_burst ?l1), bk_seen = zero_time\<rparr>) = own"
    by (simp add: assms(3) gc split: option.splits)
  have r: "Allow L R key l w = ((ok, ?l1\<lparr>il_buckets := gomap_set (il_buckets ?l1) key \<lparr>bk_limiter = lim, bk_seen = now\<rparr>\<rparr>), w2)"
    using assms(2) a b by (simp add: Allow_def Let_def)
  show ?thesis
    by (intro exI conjI, rule a, rule r)
      (simp_all add: gc(1,3,4,5) update_conv distinct_update [OF gc(2)])
qed

theorem limiter_isolates_clients_witness:
  "\<exists>l'. Allow rw_lib rw_rate ''10.0.0.1'' (NewIPRateLimiter \<lparr>RL_RPS = 5, RL_Burst = 1, RL_TTL = 0\<rparr>) rw0 = ((True, l'), rw0\<lparr>rw_now := rw_now rw0 + 1\<rparr>)
     \<and> gomap_get (il_buckets l') ''10.0.0.1'' = Some \<lparr>bk_limiter = 0, bk_seen = rw_now rw0\<rparr> \<and> gomap_get (il_buckets l') ''10.0.0.2'' = None"
proof -
  let ?l = "NewIPRateLimiter \<lparr>RL_RPS = 5, RL_Burst = 1, RL_TTL = 0\<rparr> :: (int, nat) IPRateLimiter"
  have d: "distinct (map fst (il_buckets ?l))" and n: "time_Now rw_lib rw0 = (rw_now rw0, rw0\<lparr>rw_now := rw_now rw0 + 1\<rparr>)"
    by (simp_all add: NewIPRateLimiter_def rw_lib_def Let_def)
  have "rate_Allow rw_rate (rate_NewLimiter rw_rate (5 :: int) 1) (rw0\<lparr>rw_now := rw_now rw0 + 1\<rparr>) = ((True, 0), rw0\<lparr>rw_now := rw_now rw0 + 1\<rparr>)"
    by (simp add: rw_rate_def)
  with limiter_isolates_clients [OF d n refl, of rw_rate "''10.0.0.1''"] show ?thesis
    by (auto simp: NewIPRateLimiter_def Let_def)
qed

subsection \<open>Budgets\<close>

text \<open>The heap: a new limiter is distinct from those in use, and neither reading the clock nor a token
  bucket reaches it.\<close>

locale limiter_heap =
  fixes L :: "'w golib"
    and R :: "('f, 'b, 'w) ratelib"
    and H :: "('f, 'b, 'w) limheap"
    and live :: "nat \<Rightarrow> 'w \<Rightarrow> bool"
  assumes New_fresh: "lim_New H l w = (r, w') \<Longrightarrow> \<not> live r w \<and> live r w' \<and> lim_Get H r w' = l"
    and New_keeps: "lim_New H l w = (r, w') \<Longrightarrow> live r' w \<Longrightarrow> live r' w' \<and> lim_Get H r' w' = lim_Get H r' w"
    and Put_get: "live r w \<Longrightarrow> lim_Get H r (lim_Put H r l w) = l"
    and Put_keeps: "r' \<noteq> r \<Longrightarrow> lim_Get H r' (lim_Put H r l w) = lim_Get H r' w" "live r' (lim_Put H r l w) = live r' w"
    and Now_keeps: "time_Now L w = (t, w') \<Longrightarrow> lim_Get H r w' = lim_Get H r w \<and> live r w' = live r w"
    and Rate_keeps: "rate_Allow R b w = (x, w') \<Longrightarrow> lim_Get H r w' = lim_Get H r w \<and> live r w' = live r w"
begin

lemma Allow_keeps:
  assumes "Allow L R key l w = (x, w')"
  shows "lim_Get H r w' = lim_Get H r w \<and> live r w' = live r w"
  using assms by (auto simp: Allow_def Let_def split: prod.splits dest!: Now_keeps [of _ _ _ r] Rate_keeps [of _ _ _ _ r])

lemma limiter_Allow_keeps:
  "limiter_Allow L R H g key w = (ok, w') \<Longrightarrow> r \<noteq> g \<Longrightarrow> lim_Get H r w' = lim_Get H r w"
  by (auto simp: limiter_Allow_def Put_keeps split: prod.splits dest!: Allow_keeps [of _ _ _ _ _ r])

lemma traffic_keeps:
  "r \<noteq> g \<Longrightarrow> lim_Get H r (foldl (\<lambda>w key. snd (limiter_Allow L R H g key w)) w keys) = lim_Get H r w"
proof (induction keys arbitrary: w)
  case (Cons key keys)
  obtain ok w' where "limiter_Allow L R H g key w = (ok, w')" by (metis surj_pair)
  with Cons limiter_Allow_keeps [OF this Cons.prems] show ?case by simp
qed simp

end

interpretation rw: limiter_heap rw_lib rw_rate rw_heap "\<lambda>r w. r < length (rw_limiters w)"
  by unfold_locales (auto simp: rw_lib_def rw_rate_def rw_heap_def nth_append)



end
