(* ===== verification/Session_Machine.thy ===== *)
theory Session_Machine
  imports User_Properties
begin

text \<open>
  The user service as a state machine: an abstract machine over the account and session
  tables, the proof that every call of the service is one of its steps, and the invariant of
  the worlds that sequences of calls reach. The history \<open>H\<close> of a run is the set of refresh
  tokens that were presented to the service or issued by it; the invariant needs that SHA-256
  has no collision among these, and nothing more of the hash.
\<close>

subsection \<open>The abstract machine\<close>

text \<open>Each step names the refresh tokens it consumes or hands out. \<open>claims t cl\<close>: the token \<open>t\<close> carries \<open>cl\<close>.\<close>

inductive account_step :: "(string \<Rightarrow> TokenClaims \<Rightarrow> bool) \<Rightarrow> string set \<Rightarrow> tables \<Rightarrow> tables \<Rightarrow> bool"
  for claims :: "string \<Rightarrow> TokenClaims \<Rightarrow> bool" where
  idle: "account_step claims H t t"
| create_account: "user_live u \<Longrightarrow> (\<forall>x \<in> set (users t). \<not> user_clash u x) \<Longrightarrow> account_step claims H t (add_user u t)"
| open_session: "u \<in> set (users t) \<Longrightarrow> user_live u \<Longrightarrow> session_row (User_ID u) tok ex row \<Longrightarrow>
    claims tok cl \<Longrightarrow> TC_UserID cl = User_ID u \<Longrightarrow> tok \<in> H \<Longrightarrow>
    (\<forall>x \<in> set (refresh_tokens t). \<not> token_clash row x) \<Longrightarrow> account_step claims H t (add_token row t)"
| rotate: "claims tok cl \<Longrightarrow> tok \<in> H \<Longrightarrow> stored \<in> set (refresh_tokens t) \<Longrightarrow> RT_TokenHash stored = Hash tok \<Longrightarrow>
    session_row (TC_UserID cl) tok' ex row \<Longrightarrow> claims tok' cl' \<Longrightarrow> TC_UserID cl' = TC_UserID cl \<Longrightarrow> tok' \<in> H \<Longrightarrow>
    (\<forall>x \<in> set (refresh_tokens t). RT_TokenHash x \<noteq> Hash tok \<longrightarrow> \<not> token_clash row x) \<Longrightarrow>
    account_step claims H t (add_token row (drop_tokens (\<lambda>x. RT_TokenHash x = Hash tok) t))"
| end_sessions: "account_step claims H t (drop_tokens p t)"
| set_password: "rows_rewritten (\<lambda>x. user_live x \<and> User_ID x = i) (user_updated (zero_UserEntity\<lparr>User_Password := h\<rparr>)) (users t) us
    \<Longrightarrow> account_step claims H t (t\<lparr>users := us\<rparr>)"
| close_account: "rows_rewritten (\<lambda>x. user_live x \<and> User_ID x = i) user_soft_deleted (users t) us \<Longrightarrow>
    account_step claims H t ((drop_tokens (\<lambda>x. RT_UserID x = i) t)\<lparr>users := us\<rparr>)"

subsection \<open>The invariant\<close>

text \<open>Keys are unique, every session is a token of the history, and its owner has a live account.\<close>

definition tables_ok :: "tables \<Rightarrow> bool" where
  "tables_ok t \<longleftrightarrow> distinct (map User_ID (users t)) \<and> distinct (map User_Email (users t))
     \<and> distinct (map RT_ID (refresh_tokens t)) \<and> distinct (map RT_TokenHash (refresh_tokens t))"

definition owner_live :: "tables \<Rightarrow> RefreshTokenEntity \<Rightarrow> bool" where
  "owner_live t row \<longleftrightarrow> (\<exists>u \<in> set (users t). user_live u \<and> User_ID u = RT_UserID row)"

definition issued_row :: "(string \<Rightarrow> TokenClaims \<Rightarrow> bool) \<Rightarrow> string set \<Rightarrow> RefreshTokenEntity \<Rightarrow> bool" where
  "issued_row claims H row \<longleftrightarrow> (\<exists>tok \<in> H. \<exists>cl. claims tok cl \<and> Hash tok = RT_TokenHash row \<and> TC_UserID cl = RT_UserID row)"

definition sessions_ok :: "(string \<Rightarrow> TokenClaims \<Rightarrow> bool) \<Rightarrow> string set \<Rightarrow> tables \<Rightarrow> bool" where
  "sessions_ok claims H t \<longleftrightarrow> tables_ok t \<and> (\<forall>row \<in> set (refresh_tokens t). owner_live t row \<and> issued_row claims H row)"

lemma issued_row_mono: "issued_row claims H row \<Longrightarrow> H \<subseteq> H' \<Longrightarrow> issued_row claims H' row"
  by (auto simp: issued_row_def)

lemma sessions_ok_mono: "sessions_ok claims H t \<Longrightarrow> H \<subseteq> H' \<Longrightarrow> sessions_ok claims H' t"
  by (auto simp: sessions_ok_def intro: issued_row_mono)

lemma rewritten_keys:
  assumes "rows_rewritten sel step rs rs'" and "\<And>r r'. step r r' \<Longrightarrow> f r' = f r"
  shows "map f rs' = map f rs"
  using assms(1) unfolding rows_rewritten_def
  by (induction rule: list_all2_induct) (auto simp: assms(2) split: if_splits)

text \<open>A rewriting that spares a row, or keeps it live with its id, keeps owners live.\<close>

lemma rewritten_owner:
  assumes "rows_rewritten sel step rs rs'" and "u \<in> set rs" and "P u" and "\<And>r'. sel u \<Longrightarrow> step u r' \<Longrightarrow> P r'"
  shows "\<exists>u' \<in> set rs'. P u'"
  using assms unfolding rows_rewritten_def
  by (induction rule: list_all2_induct) (auto split: if_splits)

lemma owner_live_rewritten:
  assumes "rows_rewritten sel step (users t) us" and "owner_live t row"
    and "\<And>u u'. user_live u \<Longrightarrow> User_ID u = RT_UserID row \<Longrightarrow> sel u \<Longrightarrow> step u u' \<Longrightarrow> user_live u' \<and> User_ID u' = User_ID u"
  shows "owner_live (t\<lparr>users := us\<rparr>) row"
proof -
  obtain u where u: "u \<in> set (users t)" "user_live u \<and> User_ID u = RT_UserID row" using assms(2) by (auto simp: owner_live_def)
  have "\<exists>u' \<in> set us. user_live u' \<and> User_ID u' = RT_UserID row"
    by (rule rewritten_owner [OF assms(1) u(1)]) (use u assms(3) in auto)
  then show ?thesis by (simp add: owner_live_def)
qed

lemma rewritten_origin:
  assumes "rows_rewritten sel step rs rs'" and "x \<in> set rs'"
  shows "\<exists>y \<in> set rs. if sel y then step y x else x = y"
proof -
  obtain i where i: "i < length rs'" "rs' ! i = x" using assms(2) by (auto simp: in_set_conv_nth)
  note l = assms(1) [unfolded rows_rewritten_def]
  from i list_all2_lengthD [OF l] have "i < length rs" by simp
  with list_all2_nthD [OF l this] i(2) show ?thesis by (auto intro!: bexI [of _ "rs ! i"])
qed

lemma updated_password:
  "user_updated (zero_UserEntity\<lparr>User_Password := h\<rparr>) r r' \<Longrightarrow> User_ID r' = User_ID r \<and> User_Email r' = User_Email r
     \<and> User_DeletedAt r' = User_DeletedAt r"
  by (auto simp: user_updated_def user_overlay_def zero_UserEntity_def)

lemma soft_deleted_keys: "user_soft_deleted r r' \<Longrightarrow> User_ID r' = User_ID r \<and> User_Email r' = User_Email r"
  by (auto simp: user_soft_deleted_def)

lemma tables_ok_add_token:
  "tables_ok t \<Longrightarrow> (\<forall>x \<in> set (refresh_tokens t). \<not> token_clash row x) \<Longrightarrow> tables_ok (add_token row t)"
  by (fastforce simp: tables_ok_def token_clash_def)

lemma tables_ok_drop: "tables_ok t \<Longrightarrow> tables_ok (drop_tokens p t)"
  by (simp add: tables_ok_def distinct_map_filter)

lemma sessions_ok_drop: "sessions_ok claims H t \<Longrightarrow> sessions_ok claims H (drop_tokens p t)"
  by (auto simp: sessions_ok_def tables_ok_drop owner_live_def)

lemma sessions_ok_add_token:
  assumes "sessions_ok claims H t" and "\<forall>x \<in> set (refresh_tokens t). \<not> token_clash row x"
    and "owner_live t row" and "issued_row claims H row"
  shows "sessions_ok claims H (add_token row t)"
  using assms by (auto simp: sessions_ok_def tables_ok_add_token owner_live_def)

text \<open>A rotation opens the new session for the owner of the consumed one.\<close>

lemma rotation_owner:
  assumes "issued_row claims H stored" and "inj_on Hash H" and "\<And>tk c c'. claims tk c \<Longrightarrow> claims tk c' \<Longrightarrow> c' = c"
    and "claims tok cl" and "tok \<in> H" and "RT_TokenHash stored = Hash tok"
  shows "RT_UserID stored = TC_UserID cl"
proof -
  obtain tk c where tk: "tk \<in> H" "claims tk c" "Hash tk = RT_TokenHash stored" "TC_UserID c = RT_UserID stored"
    using assms(1) by (auto simp: issued_row_def)
  then have "tk = tok" using assms(2,5,6) by (auto dest: inj_onD)
  with tk assms(3) [OF assms(4)] show ?thesis by auto
qed

lemma account_step_ok:
  assumes "account_step claims H t t'" and "sessions_ok claims H t" and "inj_on Hash H"
    and uniq: "\<And>tk c c'. claims tk c \<Longrightarrow> claims tk c' \<Longrightarrow> c' = c"
  shows "sessions_ok claims H t'"
  using assms(1)
proof cases
  case idle
  with assms(2) show ?thesis by simp
next
  case (create_account u)
  then have "tables_ok t'" using assms(2) by (fastforce simp: sessions_ok_def tables_ok_def user_clash_def)
  with create_account assms(2) show ?thesis by (auto simp: sessions_ok_def owner_live_def)
next
  case (open_session u tok ex row cl)
  then have "owner_live t row" "issued_row claims H row" by (auto simp: owner_live_def issued_row_def session_row_def)
  with open_session assms(2) show ?thesis by (simp add: sessions_ok_add_token)
next
  case (rotate tok cl stored tok' ex row cl')
  let ?t = "drop_tokens (\<lambda>x. RT_TokenHash x = Hash tok) t"
  have iss: "issued_row claims H stored" using assms(2) rotate(4) by (simp add: sessions_ok_def)
  have "RT_UserID stored = TC_UserID cl" by (rule rotation_owner [OF iss assms(3) _ rotate(2,3,5)]) (rule uniq)
  moreover have "owner_live t stored" using assms(2) rotate by (simp add: sessions_ok_def)
  ultimately have "owner_live ?t row" using rotate by (simp add: owner_live_def session_row_def)
  moreover have "issued_row claims H row" using rotate by (auto simp: issued_row_def session_row_def)
  ultimately show ?thesis using rotate assms(2) by (auto intro!: sessions_ok_add_token sessions_ok_drop)
next
  case (end_sessions p)
  with assms(2) show ?thesis by (simp add: sessions_ok_drop)
next
  case (set_password i h us)
  note keys = rewritten_keys [OF set_password(2)] updated_password
  have "map User_ID us = map User_ID (users t)" "map User_Email us = map User_Email (users t)" using keys by blast+
  moreover have "owner_live (t\<lparr>users := us\<rparr>) row" if "owner_live t row" for row
    by (rule owner_live_rewritten [OF set_password(2) that]) (use updated_password in \<open>auto simp: user_live_def\<close>)
  ultimately show ?thesis using assms(2) set_password by (auto simp: sessions_ok_def tables_ok_def)
next
  case (close_account i us)
  note keys = rewritten_keys [OF close_account(2)] soft_deleted_keys
  have "map User_ID us = map User_ID (users t)" "map User_Email us = map User_Email (users t)" using keys by blast+
  moreover have "owner_live t' row" if own: "owner_live t row" "RT_UserID row \<noteq> i" for row
    using owner_live_rewritten [OF close_account(2) own(1)] own(2) by (auto simp: owner_live_def close_account)
  ultimately show ?thesis using assms(2) close_account by (auto simp: sessions_ok_def tables_ok_def distinct_map_filter)
qed

subsection \<open>Runs of the service\<close>

text \<open>One call, made outside a transaction as the handlers and the janitor do; \<open>T\<close> are the refresh tokens
  that it is given or that it returns.\<close>

inductive service_call :: "'w golib \<Rightarrow> 'w userService \<Rightarrow> 'w \<Rightarrow> string set \<Rightarrow> 'w \<Rightarrow> bool" for L s where
  call_Register: "dbtx_From ctx = None \<Longrightarrow> Register L s ctx req w = (res, w') \<Longrightarrow>
    service_call L s w (case res of Inr resp \<Rightarrow> {RR_RefreshToken resp} | Inl _ \<Rightarrow> {}) w'"
| call_Login: "dbtx_From ctx = None \<Longrightarrow> Login L s ctx lreq w = (lres, w') \<Longrightarrow>
    service_call L s w (case lres of Inr resp \<Rightarrow> {LR_RefreshToken resp} | Inl _ \<Rightarrow> {}) w'"
| call_Refresh: "dbtx_From ctx = None \<Longrightarrow> Refresh L s ctx tok w = (fres, w') \<Longrightarrow>
    service_call L s w (case fres of Inr resp \<Rightarrow> {tok, RF_RefreshToken resp} | Inl _ \<Rightarrow> {tok}) w'"
| call_ChangePassword: "dbtx_From ctx = None \<Longrightarrow> ChangePassword L s ctx i preq w = (pres, w') \<Longrightarrow>
    service_call L s w (case pres of Inr resp \<Rightarrow> {CP_RefreshToken resp} | Inl _ \<Rightarrow> {}) w'"
| call_DeleteAccount: "dbtx_From ctx = None \<Longrightarrow> DeleteAccount L s ctx i w = (dres, w') \<Longrightarrow> service_call L s w {} w'"
| call_Revoke: "dbtx_From ctx = None \<Longrightarrow> RevokeRefreshTokens L s ctx i w = (vres, w') \<Longrightarrow> service_call L s w {} w'"
| call_Purge: "dbtx_From ctx = None \<Longrightarrow> PurgeExpiredRefreshTokens L s ctx w = (gres, w') \<Longrightarrow> service_call L s w {} w'"
| call_ListSessions: "dbtx_From ctx = None \<Longrightarrow> ListSessions L s ctx i cur pg w = (sres, w') \<Longrightarrow> service_call L s w {} w'"
| call_GetUser: "dbtx_From ctx = None \<Longrightarrow> GetUser_service L s ctx uid w = (ures, w') \<Longrightarrow> service_call L s w {} w'"

inductive service_run :: "'w golib \<Rightarrow> 'w userService \<Rightarrow> 'w \<Rightarrow> string set \<Rightarrow> 'w \<Rightarrow> bool" for L s w0 where
  start: "service_run L s w0 {} w0"
| call: "service_run L s w0 H w \<Longrightarrow> service_call L s w T w' \<Longrightarrow> service_run L s w0 (H \<union> T) w'"

lemma account_steps_ok:
  assumes "(account_step claims H)\<^sup>*\<^sup>* t t'" and "sessions_ok claims H t" and "inj_on Hash H"
    and "\<And>tk c c'. claims tk c \<Longrightarrow> claims tk c' \<Longrightarrow> c' = c"
  shows "sessions_ok claims H t'"
  using assms(1)
proof (induction rule: rtranclp_induct)
  case base
  show ?case by (rule assms(2))
next
  case (step ta tb)
  then show ?case using account_step_ok [OF step(2,3) assms(3)] assms(4) by blast
qed

lemma account_step_mono: "account_step claims H t t' \<Longrightarrow> H \<subseteq> H' \<Longrightarrow> account_step claims H' t t'"
  by (erule account_step.cases) (auto intro: account_step.intros)

lemma account_steps_mono: "(account_step claims H)\<^sup>*\<^sup>* t t' \<Longrightarrow> H \<subseteq> H' \<Longrightarrow> (account_step claims H')\<^sup>*\<^sup>* t t'"
  by (erule rtranclp_mono [THEN predicate2D, rotated]) (auto intro: account_step_mono)

lemmas one_step = r_into_rtranclp [of "account_step claims T" for claims T]

lemma open_after:
  assumes "(account_step claims T)\<^sup>*\<^sup>* t ta" and "u \<in> set (users ta)" "user_live u" "session_row (User_ID u) tok ex row"
    "claims tok cl" "TC_UserID cl = User_ID u" "tok \<in> T" "\<forall>x \<in> set (refresh_tokens ta). \<not> token_clash row x"
  shows "(account_step claims T)\<^sup>*\<^sup>* t (add_token row ta)"
proof -
  have "account_step claims T ta (add_token row ta)" using assms(2-8) by (rule account_step.open_session)
  with assms(1) show ?thesis by (rule rtranclp.rtrancl_into_rtrancl)
qed

context user_service
begin

lemma Register_machine:
  assumes "dbtx_From ctx = None" and "Register L s ctx req w = (res, w')"
  shows "(account_step refresh_claims (case res of Inr resp \<Rightarrow> {RR_RefreshToken resp} | Inl _ \<Rightarrow> {}))\<^sup>*\<^sup>* (view Pool w) (view Pool w')"
proof (cases res)
  case (Inl e)
  with Register_error assms show ?thesis by simp
next
  case (Inr resp)
  from Register_ok [OF assms(1) assms(2) [unfolded Inr]] obtain u row ex cl where
    u: "registered pw_matches req (GU_ID (RR_User resp)) u" and r: "session_row (User_ID u) (RR_RefreshToken resp) ex row"
    "refresh_claims (RR_RefreshToken resp) cl" "TC_UserID cl = User_ID u"
    and fresh: "\<forall>x \<in> set (users (view Pool w)). \<not> user_clash u x" "\<forall>x \<in> set (refresh_tokens (view Pool w)). \<not> token_clash row x"
    and w': "view Pool w' = add_token row (add_user u (view Pool w))" by blast
  have live: "user_live u" using u by (simp add: registered_def)
  show ?thesis unfolding w' Inr sum.case
    by (rule open_after [where claims = refresh_claims, OF one_step [OF account_step.create_account [OF live fresh(1)]] _ live r(1-3)])
      (use fresh in simp_all)
qed

lemma Login_machine:
  assumes "dbtx_From ctx = None" and "Login L s ctx req w = (res, w')"
  shows "(account_step refresh_claims (case res of Inr resp \<Rightarrow> {LR_RefreshToken resp} | Inl _ \<Rightarrow> {}))\<^sup>*\<^sup>* (view Pool w) (view Pool w')"
proof (cases res)
  case (Inl e)
  with Login_error assms show ?thesis by (auto simp: same_views_def)
next
  case (Inr resp)
  from Login_ok [OF assms(2) [unfolded Inr]] assms(1) obtain u row ex cl where
    "u \<in> set (users (view Pool w))" "user_live u" "session_row (User_ID u) (LR_RefreshToken resp) ex row"
    "refresh_claims (LR_RefreshToken resp) cl" "TC_UserID cl = User_ID u"
    "\<forall>x \<in> set (refresh_tokens (view Pool w)). \<not> token_clash row x" "view Pool w' = add_token row (view Pool w)"
    by (auto simp: view_changed_def)
  then show ?thesis unfolding Inr sum.case by (auto intro!: one_step account_step.open_session)
qed

lemma Refresh_machine:
  assumes "dbtx_From ctx = None" and "Refresh L s ctx tok w = (res, w')"
  shows "(account_step refresh_claims (case res of Inr resp \<Rightarrow> {tok, RF_RefreshToken resp} | Inl _ \<Rightarrow> {tok}))\<^sup>*\<^sup>* (view Pool w) (view Pool w')"
proof (cases res)
  case (Inl e)
  then consider "view Pool w' = view Pool w" | p where "view Pool w' = drop_tokens p (view Pool w)"
    using Refresh_error [OF assms(1)] assms(2) by blast
  then show ?thesis by cases (auto intro!: one_step account_step.end_sessions)
next
  case (Inr resp)
  from Refresh_ok [OF assms(1) assms(2) [unfolded Inr]] show ?thesis unfolding Inr sum.case
    by (auto intro!: one_step account_step.rotate)
qed

lemma ChangePassword_machine:
  assumes "dbtx_From ctx = None" and "ChangePassword L s ctx i req w = (res, w')"
  shows "(account_step refresh_claims (case res of Inr resp \<Rightarrow> {CP_RefreshToken resp} | Inl _ \<Rightarrow> {}))\<^sup>*\<^sup>* (view Pool w) (view Pool w')"
proof (cases res)
  case (Inl e)
  with ChangePassword_error assms show ?thesis by simp
next
  case (Inr resp)
  from ChangePassword_ok [OF assms(1) assms(2) [unfolded Inr]] obtain u h us row ex cl where
    u: "u \<in> set (users (view Pool w))" "user_live u \<and> User_ID u = i" and rw: "rows_rewritten (\<lambda>x. user_live x \<and> User_ID x = i)
        (user_updated (zero_UserEntity\<lparr>User_Password := h\<rparr>)) (users (view Pool w)) us"
    and r: "session_row i (CP_RefreshToken resp) ex row" "refresh_claims (CP_RefreshToken resp) cl" "TC_UserID cl = i"
    and fresh: "\<forall>x \<in> set (refresh_tokens (view Pool w)). RT_UserID x \<noteq> i \<longrightarrow> \<not> token_clash row x"
    and w': "view Pool w' = add_token row (drop_tokens (\<lambda>x. RT_UserID x = i) ((view Pool w)\<lparr>users := us\<rparr>))" by blast
  let ?T = "{CP_RefreshToken resp}" and ?t = "(view Pool w)\<lparr>users := us\<rparr>"
  have "\<exists>u' \<in> set us. user_live u' \<and> User_ID u' = i"
    by (rule rewritten_owner [OF rw u(1)]) (use u updated_password in \<open>auto simp: user_live_def\<close>)
  then obtain u' where u': "u' \<in> set us" "user_live u'" "User_ID u' = i" by blast
  have "(account_step refresh_claims ?T)\<^sup>*\<^sup>* (view Pool w) (drop_tokens (\<lambda>x. RT_UserID x = i) ?t)"
    using one_step [OF account_step.set_password [OF rw]] account_step.end_sessions by (rule rtranclp.rtrancl_into_rtrancl)
  then show ?thesis unfolding w' Inr sum.case by (rule open_after) (use u' r fresh in auto)
qed

lemma DeleteAccount_machine:
  assumes "dbtx_From ctx = None" and "DeleteAccount L s ctx i w = (res, w')"
  shows "(account_step refresh_claims T)\<^sup>*\<^sup>* (view Pool w) (view Pool w')"
proof (cases res)
  case (Inl e)
  with DeleteAccount_error assms show ?thesis by simp
next
  case (Inr u)
  then have "DeleteAccount L s ctx i w = (Inr (), w')" using assms(2) by simp
  from DeleteAccount_ok [OF assms(1) this] show ?thesis by (auto intro!: one_step account_step.close_account)
qed

lemma call_machine:
  assumes "service_call L s w T w'"
  shows "(account_step refresh_claims T)\<^sup>*\<^sup>* (view Pool w) (view Pool w')"
  using assms
proof cases
  case (call_Revoke ctx i vres)
  then consider "view Pool w' = view Pool w" | p where "view Pool w' = drop_tokens p (view Pool w)"
    using Revoke_ok [of ctx i w w'] Revoke_error [of ctx i w _ w'] by (cases vres) (auto simp: same_views_def view_changed_def)
  then show ?thesis by cases (auto intro!: one_step account_step.end_sessions)
next
  case (call_Purge ctx gres)
  then consider "view Pool w' = view Pool w" | p where "view Pool w' = drop_tokens p (view Pool w)"
    using Purge_ok [of ctx w _ w'] Purge_error [of ctx w _ w'] by (cases gres) (fastforce simp: same_views_def view_changed_def)+
  then show ?thesis by cases (auto intro!: one_step account_step.end_sessions)
next
  case (call_ListSessions ctx i cur pg sres)
  with ListSessions_frame show ?thesis by (auto simp: same_views_def)
next
  case (call_GetUser ctx uid ures)
  with GetUser_frame show ?thesis by (auto simp: same_views_def)
qed (simp_all add: Register_machine Login_machine Refresh_machine ChangePassword_machine DeleteAccount_machine)

end

subsection \<open>Properties\<close>



lemma service_run_ok:
  assumes "backend L G view up pw_matches bcrypt_work J verified clock"
    and "service_run L (wired_user_service L G J cfg) w0 H w"
    and "users (view Pool w0) = []" and "refresh_tokens (view Pool w0) = []" and "inj_on Hash H"
  shows "sessions_ok (refresh_of verified cfg) H (view Pool w)"
  using assms(2,5)
proof (induction rule: service_run.induct)
  case start
  then show ?case using assms(3,4) by (simp add: sessions_ok_def tables_ok_def)
next
  case (call H w T w')
  have inj: "inj_on Hash H" using call.prems by (simp add: inj_on_Un)
  have steps: "(account_step (refresh_of verified cfg) (H \<union> T))\<^sup>*\<^sup>* (view Pool w) (view Pool w')"
    using user_service.call_machine [OF backend.wired_service [OF assms(1)] call.hyps(2)]
    by (rule account_steps_mono) simp
  have uniq: "refresh_of verified cfg tk c \<Longrightarrow> refresh_of verified cfg tk c' \<Longrightarrow> c' = c" for tk c c'
    using jwt_runtime.verified_unique [OF backend.axioms(2) [OF assms(1)]] by blast
  show ?case
    by (rule account_steps_ok [OF steps sessions_ok_mono [OF call.IH [OF inj] Un_upper1] call.prems]) (erule (1) uniq)
qed

text \<open>In every world that a run of the service reaches from an empty database, user ids, addresses, session ids
  and token digests are unique, and every session belongs to an account that exists and is not deleted, provided
  SHA-256 does not collide on the refresh tokens that occurred in the run.\<close>

lemma sessions_belong_to_live_accounts:
  assumes "backend L G view up pw_matches bcrypt_work J verified clock"
    and "service_run L (wired_user_service L G J cfg) w0 H w"
    and "users (view Pool w0) = []" and "refresh_tokens (view Pool w0) = []" and "inj_on Hash H"
  shows "distinct (map User_ID (users (view Pool w))) \<and> distinct (map User_Email (users (view Pool w)))
    \<and> distinct (map RT_ID (refresh_tokens (view Pool w))) \<and> distinct (map RT_TokenHash (refresh_tokens (view Pool w)))
    \<and> (\<forall>row \<in> set (refresh_tokens (view Pool w)). \<exists>u \<in> set (users (view Pool w)). user_live u \<and> User_ID u = RT_UserID row)"
  using service_run_ok [OF assms] by (simp add: sessions_ok_def tables_ok_def owner_live_def)

text \<open>C13. Deleting an account works: afterwards no session of that account is left, and with the infrastructure up
  a login with its address is refused exactly like an unknown address, with any password.\<close>

theorem deleted_account_is_locked_out:
  assumes "backend L G view up pw_matches bcrypt_work J verified clock" and "dbtx_From ctx = None"
    and "tables_ok (view Pool w)" and "u \<in> set (users (view Pool w))"
    and "DeleteAccount L (wired_user_service L G J cfg) ctx (User_ID u) w = (Inr (), w1)"
    and "up w1" and "Login_Email req = User_Email u"
    and "Login L (wired_user_service L G J cfg) ctx req w1 = (res, w2)"
  shows "(\<forall>row \<in> set (refresh_tokens (view Pool w1)). RT_UserID row \<noteq> User_ID u)
    \<and> res = Inl ErrInvalidCredentials \<and> view Pool w2 = view Pool w1"
proof -
  obtain v us where v: "v \<in> set (users (view Pool w))" "user_live v" "User_ID v = User_ID u"
    and rw: "rows_rewritten (\<lambda>x. user_live x \<and> User_ID x = User_ID u) user_soft_deleted (users (view Pool w)) us"
    and w1: "view Pool w1 = (drop_tokens (\<lambda>x. RT_UserID x = User_ID u) (view Pool w))\<lparr>users := us\<rparr>"
    using wired_DeleteAccount(2) [OF assms(1,2,5)] by blast
  have uniq: "distinct (map User_Email (users (view Pool w)))" "distinct (map User_ID (users (view Pool w)))"
    using assms(3) by (simp_all add: tables_ok_def)
  have gone: "\<not> user_live x" if x: "x \<in> set us" "User_Email x = User_Email u" for x
  proof -
    obtain y where y: "y \<in> set (users (view Pool w))"
      "if user_live y \<and> User_ID y = User_ID u then user_soft_deleted y x else x = y"
      using rewritten_origin [OF rw x(1)] by blast
    then have "User_Email y = User_Email u" using x(2) soft_deleted_keys by (auto split: if_splits)
    then have "y = u" using distinct_map_eq [OF uniq(1) y(1) assms(4)] by simp
    with y(2) show ?thesis by (auto simp: user_soft_deleted_def user_live_def split: if_splits)
  qed
  have "res = Inl ErrInvalidCredentials \<and> same_views view w1 w2"
    by (rule wired_Login(3) [OF assms(1,6) _ assms(8)]) (use assms(2,7) gone w1 in auto)
  with w1 show ?thesis by (auto simp: same_views_def)
qed

theorem deleted_account_is_locked_out_witness:
  "\<exists>w1 res w2. DeleteAccount mem_lib svc0 Background 1 mem2 = (Inr (), w1)
     \<and> Login mem_lib svc0 Background \<lparr>Login_Email = ''ann@example.com'', Login_Password = ''secret12''\<rparr> w1 = (res, w2)
     \<and> res = Inl ErrInvalidCredentials"
proof -
  let ?req = "\<lparr>Login_Email = ''ann@example.com'', Login_Password = ''secret12''\<rparr>"
  obtain w1 where d: "DeleteAccount mem_lib svc0 Background 1 mem2 = (Inr (), w1)" "mem_up w1" by (simp add: run)
  obtain res w2 where l: "Login mem_lib svc0 Background ?req w1 = (res, w2)" by (metis surj_pair)
  have "res = Inl ErrInvalidCredentials"
    by (rule deleted_account_is_locked_out [THEN conjunct2, THEN conjunct1, OF mem_backend dbtx_From_Background _ _ _ d(2) _ l, of mem2 ann_row])
      (use d(1) in \<open>simp_all add: tables_ok_def mem2_def mem0_def no_rows_def ann_row_def zero_UserEntity_def\<close>)
  with d l show ?thesis by blast
qed

end
