(* ===== verification/Container.thy ===== *)
theory Container
  imports Rate_Limits Session_Machine
begin

text \<open>
  Package \<open>internal/di\<close>: the container that wires configuration, tracing, database, repositories,
  services, handlers, router and admin listener together, its shutdown, and the sweep of expired
  refresh tokens.
\<close>

subsection \<open>Everything the program imports\<close>

record ('f, 'b, 'x, 'c, 'w) libs =
  lb_fmt :: "'f goformat"
  lb_env :: environ
  lb_range :: "(string \<times> string) list \<Rightarrow> (string \<times> string) list"
  lb_sort :: "'w Migration list \<Rightarrow> 'w Migration list"
  lb_go :: "'w golib"
  lb_jwt :: "'w jwtlib"
  lb_db :: "'w dblib"
  lb_otel :: "('f, 'x, 'w) otellib"
  lb_rate :: "('f, 'b, 'w) ratelib"
  lb_heap :: "('f, 'b, 'w) limheap"
  lb_gin :: "'c ginlib"
  lb_ext :: "('c, 'w) ginext"
  lb_traceID :: "Context \<Rightarrow> string"
  lb_Shutdown :: "unit AdminServer \<Rightarrow> Context \<Rightarrow> 'w \<Rightarrow> go_error option \<times> 'w"

subsection \<open>The container\<close>

definition devAccessSecret :: string where "devAccessSecret = ''dev-access-secret-DO-NOT-USE-IN-PRODUCTION''"
definition devRefreshSecret :: string where "devRefreshSecret = ''dev-refresh-secret-DO-NOT-USE-IN-PRODUCTION''"
definition devCSRFSecret :: string where "devCSRFSecret = ''dev-csrf-secret-DO-NOT-USE-IN-PRODUCTION''"
definition tracerShutdownTimeout :: duration where "tracerShutdownTimeout = 5 * Second"
definition adminShutdownTimeout :: duration where "adminShutdownTimeout = 2 * Second"

definition orDefault :: "string \<Rightarrow> string \<Rightarrow> string" where
  "orDefault value fallback = (if value = '''' then fallback else value)"

record 'w Services =
  Sv_Message :: "'w MessageService"
  Sv_Health :: "'w HealthService"
  Sv_Counter :: "'w CounterService"
  Sv_User :: "'w UserService"
  Sv_Token :: "'w TokenService"
  Sv_CSRF :: "'w CSRFService"

record 'w Handlers =
  Hd_Message :: "'w MessageHandler"
  Hd_Health :: "'w HealthHandler"
  Hd_Counter :: "'w CounterHandler"
  Hd_User :: "'w UserHandler"

text \<open>\<open>Ct_Router\<close> is the engine with its routes, as a handler of requests; metrics are served by a handler that
  is not looked into.\<close>

record ('f, 'c, 'w) Container =
  Ct_Config :: "'f Config"
  Ct_Router :: "('c, 'w) gin_handler"
  Ct_Services :: "'w Services"
  Ct_Cookies :: CookieConfig
  Ct_AdminServer :: "unit AdminServer option"
  Ct_db :: "'w gormDB"
  Ct_tracerShutdown :: "'w ShutdownFunc option"
  Ct_ownsDB :: bool

definition trace_config :: "'f Config \<Rightarrow> 'f TraceConfig" where
  "trace_config cfg = \<lparr>Trc_Enabled = Tracing_Enabled (Tracing cfg), Trc_ServiceName = ServiceName (Tracing cfg),
     Trc_ServiceVersion = ServiceVersion (Tracing cfg), Trc_Environment = Environment (Tracing cfg), Trc_Exporter = Exporter (Tracing cfg),
     Trc_Endpoint = Endpoint (Tracing cfg), Trc_Insecure = Insecure (Tracing cfg), Trc_SampleRatio = SampleRatio (Tracing cfg)\<rparr>"

definition token_config :: "'f Config \<Rightarrow> TokenConfig" where
  "token_config cfg = \<lparr>AccessTokenSecret = orDefault (JWTAccessSecret (Auth cfg)) devAccessSecret,
     AccessTokenExpiry = AccessTokenTTL_cfg (Auth cfg), RefreshTokenSecret = orDefault (JWTRefreshSecret (Auth cfg)) devRefreshSecret,
     RefreshTokenExpiry = RefreshTokenTTL_cfg (Auth cfg)\<rparr>"

definition csrf_service :: "'f Config \<Rightarrow> csrfService" where
  "csrf_service cfg = NewCSRFService (orDefault (CSRFSecret (Auth cfg)) devCSRFSecret) (CSRFTokenTTL (Auth cfg))"

text \<open>The repositories and services on an open database.\<close>

definition new_services :: "'w golib \<Rightarrow> 'w jwtlib \<Rightarrow> 'f Config \<Rightarrow> 'w gormDB \<Rightarrow> 'w Services" where
  "new_services L J cfg db =
     (let G = gdb_gorm db; tokenService = NewTokenService L J (token_config cfg)
      in \<lparr>Sv_Message = NewMessageService (GORMMessageRepository L G), Sv_Health = NewHealthService L,
          Sv_Counter = NewCounterService (GORMCounterRepository L G),
          Sv_User = user_methods L (NewUserService (GORMUserRepository L G) (GORMRefreshTokenRepository L G) tokenService
            (GORMTxManager G) (RefreshTokenTTL_cfg (Auth cfg))),
          Sv_Token = tokenService, Sv_CSRF = csrf_methods L (csrf_service cfg)\<rparr>)"

definition cookie_config :: "'f Config \<Rightarrow> CookieConfig" where
  "cookie_config cfg = \<lparr>AccessTTL = AccessTokenTTL_cfg (Auth cfg), RefreshTTL = RefreshTokenTTL_cfg (Auth cfg), Secure = \<not> DevMode (Auth cfg)\<rparr>"

definition new_handlers :: "'f Config \<Rightarrow> 'w gormDB \<Rightarrow> 'w Services \<Rightarrow> 'w Handlers" where
  "new_handlers cfg db services = \<lparr>Hd_Message = NewMessageHandler (Sv_Message services),
     Hd_Health = NewHealthHandler (Sv_Health services) [(''database'', PingCheck (Some db))],
     Hd_Counter = NewCounterHandler (Sv_Counter services),
     Hd_User = NewUserHandler (Sv_User services) (Sv_CSRF services) (cookie_config cfg)\<rparr>"

text \<open>The assembly after the database is ready: services, handlers, router, routes, admin listener.\<close>

definition assemble :: "('f, 'b, 'x, 'c, 'w) libs \<Rightarrow> 'f Config \<Rightarrow> 'w ShutdownFunc \<Rightarrow> 'w gormDB \<Rightarrow> bool \<Rightarrow> 'w \<Rightarrow> ('f, 'c, 'w) Container \<times> 'w" where
  "assemble B cfg tracerShutdown db ownsDB w =
     (let L = lb_go B; N = lb_gin B; X = lb_ext B;
          services = new_services L (lb_jwt B) cfg db;
          handlers = new_handlers cfg db services;
          metrics = MetricsEnabled (Observability cfg);
          (router, w1) = newRouter L (lb_rate B) (lb_heap B) N X (lb_traceID B) cfg metrics w;
          (authLimiter, w2) = authRateLimiter L (lb_rate B) (lb_heap B) N cfg w1;
          a = \<lparr>api_user = Hd_User handlers, api_counter = Hd_Counter handlers, api_message = Hd_Message handlers,
               api_tokens = Sv_Token services, api_csrf = Sv_CSRF services,
               api_authLimiter = authLimiter\<rparr>;
          routes = SetupRoutes L N a @ SetupHealthRoutes N (Hd_Health handlers);
          adminServer = NewAdminServer (admin_config cfg) (if metrics then Some () else None)
      in (\<lparr>Ct_Config = cfg, Ct_Router = en_Use router (dispatch N X routes), Ct_Services = services, Ct_Cookies = cookie_config cfg,
           Ct_AdminServer = adminServer, Ct_db = db, Ct_tracerShutdown = Some tracerShutdown, Ct_ownsDB = ownsDB\<rparr>, w2))"

text \<open>\<open>injected\<close> is the handle in \<open>cfg.Database.Gorm\<close>.\<close>

definition open_database :: "('f, 'b, 'x, 'c, 'w) libs \<Rightarrow> 'f Config \<Rightarrow> 'w gormDB option \<Rightarrow> ('w, go_error, 'w gormDB \<times> bool) effect" where
  "open_database B cfg injected w =
     (case injected of
        Some db \<Rightarrow> (Inr (db, False), w)
      | None \<Rightarrow>
          (case InitializeDatabase (lb_fmt B) (lb_db B) cfg w of
             (Inl err, w1) \<Rightarrow> (Inl (Errorf ''initializing database'' err), w1)
           | (Inr db, w1) \<Rightarrow> (Inr (db, True), w1)))"

definition NewContainer :: "('f, 'b, 'x, 'c, 'w) libs \<Rightarrow> 'f Config \<Rightarrow> 'w gormDB option \<Rightarrow> ('w, go_error, ('f, 'c, 'w) Container) effect" where
  "NewContainer B cfg injected w =
     (case Validate (lb_fmt B) (lb_env B) (lb_range B) cfg of
        Some err \<Rightarrow> (Inl err, w)
      | None \<Rightarrow>
          (case tracing_Init (lb_fmt B) (lb_otel B) Background (trace_config cfg) w of
             (Inl err, w1) \<Rightarrow> (Inl (Errorf ''initializing tracing'' err), w1)
           | (Inr tracerShutdown, w1) \<Rightarrow>
               (case open_database B cfg injected w1 of
                  (Inl err, w2) \<Rightarrow> (Inl err, w2)
                | (Inr (db, ownsDB), w2) \<Rightarrow>
                    (case (if AutoMigrate (Database cfg)
                           then Migrate (lb_fmt B) (lb_go B) (gdb_gorm db) (gdb_migrator db) (lb_sort B) w2
                           else (Inr (), w2)) of
                       (Inl err, w3) \<Rightarrow> (Inl (Errorf ''migrating database'' err), w3)
                     | (Inr _, w3) \<Rightarrow>
                         (let (ct, w4) = assemble B cfg tracerShutdown db ownsDB w3 in (Inr ct, w4))))))"

subsection \<open>Shutdown\<close>

text \<open>The errors of the three steps; \<open>errors.Join\<close> of none is nil. The deferred \<open>cancel\<close> of the tracer's context
  runs last.\<close>

definition close_admin :: "('f, 'b, 'x, 'c, 'w) libs \<Rightarrow> ('f, 'c, 'w) Container \<Rightarrow> 'w \<Rightarrow> go_error list \<times> ('f, 'c, 'w) Container \<times> 'w" where
  "close_admin B c w =
     (case Ct_AdminServer c of
        None \<Rightarrow> ([], c, w)
      | Some srv \<Rightarrow>
          (let (ctx, w1) = ctx_WithTimeout (lb_db B) Background adminShutdownTimeout w;
               (err, w2) = lb_Shutdown B srv ctx w1;
               errs = (case err of Some e \<Rightarrow> [Errorf ''shutting down the admin listener'' e] | None \<Rightarrow> [])
           in (errs, c\<lparr>Ct_AdminServer := None\<rparr>, ctx_cancel (lb_db B) ctx w2)))"

definition close_db :: "('f, 'c, 'w) Container \<Rightarrow> 'w \<Rightarrow> go_error list \<times> ('f, 'c, 'w) Container \<times> 'w" where
  "close_db c w =
     (if Ct_ownsDB c then
        (case CloseDatabase (Some (Ct_db c)) w of
           (err, w1) \<Rightarrow> (case err of Some e \<Rightarrow> [Errorf ''closing database'' e] | None \<Rightarrow> [], c\<lparr>Ct_ownsDB := False\<rparr>, w1))
      else ([], c, w))"

definition Close :: "('f, 'b, 'x, 'c, 'w) libs \<Rightarrow> ('f, 'c, 'w) Container \<Rightarrow> 'w \<Rightarrow> go_error list \<times> ('f, 'c, 'w) Container \<times> 'w" where
  "Close B c w =
     (let (errs1, c1, w1) = close_admin B c w in
      case Ct_tracerShutdown c1 of
        None \<Rightarrow> (let (errs3, c3, w3) = close_db c1 w1 in (errs1 @ errs3, c3, w3))
      | Some shutdown \<Rightarrow>
          (let (ctx, w2) = ctx_WithTimeout (lb_db B) Background tracerShutdownTimeout w1;
               (err, w3) = shutdown ctx w2;
               errs2 = (case err of Some e \<Rightarrow> [Errorf ''shutting down tracing'' e] | None \<Rightarrow> []);
               (errs3, c3, w4) = close_db (c1\<lparr>Ct_tracerShutdown := None\<rparr>) w3
           in (errs1 @ errs2 @ errs3, c3, ctx_cancel (lb_db B) ctx w4)))"

subsection \<open>The sweep\<close>

definition purgeExpiredRefreshTokens :: "('f, 'c, 'w) Container \<Rightarrow> Context \<Rightarrow> 'w \<Rightarrow> 'w" where
  "purgeExpiredRefreshTokens c ctx w = snd (US_PurgeExpiredRefreshTokens (Sv_User (Ct_Services c)) ctx w)"

text \<open>The goroutine of \<open>StartJanitor\<close> when the ticker fires \<open>ticks\<close> times before the context is done.\<close>

fun janitor :: "('f, 'c, 'w) Container \<Rightarrow> Context \<Rightarrow> nat \<Rightarrow> 'w \<Rightarrow> 'w" where
  "janitor c ctx 0 w = purgeExpiredRefreshTokens c ctx w"
| "janitor c ctx (Suc ticks) w = janitor c ctx ticks (purgeExpiredRefreshTokens c ctx w)"

definition StartJanitor :: "('f, 'c, 'w) Container \<Rightarrow> Context \<Rightarrow> nat \<Rightarrow> 'w \<Rightarrow> 'w" where
  "StartJanitor c ctx ticks w =
     (if RefreshTokenPurgeInterval (Auth (Ct_Config c)) \<le> 0 then w else janitor c ctx ticks w)"


subsection \<open>What a container is made of\<close>

lemma NewContainer_ok:
  assumes "NewContainer B cfg injected w = (Inr ct, w')"
  obtains shutdown db owns w3 where "Validate (lb_fmt B) (lb_env B) (lb_range B) cfg = None"
    and "assemble B cfg shutdown db owns w3 = (ct, w')"
  using assms by (auto simp: NewContainer_def split: option.splits prod.splits sum.splits if_splits)

lemma assemble_ok:
  assumes "assemble B cfg shutdown db owns w = (ct, w')"
  obtains router w1 authLimiter rest where
    "newRouter (lb_go B) (lb_rate B) (lb_heap B) (lb_gin B) (lb_ext B) (lb_traceID B) cfg (MetricsEnabled (Observability cfg)) w = (router, w1)"
    and "Ct_Router ct = en_Use router (dispatch (lb_gin B) (lb_ext B) (SetupRoutes (lb_go B) (lb_gin B)
      \<lparr>api_user = NewUserHandler (Sv_User (new_services (lb_go B) (lb_jwt B) cfg db)) (Sv_CSRF (new_services (lb_go B) (lb_jwt B) cfg db)) (cookie_config cfg),
       api_counter = NewCounterHandler (Sv_Counter (new_services (lb_go B) (lb_jwt B) cfg db)),
       api_message = NewMessageHandler (Sv_Message (new_services (lb_go B) (lb_jwt B) cfg db)),
       api_tokens = NewTokenService (lb_go B) (lb_jwt B) (token_config cfg), api_csrf = csrf_methods (lb_go B) (csrf_service cfg),
       api_authLimiter = authLimiter\<rparr> @ rest))"
    and "Ct_Services ct = new_services (lb_go B) (lb_jwt B) cfg db" and "Ct_Cookies ct = cookie_config cfg"
    and "Ct_Config ct = cfg" and "Ct_db ct = db" and "Ct_ownsDB ct = owns"
  using assms by (auto simp: assemble_def Let_def new_services_def new_handlers_def split: prod.splits)

text \<open>Outside development mode every secret is the configured one.\<close>

lemma production_secrets:
  assumes "\<forall>xs. mset (it xs) = mset xs" and "Validate F env it cfg = None" and "\<not> DevMode (Auth cfg)"
  shows "production_auth (Auth cfg)" and "AccessTokenSecret (token_config cfg) = JWTAccessSecret (Auth cfg)"
    and "RefreshTokenSecret (token_config cfg) = JWTRefreshSecret (Auth cfg)"
    and "csrf_service cfg = NewCSRFService (CSRFSecret (Auth cfg)) (CSRFTokenTTL (Auth cfg))"
proof -
  show p: "production_auth (Auth cfg)"
    using Validate_iff [OF assms(1), of F env cfg] assms(2,3) by (simp add: sound_config_def)
  show "AccessTokenSecret (token_config cfg) = JWTAccessSecret (Auth cfg)"
    "RefreshTokenSecret (token_config cfg) = JWTRefreshSecret (Auth cfg)"
    "csrf_service cfg = NewCSRFService (CSRFSecret (Auth cfg)) (CSRFTokenTTL (Auth cfg))"
    using p by (auto simp: production_auth_def token_config_def csrf_service_def orDefault_def)
qed



subsection \<open>An instance\<close>

text \<open>The in-memory world behind an injected database handle, with tracing off and migrations run elsewhere.\<close>

definition mem_sql :: "mem sqlDB" where
  "mem_sql = \<lparr>sql_SetMaxOpenConns = (\<lambda>n w. w), sql_SetMaxIdleConns = (\<lambda>n w. w), sql_SetConnMaxLifetime = (\<lambda>d w. w),
     sql_PingContext = (\<lambda>ctx w. (None, w)), sql_Close = (\<lambda>w. (None, w))\<rparr>"

definition mem_migrator :: "mem migrator" where
  "mem_migrator = \<lparr>mig_AutoMigrate = (\<lambda>c ms w. (Inr (), w)),
     mig_FindLedger = (\<lambda>c w. (Inr [], w)), mig_CreateLedger = (\<lambda>c r w. (Inr (), w)), mig_ColumnTypes = (\<lambda>c w. (Inr [], w)),
     mig_Exec = (\<lambda>c s w. (Inr (), w))\<rparr>"

definition mem_gormDB :: "mem gormDB" where
  "mem_gormDB = \<lparr>gdb_gorm = mem_db, gdb_migrator = mem_migrator, gdb_DB = (\<lambda>w. (Inr mem_sql, w)), gdb_UseTracing = (\<lambda>w. (None, w))\<rparr>"

definition mem_libs :: "string \<Rightarrow> environ \<Rightarrow> (int, nat, unit, gin_rec, mem) libs" where
  "mem_libs path env = \<lparr>lb_fmt = tenths, lb_env = env, lb_range = rev, lb_sort = id, lb_go = mem_lib, lb_jwt = mem_jwt,
     lb_db = \<lparr>gorm_Open = (\<lambda>dl gc w. (Inr mem_gormDB, w)), ctx_WithTimeout = (\<lambda>ctx d w. (ctx, w)), ctx_cancel = (\<lambda>ctx w. w),
       time_Sleep = (\<lambda>d w. w)\<rparr>,
     lb_otel = \<lparr>otel_SetTextMapPropagator = id, stdouttrace_New = (\<lambda>w. (Inr (), w)), otlptracehttp_New = (\<lambda>ctx os w. (Inr (), w)),
       resource_Default = [], resource_Merge = (\<lambda>a b. Some (a @ b)), otel_Install = (\<lambda>x r f w. (\<lambda>ctx w. (None, w), w))\<rparr>,
     lb_rate = mem_rate, lb_heap = mem_heap, lb_gin = rec_gin, lb_ext = rec_ext path, lb_traceID = (\<lambda>ctx. ''''),
     lb_Shutdown = (\<lambda>srv ctx w. (None, w))\<rparr>"

definition served_env :: environ where
  "served_env = prod_env(''DATABASE_AUTO_MIGRATE'' := ''false'')"

abbreviation served_config :: "int Config" where
  "served_config \<equiv> NewConfig tenths served_env"

lemma served_settings:
  "Validate tenths served_env rev served_config = None" "\<not> AutoMigrate (Database served_config)"
  "\<not> Tracing_Enabled (Tracing served_config)" "\<not> DevMode (Auth served_config)"
  "JWTAccessSecret (Auth served_config) = replicate 32 CHR ''a''"
  by code_simp+

lemma served_container: "\<exists>ct w'. NewContainer (mem_libs path served_env) served_config (Some mem_gormDB) w = (Inr ct, w')"
  using served_settings
  by (simp add: NewContainer_def mem_libs_def tracing_Init_def trace_config_def open_database_def split: prod.splits)


subsection \<open>Requests without a token\<close>

definition protected_endpoints :: "(string \<times> string) list" where
  "protected_endpoints = [(''GET'', ''/api/v1/auth/me''), (''GET'', ''/api/v1/auth/sessions''), (''POST'', ''/api/v1/auth/logout''),
     (''PATCH'', ''/api/v1/auth/password''), (''DELETE'', ''/api/v1/auth/me''), (''GET'', ''/api/v1/counter''), (''POST'', ''/api/v1/counter'')]"

lemma find_in_middle: "\<forall>x \<in> set xs. \<not> P x \<Longrightarrow> \<exists>y \<in> set ys. P y \<Longrightarrow> \<exists>y \<in> set ys. find P (xs @ ys @ zs) = Some y"
proof (induction xs)
  case Nil
  then show ?case by (induction ys) auto
qed simp

lemma dispatch_protected:
  assumes "(gin_Method N c, gx_Path X c) \<in> set protected_endpoints"
  shows "\<exists>next. dispatch N X (SetupRoutes L N a @ rest) c w =
    (case AuthMiddleware L N (api_tokens a) next c w of (c1, w1) \<Rightarrow> (False, c1, w1))"
proof -
  let ?P = "\<lambda>r. rt_method r = gin_Method N c \<and> rt_path r = gx_Path X c"
  have "\<forall>r \<in> set (public_routes N a). \<not> ?P r"
    using assms by (auto simp: protected_endpoints_def public_routes_def)
  moreover have "(gin_Method N c, gx_Path X c) \<in> (\<lambda>r. (rt_method r, rt_path r)) ` set (protected_routes L N a)"
    using assms by (simp add: protected_endpoints_def protected_routes_def Let_def)
  then have "\<exists>r \<in> set (protected_routes L N a). ?P r" by (auto simp: image_iff)
  ultimately obtain r where r: "r \<in> set (protected_routes L N a)" "find ?P (SetupRoutes L N a @ rest) = Some r"
    using find_in_middle [of "public_routes N a" ?P "protected_routes L N a" rest] by (auto simp: SetupRoutes_def)
  obtain next' where "rt_handler r = AuthMiddleware L N (api_tokens a) next'"
    using r(1) unfolding protected_routes_def Let_def by auto
  with r(2) have "dispatch N X (SetupRoutes L N a @ rest) c w =
    (case AuthMiddleware L N (api_tokens a) next' c w of (c1, w1) \<Rightarrow> (False, c1, w1))" by (simp add: dispatch_def returned_def)
  then show ?thesis by blast
qed

lemma auth_aborts:
  assumes "jwt_runtime L view up pw_matches bcrypt_work J verified clock"
    and "\<forall>t cl. gin_Cookie N c AccessTokenCookie = Inr t \<longrightarrow> \<not> access_of verified cfg t cl"
  shows "\<exists>msg w'. AuthMiddleware L N (NewTokenService L J cfg) next c w = (abortWithError N 401 msg c, w') \<and> same_views view w w'"
proof (cases "gin_Cookie N c AccessTokenCookie")
  case (Inl e)
  then show ?thesis by (auto simp: AuthMiddleware_def same_views_def)
next
  case (Inr t)
  obtain oc w1 where v: "ValidateAccessToken J cfg t w = (oc, w1)" by (metis surj_pair)
  have "\<exists>e. oc = Inl e"
    using assms(2) Inr jwt_runtime.Validate_sound(1) [OF assms(1), of cfg t w] v by (cases oc) blast+
  with v Inr jwt_runtime.Validate_meets(1) [OF assms(1) v] show ?thesis by (auto simp: AuthMiddleware_def NewTokenService_def)
qed





subsection \<open>Shutdown\<close>

lemma close_admin_fields:
  assumes "close_admin B c w = (es, c1, w1)"
  shows "Ct_AdminServer c1 = None" "Ct_tracerShutdown c1 = Ct_tracerShutdown c" "Ct_ownsDB c1 = Ct_ownsDB c" "Ct_db c1 = Ct_db c"
  using assms by (auto simp: close_admin_def Let_def split: option.splits prod.splits)

lemma close_db_fields:
  assumes "close_db c w = (es, c1, w1)"
  shows "Ct_AdminServer c1 = Ct_AdminServer c" "Ct_tracerShutdown c1 = Ct_tracerShutdown c" "\<not> Ct_ownsDB c1"
  using assms by (auto simp: close_db_def split: if_splits prod.splits)

lemma Close_fields:
  assumes "Close B c w = (es, c1, w1)"
  shows "Ct_AdminServer c1 = None \<and> Ct_tracerShutdown c1 = None \<and> \<not> Ct_ownsDB c1"
proof -
  obtain e1 ca wa where a: "close_admin B c w = (e1, ca, wa)" by (metis surj_pair)
  note fa = close_admin_fields [OF a]
  show ?thesis
  proof (cases "Ct_tracerShutdown ca")
    case None
    then obtain e3 c3 w3 where d: "close_db ca wa = (e3, c3, w3)" "c1 = c3"
      using assms a by (auto simp: Close_def split: prod.splits)
    with None fa close_db_fields [OF d(1)] show ?thesis by simp
  next
    case (Some sd)
    then obtain wb e3 c3 w3 where d: "close_db (ca\<lparr>Ct_tracerShutdown := None\<rparr>) wb = (e3, c3, w3)" "c1 = c3"
      using assms a by (auto simp: Close_def split: prod.splits)
    with fa close_db_fields [OF d(1)] show ?thesis by simp
  qed
qed

lemma Close_releases:
  assumes "sql_driver (lb_db B) pools clock ready handle sqlPool" and "handle (Ct_db ct)"
    and "\<And>srv ctx w. pools (snd (lb_Shutdown B srv ctx w)) = pools w"
    and "\<And>sd ctx w. Ct_tracerShutdown ct = Some sd \<Longrightarrow> pools (snd (sd ctx w)) = pools w"
    and "Close B ct w = (errs, ct1, w1)"
  shows "(\<forall>w. Close B ct1 w = ([], ct1, w)) \<and> pools w1 = (if Ct_ownsDB ct then pools w - 1 else pools w)"
proof -
  note sd = assms(1)
  have time: "pools (snd (ctx_WithTimeout (lb_db B) ctx d w)) = pools w" "pools (ctx_cancel (lb_db B) ctx w) = pools w" for ctx d w
    using sql_driver.Timeout_keeps [OF sd] sql_driver.cancel_keeps [OF sd] by (simp_all add: keeps_pool_def)
  obtain e1 ca wa where a: "close_admin B ct w = (e1, ca, wa)" by (metis surj_pair)
  note fa = close_admin_fields [OF a]
  have pa: "pools wa = pools w"
    using a assms(3) time by (auto simp: close_admin_def Let_def split: option.splits prod.splits) (metis snd_conv)+
  have db: "pools w' = (if Ct_ownsDB c then pools w - 1 else pools w)" if "close_db c w = (es, c', w')" "Ct_db c = Ct_db ct" for c w es c' w'
    using that sql_driver.Close_laws [OF sd assms(2), of w] by (auto simp: close_db_def split: prod.splits if_splits)
  have "pools w1 = (if Ct_ownsDB ct then pools w - 1 else pools w)"
  proof (cases "Ct_tracerShutdown ct")
    case None
    then obtain e3 c3 where "close_db ca wa = (e3, c3, w1)" using assms(5) a fa by (auto simp: Close_def split: prod.splits)
    from db [OF this] fa pa show ?thesis by simp
  next
    case (Some s)
    then obtain ctx wb err wc e3 c3 wd where t: "ctx_WithTimeout (lb_db B) Background tracerShutdownTimeout wa = (ctx, wb)"
      "s ctx wb = (err, wc)" "close_db (ca\<lparr>Ct_tracerShutdown := None\<rparr>) wc = (e3, c3, wd)" "w1 = ctx_cancel (lb_db B) ctx wd"
      using assms(5) a fa by (auto simp: Close_def split: prod.splits)
    have "pools wb = pools wa" "pools wc = pools wb" using time(1) t(1) assms(4) [OF Some] t(2) by (metis snd_conv)+
    with db [OF t(3)] fa pa t(4) time(2) show ?thesis by simp
  qed
  moreover have "Close B ct1 w' = ([], ct1, w')" for w'
    using Close_fields [OF assms(5)] by (simp add: Close_def close_admin_def close_db_def)
  ultimately show ?thesis by blast
qed




text \<open>When the migrations of a database that the container opened itself fail, its pool is not closed.\<close>

lemma failed_migration_leaks_pool:
  assumes "sql_driver (lb_db B) pools clock ready handle sqlPool"
    and "Validate (lb_fmt B) (lb_env B) (lb_range B) cfg = None" and "AutoMigrate (Database cfg)"
    and "tracing_Init (lb_fmt B) (lb_otel B) Background (trace_config cfg) w = (Inr sd, w1)"
    and "InitializeDatabase (lb_fmt B) (lb_db B) cfg w1 = (Inr db, w2)"
    and "Migrate (lb_fmt B) (lb_go B) (gdb_gorm db) (gdb_migrator db) (lb_sort B) w2 = (Inl err, w3)"
    and "migration_frame (lb_go B) (gdb_gorm db) (gdb_migrator db) pools"
  shows "NewContainer B cfg None w = (Inl (Errorf ''migrating database'' err), w3) \<and> pools w3 = Suc (pools w1)"
  using assms(2-6) sql_driver.InitializeDatabase_laws [OF assms(1,5)] migration_frame.Migrate_keeps [OF assms(7,6)]
  by (auto simp: NewContainer_def open_database_def)

subsection \<open>The sweep\<close>

text \<open>However often the janitor sweeps before shutdown, and whether or not single sweeps fail, only sessions are removed.\<close>

lemma janitor_only_ends_sessions:
  assumes "backend L G view up pw_matches bcrypt_work J verified clock" and "dbtx_From ctx = None"
    and "Sv_User (Ct_Services c) = user_methods L (wired_user_service L G J tc)"
  shows "(account_step claims {})\<^sup>*\<^sup>* (view Pool w) (view Pool (janitor c ctx n w))"
proof -
  have sweep: "(account_step claims {})\<^sup>*\<^sup>* (view Pool w) (view Pool (purgeExpiredRefreshTokens c ctx w))" for w
  proof -
    obtain r w' where r: "PurgeExpiredRefreshTokens L (wired_user_service L G J tc) ctx w = (r, w')" by (metis surj_pair)
    have "account_step claims {} (view Pool w) (view Pool w')"
    proof (cases r)
      case (Inl e)
      with wired_sessions(3) [OF assms(1), of tc ctx w] r show ?thesis by (auto simp: same_views_def intro: account_step.idle)
    next
      case (Inr k)
      with wired_sessions(2) [OF assms(1), of tc ctx w] r assms(2) show ?thesis
        by (auto simp: view_changed_def dbtx_Conn_def intro: account_step.end_sessions)
    qed
    with r show ?thesis by (simp add: purgeExpiredRefreshTokens_def assms(3) user_methods_def)
  qed
  show ?thesis
    by (induction n arbitrary: w) (simp_all add: sweep, rule rtranclp_trans, rule sweep)
qed


subsection \<open>The process\<close>

text \<open>
  \<open>cmd/server/main.go\<close>. What happens while the process serves, on whichever goroutine, is one step: it ends with the
  error of the listener, or with \<open>None\<close> when a signal arrives. \<open>Close\<close> is deferred, so it runs after the server's own
  shutdown on every path.
\<close>

record ('f, 'c, 'w) process =
  pr_Serve :: "('f, 'c, 'w) Container \<Rightarrow> string \<Rightarrow> 'w \<Rightarrow> go_error option \<times> 'w"
  pr_Shutdown :: "Context \<Rightarrow> 'w \<Rightarrow> go_error option \<times> 'w"

definition run_server :: "('f, 'b, 'x, 'c, 'w) libs \<Rightarrow> ('f, 'c, 'w) process \<Rightarrow> string \<Rightarrow> 'w \<Rightarrow> go_error option \<times> 'w" where
  "run_server B P version w =
     (let cfg0 = NewConfig (lb_fmt B) (lb_env B);
          cfg = (if lb_env B ''OTEL_SERVICE_VERSION'' = ''''
                 then cfg0\<lparr>Tracing := (Tracing cfg0)\<lparr>ServiceVersion := version\<rparr>\<rparr> else cfg0)
      in case NewContainer B cfg None w of
           (Inl err, w1) \<Rightarrow> (Some (Errorf ''initializing application'' err), w1)
         | (Inr container, w1) \<Rightarrow>
             (let addr = Host (Server cfg) @ '':'' @ strconv_Itoa (Port (Server cfg));
                  (serverErr, w2) = pr_Serve P container addr w1;
                  (result, w5) =
                    (case serverErr of
                       Some err \<Rightarrow> (Some (Errorf ''server error'' err), w2)
                     | None \<Rightarrow>
                         (let (ctx, w3) = ctx_WithTimeout (lb_db B) Background (ShutdownTimeout (Server cfg)) w2;
                              (err, w4) = pr_Shutdown P ctx w3
                          in (map_option (Errorf ''server shutdown'') err, ctx_cancel (lb_db B) ctx w4)))
              in (result, snd (snd (Close B container w5)))))"

text \<open>A process that got as far as serving releases the pool it opened, however it ends.\<close>

lemma run_server_releases:
  assumes "sql_driver (lb_db B) pools clock ready handle sqlPool"
    and "\<And>srv ctx w. pools (snd (lb_Shutdown B srv ctx w)) = pools w"
    and "\<And>sd ctx w. Ct_tracerShutdown ct = Some sd \<Longrightarrow> pools (snd (sd ctx w)) = pools w"
    and "\<And>ct addr w. pools (snd (pr_Serve P ct addr w)) = pools w" and "\<And>ctx w. pools (snd (pr_Shutdown P ctx w)) = pools w"
    and "cfg = (if lb_env B ''OTEL_SERVICE_VERSION'' = '''' then (NewConfig (lb_fmt B) (lb_env B))\<lparr>Tracing :=
        (Tracing (NewConfig (lb_fmt B) (lb_env B)))\<lparr>ServiceVersion := version\<rparr>\<rparr> else NewConfig (lb_fmt B) (lb_env B))"
    and "NewContainer B cfg None w = (Inr ct, w1)" and "handle (Ct_db ct)" and "Ct_ownsDB ct" and "run_server B P version w = (res, w')"
  shows "pools w' = pools w1 - 1"
proof -
  have time: "pools (snd (ctx_WithTimeout (lb_db B) ctx d w)) = pools w" "pools (ctx_cancel (lb_db B) ctx w) = pools w" for ctx d w
    using sql_driver.Timeout_keeps [OF assms(1)] sql_driver.cancel_keeps [OF assms(1)] by (simp_all add: keeps_pool_def)
  obtain w5 where w5: "pools w5 = pools w1" "w' = snd (snd (Close B ct w5))"
  proof -
    obtain se w2 where se: "pr_Serve P ct (Host (Server cfg) @ '':'' @ strconv_Itoa (Port (Server cfg))) w1 = (se, w2)" by (metis surj_pair)
    have p2: "pools w2 = pools w1" using assms(4) se by (metis snd_conv)
    obtain ctx w3 where t: "ctx_WithTimeout (lb_db B) Background (ShutdownTimeout (Server cfg)) w2 = (ctx, w3)" by (metis surj_pair)
    obtain er w4 where s: "pr_Shutdown P ctx w3 = (er, w4)" by (metis surj_pair)
    have "pools (ctx_cancel (lb_db B) ctx w4) = pools w1" using p2 time t assms(5) s by (metis snd_conv)
    moreover have "w' = snd (snd (Close B ct (if se = None then ctx_cancel (lb_db B) ctx w4 else w2)))"
      using assms(10) assms(7) se t s unfolding run_server_def Let_def assms(6) [symmetric] by (cases se) auto
    ultimately show ?thesis
      by (intro that [of "if se = None then ctx_cancel (lb_db B) ctx w4 else w2"]) (use p2 in auto)
  qed
  obtain es ct1 w6 where c: "Close B ct w5 = (es, ct1, w6)" by (metis surj_pair)
  have "pools w6 = (if Ct_ownsDB ct then pools w5 - 1 else pools w5)"
    by (rule Close_releases [OF assms(1,8) _ _ c, THEN conjunct2]) (rule assms(2), rule assms(3))
  with w5 c assms(9) show ?thesis by simp
qed

end
