(* ===== verification/Route_Effects.thy ===== *)
theory Route_Effects
  imports Http_Properties Session_Machine
begin

text \<open>
  What a route does as a whole, its middleware included: that it answers exactly once and when
  it sets cookies, which rows of the account tables it may touch, and that its effect on them is
  a sequence of steps of the account machine.
\<close>

subsection \<open>Exactly one answer\<close>

lemma HTTPStatus_error: "400 \<le> HTTPStatus err"
  by (auto simp: HTTPStatus_def statusForCode_def split: option.splits)

context gin_laws
begin

text \<open>One envelope, marked successful exactly when its status is; cookies only with success, out of reach of scripts and of
  other sites.\<close>

definition answers :: "CookieConfig \<Rightarrow> 'c \<Rightarrow> 'c \<Rightarrow> bool" where
  "answers ck c c' \<longleftrightarrow> (\<exists>st e ks. sent c' = sent c @ [(st, e)] \<and> (Success e \<longleftrightarrow> st < 400) \<and> cookies_of c' = cookies_of c @ ks
     \<and> (\<not> Success e \<longrightarrow> ks = []) \<and> (\<forall>k \<in> set ks. ck_httpOnly k \<and> ck_sameSiteLax k \<and> ck_path k = ''/'' \<and> ck_secure k = Secure ck))"

text \<open>A handler that answers every request.\<close>

definition prompt :: "CookieConfig \<Rightarrow> ('c, 'w) gin_handler \<Rightarrow> bool" where
  "prompt ck h \<longleftrightarrow> (\<forall>c w. answers ck c (fst (h c w)))"

lemma promptI: "(\<And>c w. answers ck c (fst (h c w))) \<Longrightarrow> prompt ck h"
  by (simp add: prompt_def)

lemma answers_error:
  "answers ck c (Fail N err c)" "400 \<le> st \<Longrightarrow> answers ck c (abortWithError N st msg c)"
  using HTTPStatus_error [of err] by (auto simp: answers_def Fail_effect abort_effect)

lemma answers_abort: "400 \<le> st \<Longrightarrow> \<not> Success e \<Longrightarrow> answers ck c (gin_AbortWithStatusJSON N st e c)"
  by (auto simp: answers_def frames)

lemma answers_after: "sent c1 = sent c \<Longrightarrow> cookies_of c1 = cookies_of c \<Longrightarrow> answers ck c1 c' \<Longrightarrow> answers ck c c'"
  by (simp add: answers_def)

lemma answers_ok:
  "st < 400 \<Longrightarrow> answers ck c (OK N st msg d c)" "st < 400 \<Longrightarrow> answers ck c (OKWithMeta N st msg d m c)"
  by (auto simp: answers_def OK_def OKWithMeta_def frames envelope_defs)

lemma answers_cookies:
  "st < 400 \<Longrightarrow> answers (uh_cookies h) c (OK N st msg d (setAuthCookies N h a r c))"
  "st < 400 \<Longrightarrow> answers (uh_cookies h) c (OK N st msg d (clearAuthCookies N h c))"
  by (auto simp: answers_def OK_def frames envelope_defs setAuthCookies_def clearAuthCookies_def Let_def auth_cookie_def)

lemma BindJSON_answers: "BindJSON N bound c = (r, c1) \<Longrightarrow> (\<exists>req. r = Some req \<and> c1 = c) \<or> (r = None \<and> answers ck c c1)"
  by (auto simp: BindJSON_def answers_error split: sum.splits option.splits)

lemma BindPagination_answers: "BindPagination N c = (r, c1) \<Longrightarrow> (\<exists>p. r = Some p \<and> c1 = c) \<or> (r = None \<and> answers ck c c1)"
  by (auto simp: BindPagination_def answers_error split: sum.splits option.splits)

lemmas prompt_splits = prod.splits sum.splits option.splits if_splits

lemma prompt_user_handlers:
  "prompt (uh_cookies h) (handle_Register N h)" "prompt (uh_cookies h) (handle_Login N h)" "prompt (uh_cookies h) (handle_Refresh N h)"
  "prompt (uh_cookies h) (handle_Logout L N h)" "prompt (uh_cookies h) (handle_GetMe L N h)"
  "prompt (uh_cookies h) (handle_ListSessions L N h)" "prompt (uh_cookies h) (handle_ChangePassword L N h)"
  "prompt (uh_cookies h) (handle_DeleteAccount L N h)" "prompt (uh_cookies h) (handle_GetCSRFToken N h)"
proof -
  note bind = BindJSON_answers [where ck = "uh_cookies h"] and page = BindPagination_answers [where ck = "uh_cookies h"]
  note ans = answers_error answers_ok answers_cookies
  show "prompt (uh_cookies h) (handle_Register N h)" "prompt (uh_cookies h) (handle_Login N h)"
    by (auto simp: prompt_def handle_Register_def handle_Login_def ans split: prompt_splits dest!: bind)
  show "prompt (uh_cookies h) (handle_Refresh N h)" "prompt (uh_cookies h) (handle_Logout L N h)"
    "prompt (uh_cookies h) (handle_GetMe L N h)" "prompt (uh_cookies h) (handle_DeleteAccount L N h)"
    "prompt (uh_cookies h) (handle_GetCSRFToken N h)"
    by (auto simp: prompt_def handle_Refresh_def handle_Logout_def handle_GetMe_def handle_DeleteAccount_def
        handle_GetCSRFToken_def ans split: prompt_splits)
  show "prompt (uh_cookies h) (handle_ListSessions L N h)"
    by (auto simp: prompt_def handle_ListSessions_def Let_def ans split: prompt_splits dest!: page)
  show "prompt (uh_cookies h) (handle_ChangePassword L N h)"
    by (auto simp: prompt_def handle_ChangePassword_def ans split: prompt_splits dest!: bind)
qed

lemma prompt_other_handlers:
  "prompt ck (handle_GetCounter N ch)" "prompt ck (handle_IncrementCounter N ch)" "prompt ck (handle_GetMessage N mh)"
  "prompt ck (handle_Check N hh)" "prompt ck (handle_Ready N hh)" "prompt ck (NoRoute N)"
  by (auto simp: prompt_def handle_GetCounter_def handle_IncrementCounter_def handle_GetMessage_def handle_Check_def
      handle_Ready_def NoRoute_def answers_error answers_ok answers_abort envelope_defs split: prompt_splits)

lemma prompt_middleware:
  assumes "prompt ck h"
  shows "prompt ck (AuthMiddleware L N ts h)" "prompt ck (CSRFMiddleware N cs h)" "prompt ck (RateLimit Pair N allow h)"
proof -
  have h: "answers ck c (fst (h c w))" for c w using assms by (simp add: prompt_def)
  have "answers ck c (fst (h (setAuthContext L N cl c) w))" for c w cl
    by (rule answers_after [OF _ _ h]) (simp_all add: setAuthContext_frames)
  then show "prompt ck (AuthMiddleware L N ts h)"
    by (auto simp: prompt_def AuthMiddleware_def answers_error split: prompt_splits)
  show "prompt ck (CSRFMiddleware N cs h)" "prompt ck (RateLimit Pair N allow h)"
    using h by (auto simp: prompt_def CSRFMiddleware_def RateLimit_def Let_def answers_error split: prompt_splits bool.splits)
qed

lemma prompt_routes:
  assumes "r \<in> set (SetupRoutes L N a @ SetupHealthRoutes N hh)"
    and "api_authLimiter a = RateLimit Pair N allow \<or> api_authLimiter a = (\<lambda>next. next)"
  shows "prompt (uh_cookies (api_user a)) (rt_handler r)"
proof -
  note handlers = prompt_user_handlers [of "api_user a"] prompt_other_handlers
  have limited: "prompt ck (api_authLimiter a h)" if "prompt ck h" for ck h
    using assms(2) prompt_middleware(3) [OF that] that by auto
  show ?thesis
    using assms(1) unfolding SetupRoutes_def public_routes_def protected_routes_def SetupHealthRoutes_def Let_def
    by (auto intro!: limited prompt_middleware(1,2) handlers)
qed

end

subsection \<open>The routes on the account tables\<close>

text \<open>What \<open>NewContainer\<close> gives to \<open>SetupRoutes\<close>.\<close>

definition wired_api :: "'w golib \<Rightarrow> 'w gorm \<Rightarrow> 'w jwtlib \<Rightarrow> TokenConfig \<Rightarrow> csrfService \<Rightarrow> CookieConfig \<Rightarrow> ('c, 'w) gin_middleware \<Rightarrow> ('c, 'w) api" where
  "wired_api L G J cfg s ck limiter =
     \<lparr>api_user = NewUserHandler (user_methods L (wired_user_service L G J cfg)) (csrf_methods L s) ck,
      api_counter = NewCounterHandler (NewCounterService (GORMCounterRepository L G)),
      api_message = NewMessageHandler (NewMessageService (GORMMessageRepository L G)),
      api_tokens = NewTokenService L J cfg, api_csrf = csrf_methods L s, api_authLimiter = limiter\<rparr>"

text \<open>The refresh tokens a request presents and its response hands out, as its cookies show them.\<close>

definition tokens_seen :: "'c ginlib \<Rightarrow> ('c \<Rightarrow> cookie list) \<Rightarrow> 'c \<Rightarrow> 'c \<Rightarrow> string set" where
  "tokens_seen N cookies_of c c' = {t. gin_Cookie N c RefreshTokenCookie = Inr t}
     \<union> ck_value ` set (filter (\<lambda>k. ck_name k = RefreshTokenCookie) (cookies_of c'))"

locale account_api =
  gin_laws N sent cookies_of headers_of aborted +
  backend L G view up pw_matches bcrypt_work J verified clock
  for N :: "'c ginlib" and sent and cookies_of and headers_of and aborted
    and L :: "'w golib" and G :: "'w gorm" and view and up and pw_matches and bcrypt_work and J and verified and clock
begin

definition accounts_kept :: "'w \<Rightarrow> 'w \<Rightarrow> bool" where
  "accounts_kept w w' \<longleftrightarrow> users (view Pool w') = users (view Pool w) \<and> refresh_tokens (view Pool w') = refresh_tokens (view Pool w)"

definition effect_on :: "TokenConfig \<Rightarrow> 'c \<Rightarrow> 'w \<Rightarrow> 'c \<Rightarrow> 'w \<Rightarrow> bool" where
  "effect_on cfg c w c' w' \<longleftrightarrow> accounts_kept w w'
     \<or> (\<exists>T \<subseteq> tokens_seen N cookies_of c c'. (account_step (refresh_of verified cfg) T)\<^sup>*\<^sup>* (view Pool w) (view Pool w'))"

definition accounted :: "TokenConfig \<Rightarrow> ('c, 'w) gin_handler \<Rightarrow> bool" where
  "accounted cfg h \<longleftrightarrow> (\<forall>c w c' w'. dbtx_From (gin_Context N c) = None \<longrightarrow> h c w = (c', w') \<longrightarrow> effect_on cfg c w c' w')"

lemma effect_none: "same_views view w w' \<Longrightarrow> effect_on cfg c w c' w'"
  by (simp add: effect_on_def accounts_kept_def same_views_def)

lemma effect_call:
  assumes "service_call L (wired_user_service L G J cfg) w T w'" and "T \<subseteq> tokens_seen N cookies_of c c'"
  shows "effect_on cfg c w c' w'"
  using us.call_machine [OF assms(1)] assms(2) by (auto simp: effect_on_def)

lemma effect_after:
  assumes "same_views view w w1" and "gin_Cookie N c1 = gin_Cookie N c" and "effect_on cfg c1 w1 c' w'"
  shows "effect_on cfg c w c' w'"
  using assms by (simp add: effect_on_def accounts_kept_def tokens_seen_def same_views_def)

lemma seen_cookies:
  "t \<in> tokens_seen N cookies_of c (OK N st msg d (setAuthCookies N h a t c1))"
  "gin_Cookie N c RefreshTokenCookie = Inr t \<Longrightarrow> t \<in> tokens_seen N cookies_of c c'"
  by (auto simp: tokens_seen_def OK_def setAuthCookies_def frames auth_cookie_def Let_def)

lemma BindJSON_same: "BindJSON N bound c = (Some req, c1) \<Longrightarrow> c1 = c"
  by (auto simp: BindJSON_def split: sum.splits option.splits)

lemma BindPagination_same: "BindPagination N c = (Some p, c1) \<Longrightarrow> c1 = c"
  by (auto simp: BindPagination_def split: sum.splits option.splits)

lemmas handler_splits = prod.splits sum.splits option.splits if_splits

text \<open>Each handler makes one call of the service, or none.\<close>

lemma accounted_credentials:
  assumes "uh_userService h = user_methods L (wired_user_service L G J cfg)"
  shows "accounted cfg (handle_Register N h)" "accounted cfg (handle_Login N h)" "accounted cfg (handle_Refresh N h)"
proof -
  let ?s = "wired_user_service L G J cfg"
  have refl: "effect_on cfg c w c' w" for c w c' by (rule effect_none) simp
  have call: "effect_on cfg c w c' w'" if "dbtx_From ctx = None" "Register L ?s ctx req w = (res, w')"
      "\<And>resp. res = Inr resp \<Longrightarrow> RR_RefreshToken resp \<in> tokens_seen N cookies_of c c'" for ctx req w res w' c c'
    by (rule effect_call [OF call_Register [OF that(1,2)]]) (use that(3) in \<open>auto split: sum.splits\<close>)
  show "accounted cfg (handle_Register N h)" unfolding accounted_def handle_Register_def assms
    by (auto simp: user_methods_def refl seen_cookies split: handler_splits dest!: BindJSON_same intro!: call)
  have call: "effect_on cfg c w c' w'" if "dbtx_From ctx = None" "Login L ?s ctx req w = (res, w')"
      "\<And>resp. res = Inr resp \<Longrightarrow> LR_RefreshToken resp \<in> tokens_seen N cookies_of c c'" for ctx req w res w' c c'
    by (rule effect_call [OF call_Login [OF that(1,2)]]) (use that(3) in \<open>auto split: sum.splits\<close>)
  show "accounted cfg (handle_Login N h)" unfolding accounted_def handle_Login_def assms
    by (auto simp: user_methods_def refl seen_cookies split: handler_splits dest!: BindJSON_same intro!: call)
  have call: "effect_on cfg c w c' w'" if "dbtx_From ctx = None" "Refresh L ?s ctx t w = (res, w')"
      "gin_Cookie N c RefreshTokenCookie = Inr t"
      "\<And>resp. res = Inr resp \<Longrightarrow> RF_RefreshToken resp \<in> tokens_seen N cookies_of c c'" for ctx t w res w' c c'
    by (rule effect_call [OF call_Refresh [OF that(1,2)]]) (use that(3,4) seen_cookies(2) in \<open>auto split: sum.splits\<close>)
  show "accounted cfg (handle_Refresh N h)" unfolding accounted_def handle_Refresh_def assms
    by (auto simp: user_methods_def refl seen_cookies split: handler_splits intro!: call)
qed

lemma accounted_session:
  assumes "uh_userService h = user_methods L (wired_user_service L G J cfg)"
  shows "accounted cfg (handle_Logout L N h)" "accounted cfg (handle_GetMe L N h)" "accounted cfg (handle_ListSessions L N h)"
    "accounted cfg (handle_ChangePassword L N h)" "accounted cfg (handle_DeleteAccount L N h)"
proof -
  let ?s = "wired_user_service L G J cfg"
  have refl: "effect_on cfg c w c' w" for c w c' by (rule effect_none) simp
  have call: "effect_on cfg c w c' w'" if "service_call L ?s w {} w'" for w w' c c' using effect_call [OF that] by simp
  have "effect_on cfg c w c' (snd (RevokeRefreshTokens L ?s (gin_Context N c) i w))" if "dbtx_From (gin_Context N c) = None" for c w c' i
    by (rule call) (use call_Revoke [OF that] in \<open>metis surj_pair snd_conv\<close>)
  then show "accounted cfg (handle_Logout L N h)" unfolding accounted_def handle_Logout_def assms
    by (auto simp: user_methods_def refl Let_def split: handler_splits)
  show "accounted cfg (handle_GetMe L N h)" unfolding accounted_def handle_GetMe_def assms
    by (auto simp: user_methods_def refl split: handler_splits intro!: call call_GetUser)
  show "accounted cfg (handle_ListSessions L N h)" unfolding accounted_def handle_ListSessions_def assms
    by (auto simp: user_methods_def refl Let_def split: handler_splits dest!: BindPagination_same intro!: call call_ListSessions)
  show "accounted cfg (handle_DeleteAccount L N h)" unfolding accounted_def handle_DeleteAccount_def assms
    by (auto simp: user_methods_def refl split: handler_splits intro!: call call_DeleteAccount)
  have pw: "effect_on cfg c w c' w'" if "dbtx_From ctx = None" "ChangePassword L ?s ctx i req w = (res, w')"
      "\<And>resp. res = Inr resp \<Longrightarrow> CP_RefreshToken resp \<in> tokens_seen N cookies_of c c'" for ctx i req w res w' c c'
    by (rule effect_call [OF call_ChangePassword [OF that(1,2)]]) (use that(3) in \<open>auto split: sum.splits\<close>)
  show "accounted cfg (handle_ChangePassword L N h)" unfolding accounted_def handle_ChangePassword_def assms
    by (auto simp: user_methods_def refl seen_cookies split: handler_splits dest!: BindJSON_same intro!: pw)
qed

text \<open>The other handlers leave accounts and sessions alone.\<close>

lemma counter_keeps:
  assumes "dbtx_From ctx = None" and "IncrementCounter_service (GORMCounterRepository L G) ctx w = (res, w')"
  shows "accounts_kept w w'"
proof -
  obtain r where r: "GORMCounter_IncrementCounter L G ctx w = (r, w')"
    using assms(2) by (auto simp: IncrementCounter_service_def GORMCounterRepository_def split: handler_splits)
  show ?thesis
    by (cases r) (use r Increment_error [OF assms(1)] Increment_ok [OF assms(1)] in \<open>fastforce simp: accounts_kept_def\<close>)+
qed

lemma reads_keep:
  "GetCounter_service (GORMCounterRepository L G) ctx w = (rc, w') \<Longrightarrow> same_views view w w'"
  "GetMessage_service (GORMMessageRepository L G) ctx w = (rm, w') \<Longrightarrow> same_views view w w'"
  by (auto simp: GetCounter_service_def GORMCounterRepository_def GORMCounter_GetCounter_def GetMessage_service_def
      GORMMessageRepository_def GORMMessage_GetMessage_def split: handler_splits
      dest!: counter_table.First_frame message_table.First_frame ctx_Err_frame intro: same_views_trans)

lemma checks_keep:
  assumes "\<forall>(n, check) \<in> set checks. \<forall>ctx w. same_views view w (snd (check ctx w))"
  shows "same_views view w (snd (run_checks ctx checks acc w))"
  using assms
proof (induction checks arbitrary: acc w)
  case (Cons nc cs)
  obtain name check where nc: "nc = (name, check)" by (cases nc)
  obtain e w1 where c: "check ctx w = (e, w1)" by (metis surj_pair)
  have w1: "same_views view w w1" using Cons.prems nc c by (metis (no_types, lifting) case_prodD list.set_intros(1) snd_conv)
  have "same_views view w1 (snd (run_checks ctx cs acc' w1))" for acc' using Cons.IH Cons.prems by simp
  then show ?case using nc c same_views_trans [OF w1] by (cases acc) (simp split: option.split)
qed simp

lemma ready_keeps:
  assumes "\<forall>(n, check) \<in> set checks. \<forall>ctx w. same_views view w (snd (check ctx w))"
  shows "same_views view w (snd (handle_Ready N (NewHealthHandler (NewHealthService L) checks) c w))"
proof -
  obtain oe w1 where w1: "ctx_Err L (gin_Context N c) w = (oe, w1)" by (metis surj_pair)
  have "same_views view w w1" using ctx_Err_frame [OF w1] by simp
  moreover have "same_views view w1 (snd (run_checks (gin_Context N c) checks ([], 0) w1))" by (rule checks_keep [OF assms])
  moreover have "snd (handle_Ready N (NewHealthHandler (NewHealthService L) checks) c w) \<in> {w1, snd (run_checks (gin_Context N c) checks ([], 0) w1)}"
    using w1 by (cases oe) (auto simp: handle_Ready_def basic_wiring CheckWithDependencies_def Let_def split: prod.split)
  ultimately show ?thesis by (auto intro: same_views_trans)
qed

lemma accounted_others:
  "accounted cfg (handle_GetCounter N (NewCounterHandler (NewCounterService (GORMCounterRepository L G))))"
  "accounted cfg (handle_IncrementCounter N (NewCounterHandler (NewCounterService (GORMCounterRepository L G))))"
  "accounted cfg (handle_GetMessage N (NewMessageHandler (NewMessageService (GORMMessageRepository L G))))"
  "accounted cfg (handle_GetCSRFToken N (NewUserHandler us (csrf_methods L s) ck))"
  "accounted cfg (handle_Check N (NewHealthHandler (NewHealthService L) checks))" "accounted cfg (NoRoute N)"
  "\<forall>(n, check) \<in> set checks. \<forall>ctx w. same_views view w (snd (check ctx w)) \<Longrightarrow> accounted cfg (handle_Ready N (NewHealthHandler (NewHealthService L) checks))"
proof -
  show "accounted cfg (handle_GetCounter N (NewCounterHandler (NewCounterService (GORMCounterRepository L G))))"
    "accounted cfg (handle_GetMessage N (NewMessageHandler (NewMessageService (GORMMessageRepository L G))))"
    by (auto simp: accounted_def handle_GetCounter_def handle_GetMessage_def basic_wiring split: handler_splits dest!: reads_keep intro: effect_none)
  show "accounted cfg (handle_IncrementCounter N (NewCounterHandler (NewCounterService (GORMCounterRepository L G))))"
    by (auto simp: accounted_def handle_IncrementCounter_def basic_wiring effect_on_def split: handler_splits dest: counter_keeps)
  show "accounted cfg (handle_GetCSRFToken N (NewUserHandler us (csrf_methods L s) ck))"
    by (auto simp: accounted_def handle_GetCSRFToken_def NewUserHandler_def csrf_methods_def csrf_GenerateToken_def Let_def
        split: handler_splits dest!: rand_Read_frame time_Now_frame intro!: effect_none intro: same_views_trans)
  show "accounted cfg (handle_Check N (NewHealthHandler (NewHealthService L) checks))" "accounted cfg (NoRoute N)"
    by (auto simp: accounted_def handle_Check_def basic_wiring Check_def NoRoute_def Let_def split: handler_splits
        dest!: ctx_Err_frame time_Now_frame intro!: effect_none intro: same_views_trans)
  show "accounted cfg (handle_Ready N (NewHealthHandler (NewHealthService L) checks))" if "\<forall>(n, check) \<in> set checks. \<forall>ctx w. same_views view w (snd (check ctx w))"
    unfolding accounted_def using effect_none ready_keeps [OF that] by (metis snd_conv)
qed


text \<open>Middleware in front of an accounted handler.\<close>

lemma accounted_auth:
  assumes "accounted cfg h"
  shows "accounted cfg (AuthMiddleware L N (NewTokenService L J tc) h)"
proof -
  have "effect_on cfg c w c' w'" if free: "dbtx_From (gin_Context N c) = None" and "AuthMiddleware L N (NewTokenService L J tc) h c w = (c', w')" for c w c' w'
  proof -
    from auth_then [OF gin_laws_axioms jwt_runtime_axioms that(2)] consider (no) "same_views view w w'"
      | (yes) cl w1 where "same_views view w w1" "h (setAuthContext L N cl c) w1 = (c', w')" by blast
    then show ?thesis
    proof cases
      case yes
      have "effect_on cfg (setAuthContext L N cl c) w1 c' w'"
        using assms yes(2) free unfolding accounted_def by (metis setAuthContext_frames(4))
      then show ?thesis by (rule effect_after [OF yes(1), rotated]) (simp add: fun_eq_iff setAuthContext_frames)
    qed (rule effect_none)
  qed
  then show ?thesis by (simp add: accounted_def)
qed

lemma csrf_check_same: "CS_ValidateToken (csrf_methods L s) t w = (b, w1) \<Longrightarrow> same_views view w w1"
  by (auto simp: csrf_methods_def csrf_ValidateToken_def Let_def split: handler_splits dest: time_Now_frame)

lemma accounted_csrf:
  assumes "accounted cfg h"
  shows "accounted cfg (CSRFMiddleware N (csrf_methods L s) h)"
proof -
  have "effect_on cfg c w c' w'" if "dbtx_From (gin_Context N c) = None" "h c w1 = (c', w')" "same_views view w w1" for c w w1 c' w'
    by (rule effect_after [OF that(3) refl]) (use assms that(1,2) in \<open>simp add: accounted_def\<close>)
  then show ?thesis
    unfolding accounted_def CSRFMiddleware_def Let_def
    by (auto split: handler_splits bool.splits dest!: csrf_check_same intro: effect_none)
qed

lemma accounted_limit:
  assumes "accounted cfg h" and "\<And>ip w. same_views view w (snd (allow ip w))"
  shows "accounted cfg (RateLimit Pair N allow h)"
proof -
  have val: "same_views view w w1" if "allow ip w = (b, w1)" for ip w b w1 using assms(2) [of w ip] that by simp
  have "effect_on cfg c w c' w'" if "dbtx_From (gin_Context N c) = None" "h c w1 = (c', w')" "same_views view w w1" for c w w1 c' w'
    by (rule effect_after [OF that(3) refl]) (use assms(1) that(1,2) in \<open>simp add: accounted_def\<close>)
  then show ?thesis
    unfolding accounted_def RateLimit_def
    by (auto split: handler_splits bool.splits dest!: val intro: effect_none)
qed

text \<open>Every route of the program, and the answer to a request without one.\<close>

lemma accounted_routes:
  assumes "r \<in> set (SetupRoutes L N (wired_api L G J cfg s ck limiter) @ SetupHealthRoutes N (NewHealthHandler (NewHealthService L) checks))"
    and "\<And>h. accounted cfg h \<Longrightarrow> accounted cfg (limiter h)"
    and "\<forall>(n, check) \<in> set checks. \<forall>ctx w. same_views view w (snd (check ctx w))"
  shows "accounted cfg (rt_handler r)"
proof -
  have u: "uh_userService (NewUserHandler (user_methods L (wired_user_service L G J cfg)) (csrf_methods L s) ck)
    = user_methods L (wired_user_service L G J cfg)" by (simp add: NewUserHandler_def)
  note handlers = accounted_credentials [OF u] accounted_session [OF u] accounted_others
  show ?thesis
    using assms(1,3) unfolding SetupRoutes_def public_routes_def protected_routes_def SetupHealthRoutes_def Let_def wired_api_def
    by (auto intro!: assms(2) accounted_auth accounted_csrf handlers)
qed

end


subsection \<open>Whose rows a signed-in request touches\<close>

lemma rewritten_filter:
  assumes "rows_rewritten sel step rs rs'" and "\<And>r r'. sel r \<Longrightarrow> step r r' \<Longrightarrow> \<not> P r \<and> \<not> P r'"
  shows "filter P rs' = filter P rs"
  using assms(1) unfolding rows_rewritten_def
  by (induction rule: list_all2_induct) (auto dest: assms(2) split: if_splits)

text \<open>The accounts and sessions of everybody but \<open>i\<close>.\<close>

definition rows_of_others :: "uuid \<Rightarrow> tables \<Rightarrow> UserEntity list \<times> RefreshTokenEntity list" where
  "rows_of_others i t = (filter (\<lambda>u. User_ID u \<noteq> i) (users t), filter (\<lambda>row. RT_UserID row \<noteq> i) (refresh_tokens t))"

context account_api
begin

lemma others_after_calls:
  assumes "dbtx_From ctx = None"
  shows "ChangePassword L (wired_user_service L G J cfg) ctx i req w = (rp, w') \<Longrightarrow> rows_of_others i (view Pool w') = rows_of_others i (view Pool w)"
    and "DeleteAccount L (wired_user_service L G J cfg) ctx i w = (rd, w') \<Longrightarrow> rows_of_others i (view Pool w') = rows_of_others i (view Pool w)"
    and "RevokeRefreshTokens L (wired_user_service L G J cfg) ctx i w = (rr, w') \<Longrightarrow> rows_of_others i (view Pool w') = rows_of_others i (view Pool w)"
proof -
  let ?s = "wired_user_service L G J cfg"
  have pw: "filter (\<lambda>u. User_ID u \<noteq> i) us = filter (\<lambda>u. User_ID u \<noteq> i) (users t)"
    if "rows_rewritten (\<lambda>x. user_live x \<and> User_ID x = i) (user_updated (zero_UserEntity\<lparr>User_Password := h\<rparr>)) (users t) us" for t us h i
    by (rule rewritten_filter [OF that]) (auto dest: updated_password)
  have del: "filter (\<lambda>u. User_ID u \<noteq> i) us = filter (\<lambda>u. User_ID u \<noteq> i) (users t)"
    if "rows_rewritten (\<lambda>x. user_live x \<and> User_ID x = i) user_soft_deleted (users t) us" for t us i
    by (rule rewritten_filter [OF that]) (auto dest: soft_deleted_keys)
  note others = rows_of_others_def session_row_def
  show "rows_of_others i (view Pool w') = rows_of_others i (view Pool w)" if c: "ChangePassword L ?s ctx i req w = (rp, w')"
  proof (cases rp)
    case (Inl e)
    with us.ChangePassword_error [OF assms] c show ?thesis by metis
  next
    case (Inr resp)
    with us.ChangePassword_ok [OF assms, of cfg i req w resp w'] c show ?thesis by (auto simp: others dest!: pw)
  qed
  show "rows_of_others i (view Pool w') = rows_of_others i (view Pool w)" if c: "DeleteAccount L ?s ctx i w = (rd, w')"
  proof (cases rd)
    case (Inl e)
    with us.DeleteAccount_error [OF assms] c show ?thesis by metis
  next
    case (Inr u)
    with us.DeleteAccount_ok [OF assms, of cfg i w w'] c show ?thesis by (auto simp: others dest!: del)
  qed
  show "rows_of_others i (view Pool w') = rows_of_others i (view Pool w)" if c: "RevokeRefreshTokens L ?s ctx i w = (rr, w')"
  proof (cases rr)
    case (Inl e)
    with us.Revoke_error [of cfg ctx i w e w'] c show ?thesis by (simp add: same_views_def)
  next
    case (Inr u)
    with us.Revoke_ok [of cfg ctx i w w'] c assms show ?thesis by (simp add: others view_changed_def)
  qed
qed

text \<open>A handler that serves the account in its context alone.\<close>

definition confined :: "('c, 'w) gin_handler \<Rightarrow> bool" where
  "confined h \<longleftrightarrow> (\<forall>i c w c' w'. dbtx_From (gin_Context N c) = None \<longrightarrow> GetUserIDFromContext L N c = Inr i \<longrightarrow> h c w = (c', w')
     \<longrightarrow> rows_of_others i (view Pool w') = rows_of_others i (view Pool w))"

lemma others_same: "same_views view w w' \<Longrightarrow> rows_of_others i (view Pool w') = rows_of_others i (view Pool w)"
  by (simp add: same_views_def)

lemma others_kept: "accounts_kept w w' \<Longrightarrow> rows_of_others i (view Pool w') = rows_of_others i (view Pool w)"
  by (simp add: accounts_kept_def rows_of_others_def)

lemma confined_session:
  assumes "uh_userService h = user_methods L (wired_user_service L G J cfg)"
  shows "confined (handle_Logout L N h)" "confined (handle_GetMe L N h)" "confined (handle_ListSessions L N h)"
    "confined (handle_ChangePassword L N h)" "confined (handle_DeleteAccount L N h)"
proof -
  let ?s = "wired_user_service L G J cfg"
  show "confined (handle_Logout L N h)" unfolding confined_def handle_Logout_def assms
    by (auto simp: user_methods_def Let_def) (metis others_after_calls(3) surj_pair snd_conv)
  show "confined (handle_GetMe L N h)" unfolding confined_def handle_GetMe_def assms
    by (auto simp: user_methods_def split: handler_splits dest!: us.GetUser_frame others_same)
  show "confined (handle_ListSessions L N h)" unfolding confined_def handle_ListSessions_def assms
    by (auto simp: user_methods_def Let_def split: handler_splits dest!: us.ListSessions_frame others_same)
  show "confined (handle_DeleteAccount L N h)" unfolding confined_def handle_DeleteAccount_def assms
    by (auto simp: user_methods_def split: handler_splits dest: others_after_calls(2))
  show "confined (handle_ChangePassword L N h)" unfolding confined_def handle_ChangePassword_def assms
    by (auto simp: user_methods_def split: handler_splits dest!: BindJSON_same dest: others_after_calls(1))
qed

lemma confined_counter:
  "confined (handle_GetCounter N (NewCounterHandler (NewCounterService (GORMCounterRepository L G))))"
  "confined (handle_IncrementCounter N (NewCounterHandler (NewCounterService (GORMCounterRepository L G))))"
  by (auto simp: confined_def handle_GetCounter_def handle_IncrementCounter_def basic_wiring split: handler_splits
      dest: reads_keep(1) [THEN others_same] counter_keeps [THEN others_kept])

lemma confined_csrf:
  assumes "confined h"
  shows "confined (CSRFMiddleware N (csrf_methods L s) h)"
  using assms unfolding confined_def CSRFMiddleware_def Let_def
  by (auto split: handler_splits bool.splits dest!: csrf_check_same others_same)

lemma auth_confines:
  assumes "confined h" and "dbtx_From (gin_Context N c) = None" and "AuthMiddleware L N (NewTokenService L J cfg) h c w = (c', w')"
  shows "same_views view w w' \<or> (\<exists>t cl. gin_Cookie N c AccessTokenCookie = Inr t \<and> access_of verified cfg t cl
    \<and> (\<forall>ex. TC_ExpiresAt cl = Some ex \<longrightarrow> clock w < ex)
    \<and> rows_of_others (TC_UserID cl) (view Pool w') = rows_of_others (TC_UserID cl) (view Pool w))"
proof -
  from auth_then [OF gin_laws_axioms jwt_runtime_axioms assms(3)] consider (no) "same_views view w w'"
    | (yes) t cl w1 where "gin_Cookie N c AccessTokenCookie = Inr t" "access_of verified cfg t cl" "\<forall>ex. TC_ExpiresAt cl = Some ex \<longrightarrow> clock w < ex"
      "same_views view w w1" "h (setAuthContext L N cl c) w1 = (c', w')" by blast
  then show ?thesis
  proof cases
    case yes
    have "GetUserIDFromContext L N (setAuthContext L N cl c) = Inr (TC_UserID cl)"
      by (simp add: GetUserIDFromContext_def setAuthContext_reads uuid_Parse_String)
    moreover have "dbtx_From (gin_Context N (setAuthContext L N cl c)) = None" unfolding setAuthContext_frames by (rule assms(2))
    ultimately have "rows_of_others (TC_UserID cl) (view Pool w') = rows_of_others (TC_UserID cl) (view Pool w1)"
      using assms(1) yes(5) unfolding confined_def by metis
    with yes show ?thesis by (auto simp: same_views_def)
  qed simp
qed

lemma protected_confined:
  assumes "r \<in> set (protected_routes L N (wired_api L G J cfg s ck limiter))"
  obtains h where "rt_handler r = AuthMiddleware L N (NewTokenService L J cfg) h" and "confined h"
proof -
  have u: "uh_userService (NewUserHandler (user_methods L (wired_user_service L G J cfg)) (csrf_methods L s) ck)
    = user_methods L (wired_user_service L G J cfg)" by (simp add: NewUserHandler_def)
  note handlers = confined_session [OF u] confined_counter
  have auth: "confined h \<Longrightarrow> \<exists>h'. AuthMiddleware L N (NewTokenService L J cfg) h = AuthMiddleware L N (NewTokenService L J cfg) h' \<and> confined h'" for h
    by blast
  have "\<exists>h. rt_handler r = AuthMiddleware L N (NewTokenService L J cfg) h \<and> confined h"
    using assms unfolding protected_routes_def Let_def wired_api_def by (auto intro!: auth confined_csrf handlers)
  with that show ?thesis by blast
qed

end

interpretation rec_api: account_api rec_gin gr_sent gr_cookies gr_headers gr_aborted mem_lib mem_db mem_view mem_up mem_matches m_work
  mem_jwt mem_verified m_now
  by unfold_locales


text \<open>C3. A signed-in request never touches another account: whatever a protected route does, the database is as it was, or
  the request carries an access token signed with the access secret and not expired, and all accounts and all sessions of users
  other than the one named in that token are as they were, row by row and in their order.\<close>

theorem protected_routes_touch_only_subject:
  assumes "gin_laws N sent cookies_of headers_of aborted" and "backend L G view up pw_matches bcrypt_work J verified clock"
    and "r \<in> set (protected_routes L N (wired_api L G J cfg s ck limiter))"
    and "dbtx_From (gin_Context N c) = None" and "rt_handler r c w = (c', w')"
  shows "same_views view w w' \<or> (\<exists>t cl. gin_Cookie N c AccessTokenCookie = Inr t \<and> access_of verified cfg t cl
    \<and> (\<forall>ex. TC_ExpiresAt cl = Some ex \<longrightarrow> clock w < ex)
    \<and> filter (\<lambda>u. User_ID u \<noteq> TC_UserID cl) (users (view Pool w')) = filter (\<lambda>u. User_ID u \<noteq> TC_UserID cl) (users (view Pool w))
    \<and> filter (\<lambda>row. RT_UserID row \<noteq> TC_UserID cl) (refresh_tokens (view Pool w'))
        = filter (\<lambda>row. RT_UserID row \<noteq> TC_UserID cl) (refresh_tokens (view Pool w)))"
proof -
  have api: "account_api N sent cookies_of headers_of aborted L G view up pw_matches bcrypt_work J verified clock"
    using assms(1,2) by (rule account_api.intro)
  obtain h where h: "rt_handler r = AuthMiddleware L N (NewTokenService L J cfg) h" "account_api.confined N L view h"
    using account_api.protected_confined [OF api assms(3)] .
  have "AuthMiddleware L N (NewTokenService L J cfg) h c w = (c', w')" using assms(5) h(1) by simp
  from account_api.auth_confines [OF api h(2) assms(4) this] show ?thesis by (simp add: rows_of_others_def)
qed

text \<open>Ann deletes her account; Bob's stays. The request carries her access token and a CSRF token issued at that second.\<close>

definition csrf0 :: csrfService where
  "csrf0 = NewCSRFService ''csrf-secret'' (12 * Hour)"

definition bob_row :: UserEntity where
  "bob_row = ann_row\<lparr>User_ID := 7, User_Email := ''bob@example.com''\<rparr>"

definition mem3 :: mem where
  "mem3 = mem2\<lparr>m_pool := (m_pool mem2)\<lparr>users := [bob_row, ann_row]\<rparr>\<rparr>"

definition leave_request :: gin_rec where
  "leave_request = (bare_request ''DELETE'')\<lparr>
     gr_cookies_in := [(AccessTokenCookie, mem_token SigningMethodHS256 t1_claims ''access'')],
     gr_headers_in := [(''X-CSRF-Token'', csrf_render csrf0 (replicate 32 0) (PutUint64 (word_of_int (Unix_of (m_now mem0)))))]\<rparr>"

definition api0 :: "(gin_rec, mem) api" where
  "api0 = wired_api mem_lib mem_db mem_jwt cfg0 csrf0 \<lparr>AccessTTL = 15 * Minute, RefreshTTL = 168 * Hour, Secure = True\<rparr> (\<lambda>next. next)"

lemma csrf_render_nonempty: "csrf_render s nonce issued \<noteq> []"
  by (simp add: csrf_render_def)

lemma leave_passes_csrf:
  "csrf_ValidateToken mem_lib csrf0 (gin_GetHeader rec_gin leave_request ''X-CSRF-Token'') mem3 = (True, mem3\<lparr>m_now := m_now mem3 + 1\<rparr>)"
  "gin_GetHeader rec_gin leave_request ''X-CSRF-Token'' \<noteq> []"
proof -
  have "csrf_fresh csrf0 (PutUint64 (word_of_int (Unix_of (m_now mem0)))) (m_now mem0)"
    by (subst csrf_fresh_iff) (simp_all add: time_ok_def csrf0_def NewCSRFService_def mem0_def Unix_of_def maxDuration_def)
  moreover have "m_now mem3 = m_now mem0" by (simp add: mem3_def mem2_def)
  ultimately show
    "csrf_ValidateToken mem_lib csrf0 (gin_GetHeader rec_gin leave_request ''X-CSRF-Token'') mem3 = (True, mem3\<lparr>m_now := m_now mem3 + 1\<rparr>)"
    by (simp add: leave_request_def rec_gin_def csrf_ValidateToken_def csrf_authentic_render mem_lib_def codec)
qed (simp add: leave_request_def rec_gin_def csrf_render_nonempty)

theorem protected_routes_touch_only_subject_witness:
  "\<exists>r c' w'. r \<in> set (protected_routes mem_lib rec_gin api0) \<and> rt_handler r leave_request mem3 = (c', w')
     \<and> refresh_tokens (m_pool w') = [] \<and> refresh_tokens (m_pool mem3) \<noteq> []
     \<and> filter (\<lambda>u. User_ID u \<noteq> 1) (users (m_pool w')) = [bob_row]"
proof -
  let ?r = "protected_routes mem_lib rec_gin api0 ! 4" and ?t = "mem_token SigningMethodHS256 t1_claims ''access''"
  have r: "?r \<in> set (protected_routes mem_lib rec_gin api0)" by (simp add: protected_routes_def Let_def)
  obtain c' w' where h: "rt_handler ?r leave_request mem3 = (c', w')" by (metis surj_pair)
  have c: "gin_Cookie rec_gin leave_request AccessTokenCookie = Inr ?t" "gin_Method rec_gin leave_request = ''DELETE''"
    "gin_Context rec_gin leave_request = Background"
    by (simp_all add: rec_gin_def leave_request_def bare_request_def)
  have v: "ValidateAccessToken mem_jwt cfg0 ?t mem3 = (Inr t1_claims, mem3)"
    by (simp add: mem3_def run codec mem_token_nonempty)
  obtain wd where d: "DeleteAccount mem_lib svc0 Background 1 (mem3\<lparr>m_now := m_now mem3 + 1\<rparr>) = (Inr (), wd)"
    "refresh_tokens (m_pool wd) = []"
    by (simp add: mem3_def bob_row_def run)
  have i: "TC_UserID t1_claims = 1" by (simp add: t1_claims_def)
  have "w' = wd"
    using h d(1) leave_passes_csrf v
    by (simp add: protected_routes_def Let_def api0_def wired_api_def AuthMiddleware_def CSRFMiddleware_def c rec_gin.setAuthContext_frames
        handle_DeleteAccount_def GetUserIDFromContext_def rec_gin.setAuthContext_reads mem.uuid_Parse_String NewUserHandler_def
        user_methods_def csrf_methods_def NewTokenService_def i)
  moreover have pool: "m_pool mem3 = (m_pool mem2)\<lparr>users := [bob_row, ann_row]\<rparr>" "refresh_tokens (m_pool mem2) = [t1_row]"
    "User_ID bob_row = 7" "User_ID ann_row = 1"
    by (simp_all add: mem3_def mem2_def bob_row_def ann_row_def zero_UserEntity_def)
  moreover have "\<not> same_views mem_view mem3 wd" using d(2) pool by (auto dest!: same_viewsD [of _ _ _ Pool])
  moreover have "mem_untoken ?t = Some (SigningMethodHMAC ''HS256'', ''access'', t1_claims)" by (simp add: codec SigningMethodHS256_def)
  ultimately show ?thesis
    using protected_routes_touch_only_subject [OF rec_gin.gin_laws_axioms mem_backend r [unfolded api0_def] _ h [unfolded api0_def]] r h d(2) i
    by (auto simp: c mem_verified_def)
qed

end
