(* ===== verification/Interleaving.thy ===== *)
theory Interleaving
  imports Session_Machine
begin

text \<open>
  Requests that overlap. Between its checks and its write a call of the user service holds
  no transaction: other requests run in between. Here each call is split at that point into
  the part that reads and decides and the part that writes, one statement or one
  transaction, and the parts of different requests are interleaved at will. The split is
  exact: run without interruption, the two parts are the call.

  Transactions are isolated from one another, as the connection \<open>Tx\<close> of the world models.
\<close>

subsection \<open>Where a request can be interrupted\<close>

text \<open>What a request remembers between its two parts.\<close>

datatype point =
    At_register UserEntity GetUser
  | At_login UserEntity
  | At_rotate string TokenClaims
  | At_reuse TokenClaims
  | At_expired string
  | At_password uuid UserEntity "byte list"
  | At_delete uuid

definition begin_Register :: "'w golib \<Rightarrow> 'w userService \<Rightarrow> Context \<Rightarrow> RegisterUserRequest \<Rightarrow> ('w, go_error, point) effect" where
  "begin_Register L s ctx req w =
     (case ctx_Err L ctx w of
        (Some err, w1) \<Rightarrow> (Inl err, w1)
      | (None, w1) \<Rightarrow>
          (case UR_FindByEmail (userRepository s) ctx (Reg_Email req) w1 of
             (Inl err, w2) \<Rightarrow> (Inl (Internal (Errorf ''checking existing user'' err)), w2)
           | (Inr (Some _), w2) \<Rightarrow> (Inl ErrUserAlreadyExists, w2)
           | (Inr None, w2) \<Rightarrow>
               (case bcrypt_GenerateFromPassword L (Reg_Password req) w2 of
                  (Inl err, w3) \<Rightarrow> (Inl (Internal (Errorf ''hashing password'' err)), w3)
                | (Inr hashedPassword, w3) \<Rightarrow>
                    (let (i, w4) = uuid_New L w3
                     in (Inr (At_register
                          (zero_UserEntity\<lparr>User_ID := i, User_Email := Reg_Email req, User_Password := hashedPassword,
                             User_Name := Reg_Name req\<rparr>)
                          \<lparr>GU_ID = i, GU_Email = Reg_Email req, GU_Name = Reg_Name req\<rparr>), w4)))))"

definition begin_Login :: "'w golib \<Rightarrow> 'w userService \<Rightarrow> Context \<Rightarrow> LoginRequest \<Rightarrow> ('w, go_error, point) effect" where
  "begin_Login L s ctx req w =
     (case ctx_Err L ctx w of
        (Some err, w1) \<Rightarrow> (Inl err, w1)
      | (None, w1) \<Rightarrow>
          (case UR_FindByEmail (userRepository s) ctx (Login_Email req) w1 of
             (Inl err, w2) \<Rightarrow> (Inl (Internal (Errorf ''finding user by email'' err)), w2)
           | (Inr None, w2) \<Rightarrow>
               (let (hash, w3) = dummyPasswordHash L w2;
                    (_, w4) = bcrypt_CompareHashAndPassword L hash (Login_Password req) w3
                in (Inl ErrInvalidCredentials, w4))
           | (Inr (Some user), w2) \<Rightarrow>
               (case bcrypt_CompareHashAndPassword L (User_Password user) (Login_Password req) w2 of
                  (Some err, w3) \<Rightarrow> (Inl ErrInvalidCredentials, w3)
                | (None, w3) \<Rightarrow> (Inr (At_login user), w3))))"

definition begin_Refresh :: "'w golib \<Rightarrow> 'w userService \<Rightarrow> Context \<Rightarrow> string \<Rightarrow> ('w, go_error, point) effect" where
  "begin_Refresh L s ctx refreshToken w =
     (case ctx_Err L ctx w of
        (Some err, w1) \<Rightarrow> (Inl err, w1)
      | (None, w1) \<Rightarrow>
          (case TS_ValidateRefreshToken (tokenService s) refreshToken w1 of
             (Inl err, w2) \<Rightarrow> (Inl (WithCause ErrInvalidRefreshToken err), w2)
           | (Inr claims, w2) \<Rightarrow>
               (case RTR_FindByTokenHash (refreshTokenRepository s) ctx (Hash refreshToken) w2 of
                  (Inl err, w3) \<Rightarrow> (Inl (Internal (Errorf ''verifying refresh token'' err)), w3)
                | (Inr None, w3) \<Rightarrow> (Inr (At_reuse claims), w3)
                | (Inr (Some stored), w3) \<Rightarrow>
                    (let (now, w4) = time_Now L w3
                     in (Inr (if time_Before (RT_ExpiresAt stored) now then At_expired refreshToken
                              else At_rotate refreshToken claims), w4)))))"

definition begin_ChangePassword :: "'w golib \<Rightarrow> 'w userService \<Rightarrow> Context \<Rightarrow> uuid \<Rightarrow> ChangePasswordRequest
    \<Rightarrow> ('w, go_error, point) effect" where
  "begin_ChangePassword L s ctx userID req w =
     (case ctx_Err L ctx w of
        (Some err, w1) \<Rightarrow> (Inl err, w1)
      | (None, w1) \<Rightarrow>
          (case UR_FindByID (userRepository s) ctx userID w1 of
             (Inl err, w2) \<Rightarrow> (Inl (Internal (Errorf ''finding user by id'' err)), w2)
           | (Inr None, w2) \<Rightarrow> (Inl ErrInvalidCredentials, w2)
           | (Inr (Some user), w2) \<Rightarrow>
               (case bcrypt_CompareHashAndPassword L (User_Password user) (CurrentPassword req) w2 of
                  (Some err, w3) \<Rightarrow> (Inl ErrInvalidCredentials, w3)
                | (None, w3) \<Rightarrow>
                    (case bcrypt_GenerateFromPassword L (NewPassword req) w3 of
                       (Inl err, w4) \<Rightarrow> (Inl (Internal (Errorf ''hashing new password'' err)), w4)
                     | (Inr hashed, w4) \<Rightarrow> (Inr (At_password userID user hashed), w4)))))"

definition begin_DeleteAccount :: "'w golib \<Rightarrow> 'w userService \<Rightarrow> Context \<Rightarrow> uuid \<Rightarrow> ('w, go_error, point) effect" where
  "begin_DeleteAccount L s ctx userID w =
     (case ctx_Err L ctx w of
        (Some err, w1) \<Rightarrow> (Inl err, w1)
      | (None, w1) \<Rightarrow>
          (case UR_FindByID (userRepository s) ctx userID w1 of
             (Inl err, w2) \<Rightarrow> (Inl (Internal (Errorf ''finding user by id'' err)), w2)
           | (Inr None, w2) \<Rightarrow> (Inl ErrUserNotFound, w2)
           | (Inr (Some user), w2) \<Rightarrow> (Inr (At_delete userID), w2)))"

text \<open>The second part: the one statement or transaction that writes.\<close>

fun resume :: "'w golib \<Rightarrow> 'w userService \<Rightarrow> Context \<Rightarrow> point \<Rightarrow> ('w, go_error, captured) effect" where
  "resume L s ctx (At_register userEntity user) w = TM_WithinTx (txManager s) ctx (register_closure L s userEntity user) w"
| "resume L s ctx (At_login user) w =
     issueTokens L s ctx \<lparr>GU_ID = User_ID user, GU_Email = User_Email user, GU_Name = User_Name user\<rparr> w"
| "resume L s ctx (At_rotate refreshToken claims) w =
     TM_WithinTx (txManager s) ctx (rotate_closure L s (Hash refreshToken) claims) w"
| "resume L s ctx (At_reuse claims) w = (let (err, w1) = handleReuse L s ctx (TC_UserID claims) w in (Inl err, w1))"
| "resume L s ctx (At_expired refreshToken) w =
     (let (_, w1) = RTR_DeleteByTokenHash (refreshTokenRepository s) ctx (Hash refreshToken) w
      in (Inl ErrRefreshTokenExpired, w1))"
| "resume L s ctx (At_password userID user hashed) w =
     TM_WithinTx (txManager s) ctx (change_password_closure L s userID user hashed) w"
| "resume L s ctx (At_delete userID) w = TM_WithinTx (txManager s) ctx (delete_account_closure L s userID) w"

text \<open>An uninterrupted request, and the response made from the tokens.\<close>

definition uninterrupted :: "('w, go_error, point) effect \<Rightarrow> (point \<Rightarrow> ('w, go_error, captured) effect)
    \<Rightarrow> (point \<Rightarrow> captured \<Rightarrow> 'r) \<Rightarrow> ('w, go_error, 'r) effect" where
  "uninterrupted begun rest respond w =
     (case begun w of
        (Inl err, w1) \<Rightarrow> (Inl err, w1)
      | (Inr p, w1) \<Rightarrow> (case rest p w1 of (Inl err, w2) \<Rightarrow> (Inl err, w2) | (Inr tokens, w2) \<Rightarrow> (Inr (respond p tokens), w2)))"

fun respond_Register :: "point \<Rightarrow> captured \<Rightarrow> RegisterResponse" where
  "respond_Register (At_register userEntity user) (a, r) = \<lparr>RR_User = user, RR_AccessToken = a, RR_RefreshToken = r\<rparr>"

fun respond_Login :: "point \<Rightarrow> captured \<Rightarrow> LoginResponse" where
  "respond_Login (At_login user) (a, r) = \<lparr>LR_User = \<lparr>GU_ID = User_ID user, GU_Email = User_Email user, GU_Name = User_Name user\<rparr>,
     LR_AccessToken = a, LR_RefreshToken = r\<rparr>"



subsection \<open>What overlapping requests can do to the tables\<close>

text \<open>Rows of users never disappear, so an id that was seen once stays known, deleted or not.\<close>

definition known :: "tables \<Rightarrow> uuid \<Rightarrow> bool" where
  "known t i \<longleftrightarrow> (\<exists>u \<in> set (users t). User_ID u = i)"

inductive race_step :: "(string \<Rightarrow> TokenClaims \<Rightarrow> bool) \<Rightarrow> string set \<Rightarrow> tables \<Rightarrow> tables \<Rightarrow> bool"
  for claims :: "string \<Rightarrow> TokenClaims \<Rightarrow> bool" and H where
  same: "race_step claims H t t"
| insert_user: "(\<forall>x \<in> set (users t). \<not> user_clash u x) \<Longrightarrow> race_step claims H t (add_user u t)"
| grant: "known t i \<Longrightarrow> session_row i tok ex row \<Longrightarrow> claims tok cl \<Longrightarrow> TC_UserID cl = i \<Longrightarrow> tok \<in> H \<Longrightarrow>
    (\<forall>x \<in> set (refresh_tokens t). \<not> token_clash row x) \<Longrightarrow> race_step claims H t (add_token row t)"
| end_rows: "race_step claims H t (drop_tokens p t)"
| rewrite_users: "map User_ID us = map User_ID (users t) \<Longrightarrow> map User_Email us = map User_Email (users t) \<Longrightarrow>
    race_step claims H t (t\<lparr>users := us\<rparr>)"

definition race_ok :: "(string \<Rightarrow> TokenClaims \<Rightarrow> bool) \<Rightarrow> string set \<Rightarrow> tables \<Rightarrow> bool" where
  "race_ok claims H t \<longleftrightarrow> tables_ok t \<and> (\<forall>row \<in> set (refresh_tokens t). known t (RT_UserID row) \<and> issued_row claims H row)"

lemma known_ids: "known t i \<longleftrightarrow> i \<in> set (map User_ID (users t))"
  by (auto simp: known_def)

lemma known_mono: "race_step claims H t t' \<Longrightarrow> known t i \<Longrightarrow> known t' i"
  by (induction rule: race_step.induct) (auto simp: known_ids simp del: set_map)

lemma race_step_ok:
  assumes "race_step claims H t t'" and "race_ok claims H t"
  shows "race_ok claims H t'"
  using assms(1)
proof cases
  case (insert_user u)
  then have "tables_ok t'" using assms(2) by (fastforce simp: race_ok_def tables_ok_def user_clash_def)
  with insert_user assms(2) show ?thesis by (auto simp: race_ok_def known_def)
next
  case (grant i tok ex row cl)
  then have "issued_row claims H row" "RT_UserID row = i" by (auto simp: issued_row_def session_row_def)
  with grant assms(2) show ?thesis by (auto simp: race_ok_def tables_ok_add_token known_def)
next
  case (rewrite_users us)
  then have "known t' i = known t i" for i by (simp add: known_ids del: set_map)
  with rewrite_users assms(2) show ?thesis by (simp add: race_ok_def tables_ok_def)
qed (use assms(2) in \<open>auto simp: race_ok_def tables_ok_drop known_def\<close>)

lemma race_steps_ok:
  assumes "(race_step claims H)\<^sup>*\<^sup>* t t'"
  shows "race_ok claims H t \<Longrightarrow> race_ok claims H t'" and "known t i \<Longrightarrow> known t' i"
  using assms by (induction rule: rtranclp_induct) (auto intro: race_step_ok known_mono)

lemma race_step_mono: "race_step claims H t t' \<Longrightarrow> H \<subseteq> H' \<Longrightarrow> race_step claims H' t t'"
  by (erule race_step.cases) (auto intro: race_step.intros)

lemma race_steps_mono: "(race_step claims H)\<^sup>*\<^sup>* t t' \<Longrightarrow> H \<subseteq> H' \<Longrightarrow> (race_step claims H')\<^sup>*\<^sup>* t t'"
  by (erule rtranclp_mono [THEN predicate2D, rotated]) (auto intro: race_step_mono)

lemma race_ok_mono: "race_ok claims H t \<Longrightarrow> H \<subseteq> H' \<Longrightarrow> race_ok claims H' t"
  by (auto simp: race_ok_def intro: issued_row_mono)

text \<open>The steps of the account machine are steps of overlapping requests.\<close>

lemma account_step_races:
  assumes "account_step claims H t t'" and "race_ok claims H t" and "inj_on Hash H"
    and uniq: "\<And>tk c c'. claims tk c \<Longrightarrow> claims tk c' \<Longrightarrow> c' = c"
  shows "(race_step claims H)\<^sup>*\<^sup>* t t'"
  using assms(1)
proof cases
  case (open_session u tok ex row cl)
  then have "race_step claims H t t'" by (auto intro!: grant simp: known_def)
  then show ?thesis by (rule r_into_rtranclp)
next
  case (rotate tok cl stored tok' ex row cl')
  let ?t = "drop_tokens (\<lambda>x. RT_TokenHash x = Hash tok) t"
  have "issued_row claims H stored" "known t (RT_UserID stored)" using assms(2) rotate(4) by (simp_all add: race_ok_def)
  moreover have "RT_UserID stored = TC_UserID cl"
    by (rule rotation_owner [OF calculation(1) assms(3) _ rotate(2,3,5)]) (rule uniq)
  ultimately have "race_step claims H ?t (add_token row ?t)" 
    using rotate
    by (intro grant [where claims = claims, OF _ rotate(6-9)]) (auto simp: known_def)
  with end_rows [of claims H t "\<lambda>x. RT_TokenHash x = Hash tok"] rotate(1) show ?thesis by auto
next
  case (set_password i h us)
  have "map User_ID us = map User_ID (users t)" "map User_Email us = map User_Email (users t)"
    using rewritten_keys [OF set_password(2)] updated_password by blast+
  with set_password show ?thesis by (auto intro: rewrite_users)
next
  case (close_account i us)
  have "map User_ID us = map User_ID (users t)" "map User_Email us = map User_Email (users t)"
    using rewritten_keys [OF close_account(2)] soft_deleted_keys by blast+
  then have "race_step claims H (drop_tokens (\<lambda>x. RT_UserID x = i) t) t'" unfolding close_account(1) by (intro rewrite_users) simp_all
  with end_rows [of claims H t "\<lambda>x. RT_UserID x = i"] show ?thesis by auto
qed (auto intro: race_step.intros)


lemma account_steps_race:
  assumes "(account_step claims H)\<^sup>*\<^sup>* t t'" and "race_ok claims H t" and "inj_on Hash H"
    and uniq: "\<And>tk c c'. claims tk c \<Longrightarrow> claims tk c' \<Longrightarrow> c' = c"
  shows "(race_step claims H)\<^sup>*\<^sup>* t t'"
  using assms(1)
proof (induction rule: rtranclp_induct)
  case (step ta tb)
  have "(race_step claims H)\<^sup>*\<^sup>* ta tb"
    by (rule account_step_races [OF step(2) race_steps_ok(1) [OF step(3) assms(2)] assms(3)]) (rule uniq)
  with step(3) show ?case by (rule rtranclp_trans)
qed simp

subsection \<open>Overlapping runs\<close>

text \<open>The first part of a request, made outside a transaction, with its outcome and the refresh token it presents.\<close>

inductive begins :: "'w golib \<Rightarrow> 'w userService \<Rightarrow> 'w \<Rightarrow> string set \<Rightarrow> go_error + point \<Rightarrow> 'w \<Rightarrow> bool" for L s where
  register: "dbtx_From ctx = None \<Longrightarrow> begin_Register L s ctx req w = (op, w') \<Longrightarrow> begins L s w {} op w'"
| login: "dbtx_From ctx = None \<Longrightarrow> begin_Login L s ctx lreq w = (op, w') \<Longrightarrow> begins L s w {} op w'"
| refresh: "dbtx_From ctx = None \<Longrightarrow> begin_Refresh L s ctx tok w = (op, w') \<Longrightarrow> begins L s w {tok} op w'"
| password: "dbtx_From ctx = None \<Longrightarrow> begin_ChangePassword L s ctx i preq w = (op, w') \<Longrightarrow> begins L s w {} op w'"
| deletion: "dbtx_From ctx = None \<Longrightarrow> begin_DeleteAccount L s ctx i w = (op, w') \<Longrightarrow> begins L s w {} op w'"

text \<open>The refresh token that the second part hands out.\<close>

fun handed_out :: "point \<Rightarrow> go_error + captured \<Rightarrow> string set" where
  "handed_out (At_delete i) res = {}"
| "handed_out p (Inl e) = {}"
| "handed_out p (Inr (a, r)) = {r}"

text \<open>\<open>overlapping L s w0 H P w\<close>: \<open>w\<close> is reached from \<open>w0\<close> with the requests \<open>P\<close> under way, after the tokens \<open>H\<close>
  were presented or handed out. The calls that read or write only once run whole.\<close>

inductive overlapping :: "'w golib \<Rightarrow> 'w userService \<Rightarrow> 'w \<Rightarrow> string set \<Rightarrow> point multiset \<Rightarrow> 'w \<Rightarrow> bool" for L s w0 where
  idle: "overlapping L s w0 {} {#} w0"
| enter: "overlapping L s w0 H P w \<Longrightarrow> begins L s w T (Inr p) w' \<Longrightarrow> overlapping L s w0 (H \<union> T) (add_mset p P) w'"
| refused: "overlapping L s w0 H P w \<Longrightarrow> begins L s w T (Inl e) w' \<Longrightarrow> overlapping L s w0 (H \<union> T) P w'"
| leave: "overlapping L s w0 H (add_mset p P) w \<Longrightarrow> dbtx_From ctx = None \<Longrightarrow> resume L s ctx p w = (res, w') \<Longrightarrow>
    overlapping L s w0 (H \<union> handed_out p res) P w'"
| whole: "overlapping L s w0 H P w \<Longrightarrow> service_call L s w T w' \<Longrightarrow> overlapping L s w0 (H \<union> T) P w'"

text \<open>What a request under way may rely on.\<close>

fun point_ok :: "(string \<Rightarrow> TokenClaims \<Rightarrow> bool) \<Rightarrow> string set \<Rightarrow> tables \<Rightarrow> point \<Rightarrow> bool" where
  "point_ok claims H t (At_register u user) = (User_ID u = GU_ID user)"
| "point_ok claims H t (At_login u) = known t (User_ID u)"
| "point_ok claims H t (At_rotate tok cl) = known t (TC_UserID cl)"
| "point_ok claims H t (At_password i u h) = (User_ID u = i \<and> known t i)"
| "point_ok claims H t _ = True"

lemma point_ok_mono: "point_ok claims H t p \<Longrightarrow> (\<And>i. known t i \<Longrightarrow> known t' i) \<Longrightarrow> point_ok claims H' t' p"
  by (cases p) auto

context user_service
begin

lemma begins_frame: "begins L s w T op w' \<Longrightarrow> same_views view w w'"
  by (induction rule: begins.induct)
    (auto simp: begin_Register_def begin_Login_def begin_Refresh_def begin_ChangePassword_def begin_DeleteAccount_def Let_def
      split: call_splits dest!: runtime_frames read_frames dummy_frame intro: same_views_trans)

lemma begin_Refresh_rotate:
  assumes "dbtx_From ctx = None" and "begin_Refresh L s ctx tok w = (Inr (At_rotate tok' cl), w')"
  shows "tok' = tok \<and> refresh_claims tok cl \<and> (\<exists>stored \<in> set (refresh_tokens (view Pool w)). RT_TokenHash stored = Hash tok)"
proof -
  obtain w1 w2 stored w3 where w: "ctx_Err L ctx w = (None, w1)" "TS_ValidateRefreshToken (tokenService s) tok w1 = (Inr cl, w2)"
    "RTR_FindByTokenHash (refreshTokenRepository s) ctx (Hash tok) w2 = (Inr (Some stored), w3)" and "tok' = tok"
    using assms(2) by (auto simp: begin_Refresh_def Let_def split: call_splits)
  moreover have "view c w2 = view c w" for c using w by (auto simp: same_views_def dest!: runtime_frames read_frames)
  ultimately show ?thesis using ts.ValRefresh_claims rtr.FindByTokenHash_found [OF w(3)] assms(1) by auto
qed

lemma begin_found:
  assumes "dbtx_From ctx = None"
  shows "begin_Login L s ctx lreq w = (Inr p, w') \<Longrightarrow> \<exists>u. p = At_login u \<and> u \<in> set (users (view Pool w))"
    and "begin_ChangePassword L s ctx i preq w = (Inr p, w') \<Longrightarrow>
      \<exists>u h. p = At_password i u h \<and> u \<in> set (users (view Pool w)) \<and> User_ID u = i"
proof -
  have c: "view c w1 = view c w" if "ctx_Err L ctx w = (oe, w1)" for c oe w1 using that runtime_frames by (auto simp: same_views_def)
  show "\<exists>u. p = At_login u \<and> u \<in> set (users (view Pool w))" if "begin_Login L s ctx lreq w = (Inr p, w')"
    using that assms by (auto simp: begin_Login_def Let_def c split: call_splits dest!: ur.FindByEmail_found)
  show "\<exists>u h. p = At_password i u h \<and> u \<in> set (users (view Pool w)) \<and> User_ID u = i"
    if "begin_ChangePassword L s ctx i preq w = (Inr p, w')"
    using that assms by (auto simp: begin_ChangePassword_def Let_def c split: call_splits dest!: ur.FindByID_found)
qed

lemma begins_point:
  assumes "begins L s w T (Inr p) w'" and "race_ok refresh_claims H (view Pool w)" and "T \<subseteq> H" and "inj_on Hash H"
    and uniq: "\<And>tk c c'. refresh_claims tk c \<Longrightarrow> refresh_claims tk c' \<Longrightarrow> c' = c"
  shows "point_ok refresh_claims H (view Pool w) p"
  using assms(1)
proof cases
  case (register ctx req)
  then show ?thesis by (auto simp: begin_Register_def Let_def split: call_splits)
next
  case (login ctx lreq)
  from begin_found(1) [OF this(2,3)] show ?thesis by (auto simp: known_def)
next
  case (refresh ctx tok)
  show ?thesis
  proof (cases p)
    case (At_rotate tok' cl)
    with refresh begin_Refresh_rotate obtain stored where
      st: "tok' = tok" "refresh_claims tok cl" "stored \<in> set (refresh_tokens (view Pool w))" "RT_TokenHash stored = Hash tok" by blast
    have iss: "issued_row refresh_claims H stored" "known (view Pool w) (RT_UserID stored)" using assms(2) st by (simp_all add: race_ok_def)
    have mem: "tok \<in> H" using assms(3) refresh by simp
    have "RT_UserID stored = TC_UserID cl" by (rule rotation_owner [OF iss(1) assms(4) _ st(2) mem st(4)]) (rule uniq)
    with iss At_rotate show ?thesis by simp
  qed (use refresh in \<open>auto simp: begin_Refresh_def Let_def split: call_splits\<close>)
next
  case (password ctx i preq)
  from begin_found(2) [OF this(2,3)] show ?thesis by (auto simp: known_def)
next
  case (deletion ctx i)
  then show ?thesis by (auto simp: begin_DeleteAccount_def split: call_splits)
qed

lemma resume_error:
  assumes "dbtx_From ctx = None" and "resume L s ctx p w = (Inl e, w')"
  shows "view Pool w' = view Pool w \<or> (\<exists>q. view Pool w' = drop_tokens q (view Pool w))"
proof (cases p)
  case (At_login u)
  with assms issue_error show ?thesis by (auto simp: same_views_def)
next
  case (At_reuse cl)
  then obtain e' where "handleReuse L s ctx (TC_UserID cl) w = (e', w')" using assms by (auto split: prod.splits)
  from reuse_frame(2) [OF this] assms(1) show ?thesis by (auto simp: same_views_def view_changed_def)
next
  case (At_expired tok)
  then obtain ru where "RTR_DeleteByTokenHash (refreshTokenRepository s) ctx (Hash tok) w = (ru, w')"
    using assms by (auto split: prod.splits)
  from drop_hash [OF this] assms(1) show ?thesis by (auto simp: same_views_def view_changed_def)
qed (use assms rollback [OF assms(1)] in auto)

text \<open>A request that succeeds after a pause: what it wrote.\<close>

lemma resume_register:
  assumes "dbtx_From ctx = None" and "resume L s ctx (At_register u user) w = (Inr (a, r), w')"
  shows "\<exists>u' row ex cl. user_inserted u u' \<and> session_row (GU_ID user) r ex row \<and> refresh_claims r cl \<and> TC_UserID cl = GU_ID user
    \<and> (\<forall>x \<in> set (users (view Pool w)). \<not> user_clash u x) \<and> (\<forall>x \<in> set (refresh_tokens (view Pool w)). \<not> token_clash row x)
    \<and> view Pool w' = add_token row (add_user u' (view Pool w))"
proof -
  from assms(2) have tx: "TM_WithinTx (txManager s) ctx (register_closure L s u user) w = (Inr (a, r), w')" by simp
  obtain w1 w2 where "view Tx w1 = view Pool w" "register_closure L s u user (dbtx_Into ctx Tx) w1 = (Inr (a, r), w2)"
    "view Pool w' = view Tx w2" using commit [OF assms(1) tx] by metis
  with register_closure_ok [OF this(2)] show ?thesis by simp
qed

lemma resume_grants:
  assumes "dbtx_From ctx = None" and "resume L s ctx p w = (Inr (a, r), w')" and "point_ok refresh_claims H (view Pool w) p"
    and "\<And>u user. p \<noteq> At_register u user" and "\<And>i. p \<noteq> At_delete i"
  shows "\<exists>us q i row ex cl. map User_ID us = map User_ID (users (view Pool w)) \<and> map User_Email us = map User_Email (users (view Pool w))
    \<and> known (view Pool w) i \<and> session_row i r ex row \<and> refresh_claims r cl \<and> TC_UserID cl = i
    \<and> (\<forall>x \<in> set (refresh_tokens (view Pool w)). \<not> q x \<longrightarrow> \<not> token_clash row x)
    \<and> view Pool w' = add_token row (drop_tokens q ((view Pool w)\<lparr>users := us\<rparr>))"
proof (cases p)
  case (At_login u)
  have "drop_tokens (\<lambda>_. False) t = t" for t by (simp add: drop_tokens_def)
  with issue_ok assms At_login show ?thesis
    by (intro exI [of _ "users (view Pool w)"] exI [of _ "\<lambda>_. False"] exI [of _ "User_ID u"]) (fastforce simp: view_changed_def)
next
  case (At_rotate tok c)
  then have tx: "TM_WithinTx (txManager s) ctx (rotate_closure L s (Hash tok) c) w = (Inr (a, r), w')" using assms(2) by simp
  obtain w1 w2 where "view Tx w1 = view Pool w" "rotate_closure L s (Hash tok) c (dbtx_Into ctx Tx) w1 = (Inr (a, r), w2)"
    "view Pool w' = view Tx w2" using commit [OF assms(1) tx] by metis
  with rotate_closure_ok [OF this(2)] assms(3) At_rotate show ?thesis
    by (intro exI [of _ "users (view Pool w)"] exI [of _ "\<lambda>x. RT_TokenHash x = Hash tok"] exI [of _ "TC_UserID c"]) simp
next
  case (At_password i u h)
  then have tx: "TM_WithinTx (txManager s) ctx (change_password_closure L s i u h) w = (Inr (a, r), w')" using assms(2) by simp
  obtain w1 w2 where w: "view Tx w1 = view Pool w" "change_password_closure L s i u h (dbtx_Into ctx Tx) w1 = (Inr (a, r), w2)"
    "view Pool w' = view Tx w2" using commit [OF assms(1) tx] by metis
  from change_password_closure_ok [OF w(2)] obtain us row ex cl where
    us: "rows_rewritten (\<lambda>x. user_live x \<and> User_ID x = i) (user_updated (zero_UserEntity\<lparr>User_Password := h\<rparr>)) (users (view Pool w)) us"
    and r: "session_row (User_ID u) r ex row" "refresh_claims r cl" "TC_UserID cl = User_ID u"
      "\<forall>x \<in> set (refresh_tokens (view Pool w)). RT_UserID x \<noteq> i \<longrightarrow> \<not> token_clash row x"
      "view Pool w' = add_token row (drop_tokens (\<lambda>x. RT_UserID x = i) ((view Pool w)\<lparr>users := us\<rparr>))" using w by auto
  have "map User_ID us = map User_ID (users (view Pool w))" "map User_Email us = map User_Email (users (view Pool w))"
    using rewritten_keys [OF us] updated_password by blast+
  with r assms(3) At_password show ?thesis
    by (intro exI [of _ us] exI [of _ "\<lambda>x. RT_UserID x = i"] exI [of _ i]) auto
qed (use assms(2,4,5) in \<open>auto split: prod.splits\<close>)

lemma grants_race:
  assumes "dbtx_From ctx = None" and "resume L s ctx p w = (Inr (a, r), w')" and "point_ok refresh_claims H (view Pool w) p"
    and "\<And>u user. p \<noteq> At_register u user" and "\<And>i. p \<noteq> At_delete i"
  shows "(race_step refresh_claims {r})\<^sup>*\<^sup>* (view Pool w) (view Pool w')"
proof -
  let ?step = "race_step refresh_claims {r}"
  from resume_grants [OF assms] obtain us q i row ex cl where
    us: "map User_ID us = map User_ID (users (view Pool w))" "map User_Email us = map User_Email (users (view Pool w))"
    and r: "known (view Pool w) i" "session_row i r ex row" "refresh_claims r cl" "TC_UserID cl = i"
      "\<forall>x \<in> set (refresh_tokens (view Pool w)). \<not> q x \<longrightarrow> \<not> token_clash row x"
      "view Pool w' = add_token row (drop_tokens q ((view Pool w)\<lparr>users := us\<rparr>))" by blast
  let ?t = "(view Pool w)\<lparr>users := us\<rparr>"
  have "?step\<^sup>*\<^sup>* (view Pool w) ?t" using us by (auto intro: rewrite_users)
  also have "?step\<^sup>*\<^sup>* ?t (drop_tokens q ?t)" by (auto intro: end_rows)
  also have "?step (drop_tokens q ?t) (view Pool w')" unfolding r(6)
    by (rule grant [where claims = refresh_claims, OF _ r(2-4)]) (use r us in \<open>auto simp: known_ids simp del: set_map\<close>)
  finally show ?thesis .
qed

lemma register_races:
  assumes "dbtx_From ctx = None" and "resume L s ctx (At_register u user) w = (Inr (a, r), w')" and "User_ID u = GU_ID user"
  shows "(race_step refresh_claims {r})\<^sup>*\<^sup>* (view Pool w) (view Pool w')"
proof -
  from resume_register [OF assms(1,2)] obtain u' row ex cl where
    u': "user_inserted u u'" "\<forall>x \<in> set (users (view Pool w)). \<not> user_clash u x"
    and row: "session_row (GU_ID user) r ex row" "refresh_claims r cl" "TC_UserID cl = GU_ID user"
      "\<forall>x \<in> set (refresh_tokens (view Pool w)). \<not> token_clash row x"
    and w': "view Pool w' = add_token row (add_user u' (view Pool w))" by blast
  have k: "User_ID u' = GU_ID user" "User_Email u' = User_Email u" using user_inserted_fields [OF u'(1)] assms(3) by simp_all
  have "race_step refresh_claims {r} (view Pool w) (add_user u' (view Pool w))"
    by (rule insert_user) (use u'(2) k assms(3) in \<open>auto simp: user_clash_def\<close>)
  moreover have "race_step refresh_claims {r} (add_user u' (view Pool w)) (view Pool w')" unfolding w'
    by (rule grant [where claims = refresh_claims, OF _ row(1-3)]) (use row k in \<open>auto simp: known_def\<close>)
  ultimately show ?thesis by auto
qed

lemma delete_races:
  assumes "dbtx_From ctx = None" and "resume L s ctx (At_delete i) w = (Inr ar, w')"
  shows "(race_step refresh_claims {})\<^sup>*\<^sup>* (view Pool w) (view Pool w')"
proof -
  from assms(2) have tx: "TM_WithinTx (txManager s) ctx (delete_account_closure L s i) w = (Inr ar, w')" by simp
  obtain w1 w2 where w: "view Tx w1 = view Pool w" "delete_account_closure L s i (dbtx_Into ctx Tx) w1 = (Inr ar, w2)"
    "view Pool w' = view Tx w2" using commit [OF assms(1) tx] by metis
  from delete_account_closure_ok [OF w(2)] obtain us where
    us: "rows_rewritten (\<lambda>x. user_live x \<and> User_ID x = i) user_soft_deleted (users (view Pool w)) us"
    and w': "view Pool w' = (drop_tokens (\<lambda>x. RT_UserID x = i) (view Pool w))\<lparr>users := us\<rparr>" using w by auto
  have "map User_ID us = map User_ID (users (view Pool w))" "map User_Email us = map User_Email (users (view Pool w))"
    using rewritten_keys [OF us] soft_deleted_keys by blast+
  then have "race_step refresh_claims {} (drop_tokens (\<lambda>x. RT_UserID x = i) (view Pool w)) (view Pool w')"
    unfolding w' by (intro rewrite_users) simp_all
  with end_rows [of refresh_claims "{}" "view Pool w" "\<lambda>x. RT_UserID x = i"] show ?thesis by auto
qed

lemma resume_races:
  assumes "dbtx_From ctx = None" and "resume L s ctx p w = (res, w')" and "point_ok refresh_claims H (view Pool w) p"
  shows "(race_step refresh_claims (handed_out p res))\<^sup>*\<^sup>* (view Pool w) (view Pool w')"
proof (cases res)
  case (Inl e)
  with resume_error [OF assms(1), of p w e w'] assms(2) show ?thesis
    by (auto intro!: r_into_rtranclp [of "race_step refresh_claims (handed_out p (Inl e))"] end_rows intro: race_step.same)
next
  case (Inr ar)
  then obtain a r where res: "res = Inr (a, r)" by (cases ar) auto
  note run = assms(1) assms(2) [unfolded res]
  show ?thesis
  proof (cases p)
    case (At_register u user)
    with register_races [OF run(1), of u user w a r w'] run(2) assms(3) res show ?thesis by simp
  next
    case (At_delete i)
    with delete_races [OF run(1)] run(2) res show ?thesis by simp
  qed (use grants_race [OF run assms(3)] res in auto)
qed

end


subsection \<open>What survives any overlap\<close>

lemma overlapping_ok:
  assumes "backend L G view up pw_matches bcrypt_work J verified clock"
    and "overlapping L (wired_user_service L G J cfg) w0 H P w"
    and "users (view Pool w0) = []" and "refresh_tokens (view Pool w0) = []" and "inj_on Hash H"
  shows "race_ok (refresh_of verified cfg) H (view Pool w) \<and> (\<forall>p \<in># P. point_ok (refresh_of verified cfg) H (view Pool w) p)"
  using assms(2,5)
proof (induction rule: overlapping.induct)
  case idle
  then show ?case using assms(3,4) by (simp add: race_ok_def tables_ok_def)
next
  let ?claims = "refresh_of verified cfg"
  note us = backend.wired_service [OF assms(1), of cfg]
  have uniq: "?claims tk c \<Longrightarrow> ?claims tk c' \<Longrightarrow> c' = c" for tk c c'
    using jwt_runtime.verified_unique [OF backend.axioms(2) [OF assms(1)]] by blast
  {
    case (enter H P w T p w')
    have v: "view Pool w' = view Pool w" using user_service.begins_frame [OF us enter.hyps(2)] by (simp add: same_views_def)
    have inj: "inj_on Hash H" using enter.prems by (simp add: inj_on_Un)
    have ok: "race_ok ?claims (H \<union> T) (view Pool w)" using enter.IH [OF inj] by (auto intro: race_ok_mono)
    have "point_ok ?claims (H \<union> T) (view Pool w) p"
      by (rule user_service.begins_point [OF us enter.hyps(2) ok _ enter.prems]) (simp, erule (1) uniq)
    with ok enter.IH [OF inj] show ?case unfolding v by (auto intro: point_ok_mono)
  next
    case (refused H P w T e w')
    have v: "view Pool w' = view Pool w" using user_service.begins_frame [OF us refused.hyps(2)] by (simp add: same_views_def)
    have inj: "inj_on Hash H" using refused.prems by (simp add: inj_on_Un)
    with refused.IH show ?case unfolding v by (auto intro: race_ok_mono point_ok_mono)
  next
    case (leave H p P w ctx res w')
    let ?H = "H \<union> handed_out p res"
    have inj: "inj_on Hash H" using leave.prems by (simp add: inj_on_Un)
    have IH: "race_ok ?claims ?H (view Pool w)" "\<forall>q \<in># add_mset p P. point_ok ?claims H (view Pool w) q"
      using leave.IH [OF inj] by (auto intro: race_ok_mono)
    have "(race_step ?claims (handed_out p res))\<^sup>*\<^sup>* (view Pool w) (view Pool w')"
      by (rule user_service.resume_races [OF us leave.hyps(2,3)]) (use IH in auto)
    then have steps: "(race_step ?claims ?H)\<^sup>*\<^sup>* (view Pool w) (view Pool w')" by (rule race_steps_mono) simp
    show ?case using race_steps_ok [OF steps] IH by (auto intro: point_ok_mono)
  next
    case (whole H P w T w')
    have inj: "inj_on Hash H" using whole.prems by (simp add: inj_on_Un)
    have ok: "race_ok ?claims (H \<union> T) (view Pool w)" using whole.IH [OF inj] by (auto intro: race_ok_mono)
    have "(account_step ?claims (H \<union> T))\<^sup>*\<^sup>* (view Pool w) (view Pool w')"
      using user_service.call_machine [OF us whole.hyps(2)] by (rule account_steps_mono) simp
    then have steps: "(race_step ?claims (H \<union> T))\<^sup>*\<^sup>* (view Pool w) (view Pool w')"
      by (rule account_steps_race [OF _ ok whole.prems]) (erule (1) uniq)
    show ?case using race_steps_ok [OF steps] ok whole.IH [OF inj] by (auto intro: point_ok_mono)
  }
qed


text \<open>C2. However requests overlap, starting from an empty database: ids, addresses and token digests stay unique, and
  every session belongs to an account whose row exists, provided SHA-256 does not collide on the refresh tokens that
  occurred. (That the account is still live needs that deletion does not overlap with another request of its owner.)\<close>

theorem overlapping_requests_keep_tables:
  assumes "backend L G view up pw_matches bcrypt_work J verified clock"
    and "overlapping L (wired_user_service L G J cfg) w0 H P w"
    and "users (view Pool w0) = []" and "refresh_tokens (view Pool w0) = []" and "inj_on Hash H"
  shows "distinct (map User_ID (users (view Pool w))) \<and> distinct (map User_Email (users (view Pool w)))
    \<and> distinct (map RT_ID (refresh_tokens (view Pool w))) \<and> distinct (map RT_TokenHash (refresh_tokens (view Pool w)))
    \<and> (\<forall>row \<in> set (refresh_tokens (view Pool w)). \<exists>u \<in> set (users (view Pool w)). User_ID u = RT_UserID row)"
  using overlapping_ok [OF assms] by (simp add: race_ok_def tables_ok_def known_def)

text \<open>Two registrations with one address, both past their check before either has written; then the first writes.\<close>

definition bob :: RegisterUserRequest where
  "bob = \<lparr>Reg_Email = ''ann@example.com'', Reg_Password = ''password'', Reg_Name = ''Bob''\<rparr>"

lemma two_registrations:
  obtains p w1 q w2 a r w3 where "begin_Register mem_lib svc0 Background ann mem0 = (Inr p, w1)"
    "begin_Register mem_lib svc0 Background bob w1 = (Inr q, w2)"
    "resume mem_lib svc0 Background p w2 = (Inr (a, r), w3)" "\<And>i. p \<noteq> At_delete i"
    "length (refresh_tokens (m_pool w3)) = 1" "mem_up w3"
    "\<exists>x \<in> set (users (m_pool w3)). User_Email x = Reg_Email bob"
  by (simp add: run bob_def begin_Register_def)

theorem overlapping_requests_keep_tables_witness:
  "\<exists>H P w row. overlapping mem_lib svc0 mem0 H P w \<and> size P = 1 \<and> refresh_tokens (m_pool w) = [row]
     \<and> (\<exists>u \<in> set (users (m_pool w)). User_ID u = RT_UserID row)"
proof -
  obtain p w1 q w2 a r w3 where r: "begin_Register mem_lib svc0 Background ann mem0 = (Inr p, w1)"
    "begin_Register mem_lib svc0 Background bob w1 = (Inr q, w2)" "resume mem_lib svc0 Background p w2 = (Inr (a, r), w3)"
    "\<And>i. p \<noteq> At_delete i" "length (refresh_tokens (m_pool w3)) = 1"
    by (rule two_registrations) blast
  note two = enter [OF enter [OF idle register [OF dbtx_From_Background r(1)]] register [OF dbtx_From_Background r(2)]]
  have "handed_out p (Inr (a, r)) = {r}" using r(4) by (cases p) auto
  with leave [OF two [unfolded add_mset_commute [of q]] dbtx_From_Background r(3)]
  have s: "overlapping mem_lib svc0 mem0 {r} {#q#} w3" by simp
  obtain row where "refresh_tokens (m_pool w3) = [row]" using r(5) by (cases "refresh_tokens (m_pool w3)") auto
  with overlapping_requests_keep_tables [OF mem_backend s] s show ?thesis
    by (intro exI [of _ "{r}"] exI [of _ "{#q#}"] exI [of _ w3]) (auto simp: mem0_def no_rows_def)
qed


text \<open>C8. Of two registrations with one address the slower is refused as a conflict, even when both had passed the check
  before either wrote: it never succeeds, changes nothing, and with the infrastructure up its error is the conflict.\<close>

theorem racing_registration_refused:
  assumes "backend L G view up pw_matches bcrypt_work J verified clock" and "dbtx_From ctx = None"
    and "begin_Register L (wired_user_service L G J cfg) ctx req w = (Inr p, w1)"
    and "x \<in> set (users (view Pool w2))" and "User_Email x = Reg_Email req"
    and "resume L (wired_user_service L G J cfg) ctx p w2 = (res, w3)"
  shows "(\<exists>e. res = Inl e) \<and> view Pool w3 = view Pool w2 \<and> (up w2 \<longrightarrow> res = Inl ErrUserAlreadyExists)"
proof -
  note us = backend.wired_service [OF assms(1), of cfg]
  obtain u user where p: "p = At_register u user" "User_Email u = Reg_Email req"
    using assms(3) by (auto simp: begin_Register_def Let_def split: prod.splits option.splits sum.splits)
  then have clash: "user_clash u x" using assms(5) by (simp add: user_clash_def)
  have no: "\<nexists>ar. res = Inr ar"
    using user_service.resume_register [OF us assms(2), of u user w2] assms(4,6) p clash by (metis surj_pair)
  then obtain e where e: "res = Inl e" by (cases res) auto
  have "view Pool w3 = view Pool w2"
    using user_service.rollback(1) [OF us assms(2)] assms(6) p e by simp
  moreover have "res = Inl ErrUserAlreadyExists" if "up w2"
    using user_service.register_closure_conflict [OF us assms(2) that assms(4) clash] assms(6) p by simp
  ultimately show ?thesis using e by blast
qed

theorem racing_registration_refused_witness:
  "\<exists>p w1 q w2 a r w3 w4. begin_Register mem_lib svc0 Background ann mem0 = (Inr p, w1)
     \<and> begin_Register mem_lib svc0 Background bob w1 = (Inr q, w2) \<and> resume mem_lib svc0 Background p w2 = (Inr (a, r), w3)
     \<and> resume mem_lib svc0 Background q w3 = (Inl ErrUserAlreadyExists, w4) \<and> m_pool w4 = m_pool w3"
proof -
  obtain p w1 q w2 a r w3 where r: "begin_Register mem_lib svc0 Background ann mem0 = (Inr p, w1)"
    "begin_Register mem_lib svc0 Background bob w1 = (Inr q, w2)" "resume mem_lib svc0 Background p w2 = (Inr (a, r), w3)"
    "mem_up w3" "\<exists>x \<in> set (users (m_pool w3)). User_Email x = Reg_Email bob"
    by (rule two_registrations) blast
  obtain res w4 where q: "resume mem_lib svc0 Background q w3 = (res, w4)" by (metis surj_pair)
  from r(5) obtain x where x: "x \<in> set (users (mem_view Pool w3))" "User_Email x = Reg_Email bob" by auto
  from racing_registration_refused [OF mem_backend dbtx_From_Background r(2) x q] r q show ?thesis by auto
qed

subsection \<open>What does not survive\<close>

text \<open>A refresh that passed its check before the account was deleted still rotates afterwards: \<open>rotate_closure\<close> does not
  look whether its delete found the row. The deleted account has a session again.\<close>

lemma refresh_outlives_deletion:
  "\<exists>p w1 w2 a r w3. begin_Refresh mem_lib svc0 Background t1 mem2 = (Inr p, w1)
     \<and> DeleteAccount mem_lib svc0 Background 1 w1 = (Inr (), w2) \<and> refresh_tokens (m_pool w2) = []
     \<and> resume mem_lib svc0 Background p w2 = (Inr (a, r), w3)
     \<and> map RT_UserID (refresh_tokens (m_pool w3)) = [1] \<and> map user_live (users (m_pool w3)) = [False]"
  by (simp add: run begin_Refresh_def)

text \<open>The same for a login whose password was checked before the deletion.\<close>

lemma login_outlives_deletion:
  "\<exists>p w1 w2 a r w3. begin_Login mem_lib svc0 Background \<lparr>Login_Email = ''ann@example.com'', Login_Password = ''secret12''\<rparr> mem2 = (Inr p, w1)
     \<and> DeleteAccount mem_lib svc0 Background 1 w1 = (Inr (), w2) \<and> refresh_tokens (m_pool w2) = []
     \<and> resume mem_lib svc0 Background p w2 = (Inr (a, r), w3)
     \<and> map RT_UserID (refresh_tokens (m_pool w3)) = [1] \<and> map user_live (users (m_pool w3)) = [False]"
  by (simp add: run begin_Login_def)


text \<open>Two refreshes with one token that both passed their check before either rotated: both succeed, and one session has
  become two. \<open>minted n\<close> is the refresh token with the id \<open>n\<close>; the digests of the three tokens are taken to differ.\<close>

definition minted :: "uuid \<Rightarrow> string" where
  "minted n = mem_token SigningMethodHS256 (t1_claims\<lparr>TC_ID := mem_uuid_String n\<rparr>) ''refresh''"

lemma double_refresh_forks_session:
  assumes "Hash (minted 10) \<noteq> Hash t1" and "Hash (minted 12) \<noteq> Hash (minted 10)"
  shows "\<exists>p w1 w2 a r w3 a' r' w4. begin_Refresh mem_lib svc0 Background t1 mem2 = (Inr p, w1)
     \<and> begin_Refresh mem_lib svc0 Background t1 w1 = (Inr p, w2) \<and> resume mem_lib svc0 Background p w2 = (Inr (a, r), w3)
     \<and> resume mem_lib svc0 Background p w3 = (Inr (a', r'), w4) \<and> map RT_UserID (refresh_tokens (m_pool w4)) = [1, 1]"
  using assms by (simp add: minted_def run begin_Refresh_def token_clash_def)

end
