(* ===== verification/Serving.thy ===== *)
theory Serving
  imports Container Route_Effects Interleaving
begin

text \<open>
  The whole server: what holds of a request on its way through the middleware chain holds of the
  router of the container, and so of every sequence of requests and sweeps that the running
  program serves.
\<close>

subsection \<open>What holds through the chain\<close>

text \<open>The same request further down the chain: nothing sent yet, no cookie set, the same transaction in its context.\<close>

definition onward :: "'c ginlib \<Rightarrow> ('c, 'w) ginext \<Rightarrow> ('c \<Rightarrow> (nat \<times> APIResponse) list) \<Rightarrow> ('c \<Rightarrow> cookie list) \<Rightarrow> 'c \<Rightarrow> 'c \<Rightarrow> bool" where
  "onward N X sent cookies_of c c' \<longleftrightarrow> sent c' = sent c \<and> cookies_of c' = cookies_of c \<and> request N X c' = request N X c
     \<and> dbtx_From (gin_Context N c') = dbtx_From (gin_Context N c)"

text \<open>Limiting the body and setting a deadline keep cookies and transaction; the tracing middleware runs the rest of the chain
  once, on the same request.\<close>

locale http_server = http_platform N sent cookies_of headers_of aborted X L R H quiet
  for N :: "'c ginlib" and sent and cookies_of and headers_of and aborted and X :: "('c, 'w) ginext" and L :: "'w golib"
    and R :: "('f, 'b, 'w) ratelib" and H :: "('f, 'b, 'w) limheap" and quiet :: "'w \<Rightarrow> 'w \<Rightarrow> bool" +
  assumes Body_onward: "onward N X sent cookies_of c (gx_MaxBytesReader X n c)"
    and Deadline_onward: "gx_WithTimeout X d c w = (c', w') \<Longrightarrow> onward N X sent cookies_of c c'"
    and Tracing_onward: "otelgin_Middleware X sn f next c w = (c', w') \<Longrightarrow>
      \<exists>c1 w1 c2 w2. next c1 w1 = (c2, w2) \<and> onward N X sent cookies_of c c1 \<and> sent c' = sent c2 \<and> cookies_of c' = cookies_of c2
        \<and> quiet w w1 \<and> quiet w2 w'"
begin

abbreviation towards :: "'c \<Rightarrow> 'c \<Rightarrow> bool" where
  "towards \<equiv> onward N X sent cookies_of"

lemma onward_refl: "towards c c"
  by (simp add: onward_def)

lemma SecurityHeaders_onward: "\<exists>c1. SecurityHeaders N dev next c w = next c1 w \<and> towards c c1"
  unfolding SecurityHeaders_def Let_def
  by (intro exI conjI, rule refl) (auto simp: onward_def frames Request_frame)

lemma RequestID_onward: "\<exists>c1 w1. RequestID_middleware L N tid next c w = next c1 w1 \<and> towards c c1 \<and> quiet w w1"
proof -
  obtain i w1 where i: "resolveRequestID L N c (tid (gin_Context N c)) w = (i, w1)" by (metis surj_pair)
  show ?thesis unfolding RequestID_middleware_def Let_def i prod.case
    by (intro exI conjI, rule refl) (auto simp: onward_def frames Request_frame resolve_quiet [OF i])
qed

end

text \<open>
  A relation \<open>P\<close> between the request and the world before and the response and the world after that every layer of the
  chain preserves: it looks at the request, at what was sent and at the cookies only, it holds when the rate limiter refuses,
  and the \<open>cors\<close> middleware either passes the request on or answers it in accordance with \<open>P\<close>.
\<close>

locale chain_relation = http_server N sent cookies_of headers_of aborted X L R H quiet
  for N :: "'c ginlib" and sent and cookies_of and headers_of and aborted and X :: "('c, 'w) ginext" and L :: "'w golib"
    and R :: "('f, 'b, 'w) ratelib" and H :: "('f, 'b, 'w) limheap" and quiet :: "'w \<Rightarrow> 'w \<Rightarrow> bool" +
  fixes cc :: CorsConfig
    and P :: "'c \<Rightarrow> 'w \<Rightarrow> 'c \<Rightarrow> 'w \<Rightarrow> bool"
  assumes before: "onward N X sent cookies_of c c1 \<Longrightarrow> quiet w w1 \<Longrightarrow> P c1 w1 c' w' \<Longrightarrow> P c w c' w'"
    and behind: "P c w c1 w1 \<Longrightarrow> sent c' = sent c1 \<Longrightarrow> cookies_of c' = cookies_of c1 \<Longrightarrow> quiet w1 w' \<Longrightarrow> P c w c' w'"
    and limited: "P c w (abortWithError N StatusTooManyRequests msg c) w"
    and cors: "cors_New X cc next c w = (p, c', w') \<Longrightarrow>
      (\<exists>c1. onward N X sent cookies_of c c1 \<and> next c1 w = (p, c', w')) \<or> (\<not> p \<and> P c w c' w')"
begin

definition relates :: "('c, 'w) phandler \<Rightarrow> bool" where
  "relates h \<longleftrightarrow> (\<forall>c w p c' w'. dbtx_From (gin_Context N c) = None \<longrightarrow> h c w = (p, c', w') \<longrightarrow> \<not> p \<and> P c w c' w')"

lemma relatesD: "relates h \<Longrightarrow> dbtx_From (gin_Context N c) = None \<Longrightarrow> h c w = (p, c', w') \<Longrightarrow> \<not> p \<and> P c w c' w'"
  unfolding relates_def by blast

text \<open>A layer that hands the request on.\<close>

lemma relates_layer:
  assumes "relates h"
    and "\<And>c w p c' w'. dbtx_From (gin_Context N c) = None \<Longrightarrow> layer c w = (p, c', w') \<Longrightarrow> (\<not> p \<and> P c w c' w') \<or>
      (\<exists>c1 w1 w2. towards c c1 \<and> quiet w w1 \<and> h c1 w1 = (p, c', w2) \<and> quiet w2 w')"
  shows "relates layer"
proof -
  have "\<not> p \<and> P c w c' w'" if free: "dbtx_From (gin_Context N c) = None" and l: "layer c w = (p, c', w')" for c w p c' w'
    using assms(2) [OF free l]
  proof
    assume "\<exists>c1 w1 w2. towards c c1 \<and> quiet w w1 \<and> h c1 w1 = (p, c', w2) \<and> quiet w2 w'"
    then obtain c1 w1 w2 where o: "towards c c1" "quiet w w1" "h c1 w1 = (p, c', w2)" "quiet w2 w'" by blast
    have "\<not> p \<and> P c1 w1 c' w2" by (rule relatesD [OF assms(1) _ o(3)]) (use o(1) free in \<open>simp add: onward_def\<close>)
    then show ?thesis using before [OF o(1,2)] behind [OF _ refl refl o(4)] by blast
  qed
  then show ?thesis unfolding relates_def by blast
qed

lemma handed_on:
  "towards c c1 \<Longrightarrow> quiet w w1 \<Longrightarrow> h c1 w1 = (p, c', w2) \<Longrightarrow> quiet w2 w' \<Longrightarrow>
    \<exists>c1 w1 w2. towards c c1 \<and> quiet w w1 \<and> h c1 w1 = (p, c', w2) \<and> quiet w2 w'"
  by blast

lemma relates_Timeout: "relates h \<Longrightarrow> relates (Timeout X d h)"
proof (rule relates_layer, assumption, rule disjI2)
  fix c w p c' w'
  assume t: "Timeout X d h c w = (p, c', w')"
  obtain c1 w1 where d: "gx_WithTimeout X d c w = (c1, w1)" by (metis surj_pair)
  show "\<exists>c1 w1 w2. towards c c1 \<and> quiet w w1 \<and> h c1 w1 = (p, c', w2) \<and> quiet w2 w'"
  proof (cases "d \<le> 0")
    case True
    with t show ?thesis by (intro handed_on [where h = h, OF onward_refl quiet_refl _ quiet_refl]) (simp add: Timeout_def)
  next
    case False
    obtain w2 where "h c1 w1 = (p, c', w2)" "w' = gx_cancel X c1 w2"
      using t False d by (auto simp: Timeout_def split: prod.splits)
    with quiet_calls(1) show ?thesis by (intro handed_on [where h = h, OF Deadline_onward [OF d] conjunct2 [OF Deadline_frame [OF d]]]) auto
  qed
qed

lemma relates_RateLimit: "relates h \<Longrightarrow> relates (RateLimit returned N (limiter_Allow L R H ref) h)"
proof (erule relates_layer)
  fix c w p c' w'
  assume r: "RateLimit returned N (limiter_Allow L R H ref) h c w = (p, c', w')"
  obtain ok w1 where a: "limiter_Allow L R H ref (gin_ClientIP N c) w = (ok, w1)" by (metis surj_pair)
  show "(\<not> p \<and> P c w c' w') \<or> (\<exists>c1 w1 w2. towards c c1 \<and> quiet w w1 \<and> h c1 w1 = (p, c', w2) \<and> quiet w2 w')"
  proof (cases ok)
    case True
    with r a have "h c w1 = (p, c', w')" by (simp add: RateLimit_def)
    from handed_on [where h = h, OF onward_refl limiter_quiet [OF a] this quiet_refl] show ?thesis by blast
  next
    case False
    with r a behind [OF limited refl refl limiter_quiet [OF a]] show ?thesis by (auto simp: RateLimit_def returned_def)
  qed
qed

lemma relates_BodyLimit: "relates h \<Longrightarrow> relates (BodyLimit X n h)"
proof (erule relates_layer, rule disjI2)
  fix c w p c' w'
  let ?c = "if n > 0 \<and> gx_HasBody X c then gx_MaxBytesReader X n c else c"
  assume "BodyLimit X n h c w = (p, c', w')"
  then have h: "h ?c w = (p, c', w')" by (simp only: BodyLimit_def)
  have "towards c ?c" by (simp add: Body_onward onward_refl)
  from handed_on [where h = h, OF this quiet_refl h quiet_refl] show "\<exists>c1 w1 w2. towards c c1 \<and> quiet w w1 \<and> h c1 w1 = (p, c', w2) \<and> quiet w2 w'" .
qed

lemma relates_cors: "relates h \<Longrightarrow> relates (cors_New X cc h)"
  by (erule relates_layer) (blast dest: cors intro: quiet_refl)

lemma relates_SecurityHeaders: "relates h \<Longrightarrow> relates (SecurityHeaders N dev h)"
proof (erule relates_layer, rule disjI2)
  fix c w p c' w'
  assume "SecurityHeaders N dev h c w = (p, c', w')"
  with SecurityHeaders_onward [of dev h c w] show "\<exists>c1 w1 w2. towards c c1 \<and> quiet w w1 \<and> h c1 w1 = (p, c', w2) \<and> quiet w2 w'"
    by (metis quiet_refl)
qed

lemma relates_recording: "relates h \<Longrightarrow> relates ((if metrics then Metrics_Middleware L N X else id) (AccessLog L N X h))"
  by (erule relates_layer) (meson recording_out onward_refl)

lemma relates_chain:
  assumes "relates h" and "cors_config cfg = cc"
  shows "relates (inner_chain L R H N X cfg metrics limiter h)"
proof -
  have "relates ((case limiter of Some ref \<Rightarrow> RateLimit returned N (limiter_Allow L R H ref) | None \<Rightarrow> id)
      (Timeout X (RequestTimeout (Server cfg)) h))"
    by (cases limiter) (simp_all add: relates_Timeout [OF assms(1)] relates_RateLimit)
  then show ?thesis
    unfolding inner_chain_def assms(2) by (intro relates_recording relates_SecurityHeaders relates_cors relates_BodyLimit)
qed

lemma router_relates:
  assumes "relates h" and "cors_config cfg = cc" and "newRouter L R H N X tid cfg metrics w0 = (router, w00)"
    and "dbtx_From (gin_Context N c) = None" and "en_Use router h c w = (c', w')"
  shows "P c w c' w'"
proof -
  obtain limiter where use: "en_Use router h = (if Tracing_Enabled (Tracing cfg)
      then otelgin_Middleware X (ServiceName (Tracing cfg)) traced
        (RequestID_middleware L N tid (Recovery N (inner_chain L R H N X cfg metrics limiter h)))
      else RequestID_middleware L N tid (Recovery N (inner_chain L R H N X cfg metrics limiter h)))"
    using assms(3) by (auto simp: newRouter_def Let_def split: prod.splits if_splits)
  have inner: "P cx wx cy wy" if free: "dbtx_From (gin_Context N cx) = None"
    and o: "RequestID_middleware L N tid (Recovery N (inner_chain L R H N X cfg metrics limiter h)) cx wx = (cy, wy)" for cx wx cy wy
  proof -
    obtain c1 w1 where r: "Recovery N (inner_chain L R H N X cfg metrics limiter h) c1 w1 = (cy, wy)" "towards cx c1" "quiet wx w1"
      using RequestID_onward [of tid "Recovery N (inner_chain L R H N X cfg metrics limiter h)" cx wx] o by metis
    obtain p c2 w2 where i: "inner_chain L R H N X cfg metrics limiter h c1 w1 = (p, c2, w2)" by (metis surj_pair)
    have "\<not> p \<and> P c1 w1 c2 w2"
      by (rule relatesD [OF relates_chain [OF assms(1,2)] _ i]) (use r(2) free in \<open>simp add: onward_def\<close>)
    with r(1) i before [OF r(2,3)] show ?thesis by (auto simp: Recovery_def)
  qed
  show ?thesis
  proof (cases "Tracing_Enabled (Tracing cfg)")
    case True
    with use assms(5) have "otelgin_Middleware X (ServiceName (Tracing cfg)) traced
        (RequestID_middleware L N tid (Recovery N (inner_chain L R H N X cfg metrics limiter h))) c w = (c', w')" by simp
    from Tracing_onward [OF this] obtain c1 wa c2 wb where
      t: "RequestID_middleware L N tid (Recovery N (inner_chain L R H N X cfg metrics limiter h)) c1 wa = (c2, wb)"
      "towards c c1" "sent c' = sent c2" "cookies_of c' = cookies_of c2" "quiet w wa" "quiet wb w'" by blast
    have "P c1 wa c2 wb" by (rule inner [OF _ t(1)]) (use t(2) assms(4) in \<open>simp add: onward_def\<close>)
    then show ?thesis using before [OF t(2,5)] behind [OF _ t(3,4,6)] by blast
  next
    case False
    with use assms(4,5) inner show ?thesis by simp
  qed
qed

end


subsection \<open>The container as a server\<close>

lemma assemble_router:
  assumes "assemble B cfg shutdown db owns w = (ct, w')"
  obtains router w1 limiter w2 where
    "newRouter (lb_go B) (lb_rate B) (lb_heap B) (lb_gin B) (lb_ext B) (lb_traceID B) cfg (MetricsEnabled (Observability cfg)) w = (router, w1)"
    and "authRateLimiter (lb_go B) (lb_rate B) (lb_heap B) (lb_gin B) cfg w1 = (limiter, w2)"
    and "Ct_Router ct = en_Use router (dispatch (lb_gin B) (lb_ext B)
      (SetupRoutes (lb_go B) (lb_gin B) (wired_api (lb_go B) (gdb_gorm db) (lb_jwt B) (token_config cfg) (csrf_service cfg) (cookie_config cfg) limiter)
        @ SetupHealthRoutes (lb_gin B) (NewHealthHandler (NewHealthService (lb_go B)) [(''database'', PingCheck (Some db))])))"
    and "Sv_User (Ct_Services ct) = user_methods (lb_go B) (wired_user_service (lb_go B) (gdb_gorm db) (lb_jwt B) (token_config cfg))"
    and "Ct_db ct = db"
  using assms
  by (auto simp: assemble_def Let_def new_services_def new_handlers_def wired_api_def wired_user_service_def token_config_def split: prod.splits)

lemma dispatch_runs:
  assumes "dispatch N X routes c w = (p, c', w')"
  shows "\<not> p \<and> (NoRoute N c w = (c', w') \<or> (\<exists>r \<in> set routes. rt_handler r c w = (c', w')))"
  using assms nth_mem [of _ routes]
  by (fastforce simp: dispatch_def returned_def find_Some_iff split: option.splits prod.splits)

lemma auth_limiter_cases:
  "authRateLimiter L R H N cfg w = (limiter, w') \<Longrightarrow> limiter = (\<lambda>next. next) \<or> (\<exists>ref. limiter = RateLimit Pair N (limiter_Allow L R H ref))"
  by (auto simp: authRateLimiter_def Let_def split: if_splits prod.splits)

text \<open>Requests of admitted origins: the \<open>cors\<close> middleware passes them on.\<close>

locale open_server = http_server N sent cookies_of headers_of aborted X L R H quiet
  for N :: "'c ginlib" and sent and cookies_of and headers_of and aborted and X :: "('c, 'w) ginext" and L :: "'w golib"
    and R :: "('f, 'b, 'w) ratelib" and H :: "('f, 'b, 'w) limheap" and quiet :: "'w \<Rightarrow> 'w \<Rightarrow> bool" +
  fixes cc :: CorsConfig
  assumes admits: "\<exists>c1. onward N X sent cookies_of c c1 \<and> cors_New X cc next c w = next c1 w"

sublocale open_server \<subseteq> replies: chain_relation N sent cookies_of headers_of aborted X L R H quiet cc "\<lambda>c w c' w'. answers ck c c'" for ck
proof unfold_locales
  fix h c w p c' w'
  assume "cors_New X cc h c w = (p, c', w')"
  then show "(\<exists>c1. onward N X sent cookies_of c c1 \<and> h c1 w = (p, c', w')) \<or> (\<not> p \<and> answers ck c c')"
    using admits [of c h w] by metis
next
  fix c msg
  show "answers ck c (abortWithError N StatusTooManyRequests msg c)" by (rule answers_error) simp
qed (auto simp: answers_def onward_def)

context open_server
begin

lemma dispatch_replies:
  assumes "\<And>r. r \<in> set routes \<Longrightarrow> prompt ck (rt_handler r)"
  shows "replies.relates ck (dispatch N X routes)"
proof -
  have "\<not> p \<and> answers ck c c'" if "dispatch N X routes c w = (p, c', w')" for c w p c' w'
    using dispatch_runs [OF that] assms prompt_other_handlers(6) unfolding prompt_def by (metis fst_conv)
  then show ?thesis unfolding replies.relates_def by blast
qed

lemmas router_replies = replies.router_relates [OF dispatch_replies]

end




interpretation rec_server: http_server rec_gin gr_sent gr_cookies gr_headers gr_aborted "rec_ext path" mem_lib mem_rate mem_heap
  "same_views mem_view" for path
proof unfold_locales
  fix sn f next' c c' and w w' :: mem
  assume "otelgin_Middleware (rec_ext path) sn f next' c w = (c', w')"
  then have "next' c w = (c', w')" by (simp add: rec_ext_def)
  then show "\<exists>c1 w1 c2 w2. next' c1 w1 = (c2, w2) \<and> onward rec_gin (rec_ext path) gr_sent gr_cookies c c1 \<and> gr_sent c' = gr_sent c2
      \<and> gr_cookies c' = gr_cookies c2 \<and> same_views mem_view w w1 \<and> same_views mem_view w2 w'"
    by (intro exI conjI, assumption) (simp_all add: onward_def)
qed (auto simp: onward_def rec_ext_def)

interpretation rec_open: open_server rec_gin gr_sent gr_cookies gr_headers gr_aborted "rec_ext path" mem_lib mem_rate mem_heap
  "same_views mem_view" cc for path cc
  by unfold_locales (auto simp: onward_def rec_ext_def)

text \<open>Ann logs in.\<close>

definition login_request :: gin_rec where
  "login_request = (bare_request ''POST'')\<lparr>gr_login := Inr \<lparr>Login_Email = ''ann@example.com'', Login_Password = ''secret12''\<rparr>\<rparr>"



subsection \<open>The running program\<close>

text \<open>The libraries behind a container on the database handle \<open>db\<close>: opening the pool's handle and pinging read nothing of
  the tables and write nothing, and a request that the \<open>cors\<close> middleware does not pass on leaves the database as it was.\<close>

locale program =
  account_api N sent cookies_of headers_of aborted L "gdb_gorm db" view up pw_matches bcrypt_work J verified clock +
  http_server N sent cookies_of headers_of aborted X L R H "same_views view"
  for N :: "'c ginlib" and sent and cookies_of and headers_of and aborted
    and L :: "'w golib" and db :: "'w gormDB" and view and up and pw_matches and bcrypt_work and J and verified and clock
    and X :: "('c, 'w) ginext" and R :: "('f, 'b, 'w) ratelib" and H :: "('f, 'b, 'w) limheap" +
  assumes Handle_frame: "gdb_DB db w = (q, w') \<Longrightarrow> same_views view w w'"
    and Ping_frame: "gdb_DB db w0 = (Inr q', w1) \<Longrightarrow> sql_PingContext q' ctx w = (e, w') \<Longrightarrow> same_views view w w'"
    and cors_turns: "cors_New X cc next c w = (p, c', w') \<Longrightarrow>
      (\<exists>c1. onward N X sent cookies_of c c1 \<and> next c1 w = (p, c', w')) \<or> (\<not> p \<and> same_views view w w')"

sublocale program \<subseteq> effects: chain_relation N sent cookies_of headers_of aborted X L R H "same_views view" cc "effect_on cfg" for cc cfg
proof unfold_locales
  fix c c1 c' and w w1 w' :: 'w
  assume o: "onward N X sent cookies_of c c1" "same_views view w w1" "effect_on cfg c1 w1 c' w'"
  have "gin_Cookie N c1 = gin_Cookie N c" using o(1) by (simp add: onward_def request_def)
  from effect_after [OF o(2) this o(3)] show "effect_on cfg c w c' w'" .
next
  fix c c1 c' and w w1 w' :: 'w
  assume "effect_on cfg c w c1 w1" "cookies_of c' = cookies_of c1" "same_views view w1 w'"
  then show "effect_on cfg c w c' w'" by (simp add: effect_on_def accounts_kept_def tokens_seen_def same_views_def)
next
  fix h c p c' and w w' :: 'w
  assume "cors_New X cc h c w = (p, c', w')"
  from cors_turns [OF this] show "(\<exists>c1. onward N X sent cookies_of c c1 \<and> h c1 w = (p, c', w')) \<or> (\<not> p \<and> effect_on cfg c w c' w')"
    using effect_none by blast
qed (simp add: effect_none)

context program
begin

lemma dispatch_effects:
  assumes "\<And>r. r \<in> set routes \<Longrightarrow> accounted cfg (rt_handler r)"
  shows "effects.relates cfg (dispatch N X routes)"
proof -
  have "\<not> p \<and> effect_on cfg c w c' w'" if "dbtx_From (gin_Context N c) = None" "dispatch N X routes c w = (p, c', w')" for c w p c' w'
    using dispatch_runs [OF that(2)] that(1) assms accounted_others(6) unfolding accounted_def by metis
  then show ?thesis unfolding effects.relates_def by blast
qed

lemmas router_effects = effects.router_relates [OF dispatch_effects]

lemma ping_keeps: "same_views view w (snd (PingCheck (Some db) ctx w))"
proof -
  obtain q w1 where q: "gdb_DB db w = (q, w1)" by (metis surj_pair)
  show ?thesis
  proof (cases q)
    case (Inr sqlDB)
    obtain e w2 where "sql_PingContext sqlDB ctx w1 = (e, w2)" by (metis surj_pair)
    with q Inr Handle_frame [OF q] Ping_frame show ?thesis by (auto simp: PingCheck_def intro: same_views_trans)
  qed (use q Handle_frame [OF q] in \<open>simp add: PingCheck_def\<close>)
qed

lemma limiter_accounted:
  assumes "limiter = (\<lambda>next. next) \<or> limiter = RateLimit Pair N (limiter_Allow L R H ref)" and "accounted cfg h"
  shows "accounted cfg (limiter h)"
proof -
  have "same_views view w (snd (limiter_Allow L R H ref ip w))" for ip w by (metis limiter_quiet surj_pair snd_conv)
  with assms accounted_limit [of cfg h "limiter_Allow L R H ref"] show ?thesis by auto
qed

end


text \<open>
  A run of the program: requests, one after another, through the router of the container, and sweeps of the janitor in
  between; \<open>H\<close> collects the refresh tokens that requests present and responses hand out.
\<close>

inductive server_run :: "'c ginlib \<Rightarrow> ('c \<Rightarrow> cookie list) \<Rightarrow> ('f, 'c, 'w) Container \<Rightarrow> 'w \<Rightarrow> string set \<Rightarrow> 'w \<Rightarrow> bool"
  for N cookies_of ct w0 where
  boot: "server_run N cookies_of ct w0 {} w0"
| serve: "server_run N cookies_of ct w0 H w \<Longrightarrow> dbtx_From (gin_Context N c) = None \<Longrightarrow> Ct_Router ct c w = (c', w') \<Longrightarrow>
    server_run N cookies_of ct w0 (H \<union> tokens_seen N cookies_of c c') w'"
| sweep: "server_run N cookies_of ct w0 H w \<Longrightarrow> dbtx_From ctx = None \<Longrightarrow>
    server_run N cookies_of ct w0 H (purgeExpiredRefreshTokens ct ctx w)"

context program
begin

lemma container_effects:
  assumes "lb_gin B = N" "lb_ext B = X" "lb_go B = L" "lb_jwt B = J" "lb_rate B = R" "lb_heap B = H"
    and "NewContainer B cfg injected w0 = (Inr ct, w1)" and "Ct_db ct = db"
  shows "dbtx_From (gin_Context N c) = None \<Longrightarrow> Ct_Router ct c w = (c', w') \<Longrightarrow> effect_on (token_config cfg) c w c' w'"
    and "Sv_User (Ct_Services ct) = user_methods L (wired_user_service L (gdb_gorm db) J (token_config cfg))"
proof -
  obtain sd db' owns w3 where asm: "assemble B cfg sd db' owns w3 = (ct, w1)" using NewContainer_ok [OF assms(7)] .
  obtain router w2 limiter w4 where r: "newRouter L R H N X (lb_traceID B) cfg (MetricsEnabled (Observability cfg)) w3 = (router, w2)"
    "authRateLimiter L R H N cfg w2 = (limiter, w4)"
    "Ct_Router ct = en_Use router (dispatch N X
      (SetupRoutes L N (wired_api L (gdb_gorm db) J (token_config cfg) (csrf_service cfg) (cookie_config cfg) limiter)
        @ SetupHealthRoutes N (NewHealthHandler (NewHealthService L) [(''database'', PingCheck (Some db))])))"
    and user: "Sv_User (Ct_Services ct) = user_methods L (wired_user_service L (gdb_gorm db) J (token_config cfg))"
    using assemble_router [OF asm] unfolding assms(1-6) using assms(8) by metis
  show "Sv_User (Ct_Services ct) = user_methods L (wired_user_service L (gdb_gorm db) J (token_config cfg))" by (rule user)
  obtain ref where lim: "limiter = (\<lambda>next. next) \<or> limiter = RateLimit Pair N (limiter_Allow L R H ref)"
    using auth_limiter_cases [OF r(2)] by blast
  have routes: "accounted (token_config cfg) (rt_handler rt)"
    if "rt \<in> set (SetupRoutes L N (wired_api L (gdb_gorm db) J (token_config cfg) (csrf_service cfg) (cookie_config cfg) limiter)
        @ SetupHealthRoutes N (NewHealthHandler (NewHealthService L) [(''database'', PingCheck (Some db))]))" for rt
    by (rule accounted_routes [OF that limiter_accounted [OF lim]]) (simp_all add: ping_keeps)
  show "effect_on (token_config cfg) c w c' w'" if "dbtx_From (gin_Context N c) = None" "Ct_Router ct c w = (c', w')"
    by (rule router_effects [OF routes refl r(1) that(1)]) (use that(2) r(3) in simp_all)
qed

lemma sessions_ok_cong:
  "users t' = users t \<Longrightarrow> refresh_tokens t' = refresh_tokens t \<Longrightarrow> sessions_ok claims T t' = sessions_ok claims T t"
  by (simp add: sessions_ok_def tables_ok_def owner_live_def)

lemma effect_ok:
  assumes "effect_on cfg c w c' w'" and "sessions_ok (refresh_of verified cfg) T (view Pool w)"
    and "inj_on Hash (T \<union> tokens_seen N cookies_of c c')"
  shows "sessions_ok (refresh_of verified cfg) (T \<union> tokens_seen N cookies_of c c') (view Pool w')"
proof -
  let ?T = "T \<union> tokens_seen N cookies_of c c'"
  have ok: "sessions_ok (refresh_of verified cfg) ?T (view Pool w)" using sessions_ok_mono [OF assms(2)] by simp
  from assms(1) consider (kept) "accounts_kept w w'"
    | (steps) S where "S \<subseteq> tokens_seen N cookies_of c c'" "(account_step (refresh_of verified cfg) S)\<^sup>*\<^sup>* (view Pool w) (view Pool w')"
    unfolding effect_on_def by blast
  then show ?thesis
  proof cases
    case kept
    then show ?thesis by (intro iffD2 [OF sessions_ok_cong ok]) (simp_all add: accounts_kept_def)
  next
    case steps
    have "(account_step (refresh_of verified cfg) ?T)\<^sup>*\<^sup>* (view Pool w) (view Pool w')"
      by (rule account_steps_mono [OF steps(2)]) (use steps(1) in blast)
    then show ?thesis by (rule account_steps_ok [OF _ ok assms(3)]) (use verified_unique in blast)
  qed
qed

lemma server_run_ok:
  assumes "lb_gin B = N" "lb_ext B = X" "lb_go B = L" "lb_jwt B = J" "lb_rate B = R" "lb_heap B = H"
    and "NewContainer B cfg injected w0 = (Inr ct, w1)" and "Ct_db ct = db" and "server_run N cookies_of ct w1 T w"
    and "users (view Pool w1) = []" and "refresh_tokens (view Pool w1) = []" and "inj_on Hash T"
  shows "sessions_ok (refresh_of verified (token_config cfg)) T (view Pool w)"
  using assms(9,12)
proof induction
  case boot
  then show ?case using assms(10,11) by (simp add: sessions_ok_def tables_ok_def)
next
  case (serve T w c c' w')
  have "inj_on Hash T" using serve.prems by (simp add: inj_on_Un)
  with serve.IH container_effects(1) [OF assms(1-8) serve.hyps(2,3)] serve.prems show ?case by (intro effect_ok) auto
next
  case (sweep T w ctx)
  have "(account_step (refresh_of verified (token_config cfg)) {})\<^sup>*\<^sup>* (view Pool w) (view Pool (janitor ct ctx 0 w))"
    by (rule janitor_only_ends_sessions [OF backend_axioms sweep.hyps(2) container_effects(2) [OF assms(1-8)]])
  then have "(account_step (refresh_of verified (token_config cfg)) T)\<^sup>*\<^sup>* (view Pool w) (view Pool (purgeExpiredRefreshTokens ct ctx w))"
    unfolding janitor.simps(1) by (rule account_steps_mono) simp
  then show ?case by (rule account_steps_ok [OF _ sweep.IH [OF sweep.prems] sweep.prems]) (use verified_unique in blast)
qed

end



interpretation rec_program: program rec_gin gr_sent gr_cookies gr_headers gr_aborted mem_lib mem_gormDB mem_view mem_up mem_matches m_work
  mem_jwt mem_verified m_now "rec_ext path" mem_rate mem_heap for path
proof (intro program.intro program_axioms.intro)
  show "account_api rec_gin gr_sent gr_cookies gr_headers gr_aborted mem_lib (gdb_gorm mem_gormDB) mem_view mem_up mem_matches m_work
      mem_jwt mem_verified m_now"
    using rec_api.account_api_axioms by (simp add: mem_gormDB_def)
  show "http_server rec_gin gr_sent gr_cookies gr_headers gr_aborted (rec_ext path) mem_lib mem_rate mem_heap (same_views mem_view)"
    by (rule rec_server.http_server_axioms)
qed (auto simp: mem_gormDB_def mem_sql_def rec_ext_def onward_def)

text \<open>Ann signs up.\<close>

definition signup_request :: gin_rec where
  "signup_request = (bare_request ''POST'')\<lparr>gr_register := Inr ann\<rparr>"

lemma served_chain: "Tracing_Enabled (Tracing served_config) = False" "RateLimitEnabled (Security served_config) = True"
  "MetricsEnabled (Observability served_config) = False"
  by code_simp+


text \<open>On the reference libraries the chain only sets headers and reads the clock.\<close>

abbreviation tick :: "mem \<Rightarrow> mem" where
  "tick w \<equiv> w\<lparr>m_now := m_now w + 1\<rparr>"

lemma rec_ext_fields:
  "gx_HasBody (rec_ext path) = (\<lambda>c. False)" "gx_WithTimeout (rec_ext path) = (\<lambda>d c w. (c, w))" "gx_cancel (rec_ext path) = (\<lambda>c w. w)"
  "cors_New (rec_ext path) = (\<lambda>cc h. h)" "log_Line (rec_ext path) = (\<lambda>l as w. w)" "gx_Path (rec_ext path) = (\<lambda>c. path)"
  by (simp_all add: rec_ext_def)

lemma mem_clock: "time_Now mem_lib w = (m_now w, tick w)"
  by (simp add: mem_lib_def)

lemma mem_allows: "limiter_Allow mem_lib mem_rate mem_heap ref ip w = (True, tick w)"
  by (simp add: limiter_Allow_def Allow_def Let_def mem_heap_def mem_rate_def mem_clock NewIPRateLimiter_def gcLocked_def)

lemma rec_headers: "\<exists>hs. SecurityHeaders rec_gin dev h c w = h (c\<lparr>gr_headers := hs\<rparr>) w"
  unfolding SecurityHeaders_def Let_def by (cases dev) (rule exI, simp add: rec_gin_def)+

lemma rec_log: "AccessLog mem_lib rec_gin (rec_ext path) h c w =
    (case h c (tick w) of (p, c2, w2) \<Rightarrow> (p, c2, if p then w2 else tick w2))"
  unfolding AccessLog_def Let_def mem_clock rec_ext_fields prod.case by (auto split: prod.splits bool.splits)

lemma rec_chain:
  "\<exists>hs. inner_chain mem_lib mem_rate mem_heap rec_gin (rec_ext path) cfg False (Some ref) h c w =
     (case h (c\<lparr>gr_headers := hs\<rparr>) (tick (tick w)) of (p, c2, w2) \<Rightarrow> (p, c2, if p then w2 else tick w2))"
proof -
  let ?rest = "BodyLimit (rec_ext path) (MaxRequestBody (Security cfg)) (RateLimit returned rec_gin (limiter_Allow mem_lib mem_rate mem_heap ref)
    (Timeout (rec_ext path) (RequestTimeout (Server cfg)) h))"
  have "?rest = (\<lambda>c w. h c (tick w))"
    by (simp add: fun_eq_iff BodyLimit_def RateLimit_def mem_allows Timeout_def rec_ext_fields split: prod.split)
  moreover obtain hs where "SecurityHeaders rec_gin (DevMode (Auth cfg)) ?rest c (tick w) = ?rest (c\<lparr>gr_headers := hs\<rparr>) (tick w)"
    using rec_headers by metis
  ultimately show ?thesis by (auto simp: inner_chain_def rec_log rec_ext_fields)
qed

text \<open>Ann's registration, served by the router of the container.\<close>

lemma mem_libs_fields:
  "lb_go (mem_libs path env) = mem_lib" "lb_rate (mem_libs path env) = mem_rate" "lb_heap (mem_libs path env) = mem_heap"
  "lb_gin (mem_libs path env) = rec_gin" "lb_ext (mem_libs path env) = rec_ext path" "lb_traceID (mem_libs path env) = (\<lambda>ctx. [])"
  "lb_jwt (mem_libs path env) = mem_jwt" "gdb_gorm mem_gormDB = mem_db"
  by (simp_all add: mem_libs_def mem_gormDB_def)

lemma mem_heap_New: "lim_New mem_heap l w = (0, w)"
  by (simp add: mem_heap_def)

lemma served_router:
  assumes "NewContainer (mem_libs path served_env) served_config (Some mem_gormDB) w0 = (Inr ct, w1)"
  shows "w1 = w0" and "Ct_db ct = mem_gormDB"
    and "Ct_Router ct = RequestID_middleware mem_lib rec_gin (\<lambda>ctx. []) (Recovery rec_gin
      (inner_chain mem_lib mem_rate mem_heap rec_gin (rec_ext path) served_config False (Some 0) (dispatch rec_gin (rec_ext path)
        (SetupRoutes mem_lib rec_gin (wired_api mem_lib mem_db mem_jwt (token_config served_config) (csrf_service served_config)
          (cookie_config served_config) (RateLimit Pair rec_gin (limiter_Allow mem_lib mem_rate mem_heap 0)))
        @ SetupHealthRoutes rec_gin (NewHealthHandler (NewHealthService mem_lib) [(''database'', PingCheck (Some mem_gormDB))])))))"
proof -
  obtain sd owns where asm: "assemble (mem_libs path served_env) served_config sd mem_gormDB owns w0 = (ct, w1)"
    using assms served_settings
    by (auto simp: NewContainer_def mem_libs_def tracing_Init_def trace_config_def open_database_def split: prod.splits)
  show "w1 = w0" using asm served_chain
    by (auto simp: assemble_def Let_def newRouter_def authRateLimiter_def mem_heap_New mem_libs_fields)
  obtain router w2 limiter w4 where r:
    "newRouter mem_lib mem_rate mem_heap rec_gin (rec_ext path) (\<lambda>ctx. []) served_config (MetricsEnabled (Observability served_config)) w0 = (router, w2)"
    "authRateLimiter mem_lib mem_rate mem_heap rec_gin served_config w2 = (limiter, w4)"
    "Ct_Router ct = en_Use router (dispatch rec_gin (rec_ext path)
      (SetupRoutes mem_lib rec_gin (wired_api mem_lib mem_db mem_jwt (token_config served_config) (csrf_service served_config)
        (cookie_config served_config) limiter) @ SetupHealthRoutes rec_gin (NewHealthHandler (NewHealthService mem_lib) [(''database'', PingCheck (Some mem_gormDB))])))"
    "Ct_db ct = mem_gormDB"
    using assemble_router [OF asm] unfolding mem_libs_fields by metis
  have "en_Use router h = RequestID_middleware mem_lib rec_gin (\<lambda>ctx. []) (Recovery rec_gin
      (inner_chain mem_lib mem_rate mem_heap rec_gin (rec_ext path) served_config False (Some 0) h))" for h
    using r(1) served_chain by (auto simp: newRouter_def mem_heap_New)
  moreover have "limiter = RateLimit Pair rec_gin (limiter_Allow mem_lib mem_rate mem_heap 0)"
    using r(2) served_chain by (auto simp: authRateLimiter_def mem_heap_New)
  ultimately show "Ct_Router ct = RequestID_middleware mem_lib rec_gin (\<lambda>ctx. []) (Recovery rec_gin
      (inner_chain mem_lib mem_rate mem_heap rec_gin (rec_ext path) served_config False (Some 0) (dispatch rec_gin (rec_ext path)
        (SetupRoutes mem_lib rec_gin (wired_api mem_lib mem_db mem_jwt (token_config served_config) (csrf_service served_config)
          (cookie_config served_config) (RateLimit Pair rec_gin (limiter_Allow mem_lib mem_rate mem_heap 0)))
        @ SetupHealthRoutes rec_gin (NewHealthHandler (NewHealthService mem_lib) [(''database'', PingCheck (Some mem_gormDB))])))))"
    using r(3) by simp
  show "Ct_db ct = mem_gormDB" by (rule r(4))
qed

lemma register_anywhere:
  assumes "w = mem0\<lparr>m_next := n, m_now := t\<rparr>"
  shows "\<exists>resp w'. Register mem_lib (wired_user_service mem_lib mem_db mem_jwt tc) Background ann w = (Inr resp, w')
    \<and> length (refresh_tokens (m_pool w')) = 1"
  unfolding assms by (simp add: run)


lemma signup_served:
  assumes "NewContainer (mem_libs ''/api/v1/auth/register'' served_env) served_config (Some mem_gormDB) mem0 = (Inr ct, w1)"
  shows "\<exists>c' w' k row. Ct_Router ct signup_request mem0 = (c', w') \<and> refresh_tokens (m_pool w') = [row]
    \<and> filter (\<lambda>k. ck_name k = RefreshTokenCookie) (gr_cookies c') = [k]"
proof -
  let ?p = "''/api/v1/auth/register''" and ?w = "tick (tick (mem0\<lparr>m_next := Suc (m_next mem0)\<rparr>))"
  let ?d = "dispatch rec_gin (rec_ext ?p)
        (SetupRoutes mem_lib rec_gin (wired_api mem_lib mem_db mem_jwt (token_config served_config) (csrf_service served_config)
          (cookie_config served_config) (RateLimit Pair rec_gin (limiter_Allow mem_lib mem_rate mem_heap 0)))
        @ SetupHealthRoutes rec_gin (NewHealthHandler (NewHealthService mem_lib) [(''database'', PingCheck (Some mem_gormDB))]))"
  obtain c1 where c1: "Ct_Router ct signup_request mem0 = (case ?d c1 ?w of (p, c2, w2) \<Rightarrow>
      if p then (abortWithError rec_gin 500 (err_Message ErrInternal) c2, w2) else (c2, tick w2))"
    "gr_method c1 = ''POST''" "gr_register c1 = Inr ann" "gr_cookies c1 = []"
  proof -
    let ?c = "signup_request\<lparr>gr_keys := gomap_set [] RequestIDCtxKey (StrVal (mem_uuid_String (of_nat (m_next mem0)))),
      gr_headers := [(RequestIDHeader, mem_uuid_String (of_nat (m_next mem0)))]\<rparr>"
    have "Ct_Router ct signup_request mem0 = Recovery rec_gin (inner_chain mem_lib mem_rate mem_heap rec_gin (rec_ext ?p) served_config False (Some 0) ?d)
        ?c (mem0\<lparr>m_next := Suc (m_next mem0)\<rparr>)"
      unfolding served_router(3) [OF assms] RequestID_middleware_def resolveRequestID_def
      by (simp add: rec_gin_def mem_lib_def signup_request_def bare_request_def sanitizeRequestID_def)
    moreover obtain hs where "inner_chain mem_lib mem_rate mem_heap rec_gin (rec_ext ?p) served_config False (Some 0) ?d ?c
        (mem0\<lparr>m_next := Suc (m_next mem0)\<rparr>) = (case ?d (?c\<lparr>gr_headers := hs\<rparr>) ?w of (p, c2, w2) \<Rightarrow> (p, c2, if p then w2 else tick w2))"
      using rec_chain by blast
    ultimately show ?thesis
      by (intro that [of "?c\<lparr>gr_headers := hs\<rparr>"])
        (simp_all add: Recovery_def signup_request_def bare_request_def split: prod.split bool.split)
  qed
  obtain resp w2 where reg: "Register mem_lib (wired_user_service mem_lib mem_db mem_jwt (token_config served_config)) Background ann (tick ?w) = (Inr resp, w2)"
    "length (refresh_tokens (m_pool w2)) = 1"
    using register_anywhere [where w = "tick ?w" and n = "Suc (m_next mem0)" and t = "m_now mem0 + 3" and tc = "token_config served_config"] by (auto simp: mem0_def)
  have rec: "gin_Method rec_gin c1 = ''POST''" "gin_BindRegister rec_gin c1 = Inr ann" "gin_Context rec_gin c1 = Background"
    using c1 by (simp_all add: rec_gin_def)
  let ?h = "NewUserHandler (user_methods mem_lib (wired_user_service mem_lib mem_db mem_jwt (token_config served_config)))
    (csrf_methods mem_lib (csrf_service served_config)) (cookie_config served_config)"
  let ?c2 = "setAuthCookies rec_gin ?h (RR_AccessToken resp) (RR_RefreshToken resp) c1"
  obtain st msg dt where d: "?d c1 ?w = (False, OK rec_gin st msg dt ?c2, w2)"
    using rec reg(1)
    by (simp add: dispatch_def SetupRoutes_def public_routes_def rec_ext_fields wired_api_def RateLimit_def mem_allows handle_Register_def
        BindJSON_def user_methods_def returned_def NewUserHandler_def [THEN arg_cong [where f = uh_userService]])
  have "\<exists>k. filter (\<lambda>k. ck_name k = RefreshTokenCookie) (gr_cookies (OK rec_gin st msg dt ?c2)) = [k]"
    using c1(4) by (simp add: OK_def setAuthCookies_def rec_gin.frames auth_cookie_def Let_def AccessTokenCookie_def RefreshTokenCookie_def)
  moreover obtain row where "refresh_tokens (m_pool w2) = [row]" using reg(2) by (cases "refresh_tokens (m_pool w2)") auto
  moreover have "Ct_Router ct signup_request mem0 = (OK rec_gin st msg dt ?c2, tick w2)" using c1(1) d by simp
  ultimately show ?thesis by fastforce
qed


end
