(* ===== verification/Testutil.thy ===== *)
theory Testutil
  imports Serving
begin

text \<open>
  Package \<open>internal/testutil\<close>: the assertions, the in-memory database of a test, the requests and responses of the HTTP
  tests, and the transaction manager of the service tests. A test is a state of \<open>testing.T\<close>; \<open>t.Fatalf\<close> ends it, which
  is the result \<open>None\<close>.
\<close>

subsection \<open>The test\<close>

text \<open>What the helpers use of \<open>testing.T\<close>. The newest cleanup function comes first, the order in which they run.\<close>

record 'w testT =
  tt_Name :: string
  tt_Failed :: bool
  tt_Log :: "string list"
  tt_Cleanups :: "('w \<Rightarrow> 'w) list"

definition t_Errorf :: "string \<Rightarrow> 'w testT \<Rightarrow> 'w testT" where
  "t_Errorf msg t = t\<lparr>tt_Failed := True, tt_Log := tt_Log t @ [msg]\<rparr>"

definition t_Fatalf :: "string \<Rightarrow> 'w testT \<Rightarrow> 'a option \<times> 'w testT" where
  "t_Fatalf msg t = (None, t_Errorf msg t)"

definition t_Cleanup :: "('w \<Rightarrow> 'w) \<Rightarrow> 'w testT \<Rightarrow> 'w testT" where
  "t_Cleanup f t = t\<lparr>tt_Cleanups := f # tt_Cleanups t\<rparr>"

definition run_cleanups :: "'w testT \<Rightarrow> 'w \<Rightarrow> 'w" where
  "run_cleanups t w = fold (\<lambda>f. f) (tt_Cleanups t) w"

subsection \<open>Assertions\<close>

text \<open>\<open>shw\<close> is the verb \<open>%v\<close> or \<open>%#v\<close> at the type of the values.\<close>

definition Equal :: "('a \<Rightarrow> string) \<Rightarrow> 'a \<Rightarrow> 'a \<Rightarrow> string \<Rightarrow> 'w testT \<Rightarrow> 'w testT" where
  "Equal shw got want what t = (if got \<noteq> want then t_Errorf (what @ '': got '' @ shw got @ '', want '' @ shw want) t else t)"

definition DeepEqual :: "('a \<Rightarrow> 'a \<Rightarrow> bool) \<Rightarrow> ('a \<Rightarrow> string) \<Rightarrow> 'a \<Rightarrow> 'a \<Rightarrow> string \<Rightarrow> 'w testT \<Rightarrow> 'w testT" where
  "DeepEqual reflect_DeepEqual shw got want what t =
     (if \<not> reflect_DeepEqual got want then t_Errorf (what @ '': got '' @ shw got @ '', want '' @ shw want) t else t)"

definition assert_True :: "bool \<Rightarrow> string \<Rightarrow> 'w testT \<Rightarrow> 'w testT" where
  "assert_True cond what t = (if \<not> cond then t_Errorf (what @ '': expected true'') t else t)"

definition NoError :: "go_error option \<Rightarrow> 'w testT \<Rightarrow> unit option \<times> 'w testT" where
  "NoError err t = (case err of Some e \<Rightarrow> t_Fatalf (''unexpected error: '' @ Error e) t | None \<Rightarrow> (Some (), t))"

definition assert_Error :: "go_error option \<Rightarrow> string \<Rightarrow> 'w testT \<Rightarrow> unit option \<times> 'w testT" where
  "assert_Error err what t = (case err of None \<Rightarrow> t_Fatalf (what @ '': expected an error, got nil'') t | Some _ \<Rightarrow> (Some (), t))"

text \<open>A nil error matches no target; \<open>%v\<close> prints it as \<open><nil>\<close>.\<close>

definition ErrorIs :: "go_error option \<Rightarrow> go_error \<Rightarrow> 'w testT \<Rightarrow> unit option \<times> 'w testT" where
  "ErrorIs err target t =
     (if \<not> (case err of Some e \<Rightarrow> errors_Is e target | None \<Rightarrow> False)
      then t_Fatalf (''expected error '' @ Error target @ '', got '' @ (case err of Some e \<Rightarrow> Error e | None \<Rightarrow> ''<nil>'')) t
      else (Some (), t))"

subsection \<open>The database of a test\<close>

text \<open>The replacer of the two single characters.\<close>

definition replaced_name :: "string \<Rightarrow> string" where
  "replaced_name n = map (\<lambda>c. if c = CHR ''/'' \<or> c = CHR '' '' then CHR ''_'' else c) n"

definition test_dsn :: "string \<Rightarrow> string \<Rightarrow> string" where
  "test_dsn name u = ''file:'' @ name @ ''_'' @ u @ ''?mode=memory&cache=shared&_pragma=foreign_keys(1)''"

definition NewDB :: "'f goformat \<Rightarrow> 'w golib \<Rightarrow> 'w dblib \<Rightarrow> ('w Migration list \<Rightarrow> 'w Migration list)
    \<Rightarrow> 'w testT \<Rightarrow> 'w \<Rightarrow> ('w gormDB option \<times> 'w testT) \<times> 'w" where
  "NewDB F L D srt t w =
     (let name = replaced_name (tt_Name t);
          (u, w1) = uuid_New L w;
          dsn = test_dsn name (uuid_String L u)
      in case gorm_Open D (sqlite_Open dsn) \<lparr>gc_Logger = Silent, gc_TranslateError = True, gc_DisableAutomaticPing = False\<rparr> w1 of
           (Inl err, w2) \<Rightarrow> (t_Fatalf (''opening test database: '' @ Error err) t, w2)
         | (Inr db, w2) \<Rightarrow>
             (case gdb_DB db w2 of
                (Inl err, w3) \<Rightarrow> (t_Fatalf (''getting underlying sql.DB: '' @ Error err) t, w3)
              | (Inr sqlDB, w3) \<Rightarrow>
                  (let w4 = sql_SetMaxOpenConns sqlDB 1 w3;
                       t1 = t_Cleanup (\<lambda>w. snd (sql_Close sqlDB w)) t
                   in case Migrate F L (gdb_gorm db) (gdb_migrator db) srt w4 of
                        (Inl err, w5) \<Rightarrow> (t_Fatalf (''migrating test database: '' @ Error err) t1, w5)
                      | (Inr _, w5) \<Rightarrow> ((Some db, t1), w5))))"

text \<open>The rows that \<open>MustCreate\<close> is given are pointers to entities.\<close>

datatype entity_row = Row_User UserEntity | Row_RefreshToken RefreshTokenEntity | Row_Counter CounterEntity | Row_Message MessageEntity

fun create_row :: "'w gorm \<Rightarrow> entity_row \<Rightarrow> 'w \<Rightarrow> go_error option \<times> 'w" where
  "create_row G (Row_User r) w = (case g_Create (db_users G) Pool r w of (Inl err, w1) \<Rightarrow> (Some err, w1) | (Inr _, w1) \<Rightarrow> (None, w1))"
| "create_row G (Row_RefreshToken r) w = (case g_Create (db_refresh_tokens G) Pool r w of (Inl err, w1) \<Rightarrow> (Some err, w1) | (Inr _, w1) \<Rightarrow> (None, w1))"
| "create_row G (Row_Counter r) w = (case g_Create (db_counters G) Pool r w of (Inl err, w1) \<Rightarrow> (Some err, w1) | (Inr _, w1) \<Rightarrow> (None, w1))"
| "create_row G (Row_Message r) w = (case g_Create (db_messages G) Pool r w of (Inl err, w1) \<Rightarrow> (Some err, w1) | (Inr _, w1) \<Rightarrow> (None, w1))"

fun row_type :: "entity_row \<Rightarrow> string" where
  "row_type (Row_User _) = ''*entity.UserEntity''"
| "row_type (Row_RefreshToken _) = ''*entity.RefreshTokenEntity''"
| "row_type (Row_Counter _) = ''*entity.CounterEntity''"
| "row_type (Row_Message _) = ''*entity.MessageEntity''"

fun MustCreate :: "'w gormDB \<Rightarrow> entity_row list \<Rightarrow> 'w testT \<Rightarrow> 'w \<Rightarrow> (unit option \<times> 'w testT) \<times> 'w" where
  "MustCreate db [] t w = ((Some (), t), w)"
| "MustCreate db (row # rows) t w =
     (case create_row (gdb_gorm db) row w of
        (Some err, w1) \<Rightarrow> (t_Fatalf (''seeding '' @ row_type row @ '': '' @ Error err) t, w1)
      | (None, w1) \<Rightarrow> MustCreate db rows t w1)"

subsection \<open>Requests and responses\<close>

text \<open>What the helpers use of gin, \<open>net/http/httptest\<close> and \<open>encoding/json\<close>.\<close>

datatype gin_mode = DebugMode | ReleaseMode | TestMode

record ('e, 'q, 'r, 'v, 'w) httptestlib =
  gin_SetMode :: "gin_mode \<Rightarrow> 'w \<Rightarrow> 'w"
  gin_New :: "'w \<Rightarrow> 'e \<times> 'w"
  engine_ServeHTTP :: "'e \<Rightarrow> 'r \<Rightarrow> 'q \<Rightarrow> 'w \<Rightarrow> 'r \<times> 'w"
  httptest_NewRecorder :: 'r
  httptest_NewRequest :: "string \<Rightarrow> string \<Rightarrow> byte list \<Rightarrow> 'q"
  header_Set :: "string \<Rightarrow> string \<Rightarrow> 'q \<Rightarrow> 'q"
  req_AddCookie :: "string \<Rightarrow> string \<Rightarrow> 'q \<Rightarrow> 'q"
  json_Marshal :: "'v \<Rightarrow> go_error + byte list"
  rec_Body :: "'r \<Rightarrow> byte list"
  rec_BodyString :: "'r \<Rightarrow> string"
  rec_Cookies :: "'r \<Rightarrow> cookie list"

definition NewEngine :: "('e, 'q, 'r, 'v, 'w) httptestlib \<Rightarrow> 'w \<Rightarrow> 'e \<times> 'w" where
  "NewEngine T w = gin_New T (gin_SetMode T TestMode w)"

text \<open>The dynamic type of the argument \<open>body any\<close>.\<close>

datatype 'v any_body = Body_nil | Body_string string | Body_bytes "byte list" | Body_value 'v

definition JSONRequest :: "('e, 'q, 'r, 'v, 'w) httptestlib \<Rightarrow> string \<Rightarrow> string \<Rightarrow> 'v any_body \<Rightarrow> 'w testT \<Rightarrow> 'q option \<times> 'w testT" where
  "JSONRequest T method target body t =
     (case (case body of
              Body_nil \<Rightarrow> Inr []
            | Body_string v \<Rightarrow> Inr (bytes v)
            | Body_bytes v \<Rightarrow> Inr v
            | Body_value v \<Rightarrow> json_Marshal T v) of
        Inl err \<Rightarrow> t_Fatalf (''marshalling request body: '' @ Error err) t
      | Inr reader \<Rightarrow> (Some (header_Set T ''Content-Type'' ''application/json'' (httptest_NewRequest T method target reader)), t))"

definition WithCookie :: "('e, 'q, 'r, 'v, 'w) httptestlib \<Rightarrow> 'q \<Rightarrow> string \<Rightarrow> string \<Rightarrow> 'q" where
  "WithCookie T req name value = req_AddCookie T name value req"

definition Do :: "('e, 'q, 'r, 'v, 'w) httptestlib \<Rightarrow> 'e \<Rightarrow> 'q \<Rightarrow> 'w \<Rightarrow> 'r \<times> 'w" where
  "Do T engine req w = engine_ServeHTTP T engine (httptest_NewRecorder T) req w"

text \<open>\<open>unmarshal\<close> is \<open>json.Unmarshal\<close> into the envelope, or into a wrapper whose \<open>data\<close> field has the wanted type.\<close>

definition Envelope :: "'f goformat \<Rightarrow> ('e, 'q, 'r, 'v, 'w) httptestlib \<Rightarrow> (byte list \<Rightarrow> go_error + APIResponse) \<Rightarrow> 'r \<Rightarrow> 'w testT
    \<Rightarrow> APIResponse option \<times> 'w testT" where
  "Envelope F T unmarshal rec t =
     (case unmarshal (rec_Body T rec) of
        Inl err \<Rightarrow> t_Fatalf (''decoding response envelope from '' @ fmt_q F (rec_BodyString T rec) @ '': '' @ Error err) t
      | Inr envelope \<Rightarrow> (Some envelope, t))"

definition DataAs :: "'f goformat \<Rightarrow> ('e, 'q, 'r, 'v, 'w) httptestlib \<Rightarrow> (byte list \<Rightarrow> go_error + 'd) \<Rightarrow> 'r \<Rightarrow> 'w testT \<Rightarrow> 'd option \<times> 'w testT" where
  "DataAs F T unmarshal rec t =
     (case unmarshal (rec_Body T rec) of
        Inl err \<Rightarrow> t_Fatalf (''decoding response data from '' @ fmt_q F (rec_BodyString T rec) @ '': '' @ Error err) t
      | Inr wrapper \<Rightarrow> (Some wrapper, t))"

definition Cookies :: "('e, 'q, 'r, 'v, 'w) httptestlib \<Rightarrow> 'r \<Rightarrow> (string, cookie) gomap" where
  "Cookies T rec = fold (\<lambda>cookie cookies. gomap_set cookies (ck_name cookie) cookie) (rec_Cookies T rec) []"

subsection \<open>Without transactions\<close>

definition PassthroughTx :: "'w TxManager" where
  "PassthroughTx = \<lparr>TM_WithinTx = (\<lambda>ctx fn. fn ctx)\<rparr>"

subsection \<open>What the helpers guarantee\<close>

text \<open>An assertion fails the test exactly when it does not hold, and one that ends the test has failed it.\<close>

lemma assertions_exact:
  "tt_Failed (Equal shw got want what t) \<longleftrightarrow> got \<noteq> want \<or> tt_Failed t"
  "tt_Failed (DeepEqual deq shw got want what t) \<longleftrightarrow> \<not> deq got want \<or> tt_Failed t"
  "tt_Failed (assert_True cond what t) \<longleftrightarrow> \<not> cond \<or> tt_Failed t"
  "fst (NoError err t) = None \<longleftrightarrow> err \<noteq> None" "tt_Failed (snd (NoError err t)) \<longleftrightarrow> err \<noteq> None \<or> tt_Failed t"
  "fst (assert_Error err what t) = None \<longleftrightarrow> err = None" "tt_Failed (snd (assert_Error err what t)) \<longleftrightarrow> err = None \<or> tt_Failed t"
  "fst (ErrorIs err target t) = Some () \<longleftrightarrow> (\<exists>e. err = Some e \<and> errors_Is e target)"
  by (auto simp: Equal_def DeepEqual_def assert_True_def NoError_def assert_Error_def ErrorIs_def t_Fatalf_def t_Errorf_def split: option.splits)

text \<open>The name of a test database tells both the test and its identifier: identifiers have one length, so databases of two tests
  coincide only if test and identifier do.\<close>

lemma test_dsn_apart:
  assumes "length u = length v"
  shows "test_dsn n u = test_dsn m v \<longleftrightarrow> n = m \<and> u = v"
  using assms by (simp add: test_dsn_def)

text \<open>The last cookie of a name wins.\<close>

lemma fold_cookies:
  "gomap_get (fold (\<lambda>k m. gomap_set m (ck_name k) k) ks m) n =
     (case find (\<lambda>k. ck_name k = n) (rev ks) of Some k \<Rightarrow> Some k | None \<Rightarrow> gomap_get m n)"
  by (induction ks rule: rev_induct) (auto simp: update_conv')

lemma Cookies_last: "gomap_get (Cookies T rec) n = find (\<lambda>k. ck_name k = n) (rev (rec_Cookies T rec))"
  by (simp add: Cookies_def fold_cookies split: option.splits)

text \<open>\<open>MustCreate\<close> stops at the first row that is refused; the rows before it are in the database.\<close>

lemma MustCreate_stops:
  "MustCreate db rows t w = ((None, t'), w') \<Longrightarrow> \<exists>xs r ys err w1. rows = xs @ r # ys \<and> MustCreate db xs t w = ((Some (), t), w1)
     \<and> create_row (gdb_gorm db) r w1 = (Some err, w') \<and> tt_Failed t'"
proof (induction rows arbitrary: w)
  case (Cons r rows)
  obtain e w1 where c: "create_row (gdb_gorm db) r w = (e, w1)" by (metis surj_pair)
  show ?case
  proof (cases e)
    case None
    with Cons c obtain xs r' ys err w2 where "rows = xs @ r' # ys" "MustCreate db xs t w1 = ((Some (), t), w2)"
      "create_row (gdb_gorm db) r' w2 = (Some err, w')" "tt_Failed t'" by auto blast
    with c None show ?thesis by (intro exI [of _ "r # xs"]) auto
  next
    case (Some err)
    with Cons.prems c show ?thesis by (intro exI [of _ "[]"]) (auto simp: t_Fatalf_def t_Errorf_def)
  qed
qed simp

text \<open>Inside a transaction the transaction manager of the program does what \<open>PassthroughTx\<close> does; outside, only the program's
  manager undoes the work of a function that fails.\<close>

lemma passthrough_is_nested: "dbtx_From ctx = Some c \<Longrightarrow> TM_WithinTx PassthroughTx ctx fn w = TM_WithinTx (GORMTxManager G) ctx fn w"
  by (simp add: PassthroughTx_def GORMTxManager_def GORMTx_WithinTx_def)

definition fails_late :: "Context \<Rightarrow> (mem, go_error, captured) effect" where
  "fails_late ctx w = (case GORMToken_DeleteByUserID mem_lib mem_db ctx 1 w of (_, w1) \<Rightarrow> (Inl (errors_New ''late''), w1))"

lemma passthrough_does_not_roll_back:
  "\<exists>e w1 w2. TM_WithinTx PassthroughTx Background fails_late mem2 = (Inl e, w1) \<and> refresh_tokens (mem_view Pool w1) = []
     \<and> TM_WithinTx (GORMTxManager mem_db) Background fails_late mem2 = (Inl e, w2)
     \<and> refresh_tokens (mem_view Pool w2) = refresh_tokens (mem_view Pool mem2) \<and> refresh_tokens (mem_view Pool mem2) \<noteq> []"
  by (simp add: PassthroughTx_def fails_late_def run view_defs)

subsection \<open>A test database is migrated and released\<close>

text \<open>What \<open>NewDB\<close> relies on: a named in-memory database that was just opened has no ledger, its handle takes migrations, and
  reaching or sizing the pool does not touch the schema; the statements of a migration open and close no pools.\<close>

locale test_database = sql_driver D pools clock ready handle sqlPool
  for D :: "'w dblib" and pools clock ready handle sqlPool +
  fixes L :: "'w golib" and db :: "conn \<Rightarrow> 'w \<Rightarrow> schema"
  assumes new_database: "gorm_Open D (sqlite_Open dsn) gc w = (Inr h, w') \<Longrightarrow> sc_ledger (db Pool w') = []"
    and takes_migrations: "handle h \<Longrightarrow> schema_db L (gdb_gorm h) (gdb_migrator h) db"
    and DB_frame: "handle h \<Longrightarrow> gdb_DB h w = (r, w') \<Longrightarrow> db c w' = db c w"
    and Set_frame: "sqlPool s \<Longrightarrow> db c (sql_SetMaxOpenConns s n w) = db c w"
    and migration_pools: "handle h \<Longrightarrow> migration_frame L (gdb_gorm h) (gdb_migrator h) pools"
    and uuid_pools: "uuid_New L w = (i, w') \<Longrightarrow> pools w' = pools w"
begin

lemma fresh_migration:
  assumes "handle h" and "sc_ledger (db Pool w) = []" and "Migrate F L (gdb_gorm h) (gdb_migrator h) srt w = (Inr (), w')"
  shows "versions (db Pool w') = [1, 2, 3]" and "schema_ok (db Pool w')"
proof -
  obtain vs where vs: "migrated vs (db Pool w) (db Pool w')" "vs = [1, 2, 3]"
    using schema_db.Migrate_refines [OF takes_migrations [OF assms(1)] assms(3)] assms(2) by auto
  have "schema_ok (db Pool w)" using assms(2) by (simp add: schema_ok_def)
  then show "schema_ok (db Pool w')" by (rule migrated_ok [OF vs(1)])
  show "versions (db Pool w') = [1, 2, 3]" using migrated_versions [OF vs(1)] vs(2) assms(2) by simp
qed

lemma NewDB_cases:
  assumes "NewDB F L D srt t w = ((r, t'), w')" and "tt_Cleanups t = []"
  shows "pools (run_cleanups t' w') = pools w"
    and "r = None \<Longrightarrow> tt_Failed t'"
    and "r = Some h \<Longrightarrow> tt_Failed t' = tt_Failed t \<and> tt_Log t' = tt_Log t \<and> handle h \<and> pools w' = Suc (pools w)
      \<and> versions (db Pool w') = [1, 2, 3] \<and> schema_ok (db Pool w')"
proof -
  obtain u w1 where u: "uuid_New L w = (u, w1)" by (metis surj_pair)
  let ?gc = "\<lparr>gc_Logger = Silent, gc_TranslateError = True, gc_DisableAutomaticPing = False\<rparr>"
  let ?dl = "sqlite_Open (test_dsn (replaced_name (tt_Name t)) (uuid_String L u))"
  obtain r2 w2 where o: "gorm_Open D ?dl ?gc w1 = (r2, w2)" by (metis surj_pair)
  note failed = t_Fatalf_def t_Errorf_def t_Cleanup_def run_cleanups_def
  have "pools (run_cleanups t' w') = pools w \<and> (r = None \<longrightarrow> tt_Failed t')
    \<and> (\<forall>h. r = Some h \<longrightarrow> tt_Failed t' = tt_Failed t \<and> tt_Log t' = tt_Log t \<and> handle h \<and> pools w' = Suc (pools w)
      \<and> versions (db Pool w') = [1, 2, 3] \<and> schema_ok (db Pool w'))"
  proof (cases r2)
    case (Inl err)
    with assms u o have "((r, t'), w') = (t_Fatalf (''opening test database: '' @ Error err) t, w2)" by (simp add: NewDB_def)
    then show ?thesis using Open_error [OF o [unfolded Inl]] uuid_pools [OF u] assms(2) by (simp add: failed keeps_pool_def)
  next
    case (Inr h)
    note op = Open_ok [OF o [unfolded Inr]] new_database [OF o [unfolded Inr]]
    obtain s w3 where s: "gdb_DB h w2 = (Inr s, w3)" "sqlPool s" "pools w3 = pools w2"
      using DB_pool [of h w2] op(1) by (auto simp: keeps_pool_def)
    obtain m w5 where m: "Migrate F L (gdb_gorm h) (gdb_migrator h) srt (sql_SetMaxOpenConns s 1 w3) = (m, w5)" by (metis surj_pair)
    have p: "pools w5 = Suc (pools w)" "w' = w5"
      using migration_frame.Migrate_keeps [OF migration_pools m] op(1) s Set_keeps(1) [OF s(2), of w3 1] uuid_pools [OF u]
        assms u o Inr m by (auto simp: keeps_pool_def NewDB_def Let_def t_Fatalf_def split: sum.splits)
    have empty: "sc_ledger (db Pool (sql_SetMaxOpenConns s 1 w3)) = []"
      using op s DB_frame [of h w2 "Inr s" w3 Pool] Set_frame [OF s(2), of Pool 1 w3] by simp
    have t': "tt_Cleanups t' = [\<lambda>w. snd (sql_Close s w)]"
      and res: "(\<exists>e. m = Inl e) \<and> r = None \<and> tt_Failed t' \<or> m = Inr () \<and> r = Some h \<and> tt_Failed t' = tt_Failed t \<and> tt_Log t' = tt_Log t"
      using assms u o Inr s m by (auto simp: NewDB_def Let_def failed split: sum.splits)
    have "pools (run_cleanups t' w') = pools w" using Close_releases [OF s(2), of w5] p t' by (simp add: run_cleanups_def)
    with res p op(1) fresh_migration [OF _ empty] m show ?thesis by auto
  qed
  then show "pools (run_cleanups t' w') = pools w" "r = None \<Longrightarrow> tt_Failed t'"
    "r = Some h \<Longrightarrow> tt_Failed t' = tt_Failed t \<and> tt_Log t' = tt_Log t \<and> handle h \<and> pools w' = Suc (pools w)
      \<and> versions (db Pool w') = [1, 2, 3] \<and> schema_ok (db Pool w')" by blast+
qed

end

text \<open>The schema of the migrations beside a count of open pools and a clock that moves only when the program sleeps.\<close>

record tworld = sworld +
  tw_pools :: nat
  tw_now :: time

definition tw_sql :: "tworld sqlDB" where
  "tw_sql = \<lparr>sql_SetMaxOpenConns = (\<lambda>n w. w), sql_SetMaxIdleConns = (\<lambda>n w. w), sql_SetConnMaxLifetime = (\<lambda>d w. w),
     sql_PingContext = (\<lambda>ctx w. (None, w)), sql_Close = (\<lambda>w. (None, w\<lparr>tw_pools := tw_pools w - 1\<rparr>))\<rparr>"

definition tw_handle :: "tworld gormDB" where
  "tw_handle = \<lparr>gdb_gorm = sw_gorm, gdb_migrator = sw_migrator, gdb_DB = (\<lambda>w. (Inr tw_sql, w)), gdb_UseTracing = (\<lambda>w. (None, w))\<rparr>"

definition no_schema :: schema where
  "no_schema = \<lparr>sc_created = False, sc_legacy = False, sc_counters = [], sc_messages = [], sc_ledger = []\<rparr>"

definition tw_db :: "tworld dblib" where
  "tw_db = \<lparr>gorm_Open = (\<lambda>dl gc w. (Inr tw_handle, w\<lparr>sw_pool := no_schema, tw_pools := Suc (tw_pools w)\<rparr>)),
     ctx_WithTimeout = (\<lambda>ctx d w. (ctx, w)), ctx_cancel = (\<lambda>ctx w. w), time_Sleep = (\<lambda>d w. w\<lparr>tw_now := tw_now w + max 0 d\<rparr>)\<rparr>"

definition tworld0 :: "nat option \<Rightarrow> tworld" where
  "tworld0 fault = \<lparr>sw_pool = no_schema, sw_tx = no_schema, sw_fault = fault, sw_next = 1, tw_pools = 0, tw_now = 0\<rparr>"

interpretation tw_frame: migration_frame sw_lib sw_gorm sw_migrator tw_pools
  by unfold_locales (auto simp: sw_lib_def sw_gorm_def sw_migrator_def sw_table_def sw_set_def sw_stmt_def
      split: if_splits conn.splits option.splits nat.splits)

interpretation tw: test_database tw_db tw_pools tw_now 0 "\<lambda>h. h = tw_handle" "\<lambda>s. s = tw_sql" sw_lib sw_db
proof (intro test_database.intro test_database_axioms.intro)
  show "sql_driver tw_db tw_pools tw_now 0 (\<lambda>h. h = tw_handle) (\<lambda>s. s = tw_sql)"
    by unfold_locales (auto simp: tw_db_def tw_handle_def tw_sql_def keeps_pool_def)
  show "schema_db sw_lib (gdb_gorm h) (gdb_migrator h) sw_db" if "h = tw_handle" for h
    using sw.schema_db_axioms that by (simp add: tw_handle_def)
  show "migration_frame sw_lib (gdb_gorm h) (gdb_migrator h) tw_pools" if "h = tw_handle" for h
    using tw_frame.migration_frame_axioms that by (simp add: tw_handle_def)
qed (auto simp: tw_db_def tw_handle_def tw_sql_def no_schema_def sw_db_def sw_lib_def)

text \<open>A test either gets a database with the whole schema, and has not failed by it, or it has failed; in both cases the
  cleanup leaves as many connection pools open as there were, also when a migration failed. Start-up differs:
  \<open>failed_migration_leaks_pool\<close>.\<close>

lemma NewDB_migrated_or_failed:
  assumes "test_database D pools clock ready handle sqlPool L db"
    and "tt_Cleanups t = []" and "NewDB F L D srt t w = ((r, t'), w')"
  shows "pools (run_cleanups t' w') = pools w
    \<and> (case r of None \<Rightarrow> tt_Failed t'
       | Some h \<Rightarrow> tt_Failed t' = tt_Failed t \<and> handle h \<and> sc_created (db Pool w') \<and> sc_counters (db Pool w') \<noteq> []
           \<and> sc_messages (db Pool w') \<noteq> [] \<and> \<not> sc_legacy (db Pool w'))"
  using test_database.NewDB_cases [OF assms(1,3,2)] by (auto simp: schema_ok_def split: option.splits)

text \<open>The same test on a healthy database and on one whose connection breaks during the second migration.\<close>

definition test0 :: "tworld testT" where
  "test0 = \<lparr>tt_Name = ''TestUser/creates one'', tt_Failed = False, tt_Log = [], tt_Cleanups = []\<rparr>"

abbreviation tw_NewDB :: "tworld \<Rightarrow> (tworld gormDB option \<times> tworld testT) \<times> tworld" where
  "tw_NewDB \<equiv> NewDB plain_fmt sw_lib tw_db (sort_key Mig_Version) test0"

lemma NewDB_runs:
  "\<exists>t' w'. tw_NewDB (tworld0 None) = ((Some tw_handle, t'), w') \<and> tw_pools w' = 1 \<and> tw_pools (run_cleanups t' w') = 0"
  "\<exists>t' w'. tw_NewDB (tworld0 (Some 9)) = ((None, t'), w') \<and> tt_Failed t' \<and> tw_pools w' = 1 \<and> tw_pools (run_cleanups t' w') = 0"
proof -
  have "case tw_NewDB (tworld0 None) of ((r, t'), w') \<Rightarrow> r \<noteq> None" "case tw_NewDB (tworld0 (Some 9)) of ((r, t'), w') \<Rightarrow> r = None \<and> tw_pools w' = 1"
    by code_simp+
  then obtain h t1 w1 t2 w2 where r: "tw_NewDB (tworld0 None) = ((Some h, t1), w1)" "tw_NewDB (tworld0 (Some 9)) = ((None, t2), w2)" "tw_pools w2 = 1"
    by (auto split: prod.splits)
  have c: "tt_Cleanups test0 = []" by (simp add: test0_def)
  from tw.NewDB_cases [OF r(1) c] tw.NewDB_cases [OF r(2) c] r
  show "\<exists>t' w'. tw_NewDB (tworld0 None) = ((Some tw_handle, t'), w') \<and> tw_pools w' = 1 \<and> tw_pools (run_cleanups t' w') = 0"
    "\<exists>t' w'. tw_NewDB (tworld0 (Some 9)) = ((None, t'), w') \<and> tt_Failed t' \<and> tw_pools w' = 1 \<and> tw_pools (run_cleanups t' w') = 0"
    by (simp_all add: tworld0_def)
qed

end
