(* ===== verification/Binding.thy ===== *)
theory Binding
  imports Http_Properties Scenario
begin

text \<open>
  The validation of request bodies: the struct tags of \<open>internal/model/request\<close>, the name under which a field is
  reported (\<open>init\<close> of \<open>internal/api/handler/respond.go\<close>), and what a client is told about a body that breaks a
  rule. Decoding the body and the engine that evaluates the tags are gin and its validator: \<open>validating_gin\<close> states what
  the handlers rely on.
\<close>

subsection \<open>Struct tags\<close>

datatype field_rule = Required | Email | Rule_min nat | Rule_max nat | Omitempty

datatype field_value = StrValue string | IntValue int

record field_spec =
  fd_Name :: string
  fd_JSON :: string
  fd_Rules :: "field_rule list"

definition RegisterUserRequest_fields :: "RegisterUserRequest \<Rightarrow> (field_spec \<times> field_value) list" where
  "RegisterUserRequest_fields req =
     [(\<lparr>fd_Name = ''Email'', fd_JSON = ''email'', fd_Rules = [Required, Email, Rule_max 254]\<rparr>, StrValue (Reg_Email req)),
      (\<lparr>fd_Name = ''Password'', fd_JSON = ''password'', fd_Rules = [Required, Rule_min 8, Rule_max 72]\<rparr>, StrValue (Reg_Password req)),
      (\<lparr>fd_Name = ''Name'', fd_JSON = ''name'', fd_Rules = [Required, Rule_min 1, Rule_max 100]\<rparr>, StrValue (Reg_Name req))]"

definition LoginRequest_fields :: "LoginRequest \<Rightarrow> (field_spec \<times> field_value) list" where
  "LoginRequest_fields req =
     [(\<lparr>fd_Name = ''Email'', fd_JSON = ''email'', fd_Rules = [Required, Email, Rule_max 254]\<rparr>, StrValue (Login_Email req)),
      (\<lparr>fd_Name = ''Password'', fd_JSON = ''password'', fd_Rules = [Required, Rule_max 72]\<rparr>, StrValue (Login_Password req))]"

definition ChangePasswordRequest_fields :: "ChangePasswordRequest \<Rightarrow> (field_spec \<times> field_value) list" where
  "ChangePasswordRequest_fields req =
     [(\<lparr>fd_Name = ''CurrentPassword'', fd_JSON = ''currentPassword'', fd_Rules = [Required, Rule_max 72]\<rparr>, StrValue (CurrentPassword req)),
      (\<lparr>fd_Name = ''NewPassword'', fd_JSON = ''newPassword'', fd_Rules = [Required, Rule_min 8, Rule_max 72]\<rparr>, StrValue (NewPassword req))]"

definition Pagination_fields :: "Pagination \<Rightarrow> (field_spec \<times> field_value) list" where
  "Pagination_fields p =
     [(\<lparr>fd_Name = ''Page'', fd_JSON = ''page'', fd_Rules = [Omitempty, Rule_min 1]\<rparr>, IntValue (Page p)),
      (\<lparr>fd_Name = ''Limit'', fd_JSON = ''limit'', fd_Rules = [Omitempty, Rule_min 1, Rule_max 100]\<rparr>, IntValue (Limit p))]"

text \<open>The tag-name function that \<open>init\<close> registers: the JSON name up to a comma, the Go name if there is none. The first
  part of \<open>SplitN(_, ",", 2)\<close> is the first part of the full split.\<close>

definition tag_name :: "field_spec \<Rightarrow> string" where
  "tag_name fld = (let name = hd (strings_Split CHR '','' (fd_JSON fld)) in if name = ''-'' \<or> name = '''' then fd_Name fld else name)"

subsection \<open>The documented meaning of the tags\<close>

text \<open>Strings are measured in runes: the bytes that do not continue a rune.\<close>

definition rune_count :: "string \<Rightarrow> nat" where
  "rune_count s = length (filter (\<lambda>ch. \<not> (128 \<le> (of_char ch :: nat) \<and> (of_char ch :: nat) < 192)) s)"

fun zero_value :: "field_value \<Rightarrow> bool" where
  "zero_value (StrValue s) = (s = '''')"
| "zero_value (IntValue i) = (i = 0)"

fun field_size :: "field_value \<Rightarrow> int" where
  "field_size (StrValue s) = int (rune_count s)"
| "field_size (IntValue i) = i"

fun is_string :: "field_value \<Rightarrow> bool" where
  "is_string (StrValue s) = True"
| "is_string (IntValue i) = False"

fun violates :: "(string \<Rightarrow> bool) \<Rightarrow> field_value \<Rightarrow> field_rule \<Rightarrow> bool" where
  "violates is_email v Required = zero_value v"
| "violates is_email (StrValue s) Email = (\<not> is_email s)"
| "violates is_email (IntValue i) Email = True"
| "violates is_email v (Rule_min n) = (field_size v < int n)"
| "violates is_email v (Rule_max n) = (field_size v > int n)"
| "violates is_email v Omitempty = False"

text \<open>The first rule that fails ends the checks of a field; \<open>omitempty\<close> ends them for a zero value.\<close>

fun first_violated :: "(string \<Rightarrow> bool) \<Rightarrow> field_value \<Rightarrow> field_rule list \<Rightarrow> field_rule option" where
  "first_violated is_email v [] = None"
| "first_violated is_email v (r # rs) =
     (if r = Omitempty \<and> zero_value v then None
      else if violates is_email v r then Some r
      else first_violated is_email v rs)"

fun rule_tag :: "field_rule \<Rightarrow> string \<times> string" where
  "rule_tag Required = (''required'', '''')"
| "rule_tag Email = (''email'', '''')"
| "rule_tag (Rule_min n) = (''min'', strconv_Itoa (int n))"
| "rule_tag (Rule_max n) = (''max'', strconv_Itoa (int n))"
| "rule_tag Omitempty = (''omitempty'', '''')"

definition field_error :: "field_spec \<Rightarrow> field_value \<Rightarrow> field_rule \<Rightarrow> FieldError" where
  "field_error f v r = \<lparr>fe_Field = tag_name f, fe_Tag = fst (rule_tag r), fe_Param = snd (rule_tag r), fe_IsString = is_string v\<rparr>"

definition field_errors :: "(string \<Rightarrow> bool) \<Rightarrow> (field_spec \<times> field_value) list \<Rightarrow> FieldError list" where
  "field_errors is_email fs = List.map_filter (\<lambda>(f, v). map_option (field_error f v) (first_violated is_email v (fd_Rules f))) fs"

text \<open>Binding: decode, then validate.\<close>

definition validated :: "(string \<Rightarrow> bool) \<Rightarrow> (FieldError list \<Rightarrow> string) \<Rightarrow> ('r \<Rightarrow> (field_spec \<times> field_value) list) \<Rightarrow> go_error + 'r \<Rightarrow> go_error + 'r" where
  "validated is_email render fields_of decoded =
     (case decoded of
        Inl err \<Rightarrow> Inl err
      | Inr req \<Rightarrow>
          (case field_errors is_email (fields_of req) of
             [] \<Rightarrow> Inr req
           | errs \<Rightarrow> Inl (ValidationErrors errs (render errs))))"

locale validating_gin = gin_laws N sent cookies_of headers_of aborted
  for N :: "'c ginlib" and sent and cookies_of and headers_of and aborted +
  fixes is_email :: "string \<Rightarrow> bool"
    and render :: "FieldError list \<Rightarrow> string"
    and json_register :: "'c \<Rightarrow> go_error + RegisterUserRequest"
    and json_login :: "'c \<Rightarrow> go_error + LoginRequest"
    and json_password :: "'c \<Rightarrow> go_error + ChangePasswordRequest"
    and form_page :: "'c \<Rightarrow> go_error + Pagination"
  assumes Bind_register: "gin_BindRegister N c = validated is_email render RegisterUserRequest_fields (json_register c)"
    and Bind_login: "gin_BindLogin N c = validated is_email render LoginRequest_fields (json_login c)"
    and Bind_password: "gin_BindChangePassword N c = validated is_email render ChangePasswordRequest_fields (json_password c)"
    and Bind_page: "gin_BindQuery N c = validated is_email render Pagination_fields (form_page c)"


subsection \<open>What the client is told\<close>

lemma fold_update_get:
  assumes "distinct (map fe_Field errs)"
  shows "gomap_get (fold (\<lambda>fe m. gomap_set m (fe_Field fe) (validationMessage fe)) errs m) k = Some msg \<longleftrightarrow>
    (\<exists>fe \<in> set errs. fe_Field fe = k \<and> msg = validationMessage fe) \<or> (k \<notin> fe_Field ` set errs \<and> gomap_get m k = Some msg)"
  using assms
proof (induction errs arbitrary: m)
  case (Cons fe errs)
  then show ?case by (auto simp: update_conv' map_upd_Some_unfold image_iff split: if_splits)
qed simp

lemma validationFields_get:
  assumes "distinct (map fe_Field errs)"
  shows "gomap_get (validationFields errs) k = Some msg \<longleftrightarrow> (\<exists>fe \<in> set errs. fe_Field fe = k \<and> msg = validationMessage fe)"
  using fold_update_get [OF assms] by (simp add: validationFields_def)

lemma set_field_errors:
  "fe \<in> set (field_errors is_email fs) \<longleftrightarrow>
    (\<exists>f v r. (f, v) \<in> set fs \<and> first_violated is_email v (fd_Rules f) = Some r \<and> fe = field_error f v r)"
  by (fastforce simp: field_errors_def List.map_filter_def image_iff)

lemma field_error_name [simp]: "fe_Field (field_error f v r) = tag_name f"
  by (simp add: field_error_def)

lemma field_errors_Cons:
  "field_errors is_email ((f, v) # fs) = (case first_violated is_email v (fd_Rules f) of
     None \<Rightarrow> field_errors is_email fs | Some r \<Rightarrow> field_error f v r # field_errors is_email fs)"
  by (simp add: field_errors_def map_filter_simps split: option.split)

lemma field_errors_distinct:
  "distinct (map (tag_name \<circ> fst) fs) \<Longrightarrow> distinct (map fe_Field (field_errors is_email fs))"
proof (induction fs)
  case (Cons fv fs)
  obtain f v where fv: "fv = (f, v)" by (cases fv)
  have "tag_name f \<notin> fe_Field ` set (field_errors is_email fs)"
    using Cons.prems fv by (force simp: set_field_errors image_iff)
  with Cons fv show ?case by (simp add: field_errors_Cons split: option.split)
qed (simp add: field_errors_def map_filter_simps)

lemma fields_named:
  "map (tag_name \<circ> fst) (RegisterUserRequest_fields r) = [''email'', ''password'', ''name'']"
  "map (tag_name \<circ> fst) (LoginRequest_fields l) = [''email'', ''password'']"
  "map (tag_name \<circ> fst) (ChangePasswordRequest_fields cp) = [''currentPassword'', ''newPassword'']"
  "map (tag_name \<circ> fst) (Pagination_fields p) = [''page'', ''limit'']"
  by (simp_all add: RegisterUserRequest_fields_def LoginRequest_fields_def ChangePasswordRequest_fields_def Pagination_fields_def tag_name_def)

lemma validation_error_view:
  "HTTPStatus (WithCause (WithFields ErrValidation m) e) = 400" "Fields (WithCause (WithFields ErrValidation m) e) = m"
  by (simp_all add: HTTPStatus_def Fields_def WithCause_def WithFields_def ErrValidation_def New_var_def statusForCode_def code_defs)

context gin_laws
begin

text \<open>Binding a body of named fields: a valid one is passed on, an invalid one answered.\<close>

lemma BindJSON_validated:
  assumes "distinct (map (tag_name \<circ> fst) (fields_of req))"
  shows "field_errors is_email (fields_of req) = [] \<Longrightarrow> BindJSON N (validated is_email render fields_of (Inr req)) c = (Some req, c)"
    and "field_errors is_email (fields_of req) \<noteq> [] \<Longrightarrow> \<exists>c' e. BindJSON N (validated is_email render fields_of (Inr req)) c = (None, c')
      \<and> sent c' = sent c @ [(400, e)] \<and> \<not> Success e \<and> Data e = None \<and> cookies_of c' = cookies_of c
      \<and> (\<forall>k msg. gomap_get (Errors e) k = Some msg \<longleftrightarrow> (\<exists>f v r. (f, v) \<in> set (fields_of req)
          \<and> first_violated is_email v (fd_Rules f) = Some r \<and> k = tag_name f \<and> msg = validationMessage (field_error f v r)))"
proof -
  let ?errs = "field_errors is_email (fields_of req)"
  show "BindJSON N (validated is_email render fields_of (Inr req)) c = (Some req, c)" if "?errs = []"
    using that by (simp add: validated_def BindJSON_def)
  assume ne: "?errs \<noteq> []"
  let ?err = "WithCause (WithFields ErrValidation (validationFields ?errs)) (ValidationErrors ?errs (render ?errs))"
  have b: "BindJSON N (validated is_email render fields_of (Inr req)) c = (None, Fail N ?err c)"
    using ne by (simp add: validated_def BindJSON_def split: list.split)
  have "gomap_get (validationFields ?errs) k = Some msg \<longleftrightarrow> (\<exists>f v r. (f, v) \<in> set (fields_of req)
      \<and> first_violated is_email v (fd_Rules f) = Some r \<and> k = tag_name f \<and> msg = validationMessage (field_error f v r))" for k msg
    unfolding validationFields_get [OF field_errors_distinct [OF assms]] Bex_def set_field_errors by (metis field_error_name)
  with b show "\<exists>c' e. BindJSON N (validated is_email render fields_of (Inr req)) c = (None, c')
      \<and> sent c' = sent c @ [(400, e)] \<and> \<not> Success e \<and> Data e = None \<and> cookies_of c' = cookies_of c
      \<and> (\<forall>k msg. gomap_get (Errors e) k = Some msg \<longleftrightarrow> (\<exists>f v r. (f, v) \<in> set (fields_of req)
          \<and> first_violated is_email v (fd_Rules f) = Some r \<and> k = tag_name f \<and> msg = validationMessage (field_error f v r)))"
    by (simp add: Fail_effect validation_error_view)
qed

end


lemma no_field_errors: "field_errors is_email fs = [] \<longleftrightarrow> (\<forall>(f, v) \<in> set fs. first_violated is_email v (fd_Rules f) = None)"
  by (induction fs) (auto simp: field_errors_def map_filter_simps split: option.splits)

lemma register_valid_iff:
  "field_errors is_email (RegisterUserRequest_fields req) = [] \<longleftrightarrow>
    Reg_Email req \<noteq> '''' \<and> is_email (Reg_Email req) \<and> rune_count (Reg_Email req) \<le> 254
    \<and> Reg_Password req \<noteq> '''' \<and> 8 \<le> rune_count (Reg_Password req) \<and> rune_count (Reg_Password req) \<le> 72
    \<and> Reg_Name req \<noteq> '''' \<and> 1 \<le> rune_count (Reg_Name req) \<and> rune_count (Reg_Name req) \<le> 100"
  unfolding no_field_errors by (auto simp: RegisterUserRequest_fields_def split: if_splits)

text \<open>C18. A registration is validated before anything else: the service is asked exactly when the address is a valid one of at
  most 254 characters, the password has 8 to 72 characters and the name 1 to 100; otherwise nothing is stored, no cookie is
  set, and the one answer is a 400 that names exactly the fields that break a rule, by their JSON names, each with the message of
  the first rule it breaks.\<close>

theorem registration_body_validated:
  assumes "validating_gin N sent cookies_of headers_of aborted is_email render json_register json_login json_password form_page"
    and "json_register c = Inr req" and "handle_Register N h c w = (c', w')"
  shows "if Reg_Email req \<noteq> '''' \<and> is_email (Reg_Email req) \<and> rune_count (Reg_Email req) \<le> 254
      \<and> Reg_Password req \<noteq> '''' \<and> 8 \<le> rune_count (Reg_Password req) \<and> rune_count (Reg_Password req) \<le> 72
      \<and> Reg_Name req \<noteq> '''' \<and> 1 \<le> rune_count (Reg_Name req) \<and> rune_count (Reg_Name req) \<le> 100
    then w' = snd (US_Register (uh_userService h) (gin_Context N c) req w)
    else w' = w \<and> (\<exists>e. sent c' = sent c @ [(400, e)] \<and> \<not> Success e \<and> Data e = None \<and> cookies_of c' = cookies_of c
      \<and> (\<forall>k msg. gomap_get (Errors e) k = Some msg \<longleftrightarrow> (\<exists>f v r. (f, v) \<in> set (RegisterUserRequest_fields req)
          \<and> first_violated is_email v (fd_Rules f) = Some r \<and> k = tag_name f \<and> msg = validationMessage (field_error f v r))))"
proof -
  note gl = validating_gin.axioms(1) [OF assms(1)]
  have bind: "gin_BindRegister N c = validated is_email render RegisterUserRequest_fields (Inr req)"
    using validating_gin.Bind_register [OF assms(1)] assms(2) by metis
  have names: "distinct (map (tag_name \<circ> fst) (RegisterUserRequest_fields req))" unfolding fields_named by simp
  show ?thesis
  proof (cases "field_errors is_email (RegisterUserRequest_fields req) = []")
    case True
    have "BindJSON N (gin_BindRegister N c) c = (Some req, c)"
      unfolding bind by (rule gin_laws.BindJSON_validated(1) [where fields_of = RegisterUserRequest_fields, OF gl names True])
    then have "w' = snd (US_Register (uh_userService h) (gin_Context N c) req w)"
      using assms(3) by (auto simp: handle_Register_def split: prod.splits sum.splits)
    with True show ?thesis unfolding register_valid_iff by simp
  next
    case False
    obtain cx e where none: "BindJSON N (gin_BindRegister N c) c = (None, cx)" and e: "sent cx = sent c @ [(400, e)]" "\<not> Success e" "Data e = None"
      "cookies_of cx = cookies_of c" "\<forall>k msg. gomap_get (Errors e) k = Some msg \<longleftrightarrow> (\<exists>f v r. (f, v) \<in> set (RegisterUserRequest_fields req)
          \<and> first_violated is_email v (fd_Rules f) = Some r \<and> k = tag_name f \<and> msg = validationMessage (field_error f v r))"
      using gin_laws.BindJSON_validated(2) [where fields_of = RegisterUserRequest_fields, OF gl names False, of render c]
      unfolding bind [symmetric] by (elim exE conjE) (rule that)
    from none have cw: "c' = cx" "w' = w" using assms(3) by (auto simp: handle_Register_def)
    show ?thesis unfolding register_valid_iff [symmetric] if_not_P [OF False] cw by (intro conjI refl exI [of _ e] e)
  qed
qed

text \<open>An instance: the recording context, with the bodies it holds validated; an address is one that has an at sign.\<close>

definition at_sign :: "string \<Rightarrow> bool" where
  "at_sign s \<longleftrightarrow> CHR 0x40 \<in> set s"

definition strict_gin :: "gin_rec ginlib" where
  "strict_gin = rec_gin\<lparr>gin_BindRegister := (\<lambda>c. validated at_sign (\<lambda>_. '''') RegisterUserRequest_fields (gr_register c)),
     gin_BindLogin := (\<lambda>c. validated at_sign (\<lambda>_. '''') LoginRequest_fields (gr_login c)),
     gin_BindChangePassword := (\<lambda>c. validated at_sign (\<lambda>_. '''') ChangePasswordRequest_fields (gr_password c)),
     gin_BindQuery := (\<lambda>c. validated at_sign (\<lambda>_. '''') Pagination_fields (gr_query c))\<rparr>"

interpretation strict: validating_gin strict_gin gr_sent gr_cookies gr_headers gr_aborted at_sign "\<lambda>_. ''''"
  gr_register gr_login gr_password gr_query
  by unfold_locales (auto simp: strict_gin_def rec_gin_def update_conv)

lemma Itoa_8: "strconv_Itoa 8 = ''8''"
  by code_simp

theorem registration_body_validated_witness:
  "\<exists>c' w' e. handle_Register strict_gin (api_user demo_api) ((bare_request ''POST'')\<lparr>gr_register := Inr (ann\<lparr>Reg_Password := ''short''\<rparr>)\<rparr>) mem0 = (c', w')
     \<and> w' = mem0 \<and> gr_sent c' = [(400, e)] \<and> gomap_get (Errors e) ''password'' = Some ''Must be at least 8 characters''
     \<and> gomap_get (Errors e) ''email'' = None"
proof -
  let ?req = "ann\<lparr>Reg_Password := ''short''\<rparr>" and ?c = "(bare_request ''POST'')\<lparr>gr_register := Inr (ann\<lparr>Reg_Password := ''short''\<rparr>)\<rparr>"
  obtain c' w' where h: "handle_Register strict_gin (api_user demo_api) ?c mem0 = (c', w')" by (metis surj_pair)
  have req: "gr_register ?c = Inr ?req" by simp
  have short: "\<not> 8 \<le> rune_count (Reg_Password ?req)" by (simp add: rune_count_def)
  have out: "gr_sent ?c = []" by (simp add: bare_request_def)
  from registration_body_validated [OF strict.validating_gin_axioms req h] short out obtain e where
    e: "w' = mem0" "gr_sent c' = [(400, e)]" and get: "\<And>k msg. gomap_get (Errors e) k = Some msg \<longleftrightarrow>
      (\<exists>f v r. (f, v) \<in> set (RegisterUserRequest_fields ?req) \<and> first_violated at_sign v (fd_Rules f) = Some r
        \<and> k = tag_name f \<and> msg = validationMessage (field_error f v r))"
    by auto
  have "gomap_get (Errors e) ''password'' = Some ''Must be at least 8 characters''"
    unfolding get
    by (intro exI [of _ "\<lparr>fd_Name = ''Password'', fd_JSON = ''password'', fd_Rules = [Required, Rule_min 8, Rule_max 72]\<rparr>"]
        exI [of _ "StrValue ''short''"] exI [of _ "Rule_min 8"])
      (simp add: RegisterUserRequest_fields_def rune_count_def validationMessage_def field_error_def Itoa_8 tag_name_def)
  moreover have "gomap_get (Errors e) ''email'' = None"
  proof (rule ccontr)
    assume "gomap_get (Errors e) ''email'' \<noteq> None"
    then obtain msg where "gomap_get (Errors e) ''email'' = Some msg" by blast
    then show False unfolding get by (auto simp: RegisterUserRequest_fields_def ann_def at_sign_def rune_count_def tag_name_def)
  qed
  ultimately show ?thesis using h e by blast
qed


subsection \<open>Characters and bytes\<close>

text \<open>The bound of 72 on passwords counts characters, bcrypt's counts bytes: a password of forty two-byte characters is
  accepted by the rules and refused by the hashing step, which the client sees as an internal error.\<close>

definition accented :: RegisterUserRequest where
  "accented = ann\<lparr>Reg_Password := concat (replicate 40 [CHR 0xC3, CHR 0xA9])\<rparr>"

lemma internal_status: "HTTPStatus (Internal e) = 500"
  by (simp add: HTTPStatus_def Internal_def WithCause_def ErrInternal_def New_var_def statusForCode_def code_defs)

lemma accented_password_is_internal_error:
  "field_errors at_sign (RegisterUserRequest_fields accented) = []
   \<and> (\<exists>e w'. Register mem_lib svc0 Background accented mem0 = (Inl e, w') \<and> HTTPStatus e = 500)"
proof
  have "rune_count (Reg_Password accented) = 40" by code_simp
  then show "field_errors at_sign (RegisterUserRequest_fields accented) = []"
    unfolding register_valid_iff by (simp add: accented_def ann_def at_sign_def rune_count_def)
  have long: "length (Reg_Password accented) = 80" by code_simp
  show "\<exists>e w'. Register mem_lib svc0 Background accented mem0 = (Inl e, w') \<and> HTTPStatus e = 500"
    using long by (simp add: Register_def run internal_status)
qed

end
