(* ===== verification/Operations.thy ===== *)
theory Operations
  imports Container
begin

text \<open>
  The operational side of the process: the Prometheus instruments of \<open>internal/observability/metrics.go\<close> and what the
  middleware records in them, and the start of the admin listener by \<open>StartAdmin\<close> of \<open>internal/di\<close>. The registry
  itself is the Prometheus client library.
\<close>

subsection \<open>The instruments\<close>

datatype collector =
    GoCollector
  | ProcessCollector
  | CounterVec (vec_Name: string) (vec_Help: string) (vec_Labels: "string list")
  | HistogramVec (vec_Name: string) (vec_Help: string) (vec_Labels: "string list")

text \<open>\<open>MustRegister\<close> reports whether it panicked. The flag of \<open>HandlerFor\<close> is \<open>ContinueOnError\<close>.\<close>

record ('g, 'h, 'w) promlib =
  prom_NewRegistry :: "'w \<Rightarrow> 'g \<times> 'w"
  prom_MustRegister :: "'g \<Rightarrow> collector list \<Rightarrow> 'w \<Rightarrow> bool \<times> 'w"
  promhttp_HandlerFor :: "'g \<Rightarrow> bool \<Rightarrow> 'h"

record 'g Metrics =
  mt_registry :: 'g
  mt_requests :: collector
  mt_duration :: collector

definition requests_vec :: collector where
  "requests_vec = CounterVec ''http_requests_total''
     ''Total number of HTTP requests handled, by method, route pattern and status code.'' [''method'', ''route'', ''status'']"

definition duration_vec :: collector where
  "duration_vec = HistogramVec ''http_request_duration_seconds''
     ''HTTP request latency in seconds, by method and route pattern.'' [''method'', ''route'']"

text \<open>\<open>None\<close> stands for a panic.\<close>

definition NewMetricsWithRegistry :: "('g, 'h, 'w) promlib \<Rightarrow> 'g \<Rightarrow> 'w \<Rightarrow> 'g Metrics option \<times> 'w" where
  "NewMetricsWithRegistry P reg w =
     (let m = \<lparr>mt_registry = reg, mt_requests = requests_vec, mt_duration = duration_vec\<rparr>;
          (panicked, w1) = prom_MustRegister P reg [mt_requests m, mt_duration m] w
      in (if panicked then None else Some m, w1))"

definition NewMetrics :: "('g, 'h, 'w) promlib \<Rightarrow> 'w \<Rightarrow> 'g Metrics option \<times> 'w" where
  "NewMetrics P w =
     (let (registry, w1) = prom_NewRegistry P w;
          (panicked, w2) = prom_MustRegister P registry [GoCollector, ProcessCollector] w1
      in if panicked then (None, w2) else NewMetricsWithRegistry P registry w2)"

definition Metrics_Registry :: "'g Metrics \<Rightarrow> 'g" where
  "Metrics_Registry m = mt_registry m"

definition Metrics_Handler :: "('g, 'h, 'w) promlib \<Rightarrow> 'g Metrics \<Rightarrow> 'h" where
  "Metrics_Handler P m = promhttp_HandlerFor P (mt_registry m) True"

text \<open>
  What the library documents: a fresh registry is empty; collectors whose descriptions are new and do not overlap are all
  registered; a description that is registered already makes \<open>MustRegister\<close> panic. The descriptions of the two standard
  collectors start with \<open>go_\<close> and \<open>process_\<close>.
\<close>

locale prometheus =
  fixes P :: "('g, 'h, 'w) promlib"
    and descs :: "collector \<Rightarrow> string set"
    and registered :: "'g \<Rightarrow> 'w \<Rightarrow> string set"
  assumes descs_vec: "descs (CounterVec n h ls) = {n}" "descs (HistogramVec n h ls) = {n}"
    and descs_std: "d \<in> descs GoCollector \<Longrightarrow> strings_HasPrefix d ''go_''" "d \<in> descs ProcessCollector \<Longrightarrow> strings_HasPrefix d ''process_''"
    and NewRegistry_empty: "prom_NewRegistry P w = (g, w') \<Longrightarrow> registered g w' = {}"
    and MustRegister_two: "descs a \<inter> descs b = {} \<Longrightarrow> registered g w \<inter> (descs a \<union> descs b) = {} \<Longrightarrow>
      \<exists>w'. prom_MustRegister P g [a, b] w = (False, w') \<and> registered g w' = registered g w \<union> descs a \<union> descs b"
    and MustRegister_again: "registered g w \<inter> descs a \<noteq> {} \<Longrightarrow> fst (prom_MustRegister P g (a # cs) w)"
begin

lemma prefixes_apart:
  "\<not> (strings_HasPrefix d ''go_'' \<and> strings_HasPrefix d ''process_'')"
  "\<not> strings_HasPrefix ''http_requests_total'' ''go_''" "\<not> strings_HasPrefix ''http_requests_total'' ''process_''"
  "\<not> strings_HasPrefix ''http_request_duration_seconds'' ''go_''" "\<not> strings_HasPrefix ''http_request_duration_seconds'' ''process_''"
  by (cases d) (auto simp: strings_HasPrefix_def)

lemma descs_ours: "descs requests_vec = {''http_requests_total''}" "descs duration_vec = {''http_request_duration_seconds''}"
  by (simp_all add: requests_vec_def duration_vec_def descs_vec)

text \<open>Start-up never fails on its metrics, and the instruments must not be registered twice.\<close>

lemma NewMetrics_ok:
  obtains m w' where "NewMetrics P w = (Some m, w')" and "''http_requests_total'' \<in> registered (Metrics_Registry m) w'"
    and "length (vec_Labels (mt_requests m)) = 3" and "length (vec_Labels (mt_duration m)) = 2"
proof -
  obtain g w1 where g: "prom_NewRegistry P w = (g, w1)" by (metis surj_pair)
  note none = NewRegistry_empty [OF g]
  have apart: "descs GoCollector \<inter> descs ProcessCollector = {}" using descs_std prefixes_apart(1) by blast
  obtain w2 where w2: "prom_MustRegister P g [GoCollector, ProcessCollector] w1 = (False, w2)"
    "registered g w2 = descs GoCollector \<union> descs ProcessCollector"
    using MustRegister_two [OF apart, of g w1] none by auto
  have new: "registered g w2 \<inter> {''http_requests_total'', ''http_request_duration_seconds''} = {}"
    unfolding w2(2) using descs_std prefixes_apart(2-5) by blast
  obtain w' where "prom_MustRegister P g [requests_vec, duration_vec] w2 = (False, w')" "''http_requests_total'' \<in> registered g w'"
    using MustRegister_two [of requests_vec duration_vec g w2] new by (auto simp: descs_ours)
  with g w2(1) show ?thesis
    by (intro that [of "\<lparr>mt_registry = g, mt_requests = requests_vec, mt_duration = duration_vec\<rparr>" w'])
      (auto simp: NewMetrics_def NewMetricsWithRegistry_def Metrics_Registry_def requests_vec_def duration_vec_def)
qed

lemma NewMetrics_twice:
  assumes "''http_requests_total'' \<in> registered g w"
  shows "fst (NewMetricsWithRegistry P g w) = None"
  using MustRegister_again [of g w requests_vec "[duration_vec]"] assms
  by (cases "prom_MustRegister P g [requests_vec, duration_vec] w") (simp add: NewMetricsWithRegistry_def descs_ours)

end


text \<open>An instance: a registry is the list of the descriptions registered so far.\<close>

fun std_descs :: "collector \<Rightarrow> string list" where
  "std_descs GoCollector = [''go_goroutines'']"
| "std_descs ProcessCollector = [''process_open_fds'']"
| "std_descs (CounterVec n h ls) = [n]"
| "std_descs (HistogramVec n h ls) = [n]"

fun list_register :: "collector list \<Rightarrow> string list \<Rightarrow> bool \<times> string list" where
  "list_register [] ds = (False, ds)"
| "list_register (c # cs) ds = (if list_ex (\<lambda>d. d \<in> set ds) (std_descs c) then (True, ds) else list_register cs (std_descs c @ ds))"

definition list_prom :: "(nat, nat \<times> bool, nat \<times> (nat \<Rightarrow> string list)) promlib" where
  "list_prom = \<lparr>prom_NewRegistry = (\<lambda>(n, rs). (n, Suc n, rs(n := []))),
     prom_MustRegister = (\<lambda>g cs (n, rs). let (p, ds) = list_register cs (rs g) in (p, n, rs(g := ds))),
     promhttp_HandlerFor = Pair\<rparr>"

interpretation list_prom: prometheus list_prom "\<lambda>c. set (std_descs c)" "\<lambda>g w. set (snd w g)"
proof unfold_locales
  fix a b g and w :: "nat \<times> (nat \<Rightarrow> string list)"
  assume "set (std_descs a) \<inter> set (std_descs b) = {}" "set (snd w g) \<inter> (set (std_descs a) \<union> set (std_descs b)) = {}"
  then have "list_register [a, b] (snd w g) = (False, std_descs b @ std_descs a @ snd w g)" by (auto simp: list_ex_iff)
  then show "\<exists>w'. prom_MustRegister list_prom g [a, b] w = (False, w') \<and> set (snd w' g) = set (snd w g) \<union> set (std_descs a) \<union> set (std_descs b)"
    by (cases w) (auto simp: list_prom_def)
next
  fix g a cs and w :: "nat \<times> (nat \<Rightarrow> string list)"
  assume "set (snd w g) \<inter> set (std_descs a) \<noteq> {}"
  then have "list_register (a # cs) (snd w g) = (True, snd w g)" by (auto simp: list_ex_iff)
  then show "fst (prom_MustRegister list_prom g (a # cs) w)" by (cases w) (simp add: list_prom_def)
qed (auto simp: list_prom_def strings_HasPrefix_def)

subsection \<open>What the middleware records\<close>

text \<open>\<open>series w\<close>: the label values for which \<open>http_requests_total\<close> has a time series. Only its \<open>Inc\<close> adds one.\<close>

locale request_counter =
  fixes X :: "('c, 'w) ginext" and L :: "'w golib" and series :: "'w \<Rightarrow> string list set"
  assumes Inc_series: "series (prom_Inc X ls w) = insert ls (series w)"
    and Observe_series: "series (prom_Observe X ls d w) = series w"
    and Now_series: "time_Now L w = (t, w') \<Longrightarrow> series w' = series w"
begin

text \<open>A request that does not panic adds the series of its method, route pattern and status, as many labels as declared;
  one that panics adds none.\<close>

lemma Metrics_series:
  assumes "Metrics_Middleware L N X h c w = (p, c', w')" and "\<And>w. series (snd (snd (h c w))) = series w"
  shows "series w' = (if p then series w else insert
      [gin_Method N c', if gx_FullPath X c' = '''' then RouteUnmatched else gx_FullPath X c', strconv_Itoa (int (gx_Status X c'))] (series w))"
proof -
  obtain t w1 where t: "time_Now L w = (t, w1)" by (metis surj_pair)
  obtain q c1 w2 where n: "h c w1 = (q, c1, w2)" by (metis surj_pair)
  obtain t' w3 where t': "time_Now L w2 = (t', w3)" by (metis surj_pair)
  have "series w2 = series w" "series w3 = series w"
    using assms(2) [of w1] n Now_series [OF t] Now_series [OF t'] by auto
  with assms(1) t n t' show ?thesis by (cases q) (auto simp: Metrics_Middleware_def Let_def Inc_series Observe_series)
qed

end


text \<open>The traffic of a server, one request after another.\<close>

inductive metered :: "('c \<Rightarrow> 'w \<Rightarrow> bool \<times> 'c \<times> 'w) \<Rightarrow> 'w \<Rightarrow> 'w \<Rightarrow> bool" for serve where
  no_traffic: "metered serve w w"
| more_traffic: "metered serve w w1 \<Longrightarrow> serve c w1 = (p, c', w') \<Longrightarrow> metered serve w w'"


text \<open>An instance: the world is a clock and the list of recorded series.\<close>

definition tally_lib :: "(int \<times> string list list) golib" where
  "tally_lib = \<lparr>ctx_Err = (\<lambda>ctx w. (None, w)), time_Now = (\<lambda>(t, s). (t, t + 1, s)), uuid_New = (\<lambda>w. (5, w)),
     uuid_String = mem_uuid_String, uuid_Parse = mem_uuid_Parse, rand_Read = (\<lambda>n w. (Inr (replicate n 0), w)),
     bcrypt_GenerateFromPassword = (\<lambda>p w. (Inl (errors_New ''unused''), w)), bcrypt_CompareHashAndPassword = (\<lambda>h p w. (None, w)),
     once_get = (\<lambda>w. None), once_set = (\<lambda>h w. w)\<rparr>"

definition tally_ext :: "string \<Rightarrow> (gin_rec, int \<times> string list list) ginext" where
  "tally_ext pattern = (rec_ext pattern)\<lparr>prom_Inc := (\<lambda>ls (t, s). (t, List.insert ls s))\<rparr>"

interpretation tally: request_counter "tally_ext pattern" tally_lib "\<lambda>w. set (snd w)" for pattern
  by unfold_locales (auto simp: tally_ext_def tally_lib_def rec_ext_def split: prod.splits)

abbreviation unrouted :: "gin_rec \<Rightarrow> (int \<times> string list list) \<Rightarrow> bool \<times> gin_rec \<times> int \<times> string list list" where
  "unrouted \<equiv> Metrics_Middleware tally_lib rec_gin (tally_ext '''') (dispatch rec_gin (tally_ext '''') [])"

lemma unrouted_recorded:
  "\<exists>c' t'. unrouted (bare_request m) (t, s) = (False, c', t', List.insert [m, RouteUnmatched, strconv_Itoa 404] s)"
  by (simp add: Metrics_Middleware_def tally_lib_def tally_ext_def rec_ext_def dispatch_def returned_def NoRoute_def rec_gin_def
      bare_request_def WithCorrelation_def response_Err_def)


text \<open>The method label, in contrast, is the method as the client sent it: every string can become a series.\<close>

lemma method_label_is_client_chosen:
  "\<exists>w. metered unrouted (0, []) w \<and> (\<forall>m \<in> set ms. [m, RouteUnmatched, strconv_Itoa 404] \<in> set (snd w))"
proof (induction ms)
  case Nil
  show ?case by (auto intro: no_traffic)
next
  case (Cons m ms)
  then obtain t s where w: "metered unrouted (0, []) (t, s)" "\<forall>m \<in> set ms. [m, RouteUnmatched, strconv_Itoa 404] \<in> set s" by fastforce
  obtain c' t' where r: "unrouted (bare_request m) (t, s) = (False, c', t', List.insert [m, RouteUnmatched, strconv_Itoa 404] s)"
    using unrouted_recorded by blast
  from more_traffic [OF w(1) r] w(2) show ?case by (intro exI [of _ "(t', List.insert [m, RouteUnmatched, strconv_Itoa 404] s)"]) simp
qed


subsection \<open>The admin listener\<close>

definition ErrServerClosed :: go_error where
  "ErrServerClosed = ErrorString (Some ''http.ErrServerClosed'') ''http: Server closed''"

text \<open>\<open>StartAdmin\<close> returns at once; the goroutine it starts, if any, has captured the address.\<close>

definition StartAdmin :: "(slog_Level \<Rightarrow> string \<Rightarrow> 'w \<Rightarrow> 'w) \<Rightarrow> ('f, 'c, 'w) Container \<Rightarrow> 'w \<Rightarrow> string option \<times> 'w" where
  "StartAdmin log c w =
     (case Ct_AdminServer c of
        None \<Rightarrow> (None, log LevelDebug ''metrics and pprof are disabled; no admin listener'' w)
      | Some srv \<Rightarrow> (Some (Srv_Addr srv), w))"

text \<open>The goroutine, on the container as it is when the goroutine runs. A method call on a nil server panics, and
  nothing recovers it. \<open>listen\<close> is \<open>ListenAndServe\<close>.\<close>

definition admin_goroutine :: "(unit AdminServer \<Rightarrow> 'w \<Rightarrow> go_error option \<times> 'w) \<Rightarrow> (slog_Level \<Rightarrow> string \<Rightarrow> 'w \<Rightarrow> 'w)
    \<Rightarrow> ('f, 'c, 'w) Container \<Rightarrow> 'w \<Rightarrow> bool \<times> 'w" where
  "admin_goroutine listen log c w =
     (let w1 = log LevelInfo ''admin listener starting'' w in
      case Ct_AdminServer c of
        None \<Rightarrow> (True, w1)
      | Some srv \<Rightarrow>
          (case listen srv w1 of
             (None, w2) \<Rightarrow> (False, w2)
           | (Some err, w2) \<Rightarrow> (False, if errors_Is err ErrServerClosed then w2 else log LevelError ''admin listener'' w2)))"

text \<open>A port that is taken is logged and nothing else: the goroutine ends, the container is not touched.\<close>

lemma admin_failure_only_logged:
  assumes "StartAdmin log c w = (Some addr, w1)" and "\<And>srv w. listen srv w = (Some (errors_New ''address already in use''), w)"
  shows "admin_goroutine listen log c w1 = (False, log LevelError ''admin listener'' (log LevelInfo ''admin listener starting'' w))"
  using assms by (auto simp: StartAdmin_def admin_goroutine_def errors_New_def ErrServerClosed_def Let_def split: option.splits)

text \<open>\<open>Close\<close> clears the field that the goroutine reads: a goroutine that has not run yet when the container is
  closed crashes the process.\<close>

lemma admin_goroutine_after_close:
  assumes "StartAdmin log c w = (Some addr, w1)" and "Close B c w1 = (errs, c', w2)"
  shows "fst (admin_goroutine listen log c' w2)"
proof -
  have "Ct_AdminServer c' = None" using Close_fields(1) [OF assms(2)] by simp
  then show ?thesis by (simp add: admin_goroutine_def)
qed

subsection \<open>The exit code\<close>

definition main_server :: "('f, 'b, 'x, 'c, 'w) libs \<Rightarrow> ('f, 'c, 'w) process \<Rightarrow> string \<Rightarrow> 'w \<Rightarrow> nat \<times> 'w" where
  "main_server B P version w = (case run_server B P version w of (Some err, w1) \<Rightarrow> (1, w1) | (None, w1) \<Rightarrow> (0, w1))"

text \<open>A process whose configuration is not valid ends with status 1 before it serves or opens anything.\<close>

lemma invalid_configuration_exits:
  assumes "Validate (lb_fmt B) (lb_env B) (lb_range B) (if lb_env B ''OTEL_SERVICE_VERSION'' = '''' then (NewConfig (lb_fmt B) (lb_env B))\<lparr>Tracing :=
      (Tracing (NewConfig (lb_fmt B) (lb_env B)))\<lparr>ServiceVersion := version\<rparr>\<rparr> else NewConfig (lb_fmt B) (lb_env B)) = Some err"
  shows "main_server B P version w = (1, w)"
  using assms by (simp add: main_server_def run_server_def NewContainer_def Let_def)

end
