(* ===== verification/Token_Properties.thy ===== *)
theory Token_Properties
  imports Scenario
begin

text \<open>
  The two kinds of token the API hands out, seen from the outside: which CSRF tokens are
  accepted, and that tokens survive the round trip through a client for their lifetime
  and no longer.
\<close>

subsection \<open>Hexadecimal text up to case\<close>

lemma of_char_lower: "(of_char (ascii_lower c) :: nat) = (let n = of_char c in if 65 \<le> n \<and> n \<le> 90 then n + 32 else n)"
  by (simp add: ascii_lower_def Let_def)

lemma hextable_of_char: "k < 16 \<Longrightarrow> (of_char (hextable ! k) :: nat) = (if k < 10 then 48 + k else 87 + k)"
proof -
  have "\<forall>k < 16. (of_char (hextable ! k) :: nat) = (if k < 10 then 48 + k else 87 + k)"
    by (simp add: hextable_def All_less_Suc numeral_eq_Suc)
  then show "k < 16 \<Longrightarrow> (of_char (hextable ! k) :: nat) = (if k < 10 then 48 + k else 87 + k)" by blast
qed

lemma char_eq_nat: "c = d \<longleftrightarrow> (of_char c :: nat) = of_char d"
  by (simp add: of_char_eq_iff)

lemma hex_char_lower:
  "fromHexChar (ascii_lower c) = fromHexChar c" "ascii_lower c = CHR ''.'' \<longleftrightarrow> c = CHR ''.''"
  "fromHexChar c = Some n \<Longrightarrow> n < 16" "fromHexChar c = Some n \<Longrightarrow> ascii_lower c = hextable ! n"
  subgoal by (auto simp: fromHexChar_def of_char_lower Let_def)
  subgoal by (auto simp: char_eq_nat of_char_lower Let_def)
  subgoal by (auto simp: fromHexChar_def Let_def split: if_splits)
  subgoal by (auto simp: char_eq_nat [of "ascii_lower c"] of_char_lower fromHexChar_def hextable_of_char Let_def simp del: of_char_eq_iff
      split: if_splits)
  done

lemma hex_Decode_lower: "hex_DecodeString (strings_ToLower s) = hex_DecodeString s"
  by (induction s rule: hex_DecodeString.induct) (auto simp: strings_ToLower_def hex_char_lower split: option.splits)

lemma hex_byte_of_digits: "h < 16 \<Longrightarrow> l < 16 \<Longrightarrow> hex_byte (word_of_nat (16 * h + l)) = [hextable ! h, hextable ! l]"
  by (simp add: hex_byte_def unat_of_nat take_bit_nat_def del: of_nat_add of_nat_mult)

text \<open>A string decodes to \<open>bs\<close> exactly when its lower-case form is the encoding of \<open>bs\<close>.\<close>

lemma hex_Decode_iff: "hex_DecodeString s = Some bs \<longleftrightarrow> strings_ToLower s = hex_EncodeToString bs"
proof
  assume "hex_DecodeString s = Some bs"
  then show "strings_ToLower s = hex_EncodeToString bs"
  proof (induction s arbitrary: bs rule: hex_DecodeString.induct)
    case (3 a b s)
    then show ?case
      by (auto simp: hex_EncodeToString_def strings_ToLower_def hex_byte_of_digits hex_char_lower
          split: option.splits simp del: of_nat_add of_nat_mult)
  qed (simp_all add: hex_EncodeToString_def strings_ToLower_def)
next
  assume "strings_ToLower s = hex_EncodeToString bs"
  then show "hex_DecodeString s = Some bs" by (metis hex_Decode_lower hex_Decode_Encode)
qed

lemma Split_lower: "strings_Split CHR ''.'' (strings_ToLower s) = map strings_ToLower (strings_Split CHR ''.'' s)"
  by (induction s) (auto simp: strings_ToLower_def hex_char_lower split: list.splits)

lemma Split_Join: "strings_Join (strings_Split c s) [c] = s"
proof (induction s)
  case (Cons x s)
  then show ?case
    using strings_Split_nonempty [of c s] by (cases "strings_Split c s"; cases "tl (strings_Split c s)") auto
qed simp

subsection \<open>CSRF tokens\<close>

lemma csrf_authentic_iff:
  "csrf_authentic s token = Some issued \<longleftrightarrow>
     (\<exists>nonce. length nonce = 32 \<and> length issued = 8 \<and> strings_ToLower token = csrf_render s nonce issued)"
proof
  assume "csrf_authentic s token = Some issued"
  then obtain p0 p1 p2 nonce where p: "strings_Split CHR ''.'' token = [p0, p1, p2]"
    "strings_ToLower p0 = hex_EncodeToString nonce" "length nonce = 32"
    "strings_ToLower p1 = hex_EncodeToString issued" "length issued = 8"
    "strings_ToLower p2 = hex_EncodeToString (csrf_sign s nonce issued)"
    using csrf_authentic_shape [of s token issued] unfolding hex_Decode_iff by blast
  have "strings_ToLower token = csrf_render s nonce issued"
    using Split_Join [of "CHR ''.''" "strings_ToLower token"] p by (simp add: Split_lower csrf_render_def)
  with p show "\<exists>nonce. length nonce = 32 \<and> length issued = 8 \<and> strings_ToLower token = csrf_render s nonce issued" by blast
next
  assume "\<exists>nonce. length nonce = 32 \<and> length issued = 8 \<and> strings_ToLower token = csrf_render s nonce issued"
  then obtain nonce where n: "length nonce = 32" "length issued = 8" "strings_ToLower token = csrf_render s nonce issued"
    by blast
  have "map strings_ToLower (strings_Split CHR ''.'' token) = [hex_EncodeToString nonce, hex_EncodeToString issued,
      hex_EncodeToString (csrf_sign s nonce issued)]"
    using csrf_render_split [of s nonce issued] n(3) by (simp flip: Split_lower)
  then obtain p0 p1 p2 where "strings_Split CHR ''.'' token = [p0, p1, p2]" "hex_DecodeString p0 = Some nonce"
    "hex_DecodeString p1 = Some issued" "hex_DecodeString p2 = Some (csrf_sign s nonce issued)"
    unfolding hex_Decode_iff by (auto simp: map_eq_Cons_conv)
  with n show "csrf_authentic s token = Some issued" by (simp add: csrf_authentic_def nonceLength_def hmac_Equal_def)
qed

text \<open>C21. The CSRF service accepts exactly the strings that are, up to the case of their letters, a nonce of 32
  bytes, an issue time of 8 bytes and the HMAC-SHA256 of both under the secret, in hexadecimal and separated by
  dots, and whose issue time is neither more than the time-to-live in the past nor more than a minute in the
  future. Everything else is refused.\<close>

theorem csrf_accepts_exactly:
  "fst (csrf_ValidateToken L s token w) \<longleftrightarrow>
     (\<exists>nonce issued. length nonce = 32 \<and> length issued = 8
        \<and> strings_ToLower token = hex_EncodeToString nonce @ ''.'' @ hex_EncodeToString issued @ ''.''
            @ hex_EncodeToString (hmac_sha256 (csrf_secret s) (nonce @ issued))
        \<and> - Minute \<le> time_Sub (fst (time_Now L w)) (time_Unix (sint (Uint64 issued)))
        \<and> time_Sub (fst (time_Now L w)) (time_Unix (sint (Uint64 issued))) \<le> csrf_ttl s)"
proof (cases "csrf_authentic s token")
  case None
  then have "\<nexists>nonce issued. length nonce = 32 \<and> length issued = 8 \<and> strings_ToLower token = csrf_render s nonce issued"
    by (metis csrf_authentic_iff option.distinct(1))
  with None show ?thesis by (auto simp: csrf_ValidateToken_def csrf_render_def csrf_sign_def)
next
  case (Some issued)
  have u: "(\<exists>nonce. length nonce = 32 \<and> length x = 8 \<and> strings_ToLower token = csrf_render s nonce x) \<longleftrightarrow> x = issued" for x
    using Some by (auto simp flip: csrf_authentic_iff)
  have "fst (csrf_ValidateToken L s token w) \<longleftrightarrow> csrf_fresh s issued (fst (time_Now L w))"
    using Some by (simp add: csrf_ValidateToken_def split: prod.splits)
  also have "\<dots> \<longleftrightarrow> (\<exists>x. (\<exists>nonce. length nonce = 32 \<and> length x = 8 \<and> strings_ToLower token = csrf_render s nonce x)
      \<and> csrf_fresh s x (fst (time_Now L w)))"
    by (simp add: u)
  finally show ?thesis by (auto simp: csrf_fresh_def Let_def clockSkew_def csrf_render_def csrf_sign_def)
qed


text \<open>A CSRF token survives the round trip: presented within the time-to-live after it was issued (less the
  second that whole-second timestamps may cost) and not more than a minute before, it is accepted; presented later
  than the time-to-live after the issuing call ended, it is refused. Neither call touches the database.\<close>

lemma csrf_round_trip:
  assumes "jwt_runtime L view up pw_matches bcrypt_work J verified clock"
    and "csrf_GenerateToken L s w = (Inr token, w1)" and "csrf_ValidateToken L s token w2 = (ok, w3)"
    and "0 \<le> clock w" and "clock w1 < 2 ^ 62 * Second" and "0 \<le> csrf_ttl s" and "csrf_ttl s < maxDuration"
  shows "(clock w1 - Minute \<le> clock w2 \<and> clock w3 + Second \<le> clock w + csrf_ttl s \<longrightarrow> ok)
    \<and> (clock w1 + csrf_ttl s < clock w2 \<longrightarrow> \<not> ok) \<and> same_views view w w1 \<and> same_views view w2 w3"
proof -
  note rt = jwt_runtime.axioms(1) [OF assms(1)] and now_clock = jwt_runtime.time_Now_clock [OF assms(1)]
  obtain nonce wa now where g: "rand_Read L nonceLength w = (Inr nonce, wa)" "time_Now L wa = (now, w1)"
    and token: "token = csrf_render s nonce (PutUint64 (word_of_int (Unix_of now)))"
    using assms(2) by (auto simp: csrf_GenerateToken_def Let_def split: prod.splits sum.splits)
  have "length nonce = 32" using go_runtime.rand_Read_length [OF rt g(1)] by (simp add: nonceLength_def)
  then have auth: "csrf_authentic s token = Some (PutUint64 (word_of_int (Unix_of now)))"
    unfolding token by (simp add: csrf_authentic_render)
  obtain now' where v: "time_Now L w2 = (now', w3)" and ok: "ok = csrf_fresh s (PutUint64 (word_of_int (Unix_of now))) now'"
    using assms(3) auth by (auto simp: csrf_ValidateToken_def Let_def split: prod.splits)
  have mono: "clock w \<le> clock wa" by (rule jwt_runtime.rand_Read_clock [OF assms(1) g(1)])
  have t: "clock wa \<le> now" "now \<le> clock w1" "clock w2 \<le> now'" "now' \<le> clock w3"
    using now_clock [OF g(2)] now_clock [OF v] by simp_all
  have "time_ok now" using t mono assms(4,5) by (simp add: time_ok_def)
  then have ok: "ok \<longleftrightarrow> Unix_of now * Second - Minute \<le> now' \<and> now' \<le> Unix_of now * Second + csrf_ttl s"
    unfolding ok by (rule csrf_fresh_iff) (rule assms)+
  note frames = go_runtime.rand_Read_frame [OF rt g(1)] go_runtime.time_Now_frame [OF rt g(2)]
    go_runtime.time_Now_frame [OF rt v]
  show ?thesis using ok t mono Unix_of_bounds [of now] frames same_views_trans by force
qed


subsection \<open>Access tokens\<close>

text \<open>C22. An access token survives the round trip: until its lifetime is over it validates and yields the user,
  address and name it was issued for (where these are ASCII), and after that it is refused.\<close>

theorem access_token_round_trip:
  assumes "jwt_runtime L view up pw_matches bcrypt_work J verified clock"
    and "GenerateAccessToken L J cfg i em nm w = (Inr token, w1)" and "ascii em" and "ascii nm"
    and "ValidateAccessToken J cfg token w2 = (res, w3)"
  shows "(clock w3 + Second \<le> clock w + AccessTokenExpiry cfg \<longrightarrow>
      (\<exists>cl. res = Inr cl \<and> TC_UserID cl = i \<and> TC_Email cl = em \<and> TC_Name cl = nm))
    \<and> (clock w1 + AccessTokenExpiry cfg \<le> clock w2 \<longrightarrow> (\<exists>err. res = Inl err))"
proof -
  obtain cl ex where cl: "token \<noteq> ''''" "verified SigningMethodHS256 (AccessTokenSecret cfg) token cl"
    "TC_UserID cl = i" "TC_Email cl = em" "TC_Name cl = nm" "TC_ExpiresAt cl = Some ex"
    "clock w + AccessTokenExpiry cfg < ex + Second" "ex \<le> clock w1 + AccessTokenExpiry cfg"
    using jwt_runtime.GenerateAccess_claims [OF assms(1-4)] by blast
  have "res = Inr cl" if "clock w3 + Second \<le> clock w + AccessTokenExpiry cfg"
    by (rule jwt_runtime.Validate_complete(1) [OF assms(1) cl(2,1,6) _ refl assms(5)]) (use cl(7) that in simp)
  moreover have "\<exists>err. res = Inl err" if late: "clock w1 + AccessTokenExpiry cfg \<le> clock w2"
  proof (cases res)
    case (Inr cl')
    then obtain alg where v: "verified (SigningMethodHMAC alg) (AccessTokenSecret cfg) token cl'"
      "\<forall>ex. TC_ExpiresAt cl' = Some ex \<longrightarrow> clock w2 < ex"
      using jwt_runtime.Validate_sound(1) [OF assms(1)] assms(5) by blast
    then have "cl' = cl" using jwt_runtime.verified_unique [OF assms(1) cl(2)] by blast
    with v(2) cl(6,8) late show ?thesis by auto
  qed simp
  ultimately show ?thesis using cl by blast
qed

theorem access_token_round_trip_witness:
  "\<exists>token w1 w3 cl. GenerateAccessToken mem_lib mem_jwt cfg0 7 ''ann@example.com'' ''Ann'' mem0 = (Inr token, w1)
     \<and> ValidateAccessToken mem_jwt cfg0 token w1 = (Inr cl, w3) \<and> TC_UserID cl = 7"
proof -
  obtain token w1 where g: "GenerateAccessToken mem_lib mem_jwt cfg0 7 ''ann@example.com'' ''Ann'' mem0 = (Inr token, w1)"
    "m_now w1 = m_now mem0 + 2"
    by (simp add: GenerateAccessToken_def mem_lib_def mem_jwt_def mem0_def Let_def)
  obtain res w3 where v: "ValidateAccessToken mem_jwt cfg0 token w1 = (res, w3)" by (metis surj_pair)
  then have "m_now w3 = m_now w1"
    by (auto simp: ValidateAccessToken_def mem_jwt_def mem_Parse_def split: option.splits sum.splits if_splits)
  then have "m_now w3 + Second \<le> m_now mem0 + AccessTokenExpiry cfg0" using g(2) by (simp add: mem0_def cfg0_def)
  with access_token_round_trip [OF mem.jwt_runtime_axioms g(1) _ _ v] g(1) v show ?thesis by (auto simp: ascii_def)
qed

end
