(* ===== verification/Paging_Properties.thy ===== *)
theory Paging_Properties
  imports Scenario
begin

text \<open>
  Pagination: the bounds of the window a client may ask for, where the 64-bit arithmetic of
  its offset wraps, and that paging through the sessions of a user neither repeats nor
  skips one. Housekeeping: what a purge removes.
\<close>

subsection \<open>The window\<close>

lemma wrap64_exact_iff: "wrap64 x = x \<longleftrightarrow> is_int64 x"
  by (metis wrap64_id wrap64_range)

text \<open>C37. For every pair of 64-bit parameters the normalised window starts at a page of at least 1 and spans 1 to
  100 rows, normalising again changes nothing, parameters in range are kept, and the offset is the exact product
  (hence not negative) precisely when that product fits in 64 bits.\<close>

theorem pagination_bounds:
  assumes "is_int64 (Page p)"
  shows "1 \<le> Page (Normalized p) \<and> 1 \<le> Limit (Normalized p) \<and> Limit (Normalized p) \<le> 100
    \<and> Normalized (Normalized p) = Normalized p \<and> is_int64 (Offset p)
    \<and> (1 \<le> Page p \<and> 1 \<le> Limit p \<and> Limit p \<le> 100 \<longrightarrow> Normalized p = p)
    \<and> (Offset p = (Page (Normalized p) - 1) * Limit (Normalized p)
       \<longleftrightarrow> (Page (Normalized p) - 1) * Limit (Normalized p) < 2 ^ 63)"
proof -
  have "is_int64 (Page (Normalized p) - 1)"
    using assms by (auto simp: Page_Normalized is_int64_def)
  then have "Offset p = wrap64 ((Page (Normalized p) - 1) * Limit (Normalized p))"
    by (simp add: Offset_def Let_def wrap64_id)
  moreover have "0 \<le> (Page (Normalized p) - 1) * Limit (Normalized p)"
    using Normalized_bounds [of p] by simp
  then have "is_int64 ((Page (Normalized p) - 1) * Limit (Normalized p))
      \<longleftrightarrow> (Page (Normalized p) - 1) * Limit (Normalized p) < 2 ^ 63"
    unfolding is_int64_def by linarith
  ultimately show ?thesis
    using Normalized_bounds [of p] Normalized_idem [of p] Normalized_id [of p]
    by (simp add: wrap64_range wrap64_exact_iff)
qed

theorem pagination_bounds_witness:
  "Offset \<lparr>Page = 3, Limit = 500\<rparr> = 200"
  using pagination_bounds [of "\<lparr>Page = 3, Limit = 500\<rparr>"]
  by (simp add: is_int64_def Normalized_def pagination_consts)

text \<open>The largest page wraps to a negative offset, although the binding accepts every positive page.\<close>

lemma offset_wraps: "Offset \<lparr>Page = 9223372036854775807, Limit = 100\<rparr> = - 200"
  by code_simp

subsection \<open>Paging through the sessions\<close>

lemma sorted_wrt_unique:
  assumes "sorted_wrt le xs" and "sorted_wrt le ys" and "mset xs = mset ys"
    and "\<And>a b. a \<in> set xs \<Longrightarrow> b \<in> set xs \<Longrightarrow> le a b \<Longrightarrow> le b a \<Longrightarrow> a = b"
  shows "xs = ys"
  using assms
proof (induction xs arbitrary: ys)
  case (Cons x xs)
  then obtain y ys' where ys: "ys = y # ys'" by (cases ys) auto
  have same: "set (x # xs) = set (y # ys')" using Cons.prems(3) unfolding ys by (metis set_mset_mset)
  have "x = y"
  proof (rule ccontr)
    assume ne: "x \<noteq> y"
    with same have "x \<in> set ys'" "y \<in> set xs" by auto
    with Cons.prems(1,2) Cons.prems(4) [of x y] ne show False by (simp add: ys)
  qed
  moreover have "xs = ys'"
    by (rule Cons.IH) (use Cons.prems ys \<open>x = y\<close> in auto)
  ultimately show ?case by (simp add: ys)
qed simp

lemma newest_first_antisym:
  "distinct (map RT_ID T) \<Longrightarrow> a \<in> set T \<Longrightarrow> b \<in> set T \<Longrightarrow> newest_first a b \<Longrightarrow> newest_first b a \<Longrightarrow> a = b"
  by (rule distinct_map_eq [of RT_ID T]) (auto simp: newest_first_def)

text \<open>The instant at which a call of \<open>ListSessions\<close> reads the clock.\<close>

abbreviation listing_time :: "'w golib \<Rightarrow> Context \<Rightarrow> 'w \<Rightarrow> time" where
  "listing_time L ctx w \<equiv> fst (time_Now L (snd (ctx_Err L ctx w)))"

text \<open>C20. Paging is complete: when a client fetches pages 1 to n of the sessions of a user and meanwhile no row
  changes and no session expires, every page reports the true total, no page is longer than the limit, and the
  pages together show every active session exactly once, newest first, as long as n pages can hold them.\<close>

theorem session_pages_partition:
  assumes "backend L G view up pw_matches bcrypt_work J verified clock"
    and "1 \<le> l" and "l \<le> 100" and "int n < 2 ^ 56"
    and "\<And>k. k < n \<Longrightarrow> ListSessions L (wired_user_service L G J cfg) ctx i cur
      \<lparr>Page = int k + 1, Limit = l\<rparr> (w k) = (Inr (sl k), w' k)"
    and "\<And>k. k < n \<Longrightarrow> seen_tokens view ctx (w k) = T" and "distinct (map RT_ID T)"
    and "\<And>k. k < n \<Longrightarrow> filter (token_active i (listing_time L ctx (w k))) T = active"
    and "0 < n" and "int (length active) \<le> int n * l"
  shows "(\<exists>xs. mset xs = mset active \<and> sorted_wrt newest_first xs
      \<and> concat (map (SL_Sessions \<circ> sl) [0..<n]) = map (session_of (if cur \<noteq> '''' then Hash cur else '''')) xs)
    \<and> (\<forall>k < n. Meta_Total (SL_Meta (sl k)) = int (length active) \<and> int (length (SL_Sessions (sl k))) \<le> l)"
proof -
  let ?h = "if cur \<noteq> '''' then Hash cur else ''''"
  have page: "\<exists>xs. mset xs = mset active \<and> sorted_wrt newest_first xs
      \<and> SL_Sessions (sl k) = map (session_of ?h) (window (k * nat l) (nat l) xs)
      \<and> Meta_Total (SL_Meta (sl k)) = int (length xs)" if k: "k < n" for k
  proof -
    have n: "Normalized \<lparr>Page = int k + 1, Limit = l\<rparr> = \<lparr>Page = int k + 1, Limit = l\<rparr>"
      using assms(2,3) by (simp add: Normalized_id)
    have "nat (int k * l) = k * nat l" using assms(2) by (simp add: nat_mult_distrib)
    with wired_sessions(1) [OF assms(1) assms(5) [OF k]] n k assms(4) assms(6,8) [OF k] show ?thesis
      by (auto simp: NewMeta_def)
  qed
  obtain xs where xs: "mset xs = mset active" "sorted_wrt newest_first xs" using page [OF assms(9)] by blast
  have "set active \<subseteq> set T" using assms(8) [OF assms(9)] by auto
  then have anti: "a = b" if "a \<in> set xs" "b \<in> set xs" "newest_first a b" "newest_first b a" for a b
    using that newest_first_antisym [OF assms(7)] mset_eq_setD [OF xs(1)] by blast
  have uniq: "ys = xs" if "mset ys = mset active" "sorted_wrt newest_first ys" for ys
    using sorted_wrt_unique [of newest_first xs ys] xs that anti by auto
  have each: "SL_Sessions (sl k) = map (session_of ?h) (window (k * nat l) (nat l) xs)
      \<and> Meta_Total (SL_Meta (sl k)) = int (length active)" if "k < n" for k
    using page [OF that] uniq mset_eq_length [OF xs(1)] by metis
  have "concat (map (SL_Sessions \<circ> sl) [0..<n]) = concat (map (\<lambda>k. map (session_of ?h) (window (k * nat l) (nat l) xs)) [0..<n])"
    by (intro arg_cong [of _ _ concat] map_cong) (use each in auto)
  also have "\<dots> = map (session_of ?h) (concat (map (\<lambda>k. window (k * nat l) (nat l) xs) [0..<n]))"
    by (simp add: map_concat comp_def)
  also have "concat (map (\<lambda>k. window (k * nat l) (nat l) xs) [0..<n]) = xs"
  proof (rule concat_windows_all)
    have "int (length xs) \<le> int (n * nat l)" using assms(2,10) mset_eq_length [OF xs(1)] by simp
    then show "length xs \<le> n * nat l" by linarith
  qed
  finally have all: "concat (map (SL_Sessions \<circ> sl) [0..<n]) = map (session_of ?h) xs" .
  have "int (length (SL_Sessions (sl k))) \<le> l" if "k < n" for k
    using each [OF that] assms(2) by (simp add: window_length)
  with all each xs show ?thesis by blast
qed


theorem session_pages_partition_witness:
  "\<exists>sl w' xs. ListSessions mem_lib svc0 Background 1 t1 \<lparr>Page = 1, Limit = 20\<rparr> mem2 = (Inr sl, w')
     \<and> mset xs = mset [t1_row] \<and> SL_Sessions sl = map (session_of (Hash t1)) xs \<and> Meta_Total (SL_Meta sl) = 1"
proof -
  obtain sl w' where r: "ListSessions mem_lib svc0 Background 1 t1 \<lparr>Page = 1, Limit = 20\<rparr> mem2 = (Inr sl, w')"
    by (simp add: run)
  have tok: "seen_tokens mem_view Background mem2 = [t1_row]" by (simp add: mem2_def)
  have act: "filter (token_active 1 (listing_time mem_lib Background mem2)) [t1_row] = [t1_row]"
    by (simp add: mem_lib_def mem2_def mem0_def t1_row_def token_active_def)
  have "(\<exists>xs. mset xs = mset [t1_row] \<and> sorted_wrt newest_first xs
        \<and> concat (map (SL_Sessions \<circ> (\<lambda>_. sl)) [0..<1]) = map (session_of (if t1 \<noteq> '''' then Hash t1 else '''')) xs)
      \<and> (\<forall>k < (1::nat). Meta_Total (SL_Meta sl) = int (length [t1_row]) \<and> int (length (SL_Sessions sl)) \<le> 20)"
    by (rule session_pages_partition [OF mem_backend, where w = "\<lambda>_. mem2" and w' = "\<lambda>_. w'" and cfg = cfg0
          and ctx = Background and i = 1 and T = "[t1_row]"
          and sl = "\<lambda>_. sl" and l = 20 and n = 1 and cur = t1 and active = "[t1_row]"])
      (use r tok act in \<open>simp_all\<close>)
  with r show ?thesis by auto
qed

end
