(* ===== verification/Spec2Isabelle.thy ===== *)
theory Spec2Isabelle
  imports Testutil Binding Operations Token_Properties Paging_Properties
begin

text \<open>
  Verification of \<open>clean-arch-go-gin\<close>, an HTTP service for accounts, sessions, a counter and a message.

  \<^bold>\<open>The program and its parts\<close>

  A request passes the chain of \<open>internal/di/container.go\<close> (tracing, request id, recovery, metrics,
  access log, security headers, CORS, rate limit, body limit, timeout), then the route's own middleware (credential
  limiter, authentication, CSRF) and a handler of \<open>internal/api/handler\<close>. The handler calls a service
  (\<open>internal/service/...\<close>), the service its repositories (\<open>internal/repository\<close>), the repositories GORM.
  A transaction travels in the request's \<open>context.Context\<close> (\<open>internal/repository/dbtx\<close>). Errors are values
  of \<open>internal/apperr\<close>, turned into a status and a safe message at the edge. Start-up reads and
  validates the environment, opens and migrates the database (\<open>internal/platform\<close>) and wires everything
  (\<open>internal/di\<close>, \<open>cmd/server\<close>).

  \<^bold>\<open>How code becomes definitions\<close>

  A Go function that can observe or change anything is a function from a world \<open>'w\<close> to a result and the next
  world; \<open>(T, error)\<close> is a sum with the error on the left. A Go interface is a record of functions, a closure passed to
  \<open>WithinTx\<close> a definition of its own (\<open>rotate_closure\<close>, \<open>register_closure\<close>, ...), a gin middleware a
  function of what \<open>c.Next()\<close> runs. Inside \<open>Recovery\<close> a handler's outcome carries a flag that
  says it panicked. \<open>int\<close> and \<open>time.Duration\<close> are integers whose 64-bit wrap-around is written out
  where the code computes with them; bytes and SHA-256 words are words. A definition has the name of its Go function;
  where two packages share a name, or HOL has it, it carries a prefix or a suffix.

  \<^bold>\<open>Theories and the sources they model\<close>

  \<^item> \<open>Prelude\<close>: the effect type, association lists as Go maps, windows of lists.
  \<^item> \<open>Go_Std\<close>, \<open>Go_Parse\<close>, \<open>Sha256\<close>: what the program uses of Go's standard library, as computing
    functions: hexadecimal and big-endian encoding, splitting, 64-bit arithmetic, \<open>Atoi\<close>, \<open>ParseDuration\<close>,
    \<open>ParseIP\<close>, SHA-256 and HMAC.
  \<^item> \<open>Apperr\<close>: \<open>internal/apperr\<close>. \<open>Models\<close>: \<open>internal/model\<close>.
  \<^item> \<open>Gorm_Store\<close>: the runtime and GORM as parameters with their laws, and \<open>internal/repository/dbtx\<close>.
    \<open>Repositories\<close>: \<open>internal/repository/interfaces\<close> and \<open>implementations\<close>.
    \<open>Repository_Contracts\<close>: the contract of each repository interface, and that the GORM implementations keep it.
  \<^item> \<open>Token_Service\<close>, \<open>Csrf_Service\<close>, \<open>User_Service\<close>, \<open>Basic_Services\<close>: \<open>internal/service\<close>.
    \<open>User_Laws\<close> describes every operation of the user service by its effect on the committed tables.
  \<^item> \<open>Reference_World\<close>, \<open>Scenario\<close>: an in-memory database, clock, password hash and token format
    that keep all the laws, and concrete inputs; the instances of the theorems are evaluated there.
  \<^item> \<open>User_Properties\<close>, \<open>Session_Machine\<close>, \<open>Token_Properties\<close>, \<open>Paging_Properties\<close>: guarantees of
    the services.
  \<^item> \<open>Http_Core\<close>, \<open>Middleware\<close>, \<open>Handlers\<close>, \<open>Http_Properties\<close>: \<open>internal/api\<close>.
  \<^item> \<open>Platform_Config\<close>: \<open>internal/platform/config.go\<close> and \<open>config_validate.go\<close>; \<open>Migrations\<close>:
    \<open>migrate.go\<close>; \<open>Database\<close>: \<open>database.go\<close>.
  \<^item> \<open>Telemetry\<close>: \<open>internal/logging\<close>, the admin listener of \<open>internal/observability\<close>, \<open>internal/tracing\<close>.
  \<^item> \<open>Pipeline\<close>: the middleware that surrounds every request and \<open>newRouter\<close>; \<open>Rate_Limits\<close>: the limiters
    on a heap; \<open>Container\<close>: \<open>internal/di\<close> and \<open>cmd/server\<close>.
  \<^item> \<open>Operations\<close>: the instruments of \<open>internal/observability/metrics.go\<close> and the admin listener started by
    \<open>StartAdmin\<close>. \<open>Binding\<close>: the validation tags of \<open>internal/model/request\<close> and how a broken rule is reported.
  \<^item> \<open>Interleaving\<close>: the calls of the user service split between check and write, interleaved at will.
    \<open>Route_Effects\<close>: what a route with its middleware answers and which rows it touches. \<open>Serving\<close>: the
    router of a running container and sequences of requests through it.
  \<^item> \<open>Testutil\<close>: \<open>internal/testutil\<close>, the harness of the repository's own tests.

  \<^bold>\<open>Parameters, interfaces and their instances\<close>

  Code outside the repository is a record of functions, and what the repository relies on is a locale over it.
  \<open>gorm_db\<close>, \<open>go_runtime\<close> (together \<open>gorm_platform\<close>), \<open>jwt_runtime\<close>, \<open>schema_db\<close>, \<open>migration_frame\<close>, \<open>sql_driver\<close>, \<open>test_database\<close>,
  \<open>gin_laws\<close>, \<open>validating_gin\<close>, \<open>http_platform\<close>, \<open>http_server\<close>, \<open>open_server\<close>, \<open>limiter_heap\<close>, \<open>prometheus\<close> and
  \<open>request_counter\<close> are of this kind; each has an interpretation on
  a concrete instance, which shows that its laws can hold together. Interfaces inside the program are locales too:
  \<open>user_repository\<close>, \<open>refresh_token_repository\<close>, \<open>tx_manager\<close>, \<open>token_service\<close> and
  \<open>user_service\<close>; sublocales show that the program's own implementations keep them, so
  what is proved of the user service from its interfaces holds for the service as it is wired (\<open>backend\<close>). A relation
  between a request and its outcome that every layer of the chain hands on is the locale \<open>chain_relation\<close>: one
  sublocale of it carries the shape of the answer from a route to the container (\<open>open_server\<close>), another the effect on the
  account tables (\<open>program\<close>). Any
  call to the outside may fail; a locale only promises success while its observation \<open>up\<close> holds.

  \<^bold>\<open>What is shown\<close>

  \<^item> Sessions. Every call of the user service is a sequence of steps of an abstract account machine; in every reachable
    world keys are unique and each session belongs to a live account. Rotation consumes exactly the presented token, a
    replay is refused and ends all sessions of the owner, a password change leaves one session, a
    deleted account is locked out. Registration, password change and deletion are all or nothing. A refused login
    does not tell an unknown address from a wrong password.
  \<^item> Overlapping requests. A call is its checking part followed by its writing part. However the parts of any number of
    requests interleave, keys stay unique and every session belongs to an account row; of two registrations of one address
    that both passed the check, the second is refused. What does not survive interleaving is stated too: a session can
    be created for an account that was deleted in between, and one refresh token can be rotated twice.
  \<^item> Tokens. The CSRF service accepts exactly the authentic and fresh tokens; CSRF and access tokens survive the
    round trip for their lifetime and no longer.
  \<^item> Pages. The window is in range, its offset is exact precisely when it fits in 64 bits, and the pages of
    the session list partition the active sessions, newest first.
  \<^item> HTTP. No protected route acts without a valid access token, no state-changing one without a CSRF token; through
    the whole chain of a running container a refused request gets one envelope, the security headers and
    leaves the database alone; a panic is answered; an error's inside never reaches a client. One client cannot spend
    another's budget, and other traffic cannot spend the credential budget. A registration body reaches the service exactly when it
    meets every tag, and otherwise the fields at fault are named.
  \<^item> The running server. Every request gets exactly one envelope, with cookies only on success; a
    protected route touches only rows of the subject of its access token; whatever a container has served since it started,
    the account tables are consistent. The route label of the metrics takes only patterns of the route table and one value for everything else.
  \<^item> Start-up. Validation accepts a configuration exactly when it meets the stated requirements, and then no checked
    variable was silently replaced; production never signs with the built-in secrets. \<open>Migrate\<close> refines a run
    of whole migrations and establishes the schema. The wait for the database ends and finds one that comes up in time;
    a database that cannot be opened leaves no pool behind; \<open>Close\<close> releases exactly what the container owns, once.
  \<^item> Tests. A test gets a fully migrated database of its own name or has failed, and its cleanup closes the pool either way; an
    assertion fails the test exactly when it does not hold; \<open>PassthroughTx\<close> is the program's transaction manager inside a
    transaction, and does not roll back outside one.
  \<^item> Where modelling showed that the code and its comments disagree, a lemma states what the code does:
    \<open>refreshed_token_names_nobody\<close>, \<open>repository_deadline_is_internal\<close>, \<open>offset_wraps\<close>, \<open>auth_limit_typo_accepted\<close>, \<open>remote_collector_accepted\<close>, \<open>wrong_method_not_found\<close>,
    \<open>panic_not_recorded\<close>, \<open>failed_migration_leaks_pool\<close>, \<open>bracketed_host_accepted\<close>, \<open>refresh_outlives_deletion\<close>,
    \<open>login_outlives_deletion\<close>, \<open>double_refresh_forks_session\<close>, \<open>accented_password_is_internal_error\<close>,
    \<open>method_label_is_client_chosen\<close>, \<open>admin_goroutine_after_close\<close>.

  \<^bold>\<open>Loops and bounds\<close>

  No definition uses fuel. \<open>ping_loop\<close> terminates by the attempts that are left and \<open>duration_sum\<close> by the text that
  is left; everything else recurses over data. The janitor, which runs until shutdown, is
  given the number of its sweeps, and what is shown of it holds for every number.

  \<^bold>\<open>Assumptions worth knowing\<close>

  Transactions are isolated: a closure given to \<open>WithinTx\<close> runs without interruption. \<open>Interleaving\<close> interrupts a call of
  the user service between its checks and its write; everywhere else, and in the sequences of requests that \<open>Serving\<close>
  considers, a request runs to completion before the next one starts. SHA-256 is computed, and nothing but the length of a digest is used of it,
  except where a theorem names the absence of collisions among the tokens of one run as a hypothesis. The order in which
  Go ranges over a map is a parameter.

  \<^bold>\<open>Not modelled\<close>

  Log records and their attributes (apart from the access log line), the inside of the
  Prometheus registry and its exposition format, OpenTelemetry itself, the scheduling of the goroutines that \<open>StartAdmin\<close> and
  \<open>StartJanitor\<close> start (their bodies are modelled), CORS beyond its configuration, which
  is decided inside a library, decoding of JSON bodies, which is gin's, and loading the \<open>.env\<close> file. The
  mocks are generated and replay what a test has recorded.
\<close>

end
